(* ===== verification/Prelude.thy ===== *)
theory Prelude
  imports Main "HOL-Library.Word"
begin

text \<open>
  Vocabulary shared by every component: identifiers, bytes, exceptions and the
  JavaScript string, set and number operations that the service's code calls.

  Strings are lists of 8-bit characters.  The library operations (\<open>trim\<close>,
  \<open>toLowerCase\<close>, \<open>split\<close>, \<open>includes\<close>, \<open>slice\<close>, \<open>startsWith\<close>) are written out on them
  for the Latin-1 range.  A JavaScript \<open>Set\<close> iterates in insertion order, so it is a
  duplicate-free list.
\<close>

named_theorems js_simps \<open>equations of the JavaScript library operations\<close>

type_synonym uuid = string
type_synonym byte = "8 word"
type_synonym millis = int

section \<open>Exceptions\<close>

text \<open>
  An \<open>HttpException\<close> of NestJS carries its status and a body, which is a message or an
  object; a plain \<open>Error\<close> and a \<open>TypeError\<close> carry a message, and \<open>IoError\<close> is the
  rejection of a call that left the process (database, Redis, S3, HTTP).  Everything
  that is not an \<open>HttpException\<close> reaches the client as a 500.
\<close>

datatype body = Msg string | Obj "(string \<times> string) list"

datatype exn =
    HttpException nat body
  | JsError string
  | TypeError string
  | IoError string

fun http_status :: "exn \<Rightarrow> nat" where
  "http_status (HttpException st b) = st"
| "http_status (JsError m) = 500"
| "http_status (TypeError m) = 500"
| "http_status (IoError m) = 500"

abbreviation BadRequest :: "string \<Rightarrow> exn" where
  "BadRequest m \<equiv> HttpException 400 (Msg m)"

abbreviation Unauthorized :: exn where
  "Unauthorized \<equiv> HttpException 401 (Msg ''Unauthorized'')"

abbreviation Forbidden :: "string \<Rightarrow> exn" where
  "Forbidden m \<equiv> HttpException 403 (Msg m)"

abbreviation NotFound :: "string \<Rightarrow> exn" where
  "NotFound m \<equiv> HttpException 404 (Msg m)"

abbreviation PayloadTooLarge :: "string \<Rightarrow> exn" where
  "PayloadTooLarge m \<equiv> HttpException 413 (Msg m)"

abbreviation UnsupportedMediaType :: "string \<Rightarrow> exn" where
  "UnsupportedMediaType m \<equiv> HttpException 415 (Msg m)"

abbreviation UnprocessableEntity :: "string \<Rightarrow> exn" where
  "UnprocessableEntity m \<equiv> HttpException 422 (Msg m)"

abbreviation TooManyRequests :: "string \<Rightarrow> exn" where
  "TooManyRequests m \<equiv> HttpException 429 (Msg m)"

abbreviation ServiceUnavailable :: "string \<Rightarrow> exn" where
  "ServiceUnavailable m \<equiv> HttpException 503 (Msg m)"

section \<open>Strings\<close>

abbreviation squote :: string where
  "squote \<equiv> [CHR 0x27]"

definition is_js_space :: "char \<Rightarrow> bool" where
  "is_js_space c \<longleftrightarrow> (of_char c :: nat) \<in> {9, 10, 11, 12, 13, 32, 160}"

definition js_trim :: "string \<Rightarrow> string" where
  "js_trim s = rev (dropWhile is_js_space (rev (dropWhile is_js_space s)))"

definition js_lower_char :: "char \<Rightarrow> char" where
  "js_lower_char c =
     (let n = (of_char c :: nat)
      in if (65 \<le> n \<and> n \<le> 90) \<or> (192 \<le> n \<and> n \<le> 222 \<and> n \<noteq> 215) then char_of (n + 32) else c)"

definition js_lower :: "string \<Rightarrow> string" where
  "js_lower s = map js_lower_char s"

text \<open>\<open>s.split(c)\<close> for a one-character separator: never empty.\<close>

fun js_split :: "char \<Rightarrow> string \<Rightarrow> string list" where
  "js_split d [] = [[]]"
| "js_split d (c # cs) =
     (if c = d then [] # js_split d cs
      else (case js_split d cs of [] \<Rightarrow> [[c]] | w # ws \<Rightarrow> (c # w) # ws))"

fun js_starts_with :: "string \<Rightarrow> string \<Rightarrow> bool" where
  "js_starts_with s [] = True"
| "js_starts_with [] (p # ps) = False"
| "js_starts_with (c # cs) (p # ps) = (c = p \<and> js_starts_with cs ps)"

fun js_includes :: "string \<Rightarrow> string \<Rightarrow> bool" where
  "js_includes [] p = (p = [])"
| "js_includes (c # cs) p = (js_starts_with (c # cs) p \<or> js_includes cs p)"

lemma js_split_not_Nil [simp]: "js_split d s \<noteq> []"
  by (induction s) (auto split: list.splits)

lemma js_split_hd_tl: "js_split d s = hd (js_split d s) # tl (js_split d s)"
  by simp

lemma js_split_no_sep: "w \<in> set (js_split d s) \<Longrightarrow> d \<notin> set w"
proof (induction s arbitrary: w)
  case (Cons c cs)
  obtain v vs where "js_split d cs = v # vs"
    by (cases "js_split d cs") auto
  with Cons show ?case
    by (auto split: if_splits)
qed simp

lemma js_split_absent: "d \<notin> set s \<Longrightarrow> js_split d s = [s]"
  by (induction s) auto

lemma hd_js_split: "hd (js_split d s) = takeWhile (\<lambda>c. c \<noteq> d) s"
proof (induction s)
  case (Cons c cs)
  obtain v vs where "js_split d cs = v # vs"
    by (cases "js_split d cs") auto
  with Cons show ?case by auto
qed simp

lemma js_starts_with_iff: "js_starts_with s p \<longleftrightarrow> (\<exists>t. s = p @ t)"
  by (induction s p rule: js_starts_with.induct) auto

lemma js_includes_iff: "js_includes s p \<longleftrightarrow> (\<exists>a b. s = a @ p @ b)"
proof (induction s)
  case (Cons c cs)
  show ?case
  proof
    assume "js_includes (c # cs) p"
    then consider "js_starts_with (c # cs) p" | "js_includes cs p" by auto
    then show "\<exists>a b. c # cs = a @ p @ b"
    proof cases
      case 1
      then show ?thesis by (metis append_Nil js_starts_with_iff)
    next
      case 2
      with Cons.IH show ?thesis by (metis append_Cons)
    qed
  next
    assume "\<exists>a b. c # cs = a @ p @ b"
    then obtain a b where ab: "c # cs = a @ p @ b" by blast
    then show "js_includes (c # cs) p"
    proof (cases a)
      case Nil
      with ab have "js_starts_with (c # cs) p" by (auto simp: js_starts_with_iff)
      then show ?thesis by simp
    next
      case (Cons x xs)
      with ab Cons.IH show ?thesis by auto
    qed
  qed
qed auto

lemma js_trim_length: "length (js_trim s) \<le> length s"
  by (simp add: js_trim_def) (metis length_dropWhile_le length_rev order_trans)

lemma js_trim_id: "(\<forall>c \<in> set s. \<not> is_js_space c) \<Longrightarrow> js_trim s = s"
proof -
  assume *: "\<forall>c \<in> set s. \<not> is_js_space c"
  have drop: "dropWhile is_js_space t = t" if "\<forall>c \<in> set t. \<not> is_js_space c" for t
    using that by (cases t) auto
  show ?thesis
    using * by (simp add: js_trim_def drop)
qed

section \<open>Numbers as decimal strings\<close>

definition digit_char :: "nat \<Rightarrow> char" where
  "digit_char d = char_of (48 + d)"

fun show_nat :: "nat \<Rightarrow> string" where
  "show_nat n = (if n < 10 then [digit_char n] else show_nat (n div 10) @ [digit_char (n mod 10)])"

declare show_nat.simps [simp del]

definition show_int :: "int \<Rightarrow> string" where
  "show_int i = (if i < 0 then CHR ''-'' # show_nat (nat (- i)) else show_nat (nat i))"

definition is_digit :: "char \<Rightarrow> bool" where
  "is_digit c \<longleftrightarrow> 48 \<le> (of_char c :: nat) \<and> (of_char c :: nat) \<le> 57"

definition digit_val :: "char \<Rightarrow> nat" where
  "digit_val c = (of_char c :: nat) - 48"

definition read_digits :: "string \<Rightarrow> nat" where
  "read_digits s = foldl (\<lambda>acc c. 10 * acc + digit_val c) 0 s"

lemma digit_char_simps [simp]:
  "d < 10 \<Longrightarrow> is_digit (digit_char d)" "d < 10 \<Longrightarrow> digit_val (digit_char d) = d"
  by (simp_all add: is_digit_def digit_char_def digit_val_def)

lemma show_nat_digits: "\<forall>c \<in> set (show_nat n). is_digit c"
proof (induction n rule: show_nat.induct)
  case (1 n)
  then show ?case by (subst show_nat.simps) auto
qed

lemma show_nat_not_Nil [simp]: "show_nat n \<noteq> []"
  by (subst show_nat.simps) simp

lemma read_digits_snoc [simp]: "read_digits (s @ [c]) = 10 * read_digits s + digit_val c"
  by (simp add: read_digits_def)

lemma read_show_nat [simp]: "read_digits (show_nat n) = n"
proof (induction n rule: show_nat.induct)
  case (1 n)
  show ?case
  proof (cases "n < 10")
    case True
    then show ?thesis by (subst show_nat.simps) (simp add: read_digits_def)
  next
    case False
    with 1 show ?thesis by (subst show_nat.simps) simp
  qed
qed

lemma show_nat_inject [simp]: "show_nat m = show_nat n \<longleftrightarrow> m = n"
  by (metis read_show_nat)

text \<open>\<open>BigInt(s)\<close> on a decimal string with an optional sign; \<open>None\<close> is its SyntaxError.\<close>

definition read_bigint :: "string \<Rightarrow> int option" where
  "read_bigint s =
     (case s of
        [] \<Rightarrow> Some 0
      | c # cs \<Rightarrow>
          if c = CHR ''-'' then
            (if cs \<noteq> [] \<and> list_all is_digit cs then Some (- int (read_digits cs)) else None)
          else if list_all is_digit s then Some (int (read_digits s)) else None)"

lemma not_digit_minus: "\<not> is_digit (CHR ''-'')"
  by (simp add: is_digit_def)

lemma show_nat_Cons_digit: "show_nat n = c # cs \<Longrightarrow> c \<noteq> CHR ''-''"
  using show_nat_digits [of n] not_digit_minus by auto

lemma read_show_int [simp]: "read_bigint (show_int i) = Some i"
proof (cases "i < 0")
  case True
  then show ?thesis
    using show_nat_digits [of "nat (- i)"]
    by (simp add: show_int_def read_bigint_def list_all_iff)
next
  case False
  obtain c cs where cs: "show_nat (nat i) = c # cs"
    by (cases "show_nat (nat i)") auto
  with False show ?thesis
    using show_nat_digits [of "nat i"] show_nat_Cons_digit [OF cs] read_show_nat [of "nat i"]
    by (simp add: show_int_def read_bigint_def list_all_iff)
qed

section \<open>Sets in insertion order\<close>

definition set_add :: "'a list \<Rightarrow> 'a \<Rightarrow> 'a list" where
  "set_add xs x = (if x \<in> set xs then xs else xs @ [x])"

definition set_of_list :: "'a list \<Rightarrow> 'a list" where
  "set_of_list xs = foldl set_add [] xs"

lemma set_set_add [simp]: "set (set_add xs x) = insert x (set xs)"
  by (auto simp: set_add_def)

lemma distinct_set_add [simp]: "distinct (set_add xs x) = distinct xs"
  by (simp add: set_add_def)

lemma set_foldl_set_add [simp]: "set (foldl set_add acc xs) = set acc \<union> set xs"
  by (induction xs arbitrary: acc) auto

lemma distinct_foldl_set_add [simp]: "distinct (foldl set_add acc xs) = distinct acc"
  by (induction xs arbitrary: acc) auto

lemma set_of_list_set [simp]: "set (set_of_list xs) = set xs"
  by (simp add: set_of_list_def)

lemma set_of_list_distinct [simp]: "distinct (set_of_list xs)"
  by (simp add: set_of_list_def)

lemma foldl_set_add_fresh:
  "distinct (acc @ xs) \<Longrightarrow> foldl set_add acc xs = acc @ xs"
  by (induction xs arbitrary: acc) (auto simp: set_add_def)

lemma set_of_list_id: "distinct xs \<Longrightarrow> set_of_list xs = xs"
  by (simp add: set_of_list_def foldl_set_add_fresh)

lemma foldl_set_add_absorb: "set xs \<subseteq> set acc \<Longrightarrow> foldl set_add acc xs = acc"
  by (induction xs arbitrary: acc) (auto simp: set_add_def)

lemma foldl_set_add_prefix: "\<exists>ys. foldl set_add acc xs = acc @ ys"
proof (induction xs arbitrary: acc)
  case (Cons x xs)
  obtain ys where "foldl set_add (set_add acc x) xs = set_add acc x @ ys"
    using Cons.IH by blast
  moreover obtain zs where "set_add acc x = acc @ zs"
    by (cases "x \<in> set acc") (auto simp: set_add_def)
  ultimately show ?case by simp
qed simp

lemma foldl_set_add_length: "length acc \<le> length (foldl set_add acc xs)"
  using foldl_set_add_prefix [of acc xs] by auto

lemma foldl_set_add_same_length:
  assumes "length (foldl set_add acc xs) = length acc"
  shows "foldl set_add acc xs = acc"
proof -
  obtain ys where "foldl set_add acc xs = acc @ ys"
    using foldl_set_add_prefix by blast
  with assms show ?thesis by simp
qed

section \<open>Integers\<close>

text \<open>\<open>Number.isSafeInteger\<close> on a value that is already an integer.\<close>

definition MAX_SAFE_INTEGER :: int where
  "MAX_SAFE_INTEGER = 9007199254740991"

definition is_safe_integer :: "int \<Rightarrow> bool" where
  "is_safe_integer n \<longleftrightarrow> - MAX_SAFE_INTEGER \<le> n \<and> n \<le> MAX_SAFE_INTEGER"

text \<open>Division of \<open>BigInt\<close> values truncates towards zero.\<close>

definition bigint_div :: "int \<Rightarrow> int \<Rightarrow> int" where
  "bigint_div a b = sgn a * sgn b * (\<bar>a\<bar> div \<bar>b\<bar>)"

lemma bigint_div_nonneg: "0 \<le> a \<Longrightarrow> 0 < b \<Longrightarrow> bigint_div a b = a div b"
  by (cases "a = 0") (simp_all add: bigint_div_def)

end
