(* ===== verification/Effects.thy ===== *)
theory Effects
  imports Prelude
begin

text \<open>
  Asynchronous service methods as state transformers that return or throw.  An
  \<open>await\<close> is \<open>bindE\<close>, \<open>throw\<close>/\<open>try\<close>/\<open>catch\<close>/\<open>finally\<close> have their own
  combinators, and a fire-and-forget promise with a logging \<open>catch\<close> handler is
  \<open>fire_and_forget\<close>.

  Three ways to reason about an action: \<open>wp\<close> computes, backwards, the condition
  under which the normal and the exceptional postcondition hold; \<open>keeps I\<close> says that
  every outcome preserves \<open>I\<close>; \<open>frame f\<close> says that no outcome changes the
  projection \<open>f\<close> of the state.
\<close>

named_theorems wp_simps \<open>weakest preconditions of the combinators and primitive operations\<close>
named_theorems keeps_intros \<open>preservation of a state predicate, by structure of the action\<close>
named_theorems frame_intros \<open>unchanged projections, by structure of the action\<close>

type_synonym ('w, 'a) action = "'w \<Rightarrow> (exn + 'a) \<times> 'w"

definition ret :: "'a \<Rightarrow> ('w, 'a) action" where
  "ret x w = (Inr x, w)"

definition throw :: "exn \<Rightarrow> ('w, 'a) action" where
  "throw e w = (Inl e, w)"

definition bindE :: "('w, 'a) action \<Rightarrow> ('a \<Rightarrow> ('w, 'b) action) \<Rightarrow> ('w, 'b) action" where
  "bindE m k w = (case m w of (Inl e, w') \<Rightarrow> (Inl e, w') | (Inr x, w') \<Rightarrow> k x w')"

definition catchE :: "('w, 'a) action \<Rightarrow> (exn \<Rightarrow> ('w, 'a) action) \<Rightarrow> ('w, 'a) action" where
  "catchE m h w = (case m w of (Inl e, w') \<Rightarrow> h e w' | (Inr x, w') \<Rightarrow> (Inr x, w'))"

definition finallyE :: "('w, 'a) action \<Rightarrow> ('w, 'b) action \<Rightarrow> ('w, 'a) action" where
  "finallyE m f w =
     (case m w of (r, w1) \<Rightarrow>
        (case f w1 of (Inl e, w2) \<Rightarrow> (Inl e, w2) | (Inr y, w2) \<Rightarrow> (r, w2)))"

definition gets :: "('w \<Rightarrow> 'a) \<Rightarrow> ('w, 'a) action" where
  "gets f w = (Inr (f w), w)"

definition modify :: "('w \<Rightarrow> 'w) \<Rightarrow> ('w, unit) action" where
  "modify f w = (Inr (), f w)"

definition from_result :: "exn + 'a \<Rightarrow> ('w, 'a) action" where
  "from_result r w = (r, w)"

definition throw_when :: "bool \<Rightarrow> exn \<Rightarrow> ('w, unit) action" where
  "throw_when b e = (if b then throw e else ret ())"

definition fire_and_forget :: "('w, 'a) action \<Rightarrow> ('w, unit) action" where
  "fire_and_forget m w = (Inr (), snd (m w))"

fun for_each :: "'b list \<Rightarrow> ('b \<Rightarrow> ('w, unit) action) \<Rightarrow> ('w, unit) action" where
  "for_each [] f = ret ()"
| "for_each (x # xs) f = bindE (f x) (\<lambda>_. for_each xs f)"

section \<open>Weakest preconditions\<close>

definition wp :: "('w, 'a) action \<Rightarrow> ('a \<Rightarrow> 'w \<Rightarrow> bool) \<Rightarrow> (exn \<Rightarrow> 'w \<Rightarrow> bool) \<Rightarrow> 'w \<Rightarrow> bool" where
  "wp m Q R w = (case m w of (Inl e, w') \<Rightarrow> R e w' | (Inr x, w') \<Rightarrow> Q x w')"

lemma wp_ret [wp_simps]: "wp (ret x) Q R w = Q x w"
  by (simp add: wp_def ret_def)

lemma wp_throw [wp_simps]: "wp (throw e) Q R w = R e w"
  by (simp add: wp_def throw_def)

lemma wp_bindE [wp_simps]: "wp (bindE m k) Q R w = wp m (\<lambda>x. wp (k x) Q R) R w"
  by (simp add: wp_def bindE_def split: prod.splits sum.splits)

lemma wp_catchE [wp_simps]: "wp (catchE m h) Q R w = wp m Q (\<lambda>e. wp (h e) Q R) w"
  by (simp add: wp_def catchE_def split: prod.splits sum.splits)

lemma wp_finallyE [wp_simps]:
  "wp (finallyE m f) Q R w = wp m (\<lambda>x. wp f (\<lambda>_. Q x) R) (\<lambda>e. wp f (\<lambda>_. R e) R) w"
  by (simp add: wp_def finallyE_def split: prod.splits sum.splits)

lemma wp_gets [wp_simps]: "wp (gets f) Q R w = Q (f w) w"
  by (simp add: wp_def gets_def)

lemma wp_modify [wp_simps]: "wp (modify f) Q R w = Q () (f w)"
  by (simp add: wp_def modify_def)

lemma wp_from_result [wp_simps]:
  "wp (from_result r) Q R w = (case r of Inl e \<Rightarrow> R e w | Inr x \<Rightarrow> Q x w)"
  by (simp add: wp_def from_result_def split: sum.splits)

lemma wp_throw_when [wp_simps]: "wp (throw_when b e) Q R w = (if b then R e w else Q () w)"
  by (simp add: throw_when_def wp_simps)

lemma wp_fire_and_forget [wp_simps]:
  "wp (fire_and_forget m) Q R w = wp m (\<lambda>_. Q ()) (\<lambda>_. Q ()) w"
  by (simp add: wp_def fire_and_forget_def split: prod.splits sum.splits)

lemma wp_if [wp_simps]: "wp (if b then m else n) Q R w = (if b then wp m Q R w else wp n Q R w)"
  by simp

lemma wp_option [wp_simps]:
  "wp (case x of None \<Rightarrow> m | Some y \<Rightarrow> n y) Q R w =
     (case x of None \<Rightarrow> wp m Q R w | Some y \<Rightarrow> wp (n y) Q R w)"
  by (simp split: option.split)

lemma wp_let [wp_simps]: "wp (Let x m) Q R w = wp (m x) Q R w"
  by (simp add: Let_def)

text \<open>The same equations for a continuation that is not yet applied to a state.\<close>

lemma wp_ret_pf: "wp (ret x) Q R = Q x"
  and wp_throw_pf: "wp (throw e) Q R = R e"
  by (rule ext, simp add: wp_simps)+

lemma wp_bindE_pf: "wp (bindE m k) Q R = wp m (\<lambda>x. wp (k x) Q R) R"
  by (rule ext) (simp add: wp_simps)

lemma wp_catchE_pf: "wp (catchE m h) Q R = wp m Q (\<lambda>e. wp (h e) Q R)"
  by (rule ext) (simp add: wp_simps)

lemma wp_gets_pf: "wp (gets f) Q R = (\<lambda>w. Q (f w) w)"
  by (rule ext) (simp add: wp_simps)

lemma wp_modify_pf: "wp (modify f) Q R = (\<lambda>w. Q () (f w))"
  by (rule ext) (simp add: wp_simps)

lemma wp_fire_and_forget_pf: "wp (fire_and_forget m) Q R = wp m (\<lambda>_. Q ()) (\<lambda>_. Q ())"
  by (rule ext) (simp add: wp_simps)

lemma wp_throw_when_pf: "wp (throw_when b e) Q R = (if b then R e else Q ())"
  by (rule ext) (simp add: wp_simps)

lemmas wp_pf = wp_ret_pf wp_throw_pf wp_bindE_pf wp_catchE_pf wp_gets_pf wp_modify_pf
  wp_fire_and_forget_pf wp_throw_when_pf

lemma wp_mono:
  assumes "wp m Q R w"
    and "\<And>x w'. Q x w' \<Longrightarrow> Q' x w'" and "\<And>e w'. R e w' \<Longrightarrow> R' e w'"
  shows "wp m Q' R' w"
  using assms by (auto simp: wp_def split: prod.splits sum.splits)

lemma wp_conj: "wp m Q R w \<Longrightarrow> wp m Q' R' w \<Longrightarrow>
    wp m (\<lambda>x w. Q x w \<and> Q' x w) (\<lambda>e w. R e w \<and> R' e w) w"
  by (auto simp: wp_def split: prod.splits sum.splits)

lemma wp_True: "wp m (\<lambda>_ _. True) (\<lambda>_ _. True) w"
  and wp_True_pf: "wp m (\<lambda>_ _. True) (\<lambda>_ _. True) = (\<lambda>_. True)"
  by (simp_all add: wp_def fun_eq_iff split: prod.splits sum.splits)

lemma wp_Inr: "m w = (Inr x, w') \<Longrightarrow> wp m Q R w \<Longrightarrow> Q x w'"
  by (simp add: wp_def)

lemma wp_Inl: "m w = (Inl e, w') \<Longrightarrow> wp m Q R w \<Longrightarrow> R e w'"
  by (simp add: wp_def)

lemma wp_for_each:
  assumes "\<And>x w. x \<in> set xs \<Longrightarrow> I w \<Longrightarrow> wp (f x) (\<lambda>_. I) R w" and "I w"
  shows "wp (for_each xs f) (\<lambda>_. I) R w"
  using assms
proof (induction xs arbitrary: w)
  case (Cons x xs)
  have "wp (f x) (\<lambda>_. I) R w"
    using Cons.prems by simp
  then have "wp (f x) (\<lambda>_. wp (for_each xs f) (\<lambda>_. I) R) R w"
    by (rule wp_mono) (use Cons in auto)
  then show ?case by (simp add: wp_simps)
qed (simp add: wp_simps)

section \<open>Evaluation of the combinators\<close>

text \<open>Used to run a method symbolically when the outcome of its parts is known.\<close>

lemma bindE_Inr: "m w = (Inr x, w') \<Longrightarrow> bindE m k w = k x w'"
  by (simp add: bindE_def)

lemma bindE_Inl: "m w = (Inl e, w') \<Longrightarrow> bindE m k w = (Inl e, w')"
  by (simp add: bindE_def)

lemma run_Inr: "fst x = Inr y \<Longrightarrow> x = (Inr y, snd x)"
  and run_Inl: "fst x = Inl e \<Longrightarrow> x = (Inl e, snd x)"
  by (cases x; simp)+

lemma bindE_InrD:
  assumes "bindE m k w = (Inr y, w')"
  obtains x w1 where "m w = (Inr x, w1)" and "k x w1 = (Inr y, w')"
  using assms by (auto simp: bindE_def split: prod.splits sum.splits)

lemma throw_when_Inr [simp]: "throw_when b e w = (Inr u, w') \<longleftrightarrow> \<not> b \<and> w' = w"
  by (auto simp: throw_when_def throw_def ret_def)

lemma ret_eq [simp]: "ret x w = (r, w') \<longleftrightarrow> r = Inr x \<and> w' = w"
  by (auto simp: ret_def)

lemma throw_eq [simp]: "throw e w = (r, w') \<longleftrightarrow> r = Inl e \<and> w' = w"
  by (auto simp: throw_def)

lemma from_result_eq [simp]: "from_result x w = (r, w') \<longleftrightarrow> r = x \<and> w' = w"
  by (auto simp: from_result_def)

lemma gets_eq [simp]: "gets f w = (r, w') \<longleftrightarrow> r = Inr (f w) \<and> w' = w"
  by (auto simp: gets_def)

lemma fire_and_forget_eq [simp]: "fire_and_forget m w = (r, w') \<longleftrightarrow> r = Inr () \<and> w' = snd (m w)"
  by (auto simp: fire_and_forget_def)

lemmas run_simps = bindE_def catchE_def finallyE_def ret_def throw_def gets_def modify_def
  from_result_def throw_when_def fire_and_forget_def

section \<open>Preserved predicates and unchanged projections\<close>

definition keeps :: "('w \<Rightarrow> bool) \<Rightarrow> ('w, 'a) action \<Rightarrow> bool" where
  "keeps I m \<longleftrightarrow> (\<forall>w. I w \<longrightarrow> I (snd (m w)))"

definition frame :: "('w \<Rightarrow> 'c) \<Rightarrow> ('w, 'a) action \<Rightarrow> bool" where
  "frame f m \<longleftrightarrow> (\<forall>w. f (snd (m w)) = f w)"

lemma keepsD: "keeps I m \<Longrightarrow> I w \<Longrightarrow> m w = (r, w') \<Longrightarrow> I w'"
  by (metis keeps_def snd_conv)

lemma frameD: "frame f m \<Longrightarrow> m w = (r, w') \<Longrightarrow> f w' = f w"
  by (metis frame_def snd_conv)

lemma wp_const: "wp m (\<lambda>_. I) (\<lambda>_. I) w = I (snd (m w))"
  by (simp add: wp_def split: prod.splits sum.splits)

lemma keeps_wp: "keeps I m \<longleftrightarrow> (\<forall>w. I w \<longrightarrow> wp m (\<lambda>_. I) (\<lambda>_. I) w)"
  by (simp add: keeps_def wp_const)

lemma frame_keeps: "frame f m \<longleftrightarrow> (\<forall>c. keeps (\<lambda>w. f w = c) m)"
  by (auto simp: frame_def keeps_def)

lemma frame_keepsI: "frame f m \<Longrightarrow> keeps (\<lambda>w. P (f w)) m"
  by (simp add: frame_def keeps_def)

lemma frame_comp: "frame f m \<Longrightarrow> frame (\<lambda>w. g (f w)) m"
  by (simp add: frame_def)

lemma keeps_ret [keeps_intros]: "keeps I (ret x)"
  by (simp add: keeps_def ret_def)

lemma keeps_throw [keeps_intros]: "keeps I (throw e)"
  by (simp add: keeps_def throw_def)

lemma keeps_gets [keeps_intros]: "keeps I (gets f)"
  by (simp add: keeps_def gets_def)

lemma keeps_from_result [keeps_intros]: "keeps I (from_result r)"
  by (simp add: keeps_def from_result_def)

lemma keeps_throw_when [keeps_intros]: "keeps I (throw_when b e)"
  by (simp add: keeps_def throw_when_def throw_def ret_def)

lemma keeps_bindE [keeps_intros]:
  "keeps I m \<Longrightarrow> (\<And>x. keeps I (k x)) \<Longrightarrow> keeps I (bindE m k)"
  by (auto simp: keeps_def bindE_def split: prod.splits sum.splits)

lemma keeps_catchE [keeps_intros]:
  "keeps I m \<Longrightarrow> (\<And>e. keeps I (h e)) \<Longrightarrow> keeps I (catchE m h)"
  by (auto simp: keeps_def catchE_def split: prod.splits sum.splits)

lemma keeps_finallyE [keeps_intros]:
  "keeps I m \<Longrightarrow> keeps I f \<Longrightarrow> keeps I (finallyE m f)"
  by (auto simp: keeps_def finallyE_def split: prod.splits sum.splits)

lemma keeps_fire_and_forget [keeps_intros]: "keeps I m \<Longrightarrow> keeps I (fire_and_forget m)"
  by (simp add: keeps_def fire_and_forget_def)

lemma keeps_for_each [keeps_intros]: "(\<And>x. keeps I (f x)) \<Longrightarrow> keeps I (for_each xs f)"
  by (induction xs) (auto intro: keeps_intros)

lemma keeps_if [keeps_intros]:
  "(b \<Longrightarrow> keeps I m) \<Longrightarrow> (\<not> b \<Longrightarrow> keeps I n) \<Longrightarrow> keeps I (if b then m else n)"
  by simp

lemma keeps_option [keeps_intros]:
  "(x = None \<Longrightarrow> keeps I m) \<Longrightarrow> (\<And>y. x = Some y \<Longrightarrow> keeps I (n y)) \<Longrightarrow>
   keeps I (case x of None \<Rightarrow> m | Some y \<Rightarrow> n y)"
  by (simp split: option.split)

lemma keeps_let [keeps_intros]: "keeps I (m x) \<Longrightarrow> keeps I (Let x m)"
  by (simp add: Let_def)

lemma keeps_prod [keeps_intros]:
  "(\<And>a b. x = (a, b) \<Longrightarrow> keeps I (n a b)) \<Longrightarrow> keeps I (case x of (a, b) \<Rightarrow> n a b)"
  by (simp split: prod.split)

lemma frame_ret [frame_intros]: "frame f (ret x)"
  and frame_throw [frame_intros]: "frame f (throw e)"
  and frame_gets [frame_intros]: "frame f (gets g)"
  and frame_from_result [frame_intros]: "frame f (from_result r)"
  and frame_throw_when [frame_intros]: "frame f (throw_when b e)"
  by (simp_all add: frame_keeps keeps_intros)

lemma frame_bindE [frame_intros]:
  "frame f m \<Longrightarrow> (\<And>x. frame f (k x)) \<Longrightarrow> frame f (bindE m k)"
  by (simp add: frame_keeps keeps_intros)

lemma frame_catchE [frame_intros]:
  "frame f m \<Longrightarrow> (\<And>e. frame f (h e)) \<Longrightarrow> frame f (catchE m h)"
  by (simp add: frame_keeps keeps_intros)

lemma frame_finallyE [frame_intros]: "frame f m \<Longrightarrow> frame f n \<Longrightarrow> frame f (finallyE m n)"
  by (simp add: frame_keeps keeps_intros)

lemma frame_fire_and_forget [frame_intros]: "frame f m \<Longrightarrow> frame f (fire_and_forget m)"
  by (simp add: frame_keeps keeps_intros)

lemma frame_for_each [frame_intros]: "(\<And>x. frame f (g x)) \<Longrightarrow> frame f (for_each xs g)"
  by (simp add: frame_keeps keeps_intros)

lemma frame_if [frame_intros]:
  "(b \<Longrightarrow> frame f m) \<Longrightarrow> (\<not> b \<Longrightarrow> frame f n) \<Longrightarrow> frame f (if b then m else n)"
  by simp

lemma frame_option [frame_intros]:
  "(x = None \<Longrightarrow> frame f m) \<Longrightarrow> (\<And>y. x = Some y \<Longrightarrow> frame f (n y)) \<Longrightarrow>
   frame f (case x of None \<Rightarrow> m | Some y \<Rightarrow> n y)"
  by (simp split: option.split)

lemma frame_let [frame_intros]: "frame f (m x) \<Longrightarrow> frame f (Let x m)"
  by (simp add: Let_def)

lemma frame_prod [frame_intros]:
  "(\<And>a b. x = (a, b) \<Longrightarrow> frame f (n a b)) \<Longrightarrow> frame f (case x of (a, b) \<Rightarrow> n a b)"
  by (simp split: prod.split)

section \<open>Sequencing and loops\<close>

lemma frame_keeps_eq: "frame f m \<Longrightarrow> keeps (\<lambda>w. f w = c) m"
  by (simp add: frame_def keeps_def)

lemma keeps_wp_const: "keeps I m \<Longrightarrow> I w \<Longrightarrow> (\<And>x w'. I w' \<Longrightarrow> Q x w') \<Longrightarrow> (\<And>e w'. I w' \<Longrightarrow> R e w') \<Longrightarrow> wp m Q R w"
  by (rule wp_mono [of m "\<lambda>_. I" "\<lambda>_. I"]) (auto simp: keeps_wp)

lemma bindE_assoc: "bindE (bindE m f) g = bindE m (\<lambda>x. bindE (f x) g)"
  by (rule ext) (simp add: bindE_def split: prod.split sum.split)

lemma bindE_ret [simp]: "bindE (ret x) f = f x"
  by (rule ext) (simp add: bindE_def ret_def)

lemma for_each_append: "for_each (xs @ ys) f = bindE (for_each xs f) (\<lambda>_. for_each ys f)"
  by (induction xs) (simp_all add: bindE_assoc)

lemma for_each_concat: "for_each xss (\<lambda>xs. for_each xs f) = for_each (concat xss) f"
  by (induction xss) (simp_all add: for_each_append)

end
