(* ===== verification/Entities.thy ===== *)
theory Entities
  imports Prelude
begin

text \<open>
  The rows the service stores: the TypeORM entities \<open>Media\<close>, \<open>UserQuota\<close> and
  \<open>MediaAccessLog\<close> with the columns of their migrations, the upload contexts, the
  quota defaults, and the row-level-security policies that the migrations install on
  the media and quota tables.

  Timestamps are milliseconds, a \<open>DATE\<close> is a day number, a \<open>UUID\<close> column is the string
  the code compares.  \<open>None\<close> is SQL \<open>NULL\<close>.
\<close>

section \<open>Upload contexts\<close>

datatype media_context = MESSAGE | AVATAR | GROUP_ICON

fun context_value :: "media_context \<Rightarrow> string" where
  "context_value MESSAGE = ''message''"
| "context_value AVATAR = ''avatar''"
| "context_value GROUP_ICON = ''group_icon''"

lemma context_value_inject [simp]: "context_value a = context_value b \<longleftrightarrow> a = b"
  by (cases a; cases b) auto

section \<open>Rows\<close>

record media =
  m_id :: uuid
  m_ownerId :: uuid
  m_context :: string
  m_storagePath :: string
  m_thumbnailPath :: "string option"
  m_contentType :: string
  m_blobSize :: int
  m_expiresAt :: "millis option"
  m_signedUrlExpiresAt :: "millis option"
  m_isActive :: bool
  m_sharedWith :: "uuid list option"
  m_createdAt :: millis
  m_updatedAt :: millis

record user_quota =
  q_id :: uuid
  q_userId :: uuid
  q_storageUsed :: int
  q_storageLimit :: int
  q_filesCount :: int
  q_filesLimit :: int
  q_dailyUploads :: int
  q_dailyUploadLimit :: int
  q_quotaDate :: int

record access_log =
  l_accessedAt :: millis
  l_id :: uuid
  l_mediaId :: uuid
  l_accessorId :: "uuid option"
  l_accessType :: string
  l_ipAddress :: "string option"
  l_userAgent :: "string option"

definition DEFAULT_STORAGE_LIMIT_BYTES :: int where
  "DEFAULT_STORAGE_LIMIT_BYTES = 1073741824"

definition DEFAULT_FILES_LIMIT :: int where
  "DEFAULT_FILES_LIMIT = 1000"

definition DEFAULT_DAILY_UPLOAD_LIMIT :: int where
  "DEFAULT_DAILY_UPLOAD_LIMIT = 100"

lemmas quota_defaults = DEFAULT_STORAGE_LIMIT_BYTES_def DEFAULT_FILES_LIMIT_def
  DEFAULT_DAILY_UPLOAD_LIMIT_def

section \<open>Row-level security\<close>

text \<open>
  A policy is evaluated with the value of \<open>current_setting('app.current_user_id', TRUE)::UUID\<close>,
  which is \<open>NULL\<close> when the setting was never made; a comparison with \<open>NULL\<close> is not true,
  so it grants nothing.  The three policies are functions of this value, after the cast.  The cast
  itself, which accepts other spellings of an identifier and fails on everything else, is
  \<open>uuid_in\<close> in \<open>Media_Access\<close>, where the policies are compared with the check of the
  service on every setting; the statements of \<open>Database\<close> are run for users whose
  identifier is spelled as the database spells it, so that the cast is the identity.
\<close>

definition media_owner_write_policy :: "uuid option \<Rightarrow> media \<Rightarrow> bool" where
  "media_owner_write_policy guc r \<longleftrightarrow> guc = Some (m_ownerId r)"

definition media_public_context_select_policy :: "uuid option \<Rightarrow> media \<Rightarrow> bool" where
  "media_public_context_select_policy guc r \<longleftrightarrow>
     m_context r \<in> {''avatar'', ''group_icon''}
     \<or> guc = Some (m_ownerId r)
     \<or> (case (m_sharedWith r, guc) of
          (Some us, Some u) \<Rightarrow> u \<in> set us
        | _ \<Rightarrow> False)"

definition user_quotas_owner_policy :: "uuid option \<Rightarrow> user_quota \<Rightarrow> bool" where
  "user_quotas_owner_policy guc q \<longleftrightarrow> guc = Some (q_userId q)"

text \<open>Permissive policies for one command are combined with \<open>OR\<close>.\<close>

definition media_select_allowed :: "uuid option \<Rightarrow> media \<Rightarrow> bool" where
  "media_select_allowed guc r \<longleftrightarrow>
     media_owner_write_policy guc r \<or> media_public_context_select_policy guc r"

lemma media_select_allowed_iff:
  "media_select_allowed guc r \<longleftrightarrow> media_public_context_select_policy guc r"
  by (auto simp: media_select_allowed_def media_owner_write_policy_def
      media_public_context_select_policy_def)

lemma media_write_imp_select:
  "media_owner_write_policy guc r \<Longrightarrow> media_select_allowed guc r"
  by (simp add: media_select_allowed_def)

section \<open>Keyed tables\<close>

text \<open>
  A table is the list of its rows; \<open>SELECT\<close> by key finds the first row that
  satisfies the condition and \<open>UPDATE\<close> maps over the rows.
\<close>

definition update_where :: "('r \<Rightarrow> bool) \<Rightarrow> ('r \<Rightarrow> 'r) \<Rightarrow> 'r list \<Rightarrow> 'r list" where
  "update_where p f rs = map (\<lambda>r. if p r then f r else r) rs"

lemma update_where_Nil [simp]: "update_where p f [] = []"
  and update_where_Cons [simp]:
    "update_where p f (r # rs) = (if p r then f r else r) # update_where p f rs"
  by (simp_all add: update_where_def)

lemma length_update_where [simp]: "length (update_where p f rs) = length rs"
  by (simp add: update_where_def)

lemma update_where_none: "\<forall>r \<in> set rs. \<not> p r \<Longrightarrow> update_where p f rs = rs"
  by (induction rs) auto

lemma set_update_where: "set (update_where p f rs) = (\<lambda>r. if p r then f r else r) ` set rs"
  by (simp add: update_where_def)

lemma map_update_where: "(\<And>r. k (f r) = k r) \<Longrightarrow> map k (update_where p f rs) = map k rs"
  by (induction rs) auto

lemma find_update_where_same:
  assumes "\<And>r. key (f r) = key r" and "distinct (map key rs)"
    and "r \<in> set rs" and "key r = k" and "p r" and "q (f r)"
  shows "List.find (\<lambda>r. key r = k \<and> q r) (update_where (\<lambda>r. key r = k \<and> p r) f rs) = Some (f r)"
  using assms(2-) by (induction rs) (auto simp: assms(1))

lemma find_Some_in: "List.find p rs = Some r \<Longrightarrow> r \<in> set rs \<and> p r"
  by (induction rs) (auto split: if_splits)

lemma find_None_iff: "List.find p rs = None \<longleftrightarrow> (\<forall>r \<in> set rs. \<not> p r)"
  by (induction rs) auto

lemma find_key_unique:
  assumes "distinct (map key rs)" and "r \<in> set rs" and "key r = k" and "q r"
  shows "List.find (\<lambda>r. key r = k \<and> q r) rs = Some r"
  using assms by (induction rs) auto

lemma distinct_key_eq:
  "distinct (map key rs) \<Longrightarrow> r \<in> set rs \<Longrightarrow> r' \<in> set rs \<Longrightarrow> key r = key r' \<Longrightarrow> r = r'"
  by (auto simp: distinct_map dest: inj_onD)

end
