(* ===== verification/World.thy ===== *)
theory World
  imports Effects Entities
begin

text \<open>
  The state outside the process that the service reads and writes, and the calls that
  reach it.  \<open>world\<close> holds the Postgres tables, the cache, the Redis keys, the bucket,
  the published events, the metric counters and the transaction's
  \<open>app.current_user_id\<close>.

  \<open>env\<close> is everything the code does not determine: for each external call, numbered
  in order by \<open>ticks\<close>, whether it is done, rejected without effect, or takes effect and
  its reply is lost; the clock; the generated UUIDs; the replies of the HTTP services,
  of clamd and of sharp; SHA-256 and the URL signer; the order in which a query returns rows that
  its \<open>ORDER BY\<close> leaves equal, which may differ from query to query; the configuration.  A
  theorem that holds for every \<open>env\<close> holds for every pattern of failures.
\<close>

section \<open>The environment\<close>

datatype outcome = Done | Rejected string | Lost string

datatype json = JNull | JBool bool | JNum int | JStr string | JArr "json list"
  | JObj "(string \<times> json) list"

record http_response =
  status :: nat
  json_body :: "json option"

record config =
  cfg_SIGNED_URL_EXPIRY_SECONDS :: "int option"
  cfg_MESSAGE_BLOB_TTL_DAYS :: "int option"
  cfg_GROUP_SERVICE_URL :: "string option"
  cfg_GROUP_SERVICE_AUTH_TOKEN :: "string option"
  cfg_MESSAGING_SERVICE_URL :: "string option"
  cfg_INTERNAL_API_TOKEN :: "string option"
  cfg_CLAMAV_HOST :: "string option"

record env =
  outcome_at :: "nat \<Rightarrow> outcome"
  clock_at :: "nat \<Rightarrow> millis"
  uuid_at :: "nat \<Rightarrow> uuid"
  als_user :: "string option"
  rls_enforced :: bool
  sha256_hex :: "byte list \<Rightarrow> string"
  sharp_metadata :: "byte list \<Rightarrow> (int option \<times> int option) option"
  clamd_reply :: "nat \<Rightarrow> byte list \<Rightarrow> string option"
  http_get :: "nat \<Rightarrow> string \<Rightarrow> (string \<times> string) list \<Rightarrow> http_response"
  presigned :: "string \<Rightarrow> int \<Rightarrow> millis \<Rightarrow> string"
  tie_rank :: "nat \<Rightarrow> uuid \<Rightarrow> nat"
  cfg :: config

section \<open>The world\<close>

record cached_quota =
  cq_id :: uuid
  cq_userId :: uuid
  cq_storageUsed :: string
  cq_storageLimit :: string
  cq_filesCount :: int
  cq_filesLimit :: int
  cq_dailyUploads :: int
  cq_dailyUploadLimit :: int
  cq_quotaDate :: int

record media_metadata =
  md_id :: uuid
  md_ownerId :: uuid
  md_context :: string
  md_contentType :: string
  md_blobSize :: int
  md_expiresAt :: "millis option"
  md_isActive :: bool
  md_createdAt :: millis
  md_hasThumbnail :: bool

record cached_meta = media_metadata +
  md_sharedWith :: "uuid list option"

datatype cval = CQuota cached_quota | CMeta cached_meta | CStr string | CBool bool

record s3_object =
  o_body :: "byte list"
  o_contentType :: string

datatype event =
    MediaUploaded uuid uuid string string int bool
  | MediaDeleted uuid uuid string
  | QuotaAlert uuid string string int

record world =
  media_tbl :: "media list"
  quota_tbl :: "user_quota list"
  log_tbl :: "access_log list"
  cache :: "string \<Rightarrow> (cval \<times> millis) option"
  redis :: "string \<Rightarrow> (int \<times> millis option) option"
  s3 :: "string \<Rightarrow> s3_object option"
  published :: "event list"
  uploadsTotal :: nat
  downloadsTotal :: nat
  deletesTotal :: nat
  guc :: "uuid option"
  ticks :: nat
  uuids_used :: nat

type_synonym 'a io = "(world, 'a) action"

section \<open>External calls\<close>

definition tick :: "world \<Rightarrow> world" where
  "tick w = w\<lparr>ticks := Suc (ticks w)\<rparr>"

definition ext :: "env \<Rightarrow> 'a io \<Rightarrow> 'a io" where
  "ext env f w =
     (case outcome_at env (ticks w) of
        Done \<Rightarrow> f (tick w)
      | Rejected msg \<Rightarrow> (Inl (IoError msg), tick w)
      | Lost msg \<Rightarrow> (Inl (IoError msg), snd (f (tick w))))"

definition now :: "env \<Rightarrow> world \<Rightarrow> millis" where
  "now env w = clock_at env (ticks w)"

definition randomUUID :: "env \<Rightarrow> uuid io" where
  "randomUUID env w = (Inr (uuid_at env (uuids_used w)), w\<lparr>uuids_used := Suc (uuids_used w)\<rparr>)"

definition calm :: "env \<Rightarrow> bool" where
  "calm env \<longleftrightarrow> (\<forall>n. outcome_at env n = Done)"

lemma ext_calm [simp]: "calm env \<Longrightarrow> ext env f w = f (tick w)"
  by (simp add: ext_def calm_def)

lemma tick_simps [simp]:
  "media_tbl (tick w) = media_tbl w" "quota_tbl (tick w) = quota_tbl w"
  "log_tbl (tick w) = log_tbl w" "cache (tick w) = cache w" "redis (tick w) = redis w"
  "s3 (tick w) = s3 w" "published (tick w) = published w"
  "uploadsTotal (tick w) = uploadsTotal w" "downloadsTotal (tick w) = downloadsTotal w"
  "deletesTotal (tick w) = deletesTotal w" "guc (tick w) = guc w"
  "ticks (tick w) = Suc (ticks w)" "uuids_used (tick w) = uuids_used w"
  by (simp_all add: tick_def)

lemma wp_ext [wp_simps]:
  "wp (ext env f) Q R w =
     (case outcome_at env (ticks w) of
        Done \<Rightarrow> wp f Q R (tick w)
      | Rejected msg \<Rightarrow> R (IoError msg) (tick w)
      | Lost msg \<Rightarrow> wp f (\<lambda>_. R (IoError msg)) (\<lambda>_. R (IoError msg)) (tick w))"
  by (simp add: wp_def ext_def split: outcome.split prod.splits sum.splits)

lemma keeps_ext [keeps_intros]:
  "keeps I f \<Longrightarrow> (\<And>w. I w \<Longrightarrow> I (tick w)) \<Longrightarrow> keeps I (ext env f)"
  by (simp add: keeps_def ext_def split: outcome.split)

lemma frame_ext [frame_intros]:
  "frame g f \<Longrightarrow> (\<And>w. g (tick w) = g w) \<Longrightarrow> frame g (ext env f)"
  by (simp add: frame_def ext_def split: outcome.split)

lemma frame_randomUUID [frame_intros]:
  "(\<And>w n. g (w\<lparr>uuids_used := n\<rparr>) = g w) \<Longrightarrow> frame g (randomUUID env)"
  by (simp add: frame_def randomUUID_def)

lemma frame_modify [frame_intros]: "(\<And>w. g (f w) = g w) \<Longrightarrow> frame g (modify f)"
  by (simp add: frame_def modify_def)

lemma wp_randomUUID [wp_simps]:
  "wp (randomUUID env) Q R w = Q (uuid_at env (uuids_used w)) (w\<lparr>uuids_used := Suc (uuids_used w)\<rparr>)"
  by (simp add: wp_def randomUUID_def)

section \<open>Cache\<close>

text \<open>
  \<open>cache.get\<close>, \<open>set\<close> with a TTL in milliseconds, and \<open>del\<close>.  An entry past its
  expiry is a miss.
\<close>

definition cache_find :: "millis \<Rightarrow> (string \<Rightarrow> (cval \<times> millis) option) \<Rightarrow> string \<Rightarrow> cval option" where
  "cache_find t c k = (case c k of None \<Rightarrow> None | Some (v, until) \<Rightarrow> if t < until then Some v else None)"

definition cache_get :: "env \<Rightarrow> string \<Rightarrow> cval option io" where
  "cache_get env k = ext env (\<lambda>w. (Inr (cache_find (now env w) (cache w) k), w))"

definition cache_set :: "env \<Rightarrow> string \<Rightarrow> cval \<Rightarrow> int \<Rightarrow> unit io" where
  "cache_set env k v ttl =
     ext env (\<lambda>w. (Inr (), w\<lparr>cache := (cache w)(k := Some (v, now env w + ttl))\<rparr>))"

definition cache_del :: "env \<Rightarrow> string \<Rightarrow> unit io" where
  "cache_del env k = ext env (\<lambda>w. (Inr (), w\<lparr>cache := (cache w)(k := None)\<rparr>))"

section \<open>Redis\<close>

text \<open>
  The raw client's commands on integer values: \<open>INCR\<close> and \<open>DECR\<close> keep a key's TTL,
  \<open>EXPIRE\<close> sets it on an existing key, \<open>SET NX EX\<close> writes only an absent key.
\<close>

definition redis_live :: "env \<Rightarrow> world \<Rightarrow> string \<Rightarrow> (int \<times> millis option) option" where
  "redis_live env w k =
     (case redis w k of
        None \<Rightarrow> None
      | Some (v, None) \<Rightarrow> Some (v, None)
      | Some (v, Some t) \<Rightarrow> if now env w < t then Some (v, Some t) else None)"

definition redis_add :: "env \<Rightarrow> string \<Rightarrow> int \<Rightarrow> int io" where
  "redis_add env k d =
     ext env (\<lambda>w. case redis_live env w k of
        None \<Rightarrow> (Inr d, w\<lparr>redis := (redis w)(k := Some (d, None))\<rparr>)
      | Some (v, t) \<Rightarrow> (Inr (v + d), w\<lparr>redis := (redis w)(k := Some (v + d, t))\<rparr>))"

definition redis_incr :: "env \<Rightarrow> string \<Rightarrow> int io" where
  "redis_incr env k = redis_add env k 1"

definition redis_decr :: "env \<Rightarrow> string \<Rightarrow> int io" where
  "redis_decr env k = redis_add env k (- 1)"

definition redis_expire :: "env \<Rightarrow> string \<Rightarrow> int \<Rightarrow> unit io" where
  "redis_expire env k seconds =
     ext env (\<lambda>w. case redis_live env w k of
        None \<Rightarrow> (Inr (), w)
      | Some (v, t) \<Rightarrow>
          (Inr (), w\<lparr>redis := (redis w)(k := Some (v, Some (now env w + seconds * 1000)))\<rparr>))"

definition redis_del :: "env \<Rightarrow> string \<Rightarrow> unit io" where
  "redis_del env k = ext env (\<lambda>w. (Inr (), w\<lparr>redis := (redis w)(k := None)\<rparr>))"

definition redis_set_nx_ex :: "env \<Rightarrow> string \<Rightarrow> int \<Rightarrow> int \<Rightarrow> bool io" where
  "redis_set_nx_ex env k v seconds =
     ext env (\<lambda>w. case redis_live env w k of
        Some old \<Rightarrow> (Inr False, w)
      | None \<Rightarrow>
          (Inr True, w\<lparr>redis := (redis w)(k := Some (v, Some (now env w + seconds * 1000)))\<rparr>))"

definition redis_publish :: "env \<Rightarrow> event \<Rightarrow> unit io" where
  "redis_publish env e = ext env (\<lambda>w. (Inr (), w\<lparr>published := published w @ [e]\<rparr>))"

section \<open>Bucket\<close>

definition s3_put :: "env \<Rightarrow> string \<Rightarrow> s3_object \<Rightarrow> unit io" where
  "s3_put env k ob = ext env (\<lambda>w. (Inr (), w\<lparr>s3 := (s3 w)(k := Some ob)\<rparr>))"

definition s3_get :: "env \<Rightarrow> string \<Rightarrow> s3_object io" where
  "s3_get env k =
     ext env (\<lambda>w. case s3 w k of
        None \<Rightarrow> (Inl (IoError ''NoSuchKey''), w)
      | Some ob \<Rightarrow> (Inr ob, w))"

definition s3_delete :: "env \<Rightarrow> string \<Rightarrow> unit io" where
  "s3_delete env k = ext env (\<lambda>w. (Inr (), w\<lparr>s3 := (s3 w)(k := None)\<rparr>))"

end
