(* ===== verification/Stores.thy ===== *)
theory Stores
  imports World
begin

text \<open>
  The key-value interface through which the services use the cache and the bucket, as a
  locale, and the cache-aside discipline proved once against it: what is stored under a
  key agrees with the source of truth as long as every write stores an agreeing value
  and every change of the source of truth removes the affected key.
\<close>

locale kv_store =
  fixes find_in :: "'s \<Rightarrow> string \<Rightarrow> 'v option"
    and put_in :: "string \<Rightarrow> 'v \<Rightarrow> 's \<Rightarrow> 's"
    and remove_from :: "string \<Rightarrow> 's \<Rightarrow> 's"
  assumes find_put_same: "find_in (put_in k v s) k = Some v"
    and find_put_other: "k' \<noteq> k \<Longrightarrow> find_in (put_in k v s) k' = find_in s k'"
    and find_remove_same: "find_in (remove_from k s) k = None"
    and find_remove_other: "k' \<noteq> k \<Longrightarrow> find_in (remove_from k s) k' = find_in s k'"
begin

definition agrees :: "(string \<Rightarrow> 'v \<Rightarrow> bool) \<Rightarrow> 's \<Rightarrow> bool" where
  "agrees truth s \<longleftrightarrow> (\<forall>k v. find_in s k = Some v \<longrightarrow> truth k v)"

lemma agreesD: "agrees truth s \<Longrightarrow> find_in s k = Some v \<Longrightarrow> truth k v"
  by (simp add: agrees_def)

lemma agrees_mono: "agrees truth s \<Longrightarrow> (\<And>k v. truth k v \<Longrightarrow> truth' k v) \<Longrightarrow> agrees truth' s"
  by (auto simp: agrees_def)

lemma agrees_put:
  assumes "agrees truth s" and "truth k v"
  shows "agrees truth (put_in k v s)"
  unfolding agrees_def
proof (intro allI impI)
  fix k' v'
  assume "find_in (put_in k v s) k' = Some v'"
  with assms show "truth k' v'"
    by (cases "k' = k") (auto simp: find_put_same find_put_other agrees_def)
qed

lemma agrees_invalidate:
  assumes "agrees truth s" and "\<And>k' v. k' \<noteq> k \<Longrightarrow> truth k' v \<Longrightarrow> truth' k' v"
  shows "agrees truth' (remove_from k s)"
  unfolding agrees_def
proof (intro allI impI)
  fix k' v'
  assume *: "find_in (remove_from k s) k' = Some v'"
  then have "k' \<noteq> k" by (auto simp: find_remove_same)
  with * assms show "truth' k' v'"
    by (auto simp: find_remove_other agrees_def)
qed

end

text \<open>
  The cache map with its expiries, and the bucket, provide the interface.
\<close>

definition map_put :: "string \<Rightarrow> 'v \<Rightarrow> (string \<Rightarrow> 'v option) \<Rightarrow> (string \<Rightarrow> 'v option)" where
  "map_put k v m = m(k := Some v)"

definition map_remove :: "string \<Rightarrow> (string \<Rightarrow> 'v option) \<Rightarrow> (string \<Rightarrow> 'v option)" where
  "map_remove k m = m(k := None)"

interpretation cache_kv: kv_store "\<lambda>c :: string \<Rightarrow> (cval \<times> millis) option. c" map_put map_remove
  by unfold_locales (auto simp: map_put_def map_remove_def)

interpretation bucket_kv: kv_store "\<lambda>b :: string \<Rightarrow> s3_object option. b" map_put map_remove
  by unfold_locales (auto simp: map_put_def map_remove_def)

lemma cache_find_Some: "cache_find t c k = Some v \<Longrightarrow> \<exists>until. c k = Some (v, until) \<and> t < until"
  by (auto simp: cache_find_def split: option.splits prod.splits if_splits)

lemma cache_find_upd [simp]:
  "cache_find t (c(k := Some (v, until))) k' =
     (if k' = k then (if t < until then Some v else None) else cache_find t c k')"
  by (simp add: cache_find_def)

lemma cache_find_del [simp]:
  "cache_find t (c(k := None)) k' = (if k' = k then None else cache_find t c k')"
  by (simp add: cache_find_def)

section \<open>Frames of the primitive calls\<close>

lemma frame_cache_get [frame_intros]: "(\<And>w. g (tick w) = g w) \<Longrightarrow> frame g (cache_get env k)"
  unfolding cache_get_def by (rule frame_ext) (simp_all add: frame_def)

lemma frame_cache_set [frame_intros]:
  "(\<And>w. g (tick w) = g w) \<Longrightarrow> (\<And>w c. g (w\<lparr>cache := c\<rparr>) = g w) \<Longrightarrow> frame g (cache_set env k v ttl)"
  unfolding cache_set_def by (rule frame_ext) (simp_all add: frame_def)

lemma frame_cache_del [frame_intros]:
  "(\<And>w. g (tick w) = g w) \<Longrightarrow> (\<And>w c. g (w\<lparr>cache := c\<rparr>) = g w) \<Longrightarrow> frame g (cache_del env k)"
  unfolding cache_del_def by (rule frame_ext) (simp_all add: frame_def)

lemma frame_redis_add:
  "(\<And>w. g (tick w) = g w) \<Longrightarrow> (\<And>w c. g (w\<lparr>redis := c\<rparr>) = g w) \<Longrightarrow> frame g (redis_add env k d)"
  unfolding redis_add_def by (rule frame_ext) (simp_all add: frame_def split: option.split)

lemma frame_redis_incr [frame_intros]:
  "(\<And>w. g (tick w) = g w) \<Longrightarrow> (\<And>w c. g (w\<lparr>redis := c\<rparr>) = g w) \<Longrightarrow> frame g (redis_incr env k)"
  unfolding redis_incr_def by (rule frame_redis_add)

lemma frame_redis_decr [frame_intros]:
  "(\<And>w. g (tick w) = g w) \<Longrightarrow> (\<And>w c. g (w\<lparr>redis := c\<rparr>) = g w) \<Longrightarrow> frame g (redis_decr env k)"
  unfolding redis_decr_def by (rule frame_redis_add)

lemma frame_redis_expire [frame_intros]:
  "(\<And>w. g (tick w) = g w) \<Longrightarrow> (\<And>w c. g (w\<lparr>redis := c\<rparr>) = g w) \<Longrightarrow> frame g (redis_expire env k s)"
  unfolding redis_expire_def by (rule frame_ext) (simp_all add: frame_def split: option.split)

lemma frame_redis_del [frame_intros]:
  "(\<And>w. g (tick w) = g w) \<Longrightarrow> (\<And>w c. g (w\<lparr>redis := c\<rparr>) = g w) \<Longrightarrow> frame g (redis_del env k)"
  unfolding redis_del_def by (rule frame_ext) (simp_all add: frame_def)

lemma frame_redis_set_nx_ex [frame_intros]:
  "(\<And>w. g (tick w) = g w) \<Longrightarrow> (\<And>w c. g (w\<lparr>redis := c\<rparr>) = g w) \<Longrightarrow>
   frame g (redis_set_nx_ex env k v s)"
  unfolding redis_set_nx_ex_def by (rule frame_ext) (simp_all add: frame_def split: option.split)

lemma frame_redis_publish [frame_intros]:
  "(\<And>w. g (tick w) = g w) \<Longrightarrow> (\<And>w c. g (w\<lparr>published := c\<rparr>) = g w) \<Longrightarrow> frame g (redis_publish env e)"
  unfolding redis_publish_def by (rule frame_ext) (simp_all add: frame_def)

lemma frame_s3_put [frame_intros]:
  "(\<And>w. g (tick w) = g w) \<Longrightarrow> (\<And>w c. g (w\<lparr>s3 := c\<rparr>) = g w) \<Longrightarrow> frame g (s3_put env k ob)"
  unfolding s3_put_def by (rule frame_ext) (simp_all add: frame_def)

lemma frame_s3_get [frame_intros]: "(\<And>w. g (tick w) = g w) \<Longrightarrow> frame g (s3_get env k)"
  unfolding s3_get_def by (rule frame_ext) (simp_all add: frame_def split: option.split)

lemma frame_s3_delete [frame_intros]:
  "(\<And>w. g (tick w) = g w) \<Longrightarrow> (\<And>w c. g (w\<lparr>s3 := c\<rparr>) = g w) \<Longrightarrow> frame g (s3_delete env k)"
  unfolding s3_delete_def by (rule frame_ext) (simp_all add: frame_def)

section \<open>Undisturbed calls\<close>

text \<open>The result of each call when it is done; used to run the methods symbolically.\<close>

named_theorems calm_simps \<open>evaluation of calls in an environment without failures\<close>

lemma cache_get_calm [calm_simps]: "calm env \<Longrightarrow>
    cache_get env k w = (Inr (cache_find (now env (tick w)) (cache w) k), tick w)"
  by (simp add: cache_get_def)

lemma cache_set_calm [calm_simps]: "calm env \<Longrightarrow>
    cache_set env k v ttl w =
      (Inr (), (tick w)\<lparr>cache := (cache w)(k := Some (v, now env (tick w) + ttl))\<rparr>)"
  by (simp add: cache_set_def)

lemma cache_del_calm [calm_simps]: "calm env \<Longrightarrow>
    cache_del env k w = (Inr (), (tick w)\<lparr>cache := (cache w)(k := None)\<rparr>)"
  by (simp add: cache_del_def)

lemma redis_publish_calm [calm_simps]: "calm env \<Longrightarrow>
    redis_publish env e w = (Inr (), (tick w)\<lparr>published := published w @ [e]\<rparr>)"
  by (simp add: redis_publish_def)

lemma s3_put_calm [calm_simps]: "calm env \<Longrightarrow>
    s3_put env k ob w = (Inr (), (tick w)\<lparr>s3 := (s3 w)(k := Some ob)\<rparr>)"
  by (simp add: s3_put_def)

lemma s3_delete_calm [calm_simps]: "calm env \<Longrightarrow>
    s3_delete env k w = (Inr (), (tick w)\<lparr>s3 := (s3 w)(k := None)\<rparr>)"
  by (simp add: s3_delete_def)

lemma s3_get_calm [calm_simps]: "calm env \<Longrightarrow>
    s3_get env k w =
      (case s3 w k of None \<Rightarrow> (Inl (IoError ''NoSuchKey''), tick w) | Some ob \<Rightarrow> (Inr ob, tick w))"
  by (simp add: s3_get_def)

lemma redis_set_nx_ex_calm [calm_simps]: "calm env \<Longrightarrow>
    redis_set_nx_ex env k v seconds w =
      (case redis_live env (tick w) k of
         Some old \<Rightarrow> (Inr False, tick w)
       | None \<Rightarrow> (Inr True, (tick w)\<lparr>redis := (redis w)(k := Some (v, Some (now env (tick w) + seconds * 1000)))\<rparr>))"
  by (simp add: redis_set_nx_ex_def split: option.split)

named_theorems wp_calm \<open>weakest preconditions of calls in an environment without failures\<close>

lemma wp_eval: "m w = (Inr x, w') \<Longrightarrow> wp m Q R w = Q x w'"
  and wp_eval_Inl: "m w = (Inl e, w') \<Longrightarrow> wp m Q R w = R e w'"
  by (simp_all add: wp_def)

lemma wp_ext_calm: "calm env \<Longrightarrow> wp (ext env f) Q R w = wp f Q R (tick w)"
  by (simp add: wp_simps calm_def)

lemma wp_cache_get_calm [wp_calm]: "calm env \<Longrightarrow>
    wp (cache_get env k) Q R w = Q (cache_find (now env (tick w)) (cache w) k) (tick w)"
  by (simp add: wp_eval [OF cache_get_calm])

lemma wp_cache_set_calm [wp_calm]: "calm env \<Longrightarrow>
    wp (cache_set env k v ttl) Q R w =
      Q () ((tick w)\<lparr>cache := (cache w)(k := Some (v, now env (tick w) + ttl))\<rparr>)"
  by (simp add: wp_eval [OF cache_set_calm])

lemma wp_cache_del_calm [wp_calm]: "calm env \<Longrightarrow>
    wp (cache_del env k) Q R w = Q () ((tick w)\<lparr>cache := (cache w)(k := None)\<rparr>)"
  by (simp add: wp_eval [OF cache_del_calm])

lemma wp_redis_publish_calm [wp_calm]: "calm env \<Longrightarrow>
    wp (redis_publish env e) Q R w = Q () ((tick w)\<lparr>published := published w @ [e]\<rparr>)"
  by (simp add: wp_eval [OF redis_publish_calm])

lemma wp_s3_put_calm [wp_calm]: "calm env \<Longrightarrow>
    wp (s3_put env k ob) Q R w = Q () ((tick w)\<lparr>s3 := (s3 w)(k := Some ob)\<rparr>)"
  by (simp add: wp_eval [OF s3_put_calm])

lemma wp_s3_delete_calm [wp_calm]: "calm env \<Longrightarrow>
    wp (s3_delete env k) Q R w = Q () ((tick w)\<lparr>s3 := (s3 w)(k := None)\<rparr>)"
  by (simp add: wp_eval [OF s3_delete_calm])

lemma wp_s3_get_calm [wp_calm]: "calm env \<Longrightarrow>
    wp (s3_get env k) Q R w =
      (case s3 w k of None \<Rightarrow> R (IoError ''NoSuchKey'') (tick w) | Some ob \<Rightarrow> Q ob (tick w))"
  by (simp add: wp_def s3_get_calm split: option.split)

lemma wp_redis_set_nx_ex_calm [wp_calm]: "calm env \<Longrightarrow>
    wp (redis_set_nx_ex env k v seconds) Q R w =
      (case redis_live env (tick w) k of
         Some old \<Rightarrow> Q False (tick w)
       | None \<Rightarrow> Q True ((tick w)\<lparr>redis := (redis w)(k := Some (v, Some (now env (tick w) + seconds * 1000)))\<rparr>))"
  by (simp add: wp_def redis_set_nx_ex_calm split: option.split)

end
