(* ===== verification/Database.thy ===== *)
theory Database
  imports Stores
begin

text \<open>
  Transactions and queries.  \<open>RlsInterceptor\<close> binds the authenticated user for the
  duration of a request, \<open>RlsSubscriber\<close> copies it into \<open>app.current_user_id\<close> at the
  start of every transaction, and every query is filtered by the policies of the
  migrations unless the connection's role bypasses them (\<open>rls_enforced\<close>).  A
  transaction that throws, or whose commit is rejected, leaves the tables as they were;
  when only the reply to the commit is lost the caller sees an error although the
  changes stand.
\<close>

section \<open>Request context and transactions\<close>

definition truthy :: "string option \<Rightarrow> bool" where
  "truthy s \<longleftrightarrow> (case s of None \<Rightarrow> False | Some t \<Rightarrow> t \<noteq> [])"

definition rls_intercept :: "string option \<Rightarrow> env \<Rightarrow> env" where
  "rls_intercept userId env =
     (if \<not> truthy userId then env\<lparr>als_user := None\<rparr> else env\<lparr>als_user := userId\<rparr>)"

definition afterTransactionStart :: "env \<Rightarrow> unit io" where
  "afterTransactionStart env =
     (if \<not> truthy (als_user env) then ret ()
      else ext env (modify (\<lambda>w. w\<lparr>guc := als_user env\<rparr>)))"

definition begin_tx :: "world \<Rightarrow> world" where
  "begin_tx w = w\<lparr>guc := None\<rparr>"

definition restore_db :: "world \<Rightarrow> world \<Rightarrow> world" where
  "restore_db w0 w1 =
     w1\<lparr>media_tbl := media_tbl w0, quota_tbl := quota_tbl w0, log_tbl := log_tbl w0, guc := None\<rparr>"

definition commit :: "env \<Rightarrow> world \<Rightarrow> 'a \<Rightarrow> 'a io" where
  "commit env w0 x w1 =
     (case outcome_at env (ticks w1) of
        Done \<Rightarrow> (Inr x, (tick w1)\<lparr>guc := None\<rparr>)
      | Rejected msg \<Rightarrow> (Inl (IoError msg), restore_db w0 (tick w1))
      | Lost msg \<Rightarrow> (Inl (IoError msg), (tick w1)\<lparr>guc := None\<rparr>))"

definition transaction :: "env \<Rightarrow> 'a io \<Rightarrow> 'a io" where
  "transaction env body w0 =
     (case ext env (modify begin_tx) w0 of
        (Inl e, w) \<Rightarrow> (Inl e, w\<lparr>guc := None\<rparr>)
      | (Inr _, w) \<Rightarrow>
          (case bindE (afterTransactionStart env) (\<lambda>_. body) w of
             (Inl e, w1) \<Rightarrow> (Inl e, restore_db w0 w1)
           | (Inr x, w1) \<Rightarrow> commit env w0 x w1))"

definition media_visible :: "env \<Rightarrow> world \<Rightarrow> media \<Rightarrow> bool" where
  "media_visible env w r \<longleftrightarrow> (rls_enforced env \<longrightarrow> media_select_allowed (guc w) r)"

definition media_writable :: "env \<Rightarrow> world \<Rightarrow> media \<Rightarrow> bool" where
  "media_writable env w r \<longleftrightarrow> (rls_enforced env \<longrightarrow> media_owner_write_policy (guc w) r)"

definition quota_permitted :: "env \<Rightarrow> world \<Rightarrow> user_quota \<Rightarrow> bool" where
  "quota_permitted env w q \<longleftrightarrow> (rls_enforced env \<longrightarrow> user_quotas_owner_policy (guc w) q)"

section \<open>MediaRepository\<close>

definition findById :: "env \<Rightarrow> uuid \<Rightarrow> media option io" where
  "findById env mid =
     ext env (gets (\<lambda>w. List.find (\<lambda>r. m_id r = mid \<and> (m_isActive r \<and> media_visible env w r)) (media_tbl w)))"

definition update_media :: "env \<Rightarrow> uuid \<Rightarrow> (media \<Rightarrow> media) \<Rightarrow> unit io" where
  "update_media env mid f =
     ext env (modify (\<lambda>w. w\<lparr>media_tbl :=
       update_where (\<lambda>r. m_id r = mid \<and> media_writable env w r)
         (\<lambda>r. (f r)\<lparr>m_updatedAt := now env w\<rparr>) (media_tbl w)\<rparr>))"

definition updateSignedUrlExpiry :: "env \<Rightarrow> uuid \<Rightarrow> millis \<Rightarrow> unit io" where
  "updateSignedUrlExpiry env mid t = update_media env mid (\<lambda>r. r\<lparr>m_signedUrlExpiresAt := Some t\<rparr>)"

definition softDelete :: "env \<Rightarrow> uuid \<Rightarrow> unit io" where
  "softDelete env mid = update_media env mid (\<lambda>r. r\<lparr>m_isActive := False\<rparr>)"

definition updateSharedWith :: "env \<Rightarrow> uuid \<Rightarrow> uuid list option \<Rightarrow> unit io" where
  "updateSharedWith env mid us = update_media env mid (\<lambda>r. r\<lparr>m_sharedWith := us\<rparr>)"

definition save :: "env \<Rightarrow> media \<Rightarrow> unit io" where
  "save env m =
     ext env (\<lambda>w.
       if \<exists>r \<in> set (media_tbl w). m_id r = m_id m \<and> media_visible env w r
       then if (\<exists>r \<in> set (media_tbl w). m_id r = m_id m \<and> media_writable env w r) \<and> \<not> media_writable env w m
       then (Inl (IoError ''new row violates row-level security policy''), w)
       else (Inr (), w\<lparr>media_tbl :=
               update_where (\<lambda>r. m_id r = m_id m \<and> media_writable env w r)
                 (\<lambda>r. m\<lparr>m_createdAt := m_createdAt r, m_updatedAt := now env w\<rparr>) (media_tbl w)\<rparr>)
       else if \<exists>r \<in> set (media_tbl w). m_id r = m_id m
       then (Inl (IoError ''duplicate key value violates unique constraint''), w)
       else if media_writable env w m
       then (Inr (), w\<lparr>media_tbl := media_tbl w @ [m\<lparr>m_createdAt := now env w, m_updatedAt := now env w\<rparr>]\<rparr>)
       else (Inl (IoError ''new row violates row-level security policy''), w))"

section \<open>Quota rows\<close>

definition INT4_MAX :: int where
  "INT4_MAX = 2147483647"

definition INT8_MAX :: int where
  "INT8_MAX = 9223372036854775807"

definition quota_in_range :: "user_quota \<Rightarrow> bool" where
  "quota_in_range q \<longleftrightarrow>
     - INT8_MAX - 1 \<le> q_storageUsed q \<and> q_storageUsed q \<le> INT8_MAX \<and>
     - INT4_MAX - 1 \<le> q_filesCount q \<and> q_filesCount q \<le> INT4_MAX \<and>
     - INT4_MAX - 1 \<le> q_dailyUploads q \<and> q_dailyUploads q \<le> INT4_MAX"

definition current_date :: "env \<Rightarrow> world \<Rightarrow> int" where
  "current_date env w = now env w div 86400000"

definition find_quota :: "env \<Rightarrow> uuid \<Rightarrow> user_quota option io" where
  "find_quota env u =
     ext env (gets (\<lambda>w. List.find (\<lambda>q. q_userId q = u \<and> quota_permitted env w q) (quota_tbl w)))"

definition insert_quota_or_ignore :: "env \<Rightarrow> (world \<Rightarrow> user_quota) \<Rightarrow> unit io" where
  "insert_quota_or_ignore env mk =
     ext env (\<lambda>w. let q = mk w in
       if \<not> quota_permitted env w q
       then (Inl (IoError ''new row violates row-level security policy''), w)
       else if \<exists>r \<in> set (quota_tbl w). q_userId r = q_userId q then (Inr (), w)
       else (Inr (), w\<lparr>quota_tbl := quota_tbl w @ [q]\<rparr>))"

text \<open>
  \<open>UPDATE user_quotas SET \<dots> WHERE user_id = \<dots>\<close>: the number of affected rows, or the
  error of a result outside the column's type.
\<close>

definition update_quota :: "env \<Rightarrow> uuid \<Rightarrow> (user_quota \<Rightarrow> user_quota) \<Rightarrow> nat io" where
  "update_quota env u f =
     ext env (\<lambda>w.
       let p = (\<lambda>q. q_userId q = u \<and> quota_permitted env w q) in
       if \<exists>q \<in> set (quota_tbl w). p q \<and> \<not> quota_in_range (f q)
       then (Inl (IoError ''value out of range''), w)
       else (Inr (length (filter p (quota_tbl w))), w\<lparr>quota_tbl := update_where p f (quota_tbl w)\<rparr>))"

text \<open>The \<open>SECURITY DEFINER\<close> function runs as the owner of the table.\<close>

definition reset_daily_uploads :: "env \<Rightarrow> uuid list io" where
  "reset_daily_uploads env =
     ext env (\<lambda>w.
       let stale = (\<lambda>q. q_quotaDate q < current_date env w) in
       (Inr (map q_userId (filter stale (quota_tbl w))),
        w\<lparr>quota_tbl := update_where stale
            (\<lambda>q. q\<lparr>q_dailyUploads := 0, q_quotaDate := current_date env w\<rparr>) (quota_tbl w)\<rparr>))"

section \<open>Access log\<close>

definition insert_access_log :: "env \<Rightarrow> access_log \<Rightarrow> unit io" where
  "insert_access_log env l =
     ext env (\<lambda>w.
       if (case l_ipAddress l of None \<Rightarrow> True | Some s \<Rightarrow> length s \<le> 45)
          \<and> (case l_userAgent l of None \<Rightarrow> True | Some s \<Rightarrow> length s \<le> 512)
          \<and> length (l_accessType l) \<le> 64
       then (Inr (), w\<lparr>log_tbl := log_tbl w @ [l]\<rparr>)
       else (Inl (IoError ''value too long for type character varying''), w))"

section \<open>Frames\<close>

definition outside_db :: "world \<Rightarrow> (string \<Rightarrow> (cval \<times> millis) option) \<times> (string \<Rightarrow> (int \<times> millis option) option)
    \<times> (string \<Rightarrow> s3_object option) \<times> event list \<times> nat \<times> nat \<times> nat" where
  "outside_db w = (cache w, redis w, s3 w, published w, uploadsTotal w, downloadsTotal w, deletesTotal w)"

lemma outside_db_upds [simp]:
  "outside_db (tick w) = outside_db w"
  "outside_db (w\<lparr>media_tbl := m\<rparr>) = outside_db w"
  "outside_db (w\<lparr>quota_tbl := q\<rparr>) = outside_db w"
  "outside_db (w\<lparr>log_tbl := l\<rparr>) = outside_db w"
  "outside_db (w\<lparr>guc := g\<rparr>) = outside_db w"
  "outside_db (w\<lparr>uuids_used := n\<rparr>) = outside_db w"
  by (simp_all add: outside_db_def)

lemma outside_db_eqD:
  assumes "outside_db w = outside_db w'"
  shows "cache w = cache w'" and "redis w = redis w'" and "s3 w = s3 w'"
    and "published w = published w'" and "uploadsTotal w = uploadsTotal w'"
    and "downloadsTotal w = downloadsTotal w'" and "deletesTotal w = deletesTotal w'"
  using assms by (simp_all add: outside_db_def)

lemma restore_db_simps [simp]:
  "media_tbl (restore_db w0 w1) = media_tbl w0" "quota_tbl (restore_db w0 w1) = quota_tbl w0"
  "log_tbl (restore_db w0 w1) = log_tbl w0" "outside_db (restore_db w0 w1) = outside_db w1"
  "cache (restore_db w0 w1) = cache w1" "redis (restore_db w0 w1) = redis w1"
  "s3 (restore_db w0 w1) = s3 w1" "published (restore_db w0 w1) = published w1"
  "guc (restore_db w0 w1) = None" "ticks (restore_db w0 w1) = ticks w1"
  "uuids_used (restore_db w0 w1) = uuids_used w1"
  "uploadsTotal (restore_db w0 w1) = uploadsTotal w1"
  "downloadsTotal (restore_db w0 w1) = downloadsTotal w1"
  "deletesTotal (restore_db w0 w1) = deletesTotal w1"
  by (simp_all add: restore_db_def outside_db_def)

lemma frame_afterTransactionStart [frame_intros]:
  "(\<And>w. g (tick w) = g w) \<Longrightarrow> (\<And>w u. g (w\<lparr>guc := u\<rparr>) = g w) \<Longrightarrow> frame g (afterTransactionStart env)"
  unfolding afterTransactionStart_def by (intro frame_intros)

lemma frame_findById [frame_intros]: "(\<And>w. g (tick w) = g w) \<Longrightarrow> frame g (findById env mid)"
  unfolding findById_def by (intro frame_intros)

lemma frame_update_media [frame_intros]:
  "(\<And>w. g (tick w) = g w) \<Longrightarrow> (\<And>w m. g (w\<lparr>media_tbl := m\<rparr>) = g w) \<Longrightarrow> frame g (update_media env mid f)"
  unfolding update_media_def by (intro frame_intros)

lemma frame_updateSignedUrlExpiry [frame_intros]:
  "(\<And>w. g (tick w) = g w) \<Longrightarrow> (\<And>w m. g (w\<lparr>media_tbl := m\<rparr>) = g w) \<Longrightarrow>
   frame g (updateSignedUrlExpiry env mid t)"
  unfolding updateSignedUrlExpiry_def by (intro frame_intros)

lemma frame_softDelete [frame_intros]:
  "(\<And>w. g (tick w) = g w) \<Longrightarrow> (\<And>w m. g (w\<lparr>media_tbl := m\<rparr>) = g w) \<Longrightarrow> frame g (softDelete env mid)"
  unfolding softDelete_def by (intro frame_intros)

lemma frame_updateSharedWith [frame_intros]:
  "(\<And>w. g (tick w) = g w) \<Longrightarrow> (\<And>w m. g (w\<lparr>media_tbl := m\<rparr>) = g w) \<Longrightarrow>
   frame g (updateSharedWith env mid us)"
  unfolding updateSharedWith_def by (intro frame_intros)

lemma frame_save [frame_intros]:
  "(\<And>w. g (tick w) = g w) \<Longrightarrow> (\<And>w m. g (w\<lparr>media_tbl := m\<rparr>) = g w) \<Longrightarrow> frame g (save env m)"
  unfolding save_def by (rule frame_ext) (auto simp: frame_def)

lemma frame_find_quota [frame_intros]: "(\<And>w. g (tick w) = g w) \<Longrightarrow> frame g (find_quota env u)"
  unfolding find_quota_def by (intro frame_intros)

lemma frame_insert_quota [frame_intros]:
  "(\<And>w. g (tick w) = g w) \<Longrightarrow> (\<And>w q. g (w\<lparr>quota_tbl := q\<rparr>) = g w) \<Longrightarrow>
   frame g (insert_quota_or_ignore env mk)"
  unfolding insert_quota_or_ignore_def by (rule frame_ext) (auto simp: frame_def Let_def)

lemma frame_update_quota [frame_intros]:
  "(\<And>w. g (tick w) = g w) \<Longrightarrow> (\<And>w q. g (w\<lparr>quota_tbl := q\<rparr>) = g w) \<Longrightarrow> frame g (update_quota env u f)"
  unfolding update_quota_def by (rule frame_ext) (auto simp: frame_def Let_def)

lemma frame_reset_daily_uploads [frame_intros]:
  "(\<And>w. g (tick w) = g w) \<Longrightarrow> (\<And>w q. g (w\<lparr>quota_tbl := q\<rparr>) = g w) \<Longrightarrow> frame g (reset_daily_uploads env)"
  unfolding reset_daily_uploads_def by (rule frame_ext) (auto simp: frame_def Let_def)

lemma frame_insert_access_log [frame_intros]:
  "(\<And>w. g (tick w) = g w) \<Longrightarrow> (\<And>w l. g (w\<lparr>log_tbl := l\<rparr>) = g w) \<Longrightarrow> frame g (insert_access_log env l)"
  unfolding insert_access_log_def by (rule frame_ext) (auto simp: frame_def)

section \<open>Transactions\<close>

lemma begin_tx_simps [simp]:
  "media_tbl (begin_tx w) = media_tbl w" "quota_tbl (begin_tx w) = quota_tbl w"
  "log_tbl (begin_tx w) = log_tbl w" "outside_db (begin_tx w) = outside_db w"
  "cache (begin_tx w) = cache w" "redis (begin_tx w) = redis w" "s3 (begin_tx w) = s3 w"
  "published (begin_tx w) = published w" "guc (begin_tx w) = None" "ticks (begin_tx w) = ticks w"
  "uuids_used (begin_tx w) = uuids_used w"
  by (simp_all add: begin_tx_def)

lemma wp_commit [wp_simps]:
  "wp (commit env w0 x) Q R w =
     (case outcome_at env (ticks w) of
        Done \<Rightarrow> Q x ((tick w)\<lparr>guc := None\<rparr>)
      | Rejected msg \<Rightarrow> R (IoError msg) (restore_db w0 (tick w))
      | Lost msg \<Rightarrow> R (IoError msg) ((tick w)\<lparr>guc := None\<rparr>))"
  by (simp add: wp_def commit_def split: outcome.split)

lemma wp_transaction [wp_simps]:
  "wp (transaction env body) Q R w =
     (case outcome_at env (ticks w) of
        Done \<Rightarrow>
          wp (afterTransactionStart env)
            (\<lambda>_. wp body (\<lambda>x. wp (commit env w x) Q R) (\<lambda>e w1. R e (restore_db w w1)))
            (\<lambda>e w1. R e (restore_db w w1)) (begin_tx (tick w))
      | Rejected msg \<Rightarrow> R (IoError msg) ((tick w)\<lparr>guc := None\<rparr>)
      | Lost msg \<Rightarrow> R (IoError msg) ((begin_tx (tick w))\<lparr>guc := None\<rparr>))"
  by (simp add: wp_def transaction_def ext_def modify_def bindE_def
      split: outcome.split prod.splits sum.splits)

lemma frame_commit:
  assumes "\<And>w. g (tick w) = g w" and "\<And>w u. g (w\<lparr>guc := u\<rparr>) = g w"
    and "(\<forall>w0 w1. g (restore_db w0 w1) = g w1) \<or> (\<forall>w0 w1. g (restore_db w0 w1) = g w0)"
    and "g w0 = g w1"
  shows "g (snd (commit env w0 x w1)) = g w1"
  using assms by (auto simp: commit_def split: outcome.split)

lemma frame_transaction [frame_intros]:
  fixes body :: "'a io"
  assumes body: "frame g body" and t: "\<And>w. g (tick w) = g w"
    and u: "\<And>w u. g (w\<lparr>guc := u\<rparr>) = g w"
    and r: "(\<forall>w0 w1. g (restore_db w0 w1) = g w1) \<or> (\<forall>w0 w1. g (restore_db w0 w1) = g w0)"
  shows "frame g (transaction env body)"
  unfolding frame_def
proof
  fix w
  let ?b = "bindE (afterTransactionStart env) (\<lambda>_. body)"
  have bg: "g (begin_tx v) = g v" for v
    by (simp add: begin_tx_def u)
  have "frame g ?b"
    using body t u by (intro frame_intros)
  then have b: "g (snd (?b v)) = g v" for v
    by (simp add: frame_def)
  obtain x w1 where xw: "?b (begin_tx (tick w)) = (x, w1)"
    by (cases "?b (begin_tx (tick w))")
  then have w1: "g w1 = g w"
    using b [of "begin_tx (tick w)"] by (simp add: bg t)
  have c: "g (snd (commit env w y w1)) = g w" for y :: 'a
    using frame_commit [OF t u r, of w w1 env y] w1 by simp
  have rs: "g (restore_db w w1) = g w"
    using r w1 by auto
  show "g (snd (transaction env body w)) = g w"
    using xw c rs
    by (simp add: transaction_def ext_def modify_def bg t u split: outcome.split sum.split)
qed

lemma transaction_calm [calm_simps]: "calm env \<Longrightarrow>
    transaction env body w =
      (case bindE (afterTransactionStart env) (\<lambda>_. body) (begin_tx (tick w)) of
         (Inl e, w1) \<Rightarrow> (Inl e, restore_db w w1)
       | (Inr x, w1) \<Rightarrow> (Inr x, (tick w1)\<lparr>guc := None\<rparr>))"
  by (simp add: transaction_def modify_def commit_def calm_def ext_def split: prod.split sum.split)

text \<open>
  A read inside a transaction, for a fixed request user: the row visible to that user.
\<close>

definition request_guc :: "env \<Rightarrow> uuid option" where
  "request_guc env = (if truthy (als_user env) then als_user env else None)"

lemma wp_afterTransactionStart:
  "wp (afterTransactionStart env) Q R (begin_tx w) \<longleftrightarrow>
     (if truthy (als_user env) then
        (case outcome_at env (ticks w) of
           Done \<Rightarrow> Q () ((tick (begin_tx w))\<lparr>guc := request_guc env\<rparr>)
         | Rejected msg \<Rightarrow> R (IoError msg) (tick (begin_tx w))
         | Lost msg \<Rightarrow> R (IoError msg) ((tick (begin_tx w))\<lparr>guc := request_guc env\<rparr>))
      else Q () (begin_tx w))"
  by (simp add: afterTransactionStart_def wp_simps request_guc_def split: outcome.split)

section \<open>Rules for transactions\<close>

text \<open>The request is bound to the user \<open>u\<close>.\<close>

definition acts_as :: "env \<Rightarrow> uuid \<Rightarrow> bool" where
  "acts_as env u \<longleftrightarrow> als_user env = Some u \<and> u \<noteq> []"

lemma acts_as_guc [simp]: "acts_as env u \<Longrightarrow> request_guc env = Some u"
  by (simp add: acts_as_def request_guc_def truthy_def)

text \<open>
  A condition that depends neither on the number of calls made nor on the transaction's
  user, and two worlds that differ only in those.
\<close>

definition tick_free :: "(world \<Rightarrow> bool) \<Rightarrow> bool" where
  "tick_free P \<longleftrightarrow> (\<forall>w n g. P (w\<lparr>ticks := n, guc := g\<rparr>) = P w)"

definition same_db :: "world \<Rightarrow> world \<Rightarrow> bool" where
  "same_db w w1 \<longleftrightarrow> media_tbl w1 = media_tbl w \<and> quota_tbl w1 = quota_tbl w \<and> log_tbl w1 = log_tbl w
     \<and> outside_db w1 = outside_db w \<and> uuids_used w1 = uuids_used w"

lemma same_db_upds [simp]:
  "same_db w (tick w1) = same_db w w1" "same_db w (w1\<lparr>guc := g\<rparr>) = same_db w w1"
  "same_db w (begin_tx w1) = same_db w w1" "same_db w w"
  by (simp_all add: same_db_def)

lemma same_dbD:
  assumes "same_db w w1"
  shows "media_tbl w1 = media_tbl w" and "quota_tbl w1 = quota_tbl w" and "log_tbl w1 = log_tbl w"
    and "cache w1 = cache w" and "redis w1 = redis w" and "s3 w1 = s3 w" and "published w1 = published w"
    and "outside_db w1 = outside_db w" and "uuids_used w1 = uuids_used w"
  using assms by (auto simp: same_db_def dest: outside_db_eqD)

lemma same_db_update: "same_db w w1 \<Longrightarrow> w1 = w\<lparr>ticks := ticks w1, guc := guc w1\<rparr>"
  by (cases w, cases w1) (simp add: same_db_def outside_db_def)

lemma tick_free_same:
  assumes "tick_free P" and "same_db w w1"
  shows "P w1 = P w"
  using assms(1) by (subst same_db_update [OF assms(2)]) (simp add: tick_free_def)

lemma tick_freeI:
  assumes "\<And>w n g. P (w\<lparr>ticks := n, guc := g\<rparr>) = P w"
  shows "tick_free P"
  using assms by (simp add: tick_free_def)

lemma restore_db_same:
  assumes "same_db w w1"
  shows "same_db w (restore_db w w1)"
  using assms by (simp add: same_db_def)

lemma same_db_restore_tick: "same_db (restore_db w0 w1) (restore_db w0 (tick w1))"
  by (simp add: same_db_def)

lemma wp_transactionI:
  fixes Q :: "'a \<Rightarrow> world \<Rightarrow> bool"
  assumes q: "\<And>x. tick_free (Q x)" and r: "\<And>e. tick_free (R e)" and w: "\<And>e. R e w"
    and body: "\<And>w1. same_db w w1 \<Longrightarrow> guc w1 = request_guc env \<Longrightarrow>
      wp body (\<lambda>x w2. Q x w2 \<and> (\<forall>e. R e w2 \<and> R e (restore_db w w2))) (\<lambda>e w2. R e (restore_db w w2)) w1"
  shows "wp (transaction env body) Q R w"
proof -
  have R: "R e w1" if "same_db w w1" for e w1
    using w tick_free_same [OF r that] by simp
  have c: "wp (commit env w x) Q R w2"
    if "Q x w2" "\<And>e. R e w2" "\<And>e. R e (restore_db w w2)" for x w2
    using that tick_free_same [OF q [of x], of w2 "(tick w2)\<lparr>guc := None\<rparr>"]
      tick_free_same [OF r, of w2 "(tick w2)\<lparr>guc := None\<rparr>"]
      tick_free_same [OF r same_db_restore_tick, of _ w w2]
    by (simp add: wp_commit split: outcome.split)
  have body': "wp body (\<lambda>x. wp (commit env w x) Q R) (\<lambda>e w1. R e (restore_db w w1)) w1"
    if "same_db w w1" "guc w1 = request_guc env" for w1
    using body [OF that] by (rule wp_mono) (simp_all add: c)
  have s: "same_db w (tick (begin_tx (tick w)))" "same_db w (begin_tx (tick w))"
    by simp_all
  show ?thesis
    using R body' restore_db_same
    by (auto simp: wp_transaction wp_afterTransactionStart request_guc_def split: outcome.split)
qed

lemma keeps_transaction:
  assumes "keeps I body" and f: "tick_free I"
    and "\<And>w0 w1. I w0 \<Longrightarrow> I w1 \<Longrightarrow> I (restore_db w0 w1)"
  shows "keeps I (transaction env body)"
proof -
  have "wp (transaction env body) (\<lambda>_. I) (\<lambda>_. I) w" if i: "I w" for w
  proof (rule wp_transactionI [OF f f i])
    fix w1
    assume "same_db w w1"
    then have "I w1"
      using i tick_free_same [OF f] by blast
    then have "I (snd (body w1))"
      using assms(1) by (simp add: keeps_def)
    then show "wp body (\<lambda>x w2. I w2 \<and> (\<forall>e. I w2 \<and> I (restore_db w w2))) (\<lambda>e w2. I (restore_db w w2)) w1"
      using assms(3) [OF i] by (cases "body w1"; cases "fst (body w1)") (auto simp: wp_def)
  qed
  then show ?thesis by (simp add: keeps_wp)
qed

text \<open>
  A condition that the body preserves when it runs as the request's user is preserved by the
  transaction, committed or not.
\<close>

lemma keeps_transaction_as:
  assumes "acts_as env u" and f: "tick_free P" and body: "keeps (\<lambda>w. P w \<and> guc w = Some u) body"
    and r: "\<And>w0 w1. P w0 \<Longrightarrow> P w1 \<Longrightarrow> P (restore_db w0 w1)"
  shows "keeps P (transaction env body)"
proof -
  have "wp (transaction env body) (\<lambda>_. P) (\<lambda>_. P) w" if p: "P w" for w
  proof (rule wp_transactionI [OF f f p])
    fix w1
    assume w1: "same_db w w1" "guc w1 = request_guc env"
    have "P w1 \<and> guc w1 = Some u"
      using w1 p assms(1) tick_free_same [OF f] by auto
    then have "wp body (\<lambda>_ w2. P w2 \<and> guc w2 = Some u) (\<lambda>_ w2. P w2 \<and> guc w2 = Some u) w1"
      using body by (simp add: keeps_wp)
    then show "wp body (\<lambda>x w2. P w2 \<and> (\<forall>e. P w2 \<and> P (restore_db w w2))) (\<lambda>e w2. P (restore_db w w2)) w1"
      by (rule wp_mono) (use r [OF p] in auto)
  qed
  then show ?thesis by (simp add: keeps_wp)
qed

text \<open>A read-only transaction returns what its query sees and changes no table.\<close>

definition visible_rows :: "env \<Rightarrow> world \<Rightarrow> uuid \<Rightarrow> media \<Rightarrow> bool" where
  "visible_rows env w mid r \<longleftrightarrow> r \<in> set (media_tbl w) \<and> m_id r = mid \<and> m_isActive r
     \<and> (rls_enforced env \<longrightarrow> media_select_allowed (request_guc env) r)"

lemma wp_findById_general:
  assumes "guc w = request_guc env"
    and "\<And>e. R e (tick w)"
    and "\<And>found. (\<forall>r. found = Some r \<longrightarrow> visible_rows env w mid r) \<Longrightarrow> Q found (tick w)"
  shows "wp (findById env mid) Q R w"
  unfolding findById_def wp_ext wp_gets
  by (auto simp: assms(1,2) visible_rows_def media_visible_def dest: find_Some_in intro!: assms(3) split: outcome.split)

lemma wp_find_media:
  assumes q: "\<And>x. tick_free (Q x)" and r: "\<And>e. tick_free (R e)" and "\<And>e. R e w"
    and "\<And>found. (\<forall>r. found = Some r \<longrightarrow> visible_rows env w mid r) \<Longrightarrow> Q found w"
  shows "wp (transaction env (findById env mid)) Q R w"
proof (rule wp_transactionI [OF q r assms(3)])
  fix w1
  assume w1: "same_db w w1" "guc w1 = request_guc env"
  then have t: "same_db w (tick w1)"
    by simp
  have v: "visible_rows env w1 mid = visible_rows env w mid"
    by (simp add: visible_rows_def same_dbD [OF w1(1)] fun_eq_iff)
  show "wp (findById env mid) (\<lambda>x w2. Q x w2 \<and> (\<forall>e. R e w2 \<and> R e (restore_db w w2)))
      (\<lambda>e w2. R e (restore_db w w2)) w1"
    by (rule wp_findById_general [OF w1(2)])
      (use assms(3,4) tick_free_same [OF q t] tick_free_same [OF r t]
        tick_free_same [OF r restore_db_same [OF t]] v in auto)
qed

text \<open>Without failures a transaction runs its body as the request's user.\<close>

definition enter_tx :: "env \<Rightarrow> world \<Rightarrow> world" where
  "enter_tx env w =
     (if truthy (als_user env) then (tick (begin_tx (tick w)))\<lparr>guc := request_guc env\<rparr> else begin_tx (tick w))"

lemma enter_tx_simps [simp]:
  "media_tbl (enter_tx env w) = media_tbl w" "quota_tbl (enter_tx env w) = quota_tbl w"
  "log_tbl (enter_tx env w) = log_tbl w" "cache (enter_tx env w) = cache w"
  "redis (enter_tx env w) = redis w" "s3 (enter_tx env w) = s3 w"
  "published (enter_tx env w) = published w" "guc (enter_tx env w) = request_guc env"
  "outside_db (enter_tx env w) = outside_db w" "uuids_used (enter_tx env w) = uuids_used w"
  by (simp_all add: enter_tx_def request_guc_def)

lemma wp_transaction_calm [wp_calm]:
  "calm env \<Longrightarrow> wp (transaction env body) Q R w =
     wp body (\<lambda>x w2. Q x ((tick w2)\<lparr>guc := None\<rparr>)) (\<lambda>e w2. R e (restore_db w w2)) (enter_tx env w)"
  by (simp add: wp_transaction wp_afterTransactionStart calm_def enter_tx_def)
    (simp add: wp_def commit_def split: prod.split sum.split)

end
