(* ===== verification/Schema_Migrations.thy ===== *)
theory Schema_Migrations
  imports Database
begin

text \<open>
  The migrations as statements on the catalogue of the database: tables with their columns,
  triggers and policies, indexes, functions.  \<open>exec\<close> is what Postgres documents of each statement
  the migrations use, its error when an object is missing, exists already or is still depended on.
  A policy's condition is an expression that is evaluated on a row.
\<close>

section \<open>The catalogue\<close>

record column =
  c_name :: string
  c_type :: string
  c_nullable :: bool
  c_default :: "string option"

text \<open>The conditions the policies use; the last is \<open>c IS NOT NULL AND current user = ANY(c)\<close>.\<close>

datatype pexpr = ColumnIsUser string | ColumnIn string "string list" | UserInColumn string | POr pexpr pexpr

datatype policy_command = ForAll | ForSelect

record policy =
  p_for :: policy_command
  p_using :: pexpr
  p_check :: "pexpr option"

record pg_table =
  t_columns :: "column list"
  t_key :: "string list"
  t_owner :: string
  t_rls :: bool
  t_triggers :: "(string \<times> string) list"
  t_policies :: "(string \<times> policy) list"
  t_parent :: "string option"
  t_bounds :: "(string \<times> string) option"

record pg_index =
  i_table :: string
  i_unique :: bool
  i_columns :: "string list"
  i_where :: "string option"

record pg_function =
  fn_owner :: string
  fn_definer :: bool
  fn_public :: bool
  fn_execute :: "string list"

record catalogue =
  extensions :: "string list"
  namespaces :: "string list"
  tables :: "(string \<times> pg_table) list"
  indexes :: "(string \<times> pg_index) list"
  routines :: "(string \<times> pg_function) list"

record pg_role =
  r_name :: string
  r_superuser :: bool
  r_bypassrls :: bool

section \<open>Statements\<close>

datatype statement =
    CreateExtension string
  | CreateNamespace string
  | CreateTable string "column list" "string list"
  | CreatePartition string string "(string \<times> string) option"
  | DropTable string bool
  | AddColumn string column bool
  | DropColumn string string bool
  | CreateIndex string pg_index bool
  | DropIndex string
  | CreateOrReplaceFunction string bool
  | DropFunction string
  | RevokeExecutePublic string
  | GrantExecute string string
  | GrantExecuteIfRole string string
  | CreateTrigger string string string
  | DropTrigger string string
  | EnableRls string
  | DisableRls string
  | CreatePolicy string string policy
  | DropPolicy string string

definition without_key :: "string \<Rightarrow> (string \<times> 'a) list \<Rightarrow> (string \<times> 'a) list" where
  "without_key k xs = filter (\<lambda>(n, x). n \<noteq> k) xs"

definition replace_key :: "string \<Rightarrow> 'a \<Rightarrow> (string \<times> 'a) list \<Rightarrow> (string \<times> 'a) list" where
  "replace_key k v xs = map (\<lambda>(n, x). (n, if n = k then v else x)) xs"

definition known :: "string \<Rightarrow> (string \<times> 'a) list \<Rightarrow> bool" where
  "known k xs \<longleftrightarrow> map_of xs k \<noteq> None"

definition pg_error :: "string \<Rightarrow> string \<Rightarrow> exn" where
  "pg_error what name = IoError (what @ '': '' @ name)"

fun pexpr_columns :: "pexpr \<Rightarrow> string list" where
  "pexpr_columns (ColumnIsUser c) = [c]"
| "pexpr_columns (ColumnIn c vs) = [c]"
| "pexpr_columns (UserInColumn c) = [c]"
| "pexpr_columns (POr a b) = pexpr_columns a @ pexpr_columns b"

definition policy_columns :: "policy \<Rightarrow> string list" where
  "policy_columns p = pexpr_columns (p_using p) @ (case p_check p of None \<Rightarrow> [] | Some e \<Rightarrow> pexpr_columns e)"

definition on_table :: "string \<Rightarrow> (pg_table \<Rightarrow> exn + pg_table) \<Rightarrow> catalogue \<Rightarrow> exn + catalogue" where
  "on_table t f c =
     (case map_of (tables c) t of
        None \<Rightarrow> Inl (pg_error ''relation does not exist'' t)
      | Some tb \<Rightarrow> (case f tb of Inl e \<Rightarrow> Inl e | Inr tb' \<Rightarrow> Inr (c\<lparr>tables := replace_key t tb' (tables c)\<rparr>)))"

definition on_function :: "string \<Rightarrow> (pg_function \<Rightarrow> pg_function) \<Rightarrow> catalogue \<Rightarrow> exn + catalogue" where
  "on_function f g c =
     (case map_of (routines c) f of
        None \<Rightarrow> Inl (pg_error ''function does not exist'' f)
      | Some fn \<Rightarrow> Inr (c\<lparr>routines := replace_key f (g fn) (routines c)\<rparr>))"

fun exec :: "pg_role \<Rightarrow> string list \<Rightarrow> statement \<Rightarrow> catalogue \<Rightarrow> exn + catalogue" where
  "exec role roles (CreateExtension x) c =
     Inr (if x \<in> set (extensions c) then c else c\<lparr>extensions := extensions c @ [x]\<rparr>)"
| "exec role roles (CreateNamespace x) c =
     Inr (if x \<in> set (namespaces c) then c else c\<lparr>namespaces := namespaces c @ [x]\<rparr>)"
| "exec role roles (CreateTable t cols key) c =
     (if known t (tables c) then Inl (pg_error ''relation already exists'' t)
      else Inr (c\<lparr>tables := tables c @ [(t, \<lparr>t_columns = cols, t_key = key, t_owner = r_name role, t_rls = False,
             t_triggers = [], t_policies = [], t_parent = None, t_bounds = None\<rparr>)]\<rparr>))"
| "exec role roles (CreatePartition t parent bounds) c =
     (case map_of (tables c) parent of
        None \<Rightarrow> Inl (pg_error ''relation does not exist'' parent)
      | Some p \<Rightarrow>
          if known t (tables c) then Inl (pg_error ''relation already exists'' t)
          else Inr (c\<lparr>tables := tables c @ [(t, \<lparr>t_columns = t_columns p, t_key = t_key p, t_owner = r_name role, t_rls = False,
             t_triggers = [], t_policies = [], t_parent = Some parent, t_bounds = bounds\<rparr>)]\<rparr>))"
| "exec role roles (DropTable t ifExists) c =
     (if \<not> known t (tables c) then (if ifExists then Inr c else Inl (pg_error ''table does not exist'' t))
      else Inr (c\<lparr>tables := filter (\<lambda>(n, tb). n \<noteq> t \<and> t_parent tb \<noteq> Some t) (tables c),
                  indexes := filter (\<lambda>(n, i). i_table i \<noteq> t) (indexes c)\<rparr>))"
| "exec role roles (AddColumn t col ifNotExists) c =
     on_table t (\<lambda>tb.
       if c_name col \<in> c_name ` set (t_columns tb)
       then (if ifNotExists then Inr tb else Inl (pg_error ''column already exists'' (c_name col)))
       else Inr (tb\<lparr>t_columns := t_columns tb @ [col]\<rparr>)) c"
| "exec role roles (DropColumn t col ifExists) c =
     (case on_table t (\<lambda>tb.
         if col \<notin> c_name ` set (t_columns tb)
         then (if ifExists then Inr tb else Inl (pg_error ''column does not exist'' col))
         else if \<exists>(n, p) \<in> set (t_policies tb). col \<in> set (policy_columns p)
         then Inl (pg_error ''cannot drop column because other objects depend on it'' col)
         else Inr (tb\<lparr>t_columns := filter (\<lambda>cl. c_name cl \<noteq> col) (t_columns tb)\<rparr>)) c of
        Inl e \<Rightarrow> Inl e
      | Inr c' \<Rightarrow> Inr (c'\<lparr>indexes := filter (\<lambda>(n, i). \<not> (i_table i = t \<and> col \<in> set (i_columns i))) (indexes c')\<rparr>))"
| "exec role roles (CreateIndex n idx ifNotExists) c =
     (if \<not> known (i_table idx) (tables c) then Inl (pg_error ''relation does not exist'' (i_table idx))
      else if known n (indexes c) then (if ifNotExists then Inr c else Inl (pg_error ''relation already exists'' n))
      else Inr (c\<lparr>indexes := indexes c @ [(n, idx)]\<rparr>))"
| "exec role roles (DropIndex n) c = Inr (c\<lparr>indexes := without_key n (indexes c)\<rparr>)"
| "exec role roles (CreateOrReplaceFunction f definer) c =
     (case map_of (routines c) f of
        None \<Rightarrow> Inr (c\<lparr>routines := routines c @ [(f, \<lparr>fn_owner = r_name role, fn_definer = definer,
            fn_public = True, fn_execute = [r_name role]\<rparr>)]\<rparr>)
      | Some fn \<Rightarrow>
          if fn_owner fn \<noteq> r_name role then Inl (pg_error ''must be owner of function'' f)
          else Inr (c\<lparr>routines := replace_key f (fn\<lparr>fn_definer := definer\<rparr>) (routines c)\<rparr>))"
| "exec role roles (DropFunction f) c =
     (if \<exists>(n, tb) \<in> set (tables c). f \<in> snd ` set (t_triggers tb)
      then Inl (pg_error ''cannot drop function because other objects depend on it'' f)
      else Inr (c\<lparr>routines := without_key f (routines c)\<rparr>))"
| "exec role roles (RevokeExecutePublic f) c = on_function f (\<lambda>fn. fn\<lparr>fn_public := False\<rparr>) c"
| "exec role roles (GrantExecute f r) c = on_function f (\<lambda>fn. fn\<lparr>fn_execute := fn_execute fn @ [r]\<rparr>) c"
| "exec role roles (GrantExecuteIfRole f r) c =
     (if r \<in> set roles then on_function f (\<lambda>fn. fn\<lparr>fn_execute := fn_execute fn @ [r]\<rparr>) c else Inr c)"
| "exec role roles (CreateTrigger n t f) c =
     (if \<not> known f (routines c) then Inl (pg_error ''function does not exist'' f)
      else on_table t (\<lambda>tb.
        if known n (t_triggers tb) then Inl (pg_error ''trigger already exists'' n)
        else Inr (tb\<lparr>t_triggers := t_triggers tb @ [(n, f)]\<rparr>)) c)"
| "exec role roles (DropTrigger n t) c =
     (if \<not> known t (tables c) then Inr c
      else on_table t (\<lambda>tb. Inr (tb\<lparr>t_triggers := without_key n (t_triggers tb)\<rparr>)) c)"
| "exec role roles (EnableRls t) c = on_table t (\<lambda>tb. Inr (tb\<lparr>t_rls := True\<rparr>)) c"
| "exec role roles (DisableRls t) c = on_table t (\<lambda>tb. Inr (tb\<lparr>t_rls := False\<rparr>)) c"
| "exec role roles (CreatePolicy n t p) c =
     on_table t (\<lambda>tb.
       if known n (t_policies tb) then Inl (pg_error ''policy already exists'' n)
       else if \<not> set (policy_columns p) \<subseteq> c_name ` set (t_columns tb) then Inl (pg_error ''column does not exist'' n)
       else Inr (tb\<lparr>t_policies := t_policies tb @ [(n, p)]\<rparr>)) c"
| "exec role roles (DropPolicy n t) c =
     (if \<not> known t (tables c) then Inr c
      else on_table t (\<lambda>tb. Inr (tb\<lparr>t_policies := without_key n (t_policies tb)\<rparr>)) c)"

fun exec_all :: "pg_role \<Rightarrow> string list \<Rightarrow> statement list \<Rightarrow> catalogue \<Rightarrow> exn + catalogue" where
  "exec_all role roles [] c = Inr c"
| "exec_all role roles (s # ss) c =
     (case exec role roles s c of Inl e \<Rightarrow> Inl e | Inr c' \<Rightarrow> exec_all role roles ss c')"

lemma exec_all_append:
  "exec_all role roles (xs @ ys) c =
     (case exec_all role roles xs c of Inl e \<Rightarrow> Inl e | Inr c' \<Rightarrow> exec_all role roles ys c')"
  by (induction xs arbitrary: c) (simp_all split: sum.split)


section \<open>The migrations\<close>

definition col :: "string \<Rightarrow> string \<Rightarrow> string option \<Rightarrow> column" where
  "col n ty d = \<lparr>c_name = n, c_type = ty, c_nullable = False, c_default = d\<rparr>"

definition col_null :: "string \<Rightarrow> string \<Rightarrow> column" where
  "col_null n ty = \<lparr>c_name = n, c_type = ty, c_nullable = True, c_default = None\<rparr>"

definition idx :: "string \<Rightarrow> string list \<Rightarrow> string option \<Rightarrow> pg_index" where
  "idx t cols w = \<lparr>i_table = t, i_unique = False, i_columns = cols, i_where = w\<rparr>"

definition CreateMediaTable_up :: "statement list" where
  "CreateMediaTable_up =
    [CreateExtension ''pgcrypto'', CreateNamespace ''media'',
     CreateTable ''media''
       [col ''id'' ''UUID'' (Some ''gen_random_uuid()''), col ''owner_id'' ''UUID'' None, col ''context'' ''VARCHAR(64)'' None,
        col ''storage_path'' ''VARCHAR(1024)'' None, col_null ''thumbnail_path'' ''VARCHAR(1024)'',
        col ''content_type'' ''VARCHAR(128)'' None, col ''blob_size'' ''BIGINT'' None, col_null ''expires_at'' ''TIMESTAMPTZ'',
        col ''is_active'' ''BOOLEAN'' (Some ''TRUE''), col ''created_at'' ''TIMESTAMPTZ'' (Some ''now()''),
        col ''updated_at'' ''TIMESTAMPTZ'' (Some ''now()'')] [''id''],
     CreateIndex ''IDX_media_owner_id'' (idx ''media'' [''owner_id''] None) False,
     CreateIndex ''IDX_media_context'' (idx ''media'' [''context''] None) False,
     CreateIndex ''IDX_media_expires_at'' (idx ''media'' [''expires_at''] (Some ''expires_at IS NOT NULL'')) False,
     CreateIndex ''IDX_media_is_active'' (idx ''media'' [''is_active''] (Some ''is_active = TRUE'')) False,
     CreateIndex ''IDX_media_owner_id_created_at'' (idx ''media'' [''owner_id'', ''created_at''] None) False,
     CreateOrReplaceFunction ''set_updated_at'' False,
     CreateTrigger ''trg_media_updated_at'' ''media'' ''set_updated_at'',
     EnableRls ''media'',
     CreatePolicy ''media_owner_policy'' ''media'' \<lparr>p_for = ForAll, p_using = ColumnIsUser ''owner_id'', p_check = None\<rparr>]"

definition CreateMediaTable_down :: "statement list" where
  "CreateMediaTable_down =
    [DropPolicy ''media_owner_policy'' ''media'', DisableRls ''media'', DropTrigger ''trg_media_updated_at'' ''media'',
     DropFunction ''set_updated_at'', DropIndex ''IDX_media_owner_id_created_at'', DropIndex ''IDX_media_is_active'',
     DropIndex ''IDX_media_expires_at'', DropIndex ''IDX_media_context'', DropIndex ''IDX_media_owner_id'',
     DropTable ''media'' False]"

definition CreateUserQuotasTable_up :: "statement list" where
  "CreateUserQuotasTable_up =
    [CreateTable ''user_quotas''
       [col ''id'' ''UUID'' (Some ''gen_random_uuid()''), col ''user_id'' ''UUID'' None,
        col ''storage_used'' ''BIGINT'' (Some ''0''), col ''storage_limit'' ''BIGINT'' (Some ''1073741824''),
        col ''files_count'' ''INTEGER'' (Some ''0''), col ''files_limit'' ''INTEGER'' (Some ''1000''),
        col ''daily_uploads'' ''INTEGER'' (Some ''0''), col ''daily_upload_limit'' ''INTEGER'' (Some ''100''),
        col ''quota_date'' ''DATE'' None, col ''updated_at'' ''TIMESTAMPTZ'' (Some ''now()'')] [''id''],
     CreateIndex ''IDX_user_quotas_user_id'' ((idx ''user_quotas'' [''user_id''] None)\<lparr>i_unique := True\<rparr>) False,
     CreateIndex ''IDX_user_quotas_quota_date'' (idx ''user_quotas'' [''quota_date''] None) False,
     CreateTrigger ''trg_user_quotas_updated_at'' ''user_quotas'' ''set_updated_at'',
     EnableRls ''user_quotas'',
     CreatePolicy ''user_quotas_owner_policy'' ''user_quotas''
       \<lparr>p_for = ForAll, p_using = ColumnIsUser ''user_id'', p_check = None\<rparr>]"

definition CreateUserQuotasTable_down :: "statement list" where
  "CreateUserQuotasTable_down =
    [DropPolicy ''user_quotas_owner_policy'' ''user_quotas'', DisableRls ''user_quotas'',
     DropTrigger ''trg_user_quotas_updated_at'' ''user_quotas'', DropIndex ''IDX_user_quotas_quota_date'',
     DropIndex ''IDX_user_quotas_user_id'', DropTable ''user_quotas'' False]"

definition CreateMediaAccessLogsTable_up :: "statement list" where
  "CreateMediaAccessLogsTable_up =
    [CreateTable ''media_access_logs''
       [col ''accessed_at'' ''TIMESTAMPTZ'' None, col ''id'' ''UUID'' (Some ''gen_random_uuid()''), col ''media_id'' ''UUID'' None,
        col_null ''accessor_id'' ''UUID'', col ''access_type'' ''VARCHAR(64)'' None, col_null ''ip_address'' ''VARCHAR(45)'',
        col_null ''user_agent'' ''VARCHAR(512)''] [''accessed_at'', ''id''],
     CreateIndex ''IDX_media_access_logs_media_id'' (idx ''media_access_logs'' [''media_id''] None) False,
     CreateIndex ''IDX_media_access_logs_accessor_id''
       (idx ''media_access_logs'' [''accessor_id''] (Some ''accessor_id IS NOT NULL'')) False,
     CreatePartition ''media_access_logs_2026_03'' ''media_access_logs''
       (Some (''2026-03-01 00:00:00+00'', ''2026-04-01 00:00:00+00'')),
     CreatePartition ''media_access_logs_2026_04'' ''media_access_logs''
       (Some (''2026-04-01 00:00:00+00'', ''2026-05-01 00:00:00+00'')),
     CreatePartition ''media_access_logs_default'' ''media_access_logs'' None]"

definition CreateMediaAccessLogsTable_down :: "statement list" where
  "CreateMediaAccessLogsTable_down =
    [DropTable ''media_access_logs_default'' True, DropTable ''media_access_logs_2026_04'' True,
     DropTable ''media_access_logs_2026_03'' True, DropIndex ''IDX_media_access_logs_accessor_id'',
     DropIndex ''IDX_media_access_logs_media_id'', DropTable ''media_access_logs'' True]"

definition AddSignedUrlExpiresAtToMedia_up :: "statement list" where
  "AddSignedUrlExpiresAtToMedia_up = [AddColumn ''media'' (col_null ''signed_url_expires_at'' ''TIMESTAMPTZ'') False]"

definition AddSignedUrlExpiresAtToMedia_down :: "statement list" where
  "AddSignedUrlExpiresAtToMedia_down = [DropColumn ''media'' ''signed_url_expires_at'' False]"

definition AddResetDailyUploadsFunction_up :: "string \<Rightarrow> statement list" where
  "AddResetDailyUploadsFunction_up current_user =
    [CreateOrReplaceFunction ''reset_daily_uploads'' True, RevokeExecutePublic ''reset_daily_uploads'',
     GrantExecute ''reset_daily_uploads'' current_user, GrantExecuteIfRole ''reset_daily_uploads'' ''media_user'']"

definition AddResetDailyUploadsFunction_down :: "statement list" where
  "AddResetDailyUploadsFunction_down = [DropFunction ''reset_daily_uploads'']"

definition public_context_policy :: policy where
  "public_context_policy = \<lparr>p_for = ForSelect,
     p_using = POr (ColumnIn ''context'' [''avatar'', ''group_icon'']) (ColumnIsUser ''owner_id''), p_check = None\<rparr>"

definition AddPublicContextRlsSelectPolicy_up :: "statement list" where
  "AddPublicContextRlsSelectPolicy_up =
    [DropPolicy ''media_owner_policy'' ''media'',
     CreatePolicy ''media_owner_write_policy'' ''media''
       \<lparr>p_for = ForAll, p_using = ColumnIsUser ''owner_id'', p_check = Some (ColumnIsUser ''owner_id'')\<rparr>,
     CreatePolicy ''media_public_context_select_policy'' ''media'' public_context_policy]"

definition AddPublicContextRlsSelectPolicy_down :: "statement list" where
  "AddPublicContextRlsSelectPolicy_down =
    [DropPolicy ''media_public_context_select_policy'' ''media'', DropPolicy ''media_owner_write_policy'' ''media'',
     CreatePolicy ''media_owner_policy'' ''media'' \<lparr>p_for = ForAll, p_using = ColumnIsUser ''owner_id'', p_check = None\<rparr>]"

definition AddSharedWithToMedia_up :: "statement list" where
  "AddSharedWithToMedia_up =
    [AddColumn ''media'' (col_null ''shared_with'' ''UUID[]'') True,
     CreateIndex ''IDX_media_shared_with'' (idx ''media'' [''shared_with''] None) True,
     DropPolicy ''media_public_context_select_policy'' ''media'',
     CreatePolicy ''media_public_context_select_policy'' ''media'' \<lparr>p_for = ForSelect,
       p_using = POr (ColumnIn ''context'' [''avatar'', ''group_icon'']) (POr (ColumnIsUser ''owner_id'') (UserInColumn ''shared_with'')),
       p_check = None\<rparr>]"

definition AddSharedWithToMedia_down :: "statement list" where
  "AddSharedWithToMedia_down =
    [DropPolicy ''media_public_context_select_policy'' ''media'',
     CreatePolicy ''media_public_context_select_policy'' ''media'' public_context_policy,
     DropIndex ''IDX_media_shared_with'', DropColumn ''media'' ''shared_with'' True]"

text \<open>In the order of their timestamps, each with its rollback.\<close>

definition migrations :: "string \<Rightarrow> (statement list \<times> statement list) list" where
  "migrations current_user =
    [(CreateMediaTable_up, CreateMediaTable_down), (CreateUserQuotasTable_up, CreateUserQuotasTable_down),
     (CreateMediaAccessLogsTable_up, CreateMediaAccessLogsTable_down),
     (AddSignedUrlExpiresAtToMedia_up, AddSignedUrlExpiresAtToMedia_down),
     (AddResetDailyUploadsFunction_up current_user, AddResetDailyUploadsFunction_down),
     (AddPublicContextRlsSelectPolicy_up, AddPublicContextRlsSelectPolicy_down),
     (AddSharedWithToMedia_up, AddSharedWithToMedia_down)]"

definition migrate :: "pg_role \<Rightarrow> string list \<Rightarrow> nat \<Rightarrow> catalogue \<Rightarrow> exn + catalogue" where
  "migrate role roles n c = exec_all role roles (concat (map fst (take n (migrations (r_name role))))) c"

definition fresh_database :: catalogue where
  "fresh_database = \<lparr>extensions = [], namespaces = [], tables = [], indexes = [], routines = []\<rparr>"

text \<open>The only role whose existence a statement asks for.\<close>

fun asks_only_media_user :: "statement \<Rightarrow> bool" where
  "asks_only_media_user (GrantExecuteIfRole f r) \<longleftrightarrow> r = ''media_user''"
| "asks_only_media_user _ \<longleftrightarrow> True"

definition relevant_roles :: "string list \<Rightarrow> string list" where
  "relevant_roles roles = (if ''media_user'' \<in> set roles then [''media_user''] else [])"

lemma exec_relevant: "asks_only_media_user s \<Longrightarrow> exec role (relevant_roles roles) s c = exec role roles s c"
  by (cases s) (auto simp: relevant_roles_def)

lemma exec_all_relevant:
  "list_all asks_only_media_user ss \<Longrightarrow> exec_all role (relevant_roles roles) ss c = exec_all role roles ss c"
  by (induction ss arbitrary: c) (simp_all add: exec_relevant split: sum.split)

lemma migrations_ask: "list_all (\<lambda>(up, down). list_all asks_only_media_user up \<and> list_all asks_only_media_user down) (migrations u)"
  by code_simp

lemma migrate_relevant: "migrate role (relevant_roles roles) n c = migrate role roles n c"
proof -
  have "list_all asks_only_media_user (concat (map fst (take n (migrations u))))" for u
    using migrations_ask [of u] by (auto simp: list_all_iff dest!: in_set_takeD)
  then show ?thesis
    by (simp add: migrate_def exec_all_relevant)
qed

lemma relevant_roles_cases: "relevant_roles roles = [''media_user''] \<or> relevant_roles roles = []"
  by (simp add: relevant_roles_def)

text \<open>The rollback of the migration after the first \<open>n\<close>.\<close>

definition rolled_back :: "pg_role \<Rightarrow> string list \<Rightarrow> nat \<Rightarrow> catalogue \<Rightarrow> exn + catalogue" where
  "rolled_back role roles n c = exec_all role roles (snd (migrations (r_name role) ! n)) c"

lemma rolled_back_relevant:
  assumes "n < 7"
  shows "rolled_back role (relevant_roles roles) n c = rolled_back role roles n c"
proof -
  have "length (migrations u) = 7" for u
    by (simp add: migrations_def)
  with assms migrations_ask have "list_all asks_only_media_user (snd (migrations u ! n))" for u
    by (metis (no_types, lifting) case_prod_unfold list_all_length)
  then show ?thesis
    by (simp add: rolled_back_def exec_all_relevant)
qed

definition undoes :: "pg_role \<Rightarrow> string list \<Rightarrow> nat \<Rightarrow> bool" where
  "undoes role roles n \<longleftrightarrow>
     (case migrate role roles n fresh_database of Inl _ \<Rightarrow> False | Inr c \<Rightarrow>
     (case migrate role roles (Suc n) fresh_database of Inl _ \<Rightarrow> False | Inr c' \<Rightarrow>
        rolled_back role roles n c'
          = Inr (if n = 0 then fresh_database\<lparr>extensions := [''pgcrypto''], namespaces := [''media'']\<rparr> else c)))"

lemma undoes_with: "list_all (undoes \<lparr>r_name = u, r_superuser = x, r_bypassrls = y\<rparr> [''media_user'']) [0..<7]"
  by code_simp

lemma undoes_without: "list_all (undoes \<lparr>r_name = u, r_superuser = x, r_bypassrls = y\<rparr> []) [0..<7]"
  by code_simp

section \<open>Row-level security\<close>

datatype sql_value = SqlText string | SqlUuid uuid | SqlUuids "uuid list option"

fun holds :: "(string \<Rightarrow> sql_value option) \<Rightarrow> uuid option \<Rightarrow> pexpr \<Rightarrow> bool" where
  "holds row cur (ColumnIsUser c) \<longleftrightarrow> (case row c of Some (SqlUuid u) \<Rightarrow> cur = Some u | _ \<Rightarrow> False)"
| "holds row cur (ColumnIn c vs) \<longleftrightarrow> (case row c of Some (SqlText t) \<Rightarrow> t \<in> set vs | _ \<Rightarrow> False)"
| "holds row cur (UserInColumn c) \<longleftrightarrow>
     (case row c of Some (SqlUuids (Some us)) \<Rightarrow> (case cur of None \<Rightarrow> False | Some u \<Rightarrow> u \<in> set us) | _ \<Rightarrow> False)"
| "holds row cur (POr a b) \<longleftrightarrow> holds row cur a \<or> holds row cur b"

text \<open>
  Permissive policies are alternatives.  A read needs the condition of any policy, a change that of a
  policy for all commands; what a change writes is checked against \<open>WITH CHECK\<close>, or the condition.
\<close>

definition policies_of :: "catalogue \<Rightarrow> string \<Rightarrow> policy list" where
  "policies_of c t = (case map_of (tables c) t of None \<Rightarrow> [] | Some tb \<Rightarrow> map snd (t_policies tb))"

definition may_select :: "policy list \<Rightarrow> uuid option \<Rightarrow> (string \<Rightarrow> sql_value option) \<Rightarrow> bool" where
  "may_select ps cur row \<longleftrightarrow> list_ex (\<lambda>p. holds row cur (p_using p)) ps"

definition may_change :: "policy list \<Rightarrow> uuid option \<Rightarrow> (string \<Rightarrow> sql_value option) \<Rightarrow> bool" where
  "may_change ps cur row \<longleftrightarrow> list_ex (\<lambda>p. p_for p = ForAll \<and> holds row cur (p_using p)) ps"

definition may_write :: "policy list \<Rightarrow> uuid option \<Rightarrow> (string \<Rightarrow> sql_value option) \<Rightarrow> bool" where
  "may_write ps cur row \<longleftrightarrow>
     list_ex (\<lambda>p. p_for p = ForAll \<and> holds row cur (case p_check p of None \<Rightarrow> p_using p | Some e \<Rightarrow> e)) ps"

text \<open>The owner of a table bypasses its policies unless they are forced, which no migration does.\<close>

definition rls_applies :: "catalogue \<Rightarrow> string \<Rightarrow> pg_role \<Rightarrow> bool" where
  "rls_applies c t role \<longleftrightarrow>
     (case map_of (tables c) t of
        None \<Rightarrow> False
      | Some tb \<Rightarrow> t_rls tb \<and> \<not> r_superuser role \<and> \<not> r_bypassrls role \<and> t_owner tb \<noteq> r_name role)"

definition may_execute :: "catalogue \<Rightarrow> string \<Rightarrow> pg_role \<Rightarrow> bool" where
  "may_execute c f role \<longleftrightarrow>
     (case map_of (routines c) f of
        None \<Rightarrow> False
      | Some fn \<Rightarrow> r_superuser role \<or> fn_public fn \<or> fn_owner fn = r_name role \<or> r_name role \<in> set (fn_execute fn))"

text \<open>The start-up check of \<open>RlsSubscriber\<close>.\<close>

definition rls_onModuleInit :: "pg_role \<Rightarrow> exn + unit" where
  "rls_onModuleInit role =
     (if r_superuser role
      then Inl (JsError (''The database connection is using a superuser role. ''
             @ ''Superusers bypass RLS policies - use a dedicated non-superuser role (e.g. media_app).''))
      else Inr ())"

text \<open>The columns the policies read, of the rows the entities map.\<close>

definition media_columns :: "media \<Rightarrow> string \<Rightarrow> sql_value option" where
  "media_columns r = [''owner_id'' \<mapsto> SqlUuid (m_ownerId r), ''context'' \<mapsto> SqlText (m_context r),
     ''shared_with'' \<mapsto> SqlUuids (m_sharedWith r)]"

definition quota_columns :: "user_quota \<Rightarrow> string \<Rightarrow> sql_value option" where
  "quota_columns q = [''user_id'' \<mapsto> SqlUuid (q_userId q)]"

definition final_policies :: "catalogue \<Rightarrow> bool" where
  "final_policies c \<longleftrightarrow>
     policies_of c ''media'' =
       [\<lparr>p_for = ForAll, p_using = ColumnIsUser ''owner_id'', p_check = Some (ColumnIsUser ''owner_id'')\<rparr>,
        \<lparr>p_for = ForSelect, p_using = POr (ColumnIn ''context'' [''avatar'', ''group_icon''])
            (POr (ColumnIsUser ''owner_id'') (UserInColumn ''shared_with'')), p_check = None\<rparr>]
   \<and> policies_of c ''user_quotas'' = [\<lparr>p_for = ForAll, p_using = ColumnIsUser ''user_id'', p_check = None\<rparr>]"

definition final_ownership :: "string \<Rightarrow> string list \<Rightarrow> catalogue \<Rightarrow> bool" where
  "final_ownership owner granted c \<longleftrightarrow>
     map_option (\<lambda>tb. (t_owner tb, t_rls tb)) (map_of (tables c) ''media'') = Some (owner, True)
   \<and> map_option (\<lambda>tb. (t_owner tb, t_rls tb)) (map_of (tables c) ''user_quotas'') = Some (owner, True)
   \<and> map_option (\<lambda>fn. (fn_owner fn, fn_public fn, fn_execute fn)) (map_of (routines c) ''reset_daily_uploads'')
       = Some (owner, False, [owner, owner] @ granted)"

lemma final_with:
  "case migrate \<lparr>r_name = u, r_superuser = x, r_bypassrls = y\<rparr> [''media_user''] 7 fresh_database of
     Inl _ \<Rightarrow> False | Inr c \<Rightarrow> final_policies c \<and> final_ownership u [''media_user''] c"
  by code_simp

lemma final_without:
  "case migrate \<lparr>r_name = u, r_superuser = x, r_bypassrls = y\<rparr> [] 7 fresh_database of
     Inl _ \<Rightarrow> False | Inr c \<Rightarrow> final_policies c \<and> final_ownership u [] c"
  by code_simp

lemma final_either:
  assumes "rr = [''media_user''] \<or> rr = []"
  shows "case migrate owner rr 7 fresh_database of Inl _ \<Rightarrow> False
     | Inr c \<Rightarrow> final_policies c \<and> final_ownership (r_name owner) rr c"
proof (cases owner)
  case (fields u x y)
  show ?thesis
    using assms
  proof
    assume "rr = [''media_user'']"
    then show ?thesis
      using final_with [of u x y] by (simp only: fields pg_role.select_convs)
  next
    assume "rr = []"
    then show ?thesis
      using final_without [of u x y] by (simp only: fields pg_role.select_convs)
  qed
qed

lemma final_catalogue:
  obtains c where "migrate owner roles 7 fresh_database = Inr c" and "final_policies c"
    and "final_ownership (r_name owner) (relevant_roles roles) c"
proof -
  have "case migrate owner (relevant_roles roles) 7 fresh_database of Inl _ \<Rightarrow> False
     | Inr c \<Rightarrow> final_policies c \<and> final_ownership (r_name owner) (relevant_roles roles) c"
    by (rule final_either [OF relevant_roles_cases])
  then show thesis
    using that by (auto simp: migrate_relevant split: sum.splits)
qed

section \<open>Properties\<close>

text \<open>C28. Every migration runs on the catalogue its predecessors leave, and its rollback restores that
  catalogue exactly; the first one's leaves the extension and the empty schema behind.\<close>

theorem rollback_restores:
  assumes "n < 7"
  shows "\<exists>c c'. migrate role roles n fresh_database = Inr c \<and> migrate role roles (Suc n) fresh_database = Inr c'
     \<and> rolled_back role roles n c'
         = Inr (if n = 0 then fresh_database\<lparr>extensions := [''pgcrypto''], namespaces := [''media'']\<rparr> else c)"
proof -
  have "undoes role (relevant_roles roles) n"
    using assms undoes_with undoes_without relevant_roles_cases [of roles]
    by (cases role) (auto simp: list_all_iff)
  then show ?thesis
    by (auto simp: undoes_def migrate_relevant rolled_back_relevant [OF assms] split: sum.splits)
qed

theorem rollback_restores_witness:
  "\<exists>c c'. migrate \<lparr>r_name = ''prod_user'', r_superuser = False, r_bypassrls = False\<rparr> [] 6 fresh_database = Inr c
     \<and> migrate \<lparr>r_name = ''prod_user'', r_superuser = False, r_bypassrls = False\<rparr> [] 7 fresh_database = Inr c'
     \<and> rolled_back \<lparr>r_name = ''prod_user'', r_superuser = False, r_bypassrls = False\<rparr> [] 6 c' = Inr c"
  using rollback_restores [of 6 "\<lparr>r_name = ''prod_user'', r_superuser = False, r_bypassrls = False\<rparr>" "[]"]
  by (simp add: numeral_eq_Suc)

text \<open>C23. The policies that the seven migrations leave in the catalogue decide every read, change and
  insert of a media row, and every access to a quota row, as the model of the database does.\<close>

theorem migrated_policies:
  "\<exists>c. migrate owner roles 7 fresh_database = Inr c
     \<and> (\<forall>r. may_select (policies_of c ''media'') cur (media_columns r) = media_select_allowed cur r
          \<and> may_change (policies_of c ''media'') cur (media_columns r) = media_owner_write_policy cur r
          \<and> may_write (policies_of c ''media'') cur (media_columns r) = media_owner_write_policy cur r)
     \<and> (\<forall>q. may_select (policies_of c ''user_quotas'') cur (quota_columns q) = user_quotas_owner_policy cur q
          \<and> may_change (policies_of c ''user_quotas'') cur (quota_columns q) = user_quotas_owner_policy cur q
          \<and> may_write (policies_of c ''user_quotas'') cur (quota_columns q) = user_quotas_owner_policy cur q)"
proof -
  obtain c where c: "migrate owner roles 7 fresh_database = Inr c" "final_policies c"
    by (rule final_catalogue)
  then show ?thesis
    by (auto simp: final_policies_def may_select_def may_change_def may_write_def media_columns_def quota_columns_def
        media_select_allowed_def media_owner_write_policy_def media_public_context_select_policy_def
        user_quotas_owner_policy_def split: option.split)
qed

text \<open>C24. The start-up check lets the role that ran the migrations pass although the policies do not apply to
  it; and the only role to which the policies apply and which may run the midnight reset is
  \<open>media_user\<close>, where it existed and did not run the migrations itself.\<close>

theorem rls_role_dilemma:
  "\<exists>c. migrate owner roles 7 fresh_database = Inr c
     \<and> (rls_onModuleInit owner = Inr () \<longleftrightarrow> \<not> r_superuser owner) \<and> \<not> rls_applies c ''media'' owner
     \<and> (\<forall>role. rls_applies c ''media'' role \<and> may_execute c ''reset_daily_uploads'' role \<longleftrightarrow>
          \<not> r_superuser role \<and> \<not> r_bypassrls role \<and> r_name role \<noteq> r_name owner
          \<and> r_name role = ''media_user'' \<and> ''media_user'' \<in> set roles)"
proof -
  obtain c where c: "migrate owner roles 7 fresh_database = Inr c" "final_ownership (r_name owner) (relevant_roles roles) c"
    by (rule final_catalogue)
  then show ?thesis
    by (auto simp: final_ownership_def rls_onModuleInit_def rls_applies_def may_execute_def relevant_roles_def)
qed

end
