(* ===== verification/Log_Partition.thy ===== *)
theory Log_Partition
  imports Schema_Migrations
begin

text \<open>
  \<open>media-access-log-partition.service.ts\<close>: the monthly partitions of the access log, created at
  start-up and on the first of each month under an advisory lock.  A date is its UTC year and its
  month from 0; the bounds of a partition are the SQL texts the service sends, which the database
  reads as months.  The advisory lock belongs to a session, and each query runs on the connection
  the pool picks for it.
\<close>

section \<open>Months and their texts\<close>

type_synonym utc_month = "int \<times> int"

text \<open>\<open>Date.UTC(y, m, 1)\<close>: a month outside the year carries over, a year below 100 means 19xx.\<close>

definition date_UTC :: "int \<Rightarrow> int \<Rightarrow> utc_month" where
  "date_UTC y m = ((if 0 \<le> y \<and> y \<le> 99 then 1900 + y else y) + m div 12, m mod 12)"

definition padStart2 :: "string \<Rightarrow> string" where
  "padStart2 s = replicate (2 - length s) (CHR ''0'') @ s"

definition formatPartitionName :: "utc_month \<Rightarrow> string" where
  "formatPartitionName d =
     (case d of (y, m) \<Rightarrow> ''media_access_logs_'' @ show_int y @ ''_'' @ padStart2 (show_int (m + 1)))"

definition formatTimestamp :: "utc_month \<Rightarrow> string" where
  "formatTimestamp d =
     (case d of (y, m) \<Rightarrow> show_int y @ ''-'' @ padStart2 (show_int (m + 1)) @ ''-01 00:00:00+00'')"

text \<open>The month the database reads from such a text, counted from year 0.\<close>

definition bound_month :: "string \<Rightarrow> int" where
  "bound_month s =
     12 * int (read_digits (takeWhile (\<lambda>c. c \<noteq> CHR ''-'') s))
       + int (read_digits (take 2 (drop 1 (dropWhile (\<lambda>c. c \<noteq> CHR ''-'') s)))) - 1"

definition month_number :: "utc_month \<Rightarrow> int" where
  "month_number d = (case d of (y, m) \<Rightarrow> 12 * y + m)"

section \<open>The log table and the advisory lock\<close>

definition ADVISORY_LOCK_KEY :: int where
  "ADVISORY_LOCK_KEY = 350001"

record log_db =
  partitions :: "(string \<times> string \<times> string) list"
  default_months :: "int list"
  advisory :: "int \<Rightarrow> (nat \<times> nat) option"
  queries :: nat

record pool =
  connection_at :: "nat \<Rightarrow> nat"
  query_outcome :: "nat \<Rightarrow> outcome"

definition in_range :: "int \<Rightarrow> string \<times> string \<Rightarrow> bool" where
  "in_range k b \<longleftrightarrow> bound_month (fst b) \<le> k \<and> k < bound_month (snd b)"

definition overlaps :: "string \<times> string \<Rightarrow> string \<times> string \<Rightarrow> bool" where
  "overlaps a b \<longleftrightarrow> bound_month (fst a) < bound_month (snd b) \<and> bound_month (fst b) < bound_month (snd a)"

text \<open>\<open>CREATE TABLE IF NOT EXISTS \<dots> PARTITION OF \<dots> FOR VALUES FROM \<dots> TO \<dots>\<close>\<close>

definition create_partition :: "string \<Rightarrow> string \<times> string \<Rightarrow> (log_db, unit) action" where
  "create_partition name b db =
     (if name \<in> fst ` set (partitions db) then (Inr (), db)
      else if bound_month (fst b) \<ge> bound_month (snd b) then (Inl (IoError ''empty range bound specified for partition''), db)
      else if \<exists>(n, b') \<in> set (partitions db). overlaps b b' then (Inl (IoError ''partition would overlap''), db)
      else if \<exists>k \<in> set (default_months db). in_range k b
      then (Inl (IoError ''updated partition constraint for default partition would be violated by some row''), db)
      else (Inr (), db\<lparr>partitions := partitions db @ [(name, b)]\<rparr>))"

definition try_advisory_lock :: "nat \<Rightarrow> int \<Rightarrow> (log_db, bool) action" where
  "try_advisory_lock session key db =
     (case advisory db key of
        None \<Rightarrow> (Inr True, db\<lparr>advisory := (advisory db)(key := Some (session, 1))\<rparr>)
      | Some (holder, depth) \<Rightarrow>
          if holder = session then (Inr True, db\<lparr>advisory := (advisory db)(key := Some (session, Suc depth))\<rparr>)
          else (Inr False, db))"

definition advisory_unlock :: "nat \<Rightarrow> int \<Rightarrow> (log_db, bool) action" where
  "advisory_unlock session key db =
     (case advisory db key of
        None \<Rightarrow> (Inr False, db)
      | Some (holder, depth) \<Rightarrow>
          if holder = session
          then (Inr True, db\<lparr>advisory := (advisory db)(key := (if depth \<le> 1 then None else Some (session, depth - 1)))\<rparr>)
          else (Inr False, db))"

definition query :: "pool \<Rightarrow> (nat \<Rightarrow> (log_db, 'a) action) \<Rightarrow> (log_db, 'a) action" where
  "query pool stmt db =
     (let n = queries db; db1 = db\<lparr>queries := Suc n\<rparr> in
      case query_outcome pool n of
        Done \<Rightarrow> stmt (connection_at pool n) db1
      | Rejected msg \<Rightarrow> (Inl (IoError msg), db1)
      | Lost msg \<Rightarrow> (Inl (IoError msg), snd (stmt (connection_at pool n) db1)))"

text \<open>A log row goes to the partition of its month, or to the default one.\<close>

definition insert_log_row :: "int \<Rightarrow> log_db \<Rightarrow> log_db" where
  "insert_log_row k db =
     (if \<exists>(n, b) \<in> set (partitions db). in_range k b then db
      else db\<lparr>default_months := default_months db @ [k]\<rparr>)"

section \<open>The service\<close>

definition ensurePartitionForMonth :: "pool \<Rightarrow> utc_month \<Rightarrow> (log_db, unit) action" where
  "ensurePartitionForMonth pool date =
     (let start = date_UTC (fst date) (snd date);
          end_date = date_UTC (fst date) (snd date + 1);
          partitionName = formatPartitionName start;
          fromDate = formatTimestamp start;
          toDate = formatTimestamp end_date in
      bindE (query pool (\<lambda>conn. try_advisory_lock conn ADVISORY_LOCK_KEY)) (\<lambda>acquired.
      if \<not> acquired then ret ()
      else
        finallyE (query pool (\<lambda>conn. create_partition partitionName (fromDate, toDate)))
          (query pool (\<lambda>conn. advisory_unlock conn ADVISORY_LOCK_KEY))))"

definition partition_onApplicationBootstrap :: "pool \<Rightarrow> utc_month \<Rightarrow> (log_db, unit) action" where
  "partition_onApplicationBootstrap pool current =
     catchE (ensurePartitionForMonth pool current) (\<lambda>err. ret ())"

definition createNextMonthPartition :: "pool \<Rightarrow> utc_month \<Rightarrow> (log_db, unit) action" where
  "createNextMonthPartition pool current =
     ensurePartitionForMonth pool (date_UTC (fst current) (snd current + 1))"

section \<open>Texts and months agree\<close>

text \<open>A date the process can read from its clock.\<close>

definition calendar :: "utc_month \<Rightarrow> bool" where
  "calendar d \<longleftrightarrow> 1970 \<le> fst d \<and> 0 \<le> snd d \<and> snd d < 12"

definition next_month :: "utc_month \<Rightarrow> utc_month" where
  "next_month d = date_UTC (fst d) (snd d + 1)"

lemma date_UTC_same: "calendar d \<Longrightarrow> date_UTC (fst d) (snd d) = d"
  by (cases d) (auto simp: calendar_def date_UTC_def)

lemma calendar_next: "calendar d \<Longrightarrow> calendar (next_month d)"
  by (cases d) (auto simp: calendar_def next_month_def date_UTC_def)

lemma month_number_next: "calendar d \<Longrightarrow> month_number (next_month d) = month_number d + 1"
  by (cases d) (auto simp: calendar_def next_month_def date_UTC_def month_number_def)

lemma month_number_inject: "calendar d \<Longrightarrow> calendar d' \<Longrightarrow> month_number d = month_number d' \<longleftrightarrow> d = d'"
proof -
  have "fst d = month_number d div 12" "snd d = month_number d mod 12" if "calendar d" for d
    using that by (cases d; simp add: calendar_def month_number_def)+
  then show "calendar d \<Longrightarrow> calendar d' \<Longrightarrow> month_number d = month_number d' \<longleftrightarrow> d = d'"
    by (metis prod_eqI)
qed

lemma show_nat_no_dash: "CHR ''-'' \<notin> set (show_nat n)"
  using show_nat_digits [of n] not_digit_minus by blast

lemma read_digits_pad: "read_digits (CHR ''0'' # s) = read_digits s"
  by (simp add: read_digits_def digit_val_def)

lemma padStart2_month:
  assumes "0 \<le> m" and "m < 12"
  shows "length (padStart2 (show_int (m + 1))) = 2" and "read_digits (padStart2 (show_int (m + 1))) = nat (m + 1)"
proof -
  have "m \<in> {0, 1, 2, 3, 4, 5, 6, 7, 8, 9, 10, 11}"
    using assms by (simp, presburger)
  then show "length (padStart2 (show_int (m + 1))) = 2" "read_digits (padStart2 (show_int (m + 1))) = nat (m + 1)"
    by (elim insertE; simp add: padStart2_def show_int_def show_nat.simps read_digits_def digit_val_def digit_char_def)+
qed

lemma bound_month_timestamp:
  assumes "calendar d"
  shows "bound_month (formatTimestamp d) = month_number d"
proof -
  obtain y m where d: "d = (y, m)" "1970 \<le> y" "0 \<le> m" "m < 12"
    using assms by (cases d) (auto simp: calendar_def)
  have y: "show_int y = show_nat (nat y)"
    using d by (simp add: show_int_def)
  have tw: "takeWhile (\<lambda>c. c \<noteq> CHR ''-'') (show_nat k @ CHR ''-'' # s) = show_nat k"
    "dropWhile (\<lambda>c. c \<noteq> CHR ''-'') (show_nat k @ CHR ''-'' # s) = CHR ''-'' # s" for k s
    using show_nat_no_dash [of k] by (auto simp: takeWhile_append dropWhile_append takeWhile_eq_all_conv)
  show ?thesis
    using d padStart2_month [OF d(3,4)]
    by (simp add: bound_month_def formatTimestamp_def month_number_def y tw)
qed

lemma formatPartitionName_inject:
  assumes "calendar d" and "calendar d'" and "formatPartitionName d = formatPartitionName d'"
  shows "d = d'"
proof -
  obtain y m y' m' where d: "d = (y, m)" "1970 \<le> y" "0 \<le> m" "m < 12" "d' = (y', m')" "1970 \<le> y'" "0 \<le> m'" "m' < 12"
    using assms(1,2) by (cases d, cases d') (auto simp: calendar_def)
  let ?p = "padStart2 (show_int (m + 1))" and ?p' = "padStart2 (show_int (m' + 1))"
  have "show_int y @ ''_'' @ ?p = show_int y' @ ''_'' @ ?p'"
    using assms(3) d by (simp add: formatPartitionName_def)
  moreover have "length ?p = length ?p'"
    using padStart2_month d by simp
  ultimately have "show_int y = show_int y'" "?p = ?p'"
    by auto
  then show ?thesis
    using d padStart2_month(2) [of m] padStart2_month(2) [of m'] read_show_int by (metis eq_nat_nat_iff add_right_cancel
      add_nonneg_nonneg option.inject zero_le_one)
qed


section \<open>Well-formed tables\<close>

text \<open>Each partition is the one the service would create for some month, and the default one holds none of their rows.\<close>

definition partition_for :: "utc_month \<Rightarrow> string \<times> string \<times> string" where
  "partition_for d = (formatPartitionName d, formatTimestamp d, formatTimestamp (next_month d))"

definition log_ok :: "log_db \<Rightarrow> bool" where
  "log_ok db \<longleftrightarrow> (\<forall>p \<in> set (partitions db). \<exists>d. calendar d \<and> p = partition_for d)
     \<and> (\<forall>k \<in> set (default_months db). \<forall>(n, b) \<in> set (partitions db). \<not> in_range k b)"

definition has_partition :: "log_db \<Rightarrow> utc_month \<Rightarrow> bool" where
  "has_partition db d \<longleftrightarrow> partition_for d \<in> set (partitions db)"

lemma in_range_for: "calendar d \<Longrightarrow> in_range k (formatTimestamp d, formatTimestamp (next_month d)) \<longleftrightarrow> k = month_number d"
  by (auto simp: in_range_def bound_month_timestamp calendar_next month_number_next)

lemma named_partition:
  assumes "log_ok db" and "calendar d" and "formatPartitionName d \<in> fst ` set (partitions db)"
  shows "has_partition db d"
proof -
  obtain p where p: "p \<in> set (partitions db)" "fst p = formatPartitionName d"
    using assms(3) by force
  then obtain d' where "calendar d'" "p = partition_for d'"
    using assms(1) by (auto simp: log_ok_def)
  with p formatPartitionName_inject [OF assms(2)] show ?thesis
    by (metis fst_conv has_partition_def partition_for_def)
qed

text \<open>The outcome of creating the partition of a month: the only obstacle are rows in the default one.\<close>

lemma create_partition_for:
  assumes "log_ok db" and "calendar d"
  shows "create_partition (formatPartitionName d) (formatTimestamp d, formatTimestamp (next_month d)) db =
     (if has_partition db d then (Inr (), db)
      else if month_number d \<in> set (default_months db)
      then (Inl (IoError ''updated partition constraint for default partition would be violated by some row''), db)
      else (Inr (), db\<lparr>partitions := partitions db @ [partition_for d]\<rparr>))"
proof (cases "has_partition db d")
  case True
  then have "formatPartitionName d \<in> fst ` set (partitions db)"
    by (force simp: has_partition_def partition_for_def)
  with True show ?thesis by (simp add: create_partition_def)
next
  case False
  then have n: "formatPartitionName d \<notin> fst ` set (partitions db)"
    using named_partition [OF assms] by blast
  have "\<not> overlaps (formatTimestamp d, formatTimestamp (next_month d)) b'" if p: "(n', b') \<in> set (partitions db)" for n' b'
  proof
    assume o: "overlaps (formatTimestamp d, formatTimestamp (next_month d)) b'"
    obtain d' where d': "calendar d'" "(n', b') = partition_for d'"
      using assms(1) p by (auto simp: log_ok_def)
    with o assms(2) have "month_number d = month_number d'"
      by (auto simp: overlaps_def partition_for_def bound_month_timestamp calendar_next month_number_next)
    then have "d = d'"
      using month_number_inject [OF assms(2) d'(1)] by blast
    with d'(2) p n show False
      by (force simp: partition_for_def)
  qed
  moreover have "bound_month (formatTimestamp d) < bound_month (formatTimestamp (next_month d))"
    using assms(2) by (simp add: bound_month_timestamp calendar_next month_number_next)
  ultimately show ?thesis
    using False n in_range_for [OF assms(2)] by (auto simp: create_partition_def partition_for_def)
qed

lemma log_ok_add:
  assumes "log_ok db" and "calendar d" and "month_number d \<notin> set (default_months db)"
  shows "log_ok (db\<lparr>partitions := partitions db @ [partition_for d]\<rparr>)"
proof -
  have "\<exists>d'. calendar d' \<and> partition_for d = partition_for d'"
    using assms(2) by blast
  moreover have "\<not> in_range k (snd (partition_for d))" if "k \<in> set (default_months db)" for k
    using that assms(3) in_range_for [OF assms(2)] by (auto simp: partition_for_def)
  ultimately show ?thesis
    using assms(1) by (auto simp: log_ok_def simp del: split_paired_Ex split: prod.splits)
qed

lemma log_ok_upds [simp]:
  "log_ok (db\<lparr>queries := n\<rparr>) = log_ok db" "log_ok (db\<lparr>advisory := a\<rparr>) = log_ok db"
  "has_partition (db\<lparr>queries := n\<rparr>) d = has_partition db d" "has_partition (db\<lparr>advisory := a\<rparr>) d = has_partition db d"
  by (simp_all add: log_ok_def has_partition_def)

lemma log_ok_insert: "log_ok db \<Longrightarrow> log_ok (insert_log_row k db)"
  by (auto simp: log_ok_def insert_log_row_def)

section \<open>One run\<close>

lemma ensure_run:
  assumes ok: "log_ok db" and cal: "calendar d" and calm: "\<And>n. query_outcome pool n = Done"
    and free: "advisory db ADVISORY_LOCK_KEY = None"
  shows "ensurePartitionForMonth pool d db =
     (let blocked = \<not> has_partition db d \<and> month_number d \<in> set (default_months db) in
      (if blocked then Inl (IoError ''updated partition constraint for default partition would be violated by some row'')
       else Inr (),
       db\<lparr>partitions := (if blocked \<or> has_partition db d then partitions db else partitions db @ [partition_for d]),
          advisory := (advisory db)(ADVISORY_LOCK_KEY :=
            if connection_at pool (Suc (Suc (queries db))) = connection_at pool (queries db) then None
            else Some (connection_at pool (queries db), 1)),
          queries := queries db + 3\<rparr>))"
proof -
  have create: "create_partition (formatPartitionName d) (formatTimestamp d, formatTimestamp (next_month d))
       (db\<lparr>advisory := a, queries := n\<rparr>) =
     (if has_partition db d then (Inr (), db\<lparr>advisory := a, queries := n\<rparr>)
      else if month_number d \<in> set (default_months db)
      then (Inl (IoError ''updated partition constraint for default partition would be violated by some row''),
            db\<lparr>advisory := a, queries := n\<rparr>)
      else (Inr (), db\<lparr>partitions := partitions db @ [partition_for d], advisory := a, queries := n\<rparr>))" for n a
    using create_partition_for [of "db\<lparr>advisory := a, queries := n\<rparr>" d] ok cal by (simp add: has_partition_def)
  have unfold: "ensurePartitionForMonth pool d db = finallyE
      (query pool (\<lambda>conn. create_partition (formatPartitionName d) (formatTimestamp d, formatTimestamp (next_month d))))
      (query pool (\<lambda>conn. advisory_unlock conn ADVISORY_LOCK_KEY))
      (db\<lparr>advisory := (advisory db)(ADVISORY_LOCK_KEY := Some (connection_at pool (queries db), 1)), queries := Suc (queries db)\<rparr>)"
    by (simp add: ensurePartitionForMonth_def date_UTC_same [OF cal] next_month_def [symmetric] query_def [of _ _ db] calm bindE_def
        try_advisory_lock_def free Let_def) (cases db, simp)
  show ?thesis
    unfolding unfold finallyE_def query_def
    by (cases "has_partition db d"; cases "month_number d \<in> set (default_months db)")
      (simp_all add: calm create advisory_unlock_def Let_def)
qed

lemma ensure_skipped:
  assumes "\<And>n. query_outcome pool n = Done" and "advisory db ADVISORY_LOCK_KEY = Some (h, n)"
    and "connection_at pool (queries db) \<noteq> h"
  shows "ensurePartitionForMonth pool d db = (Inr (), db\<lparr>queries := Suc (queries db)\<rparr>)"
  using assms by (simp add: ensurePartitionForMonth_def query_def bindE_def try_advisory_lock_def Let_def ret_def)

section \<open>The service keeps the table well formed\<close>

lemma keeps_query: "(\<And>c. keeps log_ok (stmt c)) \<Longrightarrow> keeps log_ok (query pool stmt)"
  by (auto simp: keeps_def query_def Let_def split: outcome.split)

lemma keeps_lock: "keeps log_ok (try_advisory_lock s k)" "keeps log_ok (advisory_unlock s k)"
  by (auto simp: keeps_def try_advisory_lock_def advisory_unlock_def split: option.split)

lemma keeps_ensure:
  assumes "calendar d"
  shows "keeps log_ok (ensurePartitionForMonth pool d)"
proof -
  have "keeps log_ok (create_partition (formatPartitionName d) (formatTimestamp d, formatTimestamp (next_month d)))"
    using assms by (auto simp: keeps_def create_partition_for log_ok_add)
  then show ?thesis
    unfolding ensurePartitionForMonth_def Let_def date_UTC_same [OF assms] next_month_def [symmetric]
    by (intro keeps_intros keeps_query keeps_lock)
qed

lemma keeps_bootstrap: "calendar d \<Longrightarrow> keeps log_ok (partition_onApplicationBootstrap pool d)"
  unfolding partition_onApplicationBootstrap_def by (intro keeps_intros keeps_ensure)

lemma keeps_cron: "calendar d \<Longrightarrow> keeps log_ok (createNextMonthPartition pool d)"
  unfolding createNextMonthPartition_def next_month_def [symmetric] by (intro keeps_ensure calendar_next)


text \<open>
  The life of the table: from migration 3, rows of any months arrive and replicas start or run their
  monthly job, in any order, with any connections and failures.
\<close>

definition migrated_partitions :: "catalogue \<Rightarrow> (string \<times> string \<times> string) list" where
  "migrated_partitions c =
     map (\<lambda>(n, tb). (n, the (t_bounds tb)))
       (filter (\<lambda>(n, tb). t_parent tb = Some ''media_access_logs'' \<and> t_bounds tb \<noteq> None) (tables c))"

definition migrated_log :: "catalogue \<Rightarrow> log_db" where
  "migrated_log c = \<lparr>partitions = migrated_partitions c, default_months = [], advisory = (\<lambda>_. None), queries = 0\<rparr>"

inductive log_life :: "log_db \<Rightarrow> bool" where
  migrated: "migrate role roles 7 fresh_database = Inr c \<Longrightarrow> log_life (migrated_log c)"
| row: "log_life db \<Longrightarrow> log_life (insert_log_row k db)"
| start: "log_life db \<Longrightarrow> calendar d \<Longrightarrow> log_life (snd (partition_onApplicationBootstrap pool d db))"
| monthly: "log_life db \<Longrightarrow> calendar d \<Longrightarrow> log_life (snd (createNextMonthPartition pool d db))"

definition march_april :: "exn + catalogue \<Rightarrow> bool" where
  "march_april r \<longleftrightarrow> (case r of Inl _ \<Rightarrow> False | Inr c \<Rightarrow> migrated_partitions c =
      [(''media_access_logs_2026_03'', ''2026-03-01 00:00:00+00'', ''2026-04-01 00:00:00+00''),
       (''media_access_logs_2026_04'', ''2026-04-01 00:00:00+00'', ''2026-05-01 00:00:00+00'')])"

lemma migrated_with:
  "march_april (migrate \<lparr>r_name = u, r_superuser = x, r_bypassrls = y\<rparr> [''media_user''] 7 fresh_database)"
  by code_simp

lemma migrated_without:
  "march_april (migrate \<lparr>r_name = u, r_superuser = x, r_bypassrls = y\<rparr> [] 7 fresh_database)"
  by code_simp

lemma migrated_march_april:
  assumes "migrate role roles 7 fresh_database = Inr c"
  shows "migrated_partitions c = [partition_for (2026, 2), partition_for (2026, 3)]"
proof -
  have "migrated_partitions c =
      [(''media_access_logs_2026_03'', ''2026-03-01 00:00:00+00'', ''2026-04-01 00:00:00+00''),
       (''media_access_logs_2026_04'', ''2026-04-01 00:00:00+00'', ''2026-05-01 00:00:00+00'')]"
  proof (cases role)
    case (fields u x y)
    have "march_april (migrate role rr 7 fresh_database)" if "rr = [''media_user''] \<or> rr = []" for rr
      using that migrated_with [of u x y] migrated_without [of u x y] by (elim disjE) (simp_all only: fields)
    from this [OF relevant_roles_cases [of roles]] assms show ?thesis
      by (simp add: march_april_def migrate_relevant)
  qed
  moreover have "partition_for (2026, 2) = (''media_access_logs_2026_03'', ''2026-03-01 00:00:00+00'', ''2026-04-01 00:00:00+00'')"
    "partition_for (2026, 3) = (''media_access_logs_2026_04'', ''2026-04-01 00:00:00+00'', ''2026-05-01 00:00:00+00'')"
    by code_simp+
  ultimately show ?thesis by simp
qed

lemma log_life_ok: "log_life db \<Longrightarrow> log_ok db"
proof (induction rule: log_life.induct)
  case (migrated role roles c)
  have "calendar (2026, 2)" "calendar (2026, 3)"
    by (simp_all add: calendar_def)
  then show ?case
    using migrated_march_april [OF migrated] by (auto simp: log_ok_def migrated_log_def simp del: split_paired_Ex)
next
  case (row db k)
  then show ?case by (rule_tac log_ok_insert)
next
  case (start db d pool)
  then show ?case using keeps_bootstrap [of d pool] by (simp add: keeps_def)
next
  case (monthly db d pool)
  then show ?case using keeps_cron [of d pool] by (simp add: keeps_def)
qed

text \<open>C11. At every point of that life each month is in at most one partition, named and bounded for it,
  and no row of the default partition belongs to one.\<close>

theorem partitions_disjoint:
  assumes "log_life db" and "(n, b) \<in> set (partitions db)" and "in_range k b"
  shows "n = formatPartitionName (k div 12, k mod 12) \<and> k \<notin> set (default_months db)
     \<and> (\<forall>(n', b') \<in> set (partitions db). in_range k b' \<longleftrightarrow> (n', b') = (n, b))"
proof -
  note ok = log_life_ok [OF assms(1)]
  have at: "p = partition_for (k div 12, k mod 12)" if "p \<in> set (partitions db)" "in_range k (snd p)" for p
  proof -
    obtain d where d: "calendar d" "p = partition_for d"
      using ok \<open>p \<in> set (partitions db)\<close> by (auto simp: log_ok_def)
    with that(2) have "k = month_number d"
      by (simp add: partition_for_def in_range_for)
    then have "d = (k div 12, k mod 12)"
      using d(1) by (cases d) (simp add: calendar_def month_number_def)
    with d(2) show ?thesis by simp
  qed
  from at [OF assms(2)] assms(3) have nb: "(n, b) = partition_for (k div 12, k mod 12)"
    by simp
  moreover have "k \<notin> set (default_months db)"
    using ok assms(2,3) by (auto simp: log_ok_def)
  moreover have "in_range k b' \<longleftrightarrow> (n', b') = (n, b)" if "(n', b') \<in> set (partitions db)" for n' b'
    using at [OF that] nb assms(3) by (metis Pair_inject snd_conv)
  ultimately show ?thesis
    by (auto simp: partition_for_def)
qed

definition sample_pool :: pool where
  "sample_pool = \<lparr>connection_at = (\<lambda>_. 1), query_outcome = (\<lambda>_. Done)\<rparr>"

theorem partitions_disjoint_witness:
  "\<exists>db. log_life db \<and> partition_for (2026, 4) \<in> set (partitions db)
     \<and> 24316 \<notin> set (default_months db) \<and> fst (partition_for (2026, 4)) = formatPartitionName (24316 div 12, 24316 mod 12)"
proof -
  obtain c where c: "migrate \<lparr>r_name = ''m'', r_superuser = False, r_bypassrls = False\<rparr> [] 7 fresh_database = Inr c"
    by (rule final_catalogue)
  let ?db = "snd (createNextMonthPartition sample_pool (2026, 3) (migrated_log c))"
  have cal: "calendar (2026, 3)" "calendar (2026, 4)"
    by (simp_all add: calendar_def)
  have life: "log_life ?db"
    by (rule log_life.monthly [OF log_life.migrated [OF c] cal(1)])
  have parts: "partition_for (2026, 4) \<in> set (partitions ?db)"
    using migrated_march_april [OF c] cal log_life_ok [OF log_life.migrated [OF c]]
    by (simp add: createNextMonthPartition_def date_UTC_def ensure_run sample_pool_def migrated_log_def Let_def has_partition_def)
  have "in_range 24316 (snd (partition_for (2026, 4)))"
    by code_simp
  with partitions_disjoint [OF life, of "fst (partition_for (2026, 4))" "snd (partition_for (2026, 4))" 24316] parts life
  show ?thesis by auto
qed


text \<open>C10. A run with the lock free and no failures creates the month's partition, unless it exists or a
  row of the month already sits in the default partition, which is an error; and the lock is free
  again exactly when the pool gave the unlock the connection that took it.  When it did not, every later
  run on another connection does nothing.\<close>

theorem partition_run:
  assumes "log_ok db" and "calendar d" and "\<And>n. query_outcome pool n = Done" and "advisory db ADVISORY_LOCK_KEY = None"
    and "ensurePartitionForMonth pool d db = (r, db')"
  shows "(r = Inr () \<longleftrightarrow> has_partition db d \<or> month_number d \<notin> set (default_months db))
     \<and> (r = Inr () \<longleftrightarrow> has_partition db' d) \<and> default_months db' = default_months db
     \<and> set (partitions db') = set (partitions db) \<union> (if r = Inr () then {partition_for d} else {})
     \<and> (advisory db' ADVISORY_LOCK_KEY = None \<longleftrightarrow> connection_at pool (queries db + 2) = connection_at pool (queries db))
     \<and> (\<forall>pool' d'. (\<forall>n. query_outcome pool' n = Done) \<and> connection_at pool (queries db + 2) \<noteq> connection_at pool (queries db)
          \<and> connection_at pool' (queries db') \<noteq> connection_at pool (queries db) \<longrightarrow>
          ensurePartitionForMonth pool' d' db' = (Inr (), db'\<lparr>queries := Suc (queries db')\<rparr>))"
proof -
  note run = ensure_run [OF assms(1-4), unfolded assms(5)]
  have db': "advisory db' ADVISORY_LOCK_KEY = (if connection_at pool (queries db + 2) = connection_at pool (queries db) then None
       else Some (connection_at pool (queries db), 1))"
    using run by (simp add: Let_def)
  then have "ensurePartitionForMonth pool' d' db' = (Inr (), db'\<lparr>queries := Suc (queries db')\<rparr>)"
    if "\<forall>n. query_outcome pool' n = Done" "connection_at pool (queries db + 2) \<noteq> connection_at pool (queries db)"
      "connection_at pool' (queries db') \<noteq> connection_at pool (queries db)" for pool' d'
    using that by (intro ensure_skipped) auto
  with db' run show ?thesis
    by (auto simp: Let_def has_partition_def)
qed

definition rotating_pool :: pool where
  "rotating_pool = \<lparr>connection_at = (\<lambda>n. n mod 3), query_outcome = (\<lambda>_. Done)\<rparr>"

definition empty_log :: log_db where
  "empty_log = \<lparr>partitions = [], default_months = [], advisory = (\<lambda>_. None), queries = 0\<rparr>"

theorem partition_run_witness:
  "\<exists>db'. ensurePartitionForMonth rotating_pool (2026, 4) empty_log = (Inr (), db') \<and> has_partition db' (2026, 4)
     \<and> advisory db' ADVISORY_LOCK_KEY \<noteq> None"
proof -
  obtain r db' where run: "ensurePartitionForMonth rotating_pool (2026, 4) empty_log = (r, db')"
    by (cases "ensurePartitionForMonth rotating_pool (2026, 4) empty_log")
  have "log_ok empty_log" "calendar (2026, 4)" "query_outcome rotating_pool n = Done" "advisory empty_log ADVISORY_LOCK_KEY = None" for n
    by (simp_all add: log_ok_def empty_log_def calendar_def rotating_pool_def)
  from partition_run [OF this run] run show ?thesis
    by (auto simp: empty_log_def rotating_pool_def)
qed

end
