(* ===== verification/Samples.thy ===== *)
theory Samples
  imports Database
begin

text \<open>
  One concrete environment and an empty world, on which the witnesses of the properties
  evaluate the model: every call is done, the clock advances with every call, generated
  UUIDs are numbered, the policies are enforced for the user \<open>alice\<close>.
\<close>

definition alice :: uuid where
  "alice = ''aaaaaaaa-aaaa-4aaa-8aaa-aaaaaaaaaaaa''"

definition bob :: uuid where
  "bob = ''bbbbbbbb-bbbb-4bbb-8bbb-bbbbbbbbbbbb''"

definition sample_uuid :: "nat \<Rightarrow> uuid" where
  "sample_uuid n = ''cccccccc-cccc-4ccc-8ccc-ccccccccccc'' @ [digit_char (n mod 10)]"

definition sample_config :: config where
  "sample_config = \<lparr>cfg_SIGNED_URL_EXPIRY_SECONDS = None, cfg_MESSAGE_BLOB_TTL_DAYS = None,
     cfg_GROUP_SERVICE_URL = None, cfg_GROUP_SERVICE_AUTH_TOKEN = None,
     cfg_MESSAGING_SERVICE_URL = None, cfg_INTERNAL_API_TOKEN = None, cfg_CLAMAV_HOST = None\<rparr>"

definition sample_env :: env where
  "sample_env = \<lparr>outcome_at = (\<lambda>_. Done), clock_at = (\<lambda>n. 1000 * int n), uuid_at = sample_uuid,
     als_user = Some alice, rls_enforced = True,
     sha256_hex = (\<lambda>bs. map (\<lambda>b. char_of (unat b)) bs), sharp_metadata = (\<lambda>_. None),
     clamd_reply = (\<lambda>_ _. None), http_get = (\<lambda>_ _ _. \<lparr>status = 404, json_body = None\<rparr>),
     presigned = (\<lambda>key _ _. key), tie_rank = (\<lambda>_ _. 0), cfg = sample_config\<rparr>"

definition empty_world :: world where
  "empty_world = \<lparr>media_tbl = [], quota_tbl = [], log_tbl = [], cache = (\<lambda>_. None), redis = (\<lambda>_. None),
     s3 = (\<lambda>_. None), published = [], uploadsTotal = 0, downloadsTotal = 0, deletesTotal = 0,
     guc = None, ticks = 0, uuids_used = 0\<rparr>"

lemma calm_sample [simp]: "calm sample_env"
  by (simp add: calm_def sample_env_def)

lemmas sample_defs = sample_env_def sample_config_def empty_world_def alice_def bob_def

end
