(* ===== verification/Storage_Service.thy ===== *)
theory Storage_Service
  imports Samples
begin

text \<open>
  \<open>storage.service.ts\<close>: the object keys of the bucket and the put, get and delete calls.
\<close>

definition is_hex_ci :: "char \<Rightarrow> bool" where
  "is_hex_ci c \<longleftrightarrow> c \<in> set ''0123456789abcdefABCDEF''"

text \<open>\<open>/^[0-9a-f]{8}-[0-9a-f]{4}-[1-5][0-9a-f]{3}-[89ab][0-9a-f]{3}-[0-9a-f]{12}$/i\<close>\<close>

definition UUID_PATTERN :: "string \<Rightarrow> bool" where
  "UUID_PATTERN s \<longleftrightarrow> length s = 36 \<and>
     list_all (\<lambda>(i, c).
       if i \<in> {8, 13, 18, 23} then c = CHR ''-''
       else if i = 14 then c \<in> set ''12345''
       else if i = 19 then c \<in> set ''89abAB''
       else is_hex_ci c) (zip [0..<36] s)"

definition buildPath :: "string \<Rightarrow> uuid \<Rightarrow> uuid \<Rightarrow> exn + string" where
  "buildPath ctx ownerId objectId =
     (if \<not> UUID_PATTERN ownerId
      then Inl (JsError (''Invalid ownerId for storage path: '' @ ownerId))
      else if \<not> UUID_PATTERN objectId
      then Inl (JsError (''Invalid objectId for storage path: '' @ objectId))
      else if ctx = ''messages'' then Inr (''messages/'' @ ownerId @ ''/'' @ objectId @ ''.bin'')
      else if ctx = ''avatars'' then Inr (''avatars/'' @ ownerId @ ''/'' @ objectId)
      else if ctx = ''group_icons'' then Inr (''group_icons/'' @ ownerId @ ''/'' @ objectId)
      else if ctx = ''thumbnails'' then Inr (''thumbnails/'' @ objectId @ ''.bin'')
      else Inl (JsError (''Unknown storage context: '' @ ctx)))"

definition storage_upload :: "env \<Rightarrow> string \<Rightarrow> byte list \<Rightarrow> string \<Rightarrow> unit io" where
  "storage_upload env storagePath stream contentType =
     s3_put env storagePath \<lparr>o_body = stream, o_contentType = contentType\<rparr>"

definition storage_download :: "env \<Rightarrow> string \<Rightarrow> byte list io" where
  "storage_download env storagePath =
     bindE (s3_get env storagePath) (\<lambda>response. ret (o_body response))"

definition storage_delete :: "env \<Rightarrow> string \<Rightarrow> unit io" where
  "storage_delete env storagePath = s3_delete env storagePath"

lemma frame_storage_upload [frame_intros]:
  "(\<And>w. g (tick w) = g w) \<Longrightarrow> (\<And>w c. g (w\<lparr>s3 := c\<rparr>) = g w) \<Longrightarrow> frame g (storage_upload env p b t)"
  unfolding storage_upload_def by (rule frame_s3_put)

lemma frame_storage_download [frame_intros]:
  "(\<And>w. g (tick w) = g w) \<Longrightarrow> frame g (storage_download env p)"
  unfolding storage_download_def by (intro frame_intros)

lemma frame_storage_delete [frame_intros]:
  "(\<And>w. g (tick w) = g w) \<Longrightarrow> (\<And>w c. g (w\<lparr>s3 := c\<rparr>) = g w) \<Longrightarrow> frame g (storage_delete env p)"
  unfolding storage_delete_def by (rule frame_s3_delete)

section \<open>Canonical UUIDs contain no separator\<close>

lemma UUID_PATTERN_length: "UUID_PATTERN s \<Longrightarrow> length s = 36"
  by (simp add: UUID_PATTERN_def)

lemma UUID_PATTERN_chars:
  assumes "UUID_PATTERN s" and "c \<in> set s"
  shows "is_hex_ci c \<or> c = CHR ''-''"
proof -
  obtain i where i: "i < length s" "c = s ! i"
    using assms(2) by (auto simp: in_set_conv_nth)
  moreover have "length s = 36"
    using assms(1) by (simp add: UUID_PATTERN_def)
  ultimately have "(i, c) \<in> set (zip [0..<36] s)"
    by (auto simp: set_zip intro!: exI [of _ i])
  then have "if i \<in> {8, 13, 18, 23} then c = CHR ''-'' else if i = 14 then c \<in> set ''12345''
       else if i = 19 then c \<in> set ''89abAB'' else is_hex_ci c"
    using assms(1) unfolding UUID_PATTERN_def list_all_iff by blast
  then show ?thesis
    by (auto simp: is_hex_ci_def split: if_splits)
qed

lemma UUID_PATTERN_no_sep:
  assumes "UUID_PATTERN s"
  shows "CHR ''/'' \<notin> set s" and "CHR ''.'' \<notin> set s"
  using UUID_PATTERN_chars [OF assms, of "CHR ''/''"] UUID_PATTERN_chars [OF assms, of "CHR ''.''"]
  by (auto simp: is_hex_ci_def)

lemma js_split_append:
  "d \<notin> set a \<Longrightarrow> js_split d (a @ d # b) = a # js_split d b"
  by (induction a) auto

lemma buildPath_split:
  assumes "buildPath ctx ownerId objectId = Inr p"
  shows "js_split (CHR ''/'') p =
     (if ctx = ''thumbnails'' then [ctx, objectId @ ''.bin'']
      else [ctx, ownerId, if ctx = ''messages'' then objectId @ ''.bin'' else objectId])"
proof -
  have u: "UUID_PATTERN ownerId" "UUID_PATTERN objectId"
    using assms by (auto simp: buildPath_def split: if_splits)
  have o: "js_split (CHR ''/'') (ownerId @ CHR ''/'' # b) = ownerId # js_split (CHR ''/'') b" for b
    using UUID_PATTERN_no_sep(1) [OF u(1)] by (rule js_split_append)
  have j: "js_split (CHR ''/'') objectId = [objectId]"
    "js_split (CHR ''/'') (objectId @ ''.bin'') = [objectId @ ''.bin'']"
    using UUID_PATTERN_no_sep(1) [OF u(2)] by (auto intro!: js_split_absent)
  show ?thesis
    using assms u by (auto simp: buildPath_def o j split: if_splits)
qed

lemma buildPath_Inr_context:
  "buildPath ctx ownerId objectId = Inr p \<Longrightarrow>
     ctx \<in> {''messages'', ''avatars'', ''group_icons'', ''thumbnails''}
     \<and> UUID_PATTERN ownerId \<and> UUID_PATTERN objectId"
  by (auto simp: buildPath_def split: if_splits)

section \<open>Properties\<close>

text \<open>A path is built only from two canonical UUIDs and stays inside its context's
  directory: its first segment is the context, no segment is empty, \<open>.\<close> or \<open>..\<close>, and
  the object id is the last one.\<close>

theorem buildPath_confined:
  assumes "buildPath ctx ownerId objectId = Inr p"
  shows "hd (js_split (CHR ''/'') p) = ctx
     \<and> UUID_PATTERN ownerId \<and> UUID_PATTERN objectId
     \<and> (\<forall>seg \<in> set (js_split (CHR ''/'') p). seg \<notin> {[], ''.'', ''..''})
     \<and> js_starts_with (last (js_split (CHR ''/'') p)) objectId"
proof -
  note c = buildPath_Inr_context [OF assms]
  have l: "length ownerId = 36" "length objectId = 36"
    using c by (simp_all add: UUID_PATTERN_length)
  have seg: "s \<notin> {[], ''.'', ''..''}" if "5 \<le> length s" for s :: string
    using that by auto
  have ctx: "5 \<le> length ctx"
    using c by auto
  have "\<forall>s \<in> set (js_split (CHR ''/'') p). 5 \<le> length s"
    using l ctx unfolding buildPath_split [OF assms] by simp
  then have "\<forall>s \<in> set (js_split (CHR ''/'') p). s \<notin> {[], ''.'', ''..''}"
    using seg by blast
  moreover have "hd (js_split (CHR ''/'') p) = ctx"
    unfolding buildPath_split [OF assms] by simp
  moreover have "js_starts_with (last (js_split (CHR ''/'') p)) objectId"
    unfolding buildPath_split [OF assms] by (simp add: js_starts_with_iff)
  ultimately show ?thesis
    using c by blast
qed

theorem buildPath_confined_witness:
  "hd (js_split (CHR ''/'') (''avatars/'' @ alice @ ''/'' @ bob)) = ''avatars''"
proof -
  have "buildPath ''avatars'' alice bob = Inr (''avatars/'' @ alice @ ''/'' @ bob)"
    by code_simp
  then show ?thesis by (rule buildPath_confined [THEN conjunct1])
qed

text \<open>Two objects never share a key: equal paths come from the same context and the same
  object id, and, outside the thumbnails, from the same owner.\<close>

theorem buildPath_injective:
  assumes "buildPath c1 o1 i1 = Inr p" and "buildPath c2 o2 i2 = Inr p"
  shows "c1 = c2 \<and> i1 = i2 \<and> (c1 \<noteq> ''thumbnails'' \<longrightarrow> o1 = o2)"
  using buildPath_split [OF assms(1)] buildPath_split [OF assms(2)]
    buildPath_Inr_context [OF assms(1)] buildPath_Inr_context [OF assms(2)]
  by (auto split: if_splits)

theorem buildPath_injective_witness:
  "(THE c. \<exists>ow i. buildPath c ow i = Inr (''messages/'' @ bob @ ''/'' @ alice @ ''.bin'')) = ''messages''"
proof -
  have p: "buildPath ''messages'' bob alice = Inr (''messages/'' @ bob @ ''/'' @ alice @ ''.bin'')"
    by code_simp
  show ?thesis
    using p buildPath_injective [OF _ p] by (intro the_equality) blast+
qed

end
