(* ===== verification/Lifecycle.thy ===== *)
theory Lifecycle
  imports Storage_Service
begin

text \<open>
  \<open>lifecycle.service.ts\<close>: the expiry rules of the bucket, merged at start-up into the rules that
  are already there.  The state is the bucket's lifecycle configuration, which may be absent, and
  the number of calls made; the outcome of each call is given by its number.
\<close>

record lifecycle_rule =
  rule_ID :: "string option"
  rule_Status :: string
  rule_Prefix :: "string option"
  rule_Days :: "int option"

record bucket =
  lifecycle :: "lifecycle_rule list option"
  s3_calls :: nat
  s3_puts :: nat

record lifecycle_service =
  messageBlobTtlDays :: "int option"
  thumbnailBlobTtlDays :: "int option"
  s3_outcome :: "nat \<Rightarrow> outcome"

definition s3_send :: "lifecycle_service \<Rightarrow> (bucket, 'a) action \<Rightarrow> (bucket, 'a) action" where
  "s3_send svc cmd b =
     (let b1 = b\<lparr>s3_calls := Suc (s3_calls b)\<rparr> in
      case s3_outcome svc (s3_calls b) of
        Done \<Rightarrow> cmd b1
      | Rejected msg \<Rightarrow> (Inl (IoError msg), b1)
      | Lost msg \<Rightarrow> (Inl (IoError msg), snd (cmd b1)))"

definition NoSuchLifecycleConfiguration :: exn where
  "NoSuchLifecycleConfiguration = JsError ''NoSuchLifecycleConfiguration''"

definition get_lifecycle :: "(bucket, lifecycle_rule list) action" where
  "get_lifecycle b =
     (case lifecycle b of None \<Rightarrow> (Inl NoSuchLifecycleConfiguration, b) | Some rs \<Rightarrow> (Inr rs, b))"

definition put_lifecycle :: "lifecycle_rule list \<Rightarrow> (bucket, unit) action" where
  "put_lifecycle rs b = (Inr (), b\<lparr>lifecycle := Some rs, s3_puts := Suc (s3_puts b)\<rparr>)"

definition desiredRuleIds :: "string list" where
  "desiredRuleIds = [''messages-expiry'', ''thumbnails-expiry'']"

text \<open>\<open>rules.find((r) => r.ID === id)?.Expiration?.Days\<close>\<close>

definition days_of :: "string \<Rightarrow> lifecycle_rule list \<Rightarrow> int option" where
  "days_of i rs = (case List.find (\<lambda>r. rule_ID r = Some i) rs of None \<Rightarrow> None | Some r \<Rightarrow> rule_Days r)"

definition rulesUpToDate :: "lifecycle_service \<Rightarrow> lifecycle_rule list \<Rightarrow> bool" where
  "rulesUpToDate svc existing \<longleftrightarrow>
     list_all (\<lambda>i. i \<in> set (map (\<lambda>r. case rule_ID r of None \<Rightarrow> [] | Some n \<Rightarrow> n) existing)) desiredRuleIds
     \<and> days_of ''messages-expiry'' existing = messageBlobTtlDays svc
     \<and> days_of ''thumbnails-expiry'' existing = thumbnailBlobTtlDays svc"

definition otherRules :: "lifecycle_rule list \<Rightarrow> lifecycle_rule list" where
  "otherRules existing = filter (\<lambda>r. (case rule_ID r of None \<Rightarrow> [] | Some n \<Rightarrow> n) \<notin> set desiredRuleIds) existing"

definition newRules :: "lifecycle_service \<Rightarrow> lifecycle_rule list \<Rightarrow> lifecycle_rule list" where
  "newRules svc existing = otherRules existing @
     [\<lparr>rule_ID = Some ''messages-expiry'', rule_Status = ''Enabled'', rule_Prefix = Some ''messages/'',
       rule_Days = messageBlobTtlDays svc\<rparr>,
      \<lparr>rule_ID = Some ''thumbnails-expiry'', rule_Status = ''Enabled'', rule_Prefix = Some ''thumbnails/'',
       rule_Days = thumbnailBlobTtlDays svc\<rparr>]"

definition ensureLifecyclePolicies :: "lifecycle_service \<Rightarrow> (bucket, unit) action" where
  "ensureLifecyclePolicies svc =
     bindE (catchE (s3_send svc get_lifecycle)
              (\<lambda>e. if e \<noteq> NoSuchLifecycleConfiguration then throw e else ret [])) (\<lambda>existingRules.
     if rulesUpToDate svc existingRules then ret ()
     else s3_send svc (put_lifecycle (newRules svc existingRules)))"

definition lifecycle_onApplicationBootstrap :: "lifecycle_service \<Rightarrow> (bucket, unit) action" where
  "lifecycle_onApplicationBootstrap svc = catchE (ensureLifecyclePolicies svc) (\<lambda>_. ret ())"

section \<open>What the rules expire\<close>

text \<open>The days after which some enabled rule removes an object with this key.\<close>

definition expires_after :: "lifecycle_rule list \<Rightarrow> string \<Rightarrow> int \<Rightarrow> bool" where
  "expires_after rs key d \<longleftrightarrow>
     (\<exists>r \<in> set rs. rule_Status r = ''Enabled'' \<and> rule_Days r = Some d
        \<and> (case rule_Prefix r of None \<Rightarrow> True | Some p \<Rightarrow> js_starts_with key p))"

definition rules_of :: "bucket \<Rightarrow> lifecycle_rule list" where
  "rules_of b = (case lifecycle b of None \<Rightarrow> [] | Some rs \<Rightarrow> rs)"

lemma buildPath_prefix:
  assumes "buildPath ctx u oid = Inr p"
  shows "js_starts_with p ''messages/'' \<longleftrightarrow> ctx = ''messages''" and "js_starts_with p ''thumbnails/'' \<longleftrightarrow> ctx = ''thumbnails''"
  using assms by (auto simp: buildPath_def split: if_splits)

lemma find_skip: "\<forall>x \<in> set xs. \<not> P x \<Longrightarrow> List.find P (xs @ ys) = List.find P ys"
  by (induction xs) auto

lemma find_new:
  "i \<in> set desiredRuleIds \<Longrightarrow> List.find (\<lambda>r. rule_ID r = Some i) (otherRules rs @ ys) = List.find (\<lambda>r. rule_ID r = Some i) ys"
  by (rule find_skip) (auto simp: otherRules_def)

lemma rulesUpToDate_new: "rulesUpToDate svc (newRules svc rs)"
  using find_new [of "''messages-expiry''" rs] find_new [of "''thumbnails-expiry''" rs]
  by (simp add: rulesUpToDate_def newRules_def desiredRuleIds_def days_of_def)

lemma otherRules_new [simp]: "otherRules (newRules svc rs) = otherRules rs"
  by (simp add: newRules_def otherRules_def desiredRuleIds_def)


section \<open>Properties\<close>

lemma ensure_lifecycle_calm:
  assumes "\<And>n. s3_outcome svc n = Done"
  shows "ensureLifecyclePolicies svc b =
     (Inr (), if rulesUpToDate svc (rules_of b) then b\<lparr>s3_calls := s3_calls b + 1\<rparr>
              else b\<lparr>lifecycle := Some (newRules svc (rules_of b)), s3_calls := s3_calls b + 2, s3_puts := s3_puts b + 1\<rparr>)"
  by (cases b; cases "lifecycle b")
    (simp_all add: ensureLifecyclePolicies_def bindE_def catchE_def s3_send_def assms get_lifecycle_def put_lifecycle_def
      rules_of_def ret_def Let_def)

lemma lifecycle_calm:
  assumes "\<And>n. s3_outcome svc n = Done"
  shows "lifecycle_onApplicationBootstrap svc b =
     (Inr (), if rulesUpToDate svc (rules_of b) then b\<lparr>s3_calls := s3_calls b + 1\<rparr>
              else b\<lparr>lifecycle := Some (newRules svc (rules_of b)), s3_calls := s3_calls b + 2, s3_puts := s3_puts b + 1\<rparr>)"
  by (simp add: lifecycle_onApplicationBootstrap_def catchE_def ensure_lifecycle_calm [OF assms])

lemma lifecycle_either:
  "\<exists>b'. lifecycle_onApplicationBootstrap svc b = (Inr (), b')
     \<and> (lifecycle b' = lifecycle b \<or> lifecycle b' = Some (newRules svc (rules_of b)))"
  by (cases "s3_outcome svc (s3_calls b)"; cases "lifecycle b"; cases "s3_outcome svc (Suc (s3_calls b))")
    (simp_all add: lifecycle_onApplicationBootstrap_def ensureLifecyclePolicies_def bindE_def catchE_def s3_send_def ret_def throw_def
      get_lifecycle_def put_lifecycle_def NoSuchLifecycleConfiguration_def rules_of_def Let_def)

text \<open>
  What merging means, said of the rules themselves: the rules of other origins are there as before, in
  their order; of each of the two own rules there is one, enabled, for its prefix, with the configured
  days.
\<close>

definition foreign :: "lifecycle_rule \<Rightarrow> bool" where
  "foreign r \<longleftrightarrow> rule_ID r \<noteq> Some ''messages-expiry'' \<and> rule_ID r \<noteq> Some ''thumbnails-expiry''"

definition one_rule :: "string \<Rightarrow> string \<Rightarrow> int option \<Rightarrow> lifecycle_rule list \<Rightarrow> bool" where
  "one_rule i prefix days rs \<longleftrightarrow> (\<exists>r. filter (\<lambda>r. rule_ID r = Some i) rs = [r] \<and> rule_Status r = ''Enabled''
     \<and> rule_Prefix r = Some prefix \<and> rule_Days r = days)"

definition merged_into :: "lifecycle_service \<Rightarrow> lifecycle_rule list \<Rightarrow> lifecycle_rule list \<Rightarrow> bool" where
  "merged_into svc old new \<longleftrightarrow> filter foreign new = filter foreign old
     \<and> one_rule ''messages-expiry'' ''messages/'' (messageBlobTtlDays svc) new
     \<and> one_rule ''thumbnails-expiry'' ''thumbnails/'' (thumbnailBlobTtlDays svc) new"

lemma foreign_other: "filter foreign rs = otherRules rs"
  unfolding otherRules_def
  by (rule filter_cong) (auto simp: foreign_def desiredRuleIds_def split: option.split)

lemma newRules_merged: "merged_into svc rs (newRules svc rs)"
proof -
  have own: "filter (\<lambda>r. rule_ID r = Some i) (otherRules rs) = []" if "i \<in> set desiredRuleIds" for i
    using that by (auto simp: otherRules_def filter_empty_conv)
  have f: "filter foreign (newRules svc rs) = filter foreign rs"
    by (simp add: foreign_other)
  have "one_rule ''messages-expiry'' ''messages/'' (messageBlobTtlDays svc) (newRules svc rs)"
    "one_rule ''thumbnails-expiry'' ''thumbnails/'' (thumbnailBlobTtlDays svc) (newRules svc rs)"
    using own [of "''messages-expiry''"] own [of "''thumbnails-expiry''"]
    by (simp_all add: one_rule_def newRules_def desiredRuleIds_def)
  with f show ?thesis
    by (simp add: merged_into_def)
qed

text \<open>C37. Whatever fails, start-up never fails, and the bucket's rules are the old ones or are merged from them:
  those of other origins as they were, and each of the two own rules exactly once, enabled, for its prefix
  and with the configured days.  Without failures they are merged unless the ids and days were already
  right, and a second start-up writes nothing.\<close>

theorem lifecycle_merge:
  "\<exists>b'. lifecycle_onApplicationBootstrap svc b = (Inr (), b')
     \<and> (lifecycle b' = lifecycle b \<or> (\<exists>rs. lifecycle b' = Some rs \<and> merged_into svc (rules_of b) rs))
     \<and> ((\<exists>n. s3_outcome svc n \<noteq> Done) \<or>
          (if rulesUpToDate svc (rules_of b) then lifecycle b' = lifecycle b else merged_into svc (rules_of b) (rules_of b'))
          \<and> s3_puts (snd (lifecycle_onApplicationBootstrap svc b')) = s3_puts b')"
proof -
  obtain b' where run: "lifecycle_onApplicationBootstrap svc b = (Inr (), b')"
    and m: "lifecycle b' = lifecycle b \<or> lifecycle b' = Some (newRules svc (rules_of b))"
    using lifecycle_either [of svc b] by blast
  have "(if rulesUpToDate svc (rules_of b) then lifecycle b' = lifecycle b else merged_into svc (rules_of b) (rules_of b'))
      \<and> s3_puts (snd (lifecycle_onApplicationBootstrap svc b')) = s3_puts b'"
    if "\<And>n. s3_outcome svc n = Done"
    using run rulesUpToDate_new [of svc "rules_of b"] newRules_merged [of svc "rules_of b"]
    by (auto simp: lifecycle_calm [OF that] rules_of_def split: if_splits)
  with run m newRules_merged [of svc "rules_of b"] show ?thesis
    by blast
qed

definition prod_lifecycle :: lifecycle_service where
  "prod_lifecycle = \<lparr>messageBlobTtlDays = Some 30, thumbnailBlobTtlDays = Some 7, s3_outcome = (\<lambda>_. Done)\<rparr>"

definition fresh_bucket :: bucket where
  "fresh_bucket = \<lparr>lifecycle = None, s3_calls = 0, s3_puts = 0\<rparr>"

theorem lifecycle_merge_witness:
  "\<exists>b'. lifecycle_onApplicationBootstrap prod_lifecycle fresh_bucket = (Inr (), b') \<and> merged_into prod_lifecycle [] (rules_of b')"
proof -
  have "\<not> rulesUpToDate prod_lifecycle (rules_of fresh_bucket)" "rules_of fresh_bucket = []"
    by (simp_all add: rulesUpToDate_def desiredRuleIds_def rules_of_def fresh_bucket_def)
  with lifecycle_merge [of prod_lifecycle fresh_bucket] show ?thesis
    by (auto simp: prod_lifecycle_def)
qed

text \<open>On a bucket without rules, a start-up without failures makes exactly the message blobs and the
  thumbnails expire, each after its configured days; avatars and group icons stay.\<close>

theorem lifecycle_expires:
  assumes "\<And>n. s3_outcome svc n = Done" and "lifecycle b = None" and "buildPath ctx u oid = Inr p"
  shows "expires_after (rules_of (snd (lifecycle_onApplicationBootstrap svc b))) p d \<longleftrightarrow>
     (ctx = ''messages'' \<and> messageBlobTtlDays svc = Some d) \<or> (ctx = ''thumbnails'' \<and> thumbnailBlobTtlDays svc = Some d)"
proof -
  have "\<not> rulesUpToDate svc []"
    by (simp add: rulesUpToDate_def desiredRuleIds_def)
  then have "rules_of (snd (lifecycle_onApplicationBootstrap svc b)) = newRules svc []"
    using assms(2) by (simp add: lifecycle_calm [OF assms(1)] rules_of_def)
  moreover have "expires_after (newRules svc []) p d \<longleftrightarrow> (messageBlobTtlDays svc = Some d \<and> js_starts_with p ''messages/'')
      \<or> (thumbnailBlobTtlDays svc = Some d \<and> js_starts_with p ''thumbnails/'')"
    unfolding expires_after_def newRules_def otherRules_def by (simp del: js_starts_with.simps)
  ultimately show ?thesis
    unfolding buildPath_prefix [OF assms(3)] by (simp only: conj_commute)
qed

theorem lifecycle_expires_witness:
  "expires_after (rules_of (snd (lifecycle_onApplicationBootstrap prod_lifecycle fresh_bucket)))
     (''thumbnails/'' @ alice @ ''.bin'') 7"
proof -
  have "buildPath ''thumbnails'' alice alice = Inr (''thumbnails/'' @ alice @ ''.bin'')"
    by code_simp
  from lifecycle_expires [OF _ _ this, of prod_lifecycle fresh_bucket 7] show ?thesis
    by (simp add: prod_lifecycle_def fresh_bucket_def)
qed

text \<open>The check of the existing rules looks at their ids and days only: disabled rules pass it.\<close>

lemma disabled_rules_pass:
  "rulesUpToDate prod_lifecycle (map (\<lambda>r. r\<lparr>rule_Status := ''Disabled''\<rparr>) (newRules prod_lifecycle []))"
  by code_simp

end
