(* ===== verification/Media_Access.thy ===== *)
theory Media_Access
  imports Samples
begin

text \<open>
  The read rule of \<open>media.service.ts\<close> and its agreement with the row-level policy that
  migration 1743200000000 installs, the cast of the user's identifier included.
\<close>

definition PUBLIC_READABLE_CONTEXTS :: "string list" where
  "PUBLIC_READABLE_CONTEXTS = [''avatar'', ''group_icon'']"

definition enforceReadAccess :: "string \<Rightarrow> uuid \<Rightarrow> uuid list option \<Rightarrow> uuid \<Rightarrow> exn + unit" where
  "enforceReadAccess ctx ownerId sharedWith requesterId =
     (if ctx \<in> set PUBLIC_READABLE_CONTEXTS then Inr ()
      else if ownerId = requesterId then Inr ()
      else if (case sharedWith of None \<Rightarrow> False | Some us \<Rightarrow> requesterId \<in> set us) then Inr ()
      else Inl (Forbidden ''Access denied''))"

text \<open>Who may read a row.\<close>

definition may_read :: "media \<Rightarrow> uuid \<Rightarrow> bool" where
  "may_read r u \<longleftrightarrow> enforceReadAccess (m_context r) (m_ownerId r) (m_sharedWith r) u = Inr ()"

lemma enforceReadAccess_Inl: "enforceReadAccess c t s u = Inl e \<Longrightarrow> e = Forbidden ''Access denied''"
  by (auto simp: enforceReadAccess_def split: if_splits)

lemma enforceReadAccess_mono:
  assumes "enforceReadAccess c t s u = Inr ()"
    and "\<And>us v. s = Some us \<Longrightarrow> v \<in> set us \<Longrightarrow> \<exists>us'. s' = Some us' \<and> v \<in> set us'"
  shows "enforceReadAccess c t s' u = Inr ()"
  using assms by (fastforce simp: enforceReadAccess_def split: if_splits option.splits)

lemma may_read_iff:
  "may_read r u \<longleftrightarrow> m_context r \<in> {''avatar'', ''group_icon''} \<or> m_ownerId r = u
     \<or> (case m_sharedWith r of None \<Rightarrow> False | Some us \<Rightarrow> u \<in> set us)"
  unfolding may_read_def enforceReadAccess_def PUBLIC_READABLE_CONTEXTS_def by simp

section \<open>The contract of a read policy\<close>

text \<open>
  What the product promises of a rule that decides who reads a row: its owner always does, a public
  context is open to all, a named reader reads, and nobody else does.  Two rules that keep the
  promise cannot differ.
\<close>

locale read_policy =
  fixes grants :: "media \<Rightarrow> uuid \<Rightarrow> bool"
  assumes owner_reads: "grants r (m_ownerId r)"
    and public_is_open: "m_context r \<in> set PUBLIC_READABLE_CONTEXTS \<Longrightarrow> grants r u"
    and named_reads: "m_sharedWith r = Some us \<Longrightarrow> u \<in> set us \<Longrightarrow> grants r u"
    and nobody_else: "grants r u \<Longrightarrow> m_context r \<notin> set PUBLIC_READABLE_CONTEXTS \<Longrightarrow> u \<noteq> m_ownerId r \<Longrightarrow>
      \<exists>us. m_sharedWith r = Some us \<and> u \<in> set us"
begin

lemma grants_iff:
  "grants r u \<longleftrightarrow> m_context r \<in> set PUBLIC_READABLE_CONTEXTS \<or> u = m_ownerId r
     \<or> (\<exists>us. m_sharedWith r = Some us \<and> u \<in> set us)"
  using owner_reads public_is_open named_reads nobody_else by blast

end

locale two_read_policies = first: read_policy grants + second: read_policy grants'
  for grants grants' :: "media \<Rightarrow> uuid \<Rightarrow> bool"
begin

lemma agree: "grants r u = grants' r u"
  by (simp only: first.grants_iff second.grants_iff)

end

interpretation service_policy: read_policy may_read
  by unfold_locales (auto simp: may_read_iff PUBLIC_READABLE_CONTEXTS_def split: option.splits)

interpretation row_policy: read_policy "\<lambda>r u. media_select_allowed (Some u) r"
  by unfold_locales
    (auto simp: media_select_allowed_iff media_public_context_select_policy_def PUBLIC_READABLE_CONTEXTS_def
      split: option.splits)

interpretation both_policies: two_read_policies may_read "\<lambda>r u. media_select_allowed (Some u) r" ..

section \<open>The setting and its cast\<close>

text \<open>
  The policies do not see the user's identifier but \<open>current_setting(...)::UUID\<close>.  Postgres reads
  32 hexadecimal digits in either case, a hyphen after any group of four, braces around all of it, and
  writes them in lower case in groups of 8, 4, 4, 4 and 12; everything else is an error.
\<close>

definition is_hex :: "char \<Rightarrow> bool" where
  "is_hex c \<longleftrightarrow> c \<in> set ''0123456789abcdefABCDEF''"

fun skip_hyphen :: "string \<Rightarrow> string" where
  "skip_hyphen (c # s) = (if c = CHR ''-'' then s else c # s)"
| "skip_hyphen [] = []"

text \<open>The bytes still to read, and what is left after them.\<close>

fun uuid_bytes :: "nat \<Rightarrow> string \<Rightarrow> (string \<times> string) option" where
  "uuid_bytes 0 s = Some ([], s)"
| "uuid_bytes (Suc n) (a # b # s) =
     (if is_hex a \<and> is_hex b
      then map_option (\<lambda>(ds, rest). (js_lower_char a # js_lower_char b # ds, rest))
             (uuid_bytes n (if 0 < n \<and> even n then skip_hyphen s else s))
      else None)"
| "uuid_bytes (Suc n) s = None"

definition uuid_text :: "string \<Rightarrow> uuid" where
  "uuid_text ds = take 8 ds @ ''-'' @ take 4 (drop 8 ds) @ ''-'' @ take 4 (drop 12 ds) @ ''-''
     @ take 4 (drop 16 ds) @ ''-'' @ drop 20 ds"

definition uuid_in :: "string \<Rightarrow> uuid option" where
  "uuid_in s =
     (let braced = (s \<noteq> [] \<and> hd s = CHR ''{'') in
      case uuid_bytes 16 (if braced then tl s else s) of
        None \<Rightarrow> None
      | Some (ds, rest) \<Rightarrow> if rest = (if braced then ''}'' else []) then Some (uuid_text ds) else None)"

text \<open>
  What the select policies say of a row under a setting; \<open>None\<close> is a statement that fails.  Whether
  the context is looked at before the setting is cast is left open, as SQL leaves the order in which the
  operands of \<open>OR\<close> are evaluated.
\<close>

definition media_select_outcome :: "bool \<Rightarrow> string option \<Rightarrow> media \<Rightarrow> bool option" where
  "media_select_outcome cast_first setting r =
     (case setting of
        None \<Rightarrow> Some (media_select_allowed None r)
      | Some s \<Rightarrow>
          (case uuid_in s of
             Some u \<Rightarrow> Some (media_select_allowed (Some u) r)
           | None \<Rightarrow> if \<not> cast_first \<and> m_context r \<in> {''avatar'', ''group_icon''} then Some True else None))"

text \<open>The identifiers of a row come out of \<open>uuid\<close> columns, in the spelling of the database.\<close>

definition canonical :: "string \<Rightarrow> bool" where
  "canonical u \<longleftrightarrow> uuid_in u = Some u"

definition stored_ids :: "media \<Rightarrow> bool" where
  "stored_ids r \<longleftrightarrow> canonical (m_ownerId r)
     \<and> (case m_sharedWith r of None \<Rightarrow> True | Some us \<Rightarrow> \<forall>u \<in> set us. canonical u)"

lemma uncanonical_reads:
  assumes "stored_ids r" and "\<not> canonical u"
  shows "may_read r u \<longleftrightarrow> m_context r \<in> {''avatar'', ''group_icon''}"
  using assms by (auto simp: may_read_iff stored_ids_def split: option.splits)

text \<open>C22. Under the setting that a subject makes, the select policies grant on every stored row exactly what
  the check of the service grants to the identifier that the setting is cast to.  So for a subject spelled as
  the database spells identifiers both decide alike; for another spelling of an identifier the check grants
  the public contexts only, whatever the policies grant; and for a subject that is no identifier the check
  grants the public contexts, while the statement fails, or grants a public row before it reaches the
  cast.\<close>

theorem enforceReadAccess_equals_rls:
  assumes "stored_ids r"
  shows "case uuid_in u of
      Some v \<Rightarrow> media_select_outcome cast_first (Some u) r
            = Some (enforceReadAccess (m_context r) (m_ownerId r) (m_sharedWith r) v = Inr ())
        \<and> (v = u \<or> (enforceReadAccess (m_context r) (m_ownerId r) (m_sharedWith r) u = Inr ()
              \<longleftrightarrow> m_context r \<in> {''avatar'', ''group_icon''}))
    | None \<Rightarrow> media_select_outcome cast_first (Some u) r
            = (if \<not> cast_first \<and> m_context r \<in> {''avatar'', ''group_icon''} then Some True else None)
        \<and> (enforceReadAccess (m_context r) (m_ownerId r) (m_sharedWith r) u = Inr ()
              \<longleftrightarrow> m_context r \<in> {''avatar'', ''group_icon''})"
proof (cases "uuid_in u")
  case None
  then show ?thesis
    using uncanonical_reads [OF assms, of u, unfolded may_read_def] by (simp add: media_select_outcome_def canonical_def)
next
  case (Some v)
  have "v = u \<or> (may_read r u \<longleftrightarrow> m_context r \<in> {''avatar'', ''group_icon''})"
    using Some uncanonical_reads [OF assms, of u] by (auto simp: canonical_def)
  with Some both_policies.agree [of r v] show ?thesis
    by (simp add: media_select_outcome_def may_read_def)
qed

definition shared_row :: media where
  "shared_row = \<lparr>m_id = sample_uuid 1, m_ownerId = alice, m_context = ''message'', m_storagePath = ''p'',
     m_thumbnailPath = None, m_contentType = ''image/png'', m_blobSize = 1, m_expiresAt = None,
     m_signedUrlExpiresAt = None, m_isActive = True, m_sharedWith = Some [bob], m_createdAt = 1, m_updatedAt = 1\<rparr>"

definition BOB_in_capitals :: string where
  "BOB_in_capitals = ''BBBBBBBB-BBBB-4BBB-8BBB-BBBBBBBBBBBB''"

theorem enforceReadAccess_equals_rls_witness:
  "media_select_outcome True (Some bob) shared_row = Some True
   \<and> media_select_outcome True (Some BOB_in_capitals) shared_row = Some True
   \<and> \<not> enforceReadAccess (m_context shared_row) (m_ownerId shared_row) (m_sharedWith shared_row) BOB_in_capitals = Inr ()
   \<and> media_select_outcome True (Some ''nobody'') shared_row = None"
proof -
  have u: "uuid_in bob = Some bob" "uuid_in BOB_in_capitals = Some bob" "uuid_in ''nobody'' = None" "canonical alice"
    by code_simp+
  have "stored_ids shared_row"
    using u by (simp add: stored_ids_def shared_row_def canonical_def)
  note eq = enforceReadAccess_equals_rls [OF this, where cast_first = True]
  from eq [where u = bob] eq [where u = BOB_in_capitals] eq [where u = "''nobody''"]
  show ?thesis
    by (simp add: u) (simp add: shared_row_def enforceReadAccess_def PUBLIC_READABLE_CONTEXTS_def BOB_in_capitals_def bob_def)
qed

end
