(* ===== verification/Histories.thy ===== *)
theory Histories
  imports Prelude
begin

text \<open>
  The contract of a step relation, as two locales: what every step keeps holds along every
  history, and what no step changes is the same at its two ends.  The histories of the quota
  requests and of the semaphore commands are instances.
\<close>

locale kept_by_steps =
  fixes step :: "'s \<Rightarrow> 's \<Rightarrow> bool"
    and ok :: "'s \<Rightarrow> bool"
  assumes step_ok: "step s s' \<Longrightarrow> ok s \<Longrightarrow> ok s'"
begin

lemma history_ok: "step\<^sup>*\<^sup>* s s' \<Longrightarrow> ok s \<Longrightarrow> ok s'"
  by (induction rule: rtranclp_induct) (auto intro: step_ok)

end

text \<open>A quantity that no step from a good state moves.\<close>

locale fixed_by_steps = kept_by_steps +
  fixes quantity :: "'s \<Rightarrow> 'q"
  assumes step_fixed: "step s s' \<Longrightarrow> ok s \<Longrightarrow> quantity s' = quantity s"
begin

lemma history_fixed: "step\<^sup>*\<^sup>* s s' \<Longrightarrow> ok s \<Longrightarrow> quantity s' = quantity s"
proof (induction rule: rtranclp_induct)
  case (step s1 s2)
  then have "ok s1"
    by (auto intro: history_ok)
  with step show ?case
    by (simp add: step_fixed)
qed simp

end

end
