(* ===== verification/Quota.thy ===== *)
theory Quota
  imports Samples Histories
begin

text \<open>
  \<open>quota.service.ts\<close>: the check before an upload, the updates after an upload and a
  delete, the midnight reset, the cache in front of the row, and the usage alerts.

  The accounting contract is \<open>usage\<close>, the three counters of a user; \<open>charge\<close> and
  \<open>release\<close> are what an upload and a delete do to it.
\<close>

definition QUOTA_CACHE_TTL_MS :: int where
  "QUOTA_CACHE_TTL_MS = 60 * 60 * 1000"

definition QUOTA_ALERT_COOLDOWN_TTL_SECONDS :: int where
  "QUOTA_ALERT_COOLDOWN_TTL_SECONDS = 60 * 60"

definition QUOTA_ALERT_THRESHOLDS :: "int list" where
  "QUOTA_ALERT_THRESHOLDS = [80, 95]"

section \<open>Helpers\<close>

definition quota_cacheKey :: "uuid \<Rightarrow> string" where
  "quota_cacheKey userId = ''quota:user:'' @ userId"

definition invalidateCache :: "env \<Rightarrow> uuid \<Rightarrow> unit io" where
  "invalidateCache env userId = catchE (cache_del env (quota_cacheKey userId)) (\<lambda>_. ret ())"

definition validateBlobSize :: "int \<Rightarrow> exn + unit" where
  "validateBlobSize blobSize =
     (if \<not> is_safe_integer blobSize \<or> blobSize < 0
      then Inl (BadRequest (''Invalid blobSize: '' @ show_int blobSize)) else Inr ())"

definition to_cached_quota :: "user_quota \<Rightarrow> cached_quota" where
  "to_cached_quota q = \<lparr>cq_id = q_id q, cq_userId = q_userId q,
     cq_storageUsed = show_int (q_storageUsed q), cq_storageLimit = show_int (q_storageLimit q),
     cq_filesCount = q_filesCount q, cq_filesLimit = q_filesLimit q,
     cq_dailyUploads = q_dailyUploads q, cq_dailyUploadLimit = q_dailyUploadLimit q,
     cq_quotaDate = q_quotaDate q\<rparr>"

definition rehydrate_quota :: "cached_quota \<Rightarrow> exn + user_quota" where
  "rehydrate_quota c =
     (case (read_bigint (cq_storageUsed c), read_bigint (cq_storageLimit c)) of
        (Some used, Some limit) \<Rightarrow>
          Inr \<lparr>q_id = cq_id c, q_userId = cq_userId c, q_storageUsed = used, q_storageLimit = limit,
            q_filesCount = cq_filesCount c, q_filesLimit = cq_filesLimit c,
            q_dailyUploads = cq_dailyUploads c, q_dailyUploadLimit = cq_dailyUploadLimit c,
            q_quotaDate = cq_quotaDate c\<rparr>
      | _ \<Rightarrow> Inl (JsError ''Cannot convert to a BigInt''))"

text \<open>What the cache holds under a quota key, read as a \<open>CachedQuota\<close>.\<close>

definition rehydrate :: "cval \<Rightarrow> exn + user_quota" where
  "rehydrate v =
     (case v of CQuota c \<Rightarrow> rehydrate_quota c | _ \<Rightarrow> Inl (TypeError ''Cannot convert undefined to a BigInt''))"

definition default_quota :: "env \<Rightarrow> uuid \<Rightarrow> uuid \<Rightarrow> world \<Rightarrow> user_quota" where
  "default_quota env qid userId w = \<lparr>q_id = qid, q_userId = userId, q_storageUsed = 0,
     q_storageLimit = DEFAULT_STORAGE_LIMIT_BYTES, q_filesCount = 0, q_filesLimit = DEFAULT_FILES_LIMIT,
     q_dailyUploads = 0, q_dailyUploadLimit = DEFAULT_DAILY_UPLOAD_LIMIT,
     q_quotaDate = current_date env w\<rparr>"

definition fetch_or_insert_quota :: "env \<Rightarrow> uuid \<Rightarrow> user_quota io" where
  "fetch_or_insert_quota env userId =
     bindE (find_quota env userId) (\<lambda>row.
     bindE (case row of
         None \<Rightarrow>
           bindE (randomUUID env) (\<lambda>qid.
           bindE (insert_quota_or_ignore env (default_quota env qid userId)) (\<lambda>_.
             find_quota env userId))
       | Some r \<Rightarrow> ret row) (\<lambda>row.
     case row of
       None \<Rightarrow> throw (JsError (''Failed to create or fetch quota for user '' @ userId))
     | Some q \<Rightarrow> ret q))"

definition getOrCreateQuota :: "env \<Rightarrow> uuid \<Rightarrow> user_quota io" where
  "getOrCreateQuota env userId =
     bindE (catchE (cache_get env (quota_cacheKey userId)) (\<lambda>_. ret None)) (\<lambda>cached.
     case cached of
       Some c \<Rightarrow> from_result (rehydrate c)
     | None \<Rightarrow>
         bindE (transaction env (fetch_or_insert_quota env userId)) (\<lambda>quota.
         bindE (catchE (cache_set env (quota_cacheKey userId) (CQuota (to_cached_quota quota))
             QUOTA_CACHE_TTL_MS) (\<lambda>_. ret ())) (\<lambda>_.
         ret quota)))"

section \<open>Pre-upload check\<close>

record quota_check_result =
  allowed :: bool
  reason :: "string option"
  r_quota :: user_quota

definition quota_decision :: "user_quota \<Rightarrow> int \<Rightarrow> quota_check_result" where
  "quota_decision quota blobSize =
     (if q_storageUsed quota + blobSize > q_storageLimit quota
      then \<lparr>allowed = False, reason = Some ''Storage limit exceeded'', r_quota = quota\<rparr>
      else if q_filesCount quota \<ge> q_filesLimit quota
      then \<lparr>allowed = False, reason = Some ''Files count limit exceeded'', r_quota = quota\<rparr>
      else if q_dailyUploads quota \<ge> q_dailyUploadLimit quota
      then \<lparr>allowed = False, reason = Some ''Daily upload limit exceeded'', r_quota = quota\<rparr>
      else \<lparr>allowed = True, reason = None, r_quota = quota\<rparr>)"

definition checkQuota :: "env \<Rightarrow> uuid \<Rightarrow> int \<Rightarrow> quota_check_result io" where
  "checkQuota env userId blobSize =
     bindE (from_result (validateBlobSize blobSize)) (\<lambda>_.
     bindE (getOrCreateQuota env userId) (\<lambda>quota.
     ret (quota_decision quota blobSize)))"

definition quota_error :: "quota_check_result \<Rightarrow> exn" where
  "quota_error res = HttpException 413 (Obj
     [(''message'', case reason res of None \<Rightarrow> '''' | Some m \<Rightarrow> m),
      (''storageUsed'', show_int (q_storageUsed (r_quota res))),
      (''storageLimit'', show_int (q_storageLimit (r_quota res))),
      (''filesCount'', show_int (q_filesCount (r_quota res))),
      (''filesLimit'', show_int (q_filesLimit (r_quota res))),
      (''dailyUploads'', show_int (q_dailyUploads (r_quota res))),
      (''dailyUploadLimit'', show_int (q_dailyUploadLimit (r_quota res)))])"

definition enforceQuota :: "env \<Rightarrow> uuid \<Rightarrow> int \<Rightarrow> unit io" where
  "enforceQuota env userId blobSize =
     bindE (checkQuota env userId blobSize) (\<lambda>result.
     throw_when (\<not> allowed result) (quota_error result))"

section \<open>Alerts\<close>

definition cooldownKey :: "uuid \<Rightarrow> int \<Rightarrow> string" where
  "cooldownKey userId percent = ''quota:alert:cooldown:'' @ userId @ '':'' @ show_int percent"

definition publishQuotaAlert :: "env \<Rightarrow> uuid \<Rightarrow> int \<Rightarrow> int \<Rightarrow> int \<Rightarrow> unit io" where
  "publishQuotaAlert env userId storageUsed storageLimit percent =
     bindE (redis_set_nx_ex env (cooldownKey userId percent) 1 QUOTA_ALERT_COOLDOWN_TTL_SECONDS)
       (\<lambda>acquired.
     if \<not> acquired then ret ()
     else redis_publish env (QuotaAlert userId (show_int storageUsed) (show_int storageLimit) percent))"

definition percent_used :: "user_quota \<Rightarrow> int" where
  "percent_used q = bigint_div (q_storageUsed q * 100) (q_storageLimit q)"

definition checkAndPublishQuotaAlert :: "env \<Rightarrow> uuid \<Rightarrow> unit io" where
  "checkAndPublishQuotaAlert env userId =
     bindE (getOrCreateQuota env userId) (\<lambda>quota.
     if q_storageLimit quota = 0 then ret ()
     else for_each QUOTA_ALERT_THRESHOLDS (\<lambda>threshold.
       if percent_used quota \<ge> threshold
       then publishQuotaAlert env userId (q_storageUsed quota) (q_storageLimit quota) threshold
       else ret ()))"

section \<open>Updates\<close>

definition charge_row :: "int \<Rightarrow> user_quota \<Rightarrow> user_quota" where
  "charge_row blobSize q = q\<lparr>q_storageUsed := q_storageUsed q + blobSize,
     q_filesCount := q_filesCount q + 1, q_dailyUploads := q_dailyUploads q + 1\<rparr>"

definition release_row :: "int \<Rightarrow> user_quota \<Rightarrow> user_quota" where
  "release_row blobSize q = q\<lparr>q_storageUsed := max 0 (q_storageUsed q - blobSize),
     q_filesCount := max 0 (q_filesCount q - 1)\<rparr>"

definition update_quota_or_fail :: "env \<Rightarrow> uuid \<Rightarrow> (user_quota \<Rightarrow> user_quota) \<Rightarrow> unit io" where
  "update_quota_or_fail env userId f =
     transaction env
       (bindE (update_quota env userId f) (\<lambda>affected.
        throw_when (affected = 0) (JsError (''No quota row found for user '' @ userId))))"

definition recordUpload :: "env \<Rightarrow> uuid \<Rightarrow> int \<Rightarrow> unit io" where
  "recordUpload env userId blobSize =
     bindE (from_result (validateBlobSize blobSize)) (\<lambda>_.
     bindE (update_quota_or_fail env userId (charge_row blobSize)) (\<lambda>_.
     bindE (invalidateCache env userId) (\<lambda>_.
     fire_and_forget (checkAndPublishQuotaAlert env userId))))"

definition recordDelete :: "env \<Rightarrow> uuid \<Rightarrow> int \<Rightarrow> unit io" where
  "recordDelete env userId blobSize =
     bindE (from_result (validateBlobSize blobSize)) (\<lambda>_.
     bindE (update_quota_or_fail env userId (release_row blobSize)) (\<lambda>_.
     invalidateCache env userId))"

section \<open>Midnight reset\<close>

definition CHUNK_SIZE :: nat where
  "CHUNK_SIZE = 100"

function id_chunks :: "'a list \<Rightarrow> 'a list list" where
  "id_chunks [] = []"
| "id_chunks (x # xs) = take CHUNK_SIZE (x # xs) # id_chunks (drop CHUNK_SIZE (x # xs))"
  by pat_completeness auto
termination
  by (relation "measure length") (auto simp: CHUNK_SIZE_def)

definition resetDailyUploads :: "env \<Rightarrow> unit io" where
  "resetDailyUploads env =
     bindE (reset_daily_uploads env) (\<lambda>userIds.
     for_each (id_chunks userIds) (\<lambda>chunk. for_each chunk (invalidateCache env)))"

section \<open>Rows and their updates\<close>

lemma rehydrate_to_cached [simp]: "rehydrate (CQuota (to_cached_quota q)) = Inr q"
  by (simp add: rehydrate_def rehydrate_quota_def to_cached_quota_def)

lemma quota_cacheKey_inject [simp]: "quota_cacheKey u = quota_cacheKey v \<longleftrightarrow> u = v"
  by (simp add: quota_cacheKey_def)

lemma validateBlobSize_Inr: "validateBlobSize n = Inr () \<longleftrightarrow> 0 \<le> n \<and> n \<le> MAX_SAFE_INTEGER"
  by (auto simp: validateBlobSize_def is_safe_integer_def MAX_SAFE_INTEGER_def)

definition quota_row :: "user_quota list \<Rightarrow> uuid \<Rightarrow> user_quota option" where
  "quota_row t u = List.find (\<lambda>q. q_userId q = u) t"

definition has_row :: "uuid \<Rightarrow> user_quota list \<Rightarrow> bool" where
  "has_row u t \<longleftrightarrow> (\<exists>q \<in> set t. q_userId q = u)"

definition update_row :: "uuid \<Rightarrow> (user_quota \<Rightarrow> user_quota) \<Rightarrow> user_quota list \<Rightarrow> user_quota list" where
  "update_row u f t = update_where (\<lambda>q. q_userId q = u) f t"

lemma quota_row_None: "quota_row t u = None \<longleftrightarrow> \<not> has_row u t"
  by (simp add: quota_row_def has_row_def find_None_iff)

lemma quota_row_user: "quota_row t u = Some q \<Longrightarrow> q_userId q = u"
  by (auto simp: quota_row_def dest: find_Some_in)

lemma quota_row_update [simp]:
  "(\<And>q. q_userId (f q) = q_userId q) \<Longrightarrow>
   quota_row (update_row u f t) v = (if v = u then map_option f (quota_row t v) else quota_row t v)"
  by (induction t) (auto simp: quota_row_def update_row_def)

lemma quota_row_append: "quota_row (t @ [q]) u =
    (case quota_row t u of None \<Rightarrow> if q_userId q = u then Some q else None | Some r \<Rightarrow> Some r)"
  by (induction t) (auto simp: quota_row_def)

lemma charge_release_user [simp]:
  "q_userId (charge_row n q) = q_userId q" "q_userId (release_row n q) = q_userId q"
  by (simp_all add: charge_row_def release_row_def)

lemma quota_permitted_own [simp]:
  "guc w = Some u \<Longrightarrow> q_userId q = u \<and> quota_permitted env w q \<longleftrightarrow> q_userId q = u"
  by (auto simp: quota_permitted_def user_quotas_owner_policy_def)

lemma keeps_fetch_or_insert_quota:
  assumes "has_row u t"
  shows "keeps (\<lambda>w. quota_tbl w = t) (fetch_or_insert_quota env u)"
  unfolding fetch_or_insert_quota_def
proof (intro keeps_intros)
  show "keeps (\<lambda>w. quota_tbl w = t) (find_quota env u)"
    by (intro frame_keeps_eq frame_intros) simp
  show "keeps (\<lambda>w. quota_tbl w = t) (randomUUID env)"
    by (simp add: keeps_def randomUUID_def)
  show "keeps (\<lambda>w. quota_tbl w = t) (insert_quota_or_ignore env (default_quota env qid u))" for qid
    unfolding insert_quota_or_ignore_def
    by (rule keeps_ext) (use assms in \<open>auto simp: keeps_def has_row_def default_quota_def Let_def\<close>)
qed (intro frame_keeps_eq frame_intros, simp)

lemma keeps_getOrCreateQuota:
  assumes "has_row u t"
  shows "keeps (\<lambda>w. quota_tbl w = t) (getOrCreateQuota env u)"
  unfolding getOrCreateQuota_def
  by (intro keeps_intros keeps_transaction keeps_fetch_or_insert_quota [OF assms])
    (auto intro!: frame_keeps_eq frame_intros tick_freeI)

lemma frame_publishQuotaAlert [frame_intros]:
  "(\<And>w. g (tick w) = g w) \<Longrightarrow> (\<And>w c. g (w\<lparr>redis := c\<rparr>) = g w) \<Longrightarrow> (\<And>w c. g (w\<lparr>published := c\<rparr>) = g w) \<Longrightarrow>
   frame g (publishQuotaAlert env u a b p)"
  unfolding publishQuotaAlert_def by (intro frame_intros)

lemma keeps_checkAndPublish:
  assumes "has_row u t"
  shows "keeps (\<lambda>w. quota_tbl w = t) (checkAndPublishQuotaAlert env u)"
  unfolding checkAndPublishQuotaAlert_def
  by (intro keeps_intros keeps_getOrCreateQuota [OF assms])
    (auto intro!: frame_keeps_eq frame_intros)

lemma frame_invalidateCache [frame_intros]:
  "(\<And>w. g (tick w) = g w) \<Longrightarrow> (\<And>w c. g (w\<lparr>cache := c\<rparr>) = g w) \<Longrightarrow> frame g (invalidateCache env u)"
  unfolding invalidateCache_def by (intro frame_intros)

lemma has_row_update [simp]: "(\<And>q. q_userId (f q) = q_userId q) \<Longrightarrow> has_row v (update_row u f t) = has_row v t"
  by (auto simp: has_row_def update_row_def set_update_where)

lemma wp_update_quota_own:
  assumes "guc w = Some u"
  shows "wp (update_quota env u f) Q R w =
    (let w1 = (tick w)\<lparr>quota_tbl := update_row u f (quota_tbl w)\<rparr>;
         bad = (\<exists>q \<in> set (quota_tbl w). q_userId q = u \<and> \<not> quota_in_range (f q));
         affected = length (filter (\<lambda>q. q_userId q = u) (quota_tbl w)) in
     (case outcome_at env (ticks w) of
        Done \<Rightarrow> if bad then R (IoError ''value out of range'') (tick w) else Q affected w1
      | Rejected msg \<Rightarrow> R (IoError msg) (tick w)
      | Lost msg \<Rightarrow> R (IoError msg) (if bad then tick w else w1)))"
proof -
  have p: "(\<lambda>q. q_userId q = u \<and> quota_permitted env (tick w) q) = (\<lambda>q. q_userId q = u)"
    using assms by (auto simp: quota_permitted_def user_quotas_owner_policy_def)
  have b: "(\<exists>q \<in> set (quota_tbl w). q_userId q = u \<and> quota_permitted env (tick w) q \<and> \<not> quota_in_range (f q))
     \<longleftrightarrow> (\<exists>q \<in> set (quota_tbl w). q_userId q = u \<and> \<not> quota_in_range (f q))"
    using fun_cong [OF p] by blast
  show ?thesis
    unfolding update_quota_def wp_ext
    by (simp only: wp_def Let_def p b tick_simps update_row_def conj_assoc split: outcome.split)
      auto
qed

lemma wp_update_quota_or_fail:
  assumes "acts_as env u" and q: "tick_free Q" and r: "\<And>e. tick_free (R e)" and "\<And>e. R e w"
    and "\<And>e. has_row u (quota_tbl w) \<Longrightarrow> Q (w\<lparr>quota_tbl := update_row u f (quota_tbl w)\<rparr>)
           \<and> R e (w\<lparr>quota_tbl := update_row u f (quota_tbl w)\<rparr>)"
  shows "wp (update_quota_or_fail env u f) (\<lambda>_. Q) R w"
  unfolding update_quota_or_fail_def
proof (rule wp_transactionI [OF q r assms(4)])
  fix w1
  assume w1: "same_db w w1" "guc w1 = request_guc env"
  have g: "guc w1 = Some u"
    using assms(1) w1(2) by simp
  have n: "filter (\<lambda>q. q_userId q = u) (quota_tbl w) \<noteq> [] \<Longrightarrow> has_row u (quota_tbl w)"
    by (auto simp: has_row_def filter_empty_conv)
  let ?w = "w\<lparr>quota_tbl := update_row u f (quota_tbl w)\<rparr>"
  have upd: "same_db ?w ((tick w1)\<lparr>quota_tbl := update_row u f (quota_tbl w)\<rparr>)"
    "same_db w (restore_db w ((tick w1)\<lparr>quota_tbl := update_row u f (quota_tbl w)\<rparr>))"
    "same_db w (restore_db w (tick w1))"
    using w1(1) by (simp_all add: same_db_def outside_db_def)
  show "wp (bindE (update_quota env u f) (\<lambda>affected. throw_when (affected = 0)
           (JsError (''No quota row found for user '' @ u))))
        (\<lambda>_ w2. Q w2 \<and> (\<forall>e. R e w2 \<and> R e (restore_db w w2))) (\<lambda>e w2. R e (restore_db w w2)) w1"
    using assms(4,5) n tick_free_same [OF q upd(1)] tick_free_same [OF r upd(1)]
       tick_free_same [OF r upd(2)] tick_free_same [OF r upd(3)]
    unfolding wp_bindE wp_throw_when wp_update_quota_own [OF g] same_dbD [OF w1(1)] Let_def
    by (auto split: outcome.split)
qed

section \<open>Atomicity under every pattern of failures\<close>

lemma wp_validateBlobSize [wp_simps]:
  "wp (from_result (validateBlobSize n)) Q R w =
     (if 0 \<le> n \<and> n \<le> MAX_SAFE_INTEGER then Q () w else R (BadRequest (''Invalid blobSize: '' @ show_int n)) w)"
  by (auto simp: wp_simps validateBlobSize_def is_safe_integer_def MAX_SAFE_INTEGER_def)

lemma wp_recordUpload_tables:
  fixes n :: int
  assumes "acts_as env u"
  defines "t w \<equiv> update_row u (charge_row n) (quota_tbl w)"
  shows "wp (recordUpload env u n)
     (\<lambda>_ w'. quota_tbl w' = t w \<and> has_row u (quota_tbl w) \<and> 0 \<le> n \<and> n \<le> MAX_SAFE_INTEGER)
     (\<lambda>e w'. quota_tbl w' \<in> {quota_tbl w, t w}) w"
proof -
  define I where "I = (\<lambda>w' :: world. quota_tbl w' = t w)"
  have after: "wp (bindE (invalidateCache env u) (\<lambda>_. fire_and_forget (checkAndPublishQuotaAlert env u)))
      (\<lambda>_ w'. quota_tbl w' = t w \<and> has_row u (quota_tbl w) \<and> 0 \<le> n \<and> n \<le> MAX_SAFE_INTEGER)
     (\<lambda>e w'. quota_tbl w' \<in> {quota_tbl w, t w}) w1"
    if "I w1" "has_row u (quota_tbl w)" "0 \<le> n" "n \<le> MAX_SAFE_INTEGER" for w1
  proof (rule keeps_wp_const [where I = I])
    have "has_row u (t w)"
      using that(2) by (simp add: t_def)
    then show "keeps I (bindE (invalidateCache env u) (\<lambda>_. fire_and_forget (checkAndPublishQuotaAlert env u)))"
      unfolding I_def
      by (intro keeps_intros keeps_checkAndPublish) (auto intro!: frame_keeps_eq frame_intros)
  qed (use that in \<open>auto simp: I_def\<close>)
  show ?thesis
  proof (cases "0 \<le> n \<and> n \<le> MAX_SAFE_INTEGER")
    case True
    have "wp (update_quota_or_fail env u (charge_row n)) (\<lambda>_ w1. I w1 \<and> has_row u (quota_tbl w))
        (\<lambda>e w'. quota_tbl w' \<in> {quota_tbl w, t w}) w"
      by (rule wp_update_quota_or_fail [OF assms(1)]) (auto intro!: tick_freeI simp: I_def t_def)
    then have "wp (update_quota_or_fail env u (charge_row n))
        (\<lambda>_. wp (bindE (invalidateCache env u) (\<lambda>_. fire_and_forget (checkAndPublishQuotaAlert env u)))
          (\<lambda>_ w'. quota_tbl w' = t w \<and> has_row u (quota_tbl w) \<and> 0 \<le> n \<and> n \<le> MAX_SAFE_INTEGER)
          (\<lambda>e w'. quota_tbl w' \<in> {quota_tbl w, t w}))
        (\<lambda>e w'. quota_tbl w' \<in> {quota_tbl w, t w}) w"
      by (rule wp_mono) (use after True in auto)
    with True show ?thesis
      by (simp only: recordUpload_def wp_bindE wp_validateBlobSize) simp
  next
    case False
    then show ?thesis
      by (simp only: recordUpload_def wp_bindE wp_validateBlobSize) simp
  qed
qed

lemma wp_recordDelete_tables:
  fixes n :: int
  assumes "acts_as env u"
  defines "t w \<equiv> update_row u (release_row n) (quota_tbl w)"
  shows "wp (recordDelete env u n)
     (\<lambda>_ w'. quota_tbl w' = t w \<and> has_row u (quota_tbl w) \<and> 0 \<le> n \<and> n \<le> MAX_SAFE_INTEGER)
     (\<lambda>e w'. quota_tbl w' \<in> {quota_tbl w, t w}) w"
proof (cases "0 \<le> n \<and> n \<le> MAX_SAFE_INTEGER")
  case True
  have inv: "wp (invalidateCache env u) (\<lambda>_ w'. quota_tbl w' = t w \<and> has_row u (quota_tbl w) \<and> 0 \<le> n \<and> n \<le> MAX_SAFE_INTEGER)
     (\<lambda>e w'. quota_tbl w' \<in> {quota_tbl w, t w}) w1" if "quota_tbl w1 = t w \<and> has_row u (quota_tbl w)" for w1
    by (rule keeps_wp_const [where I = "\<lambda>w'. quota_tbl w' = t w"])
      (use that True in \<open>auto intro!: frame_keeps_eq frame_intros\<close>)
  have "wp (update_quota_or_fail env u (release_row n)) (\<lambda>_ w1. quota_tbl w1 = t w \<and> has_row u (quota_tbl w))
      (\<lambda>e w'. quota_tbl w' \<in> {quota_tbl w, t w}) w"
    by (rule wp_update_quota_or_fail [OF assms(1)]) (auto intro!: tick_freeI simp: t_def)
  then have "wp (update_quota_or_fail env u (release_row n)) (\<lambda>_. wp (invalidateCache env u)
       (\<lambda>_ w'. quota_tbl w' = t w \<and> has_row u (quota_tbl w) \<and> 0 \<le> n \<and> n \<le> MAX_SAFE_INTEGER)
       (\<lambda>e w'. quota_tbl w' \<in> {quota_tbl w, t w}))
      (\<lambda>e w'. quota_tbl w' \<in> {quota_tbl w, t w}) w"
    by (rule wp_mono) (use inv in auto)
  with True show ?thesis
    by (simp only: recordDelete_def wp_bindE wp_validateBlobSize) simp
next
  case False
  then show ?thesis
    by (simp only: recordDelete_def wp_bindE wp_validateBlobSize) simp
qed

text \<open>A row for the witnesses.\<close>

definition sample_quota :: "uuid \<Rightarrow> user_quota" where
  "sample_quota u = \<lparr>q_id = sample_uuid 9, q_userId = u, q_storageUsed = 800, q_storageLimit = 1000,
     q_filesCount = 3, q_filesLimit = 10, q_dailyUploads = 1, q_dailyUploadLimit = 5, q_quotaDate = 0\<rparr>"

definition quota_world :: world where
  "quota_world = empty_world\<lparr>quota_tbl := [sample_quota bob, sample_quota alice]\<rparr>"

lemma acts_as_sample [simp]: "acts_as sample_env alice"
  by (simp add: acts_as_def sample_env_def alice_def)

text \<open>Whatever calls fail, \<open>recordUpload\<close> charges the user's row exactly once or not at
  all, never touches another user's row, and returns normally only when it has charged it.\<close>

theorem recordUpload_atomic:
  assumes "acts_as env u" and "recordUpload env u n w = (r, w')"
  shows "quota_tbl w' \<in> {quota_tbl w, update_row u (charge_row n) (quota_tbl w)}
     \<and> (r = Inr () \<longrightarrow> quota_tbl w' = update_row u (charge_row n) (quota_tbl w)
          \<and> has_row u (quota_tbl w) \<and> 0 \<le> n)"
  using wp_recordUpload_tables [OF assms(1), of n w] assms(2)
  by (cases r) (auto simp: wp_def)

theorem recordUpload_atomic_witness:
  "quota_tbl (snd (recordUpload sample_env alice 150 quota_world))
     = update_row alice (charge_row 150) (quota_tbl quota_world)"
proof -
  have "fst (recordUpload sample_env alice 150 quota_world) = Inr ()"
    by code_simp
  then show ?thesis
    using recordUpload_atomic [OF acts_as_sample prod.collapse [symmetric], of 150 quota_world] by simp
qed

lemma update_row_release_nonneg:
  "\<forall>q \<in> set (update_row u (release_row n) t). q_userId q = u \<longrightarrow> 0 \<le> q_storageUsed q \<and> 0 \<le> q_filesCount q"
  unfolding update_row_def by (induction t) (simp_all add: release_row_def)

text \<open>The same for \<open>recordDelete\<close>, and the counters it writes are never negative.\<close>

theorem recordDelete_atomic:
  assumes "acts_as env u" and "recordDelete env u n w = (r, w')"
  shows "quota_tbl w' \<in> {quota_tbl w, update_row u (release_row n) (quota_tbl w)}
     \<and> (r = Inr () \<longrightarrow> quota_tbl w' = update_row u (release_row n) (quota_tbl w)
          \<and> (\<forall>q \<in> set (quota_tbl w'). q_userId q = u \<longrightarrow> 0 \<le> q_storageUsed q \<and> 0 \<le> q_filesCount q))"
proof (cases r)
  case (Inl e)
  with wp_Inl [OF _ wp_recordDelete_tables [OF assms(1), of n w]] assms(2)
  show ?thesis by simp
next
  case (Inr x)
  with wp_Inr [OF _ wp_recordDelete_tables [OF assms(1), of n w]] assms(2)
  have "quota_tbl w' = update_row u (release_row n) (quota_tbl w)" by blast
  then show ?thesis by (simp add: update_row_release_nonneg)
qed

theorem recordDelete_atomic_witness:
  "quota_tbl (snd (recordDelete sample_env alice 850 quota_world))
     = update_row alice (release_row 850) (quota_tbl quota_world)"
proof -
  have "fst (recordDelete sample_env alice 850 quota_world) = Inr ()"
    by code_simp
  then show ?thesis
    using recordDelete_atomic [OF acts_as_sample prod.collapse [symmetric], of 850 quota_world] by simp
qed

section \<open>Cache coherence and the accounting contract\<close>

text \<open>
  Without failures, every unexpired quota entry in the cache is the row it was made from.
\<close>

definition quota_truth :: "user_quota list \<Rightarrow> string \<Rightarrow> cval \<times> millis \<Rightarrow> bool" where
  "quota_truth t k v \<longleftrightarrow> (\<forall>u. k = quota_cacheKey u \<longrightarrow> (\<exists>q. quota_row t u = Some q \<and> rehydrate (fst v) = Inr q))"

definition quota_coherent :: "world \<Rightarrow> bool" where
  "quota_coherent w \<longleftrightarrow> cache_kv.agrees (quota_truth (quota_tbl w)) (cache w)"

lemma quota_coherentD:
  assumes "quota_coherent w" and "cache_find t (cache w) (quota_cacheKey u) = Some v"
  shows "\<exists>q. quota_row (quota_tbl w) u = Some q \<and> rehydrate v = Inr q"
  using cache_kv.agreesD [OF assms(1) [unfolded quota_coherent_def]] cache_find_Some [OF assms(2)]
  by (fastforce simp: quota_truth_def)

lemma quota_coherent_cong:
  "quota_tbl w' = quota_tbl w \<Longrightarrow> cache w' = cache w \<Longrightarrow> quota_coherent w' = quota_coherent w"
  by (simp add: quota_coherent_def)

lemma quota_coherent_put:
  assumes "cache_kv.agrees (quota_truth t) c" and "quota_row t u = Some q"
  shows "cache_kv.agrees (quota_truth t) (c(quota_cacheKey u := Some (CQuota (to_cached_quota q), until)))"
  using cache_kv.agrees_put [OF assms(1), of "quota_cacheKey u" "(CQuota (to_cached_quota q), until)"] assms(2)
  by (simp add: map_put_def quota_truth_def)

lemma quota_coherent_append:
  assumes "cache_kv.agrees (quota_truth t) c"
  shows "cache_kv.agrees (quota_truth (t @ [q])) c"
  using assms by (rule cache_kv.agrees_mono) (auto simp: quota_truth_def quota_row_append)

lemma quota_coherent_update:
  assumes "cache_kv.agrees (quota_truth t) c" and "\<And>q. q_userId (f q) = q_userId q"
  shows "cache_kv.agrees (quota_truth (update_row u f t)) (c(quota_cacheKey u := None))"
  using cache_kv.agrees_invalidate [OF assms(1), of "quota_cacheKey u"] assms(2)
  by (auto simp: map_remove_def quota_truth_def)

lemma find_quota_calm:
  "calm env \<Longrightarrow> guc w = Some u \<Longrightarrow> wp (find_quota env u) Q R w = Q (quota_row (quota_tbl w) u) (tick w)"
  by (simp add: find_quota_def wp_ext_calm wp_gets quota_row_def quota_permitted_own)

lemma insert_quota_calm:
  assumes "calm env" and "guc w = Some u" and "\<And>w. q_userId (mk w) = u" and "quota_row (quota_tbl w) u = None"
  shows "wp (insert_quota_or_ignore env mk) Q R w =
     Q () ((tick w)\<lparr>quota_tbl := quota_tbl w @ [mk (tick w)]\<rparr>)"
  using assms
  by (auto simp: insert_quota_or_ignore_def wp_ext_calm quota_row_None has_row_def wp_def Let_def
      quota_permitted_def user_quotas_owner_policy_def)

text \<open>The rows a quota read can leave: the same, or one more, the defaults.\<close>

definition quota_read :: "uuid \<Rightarrow> user_quota \<Rightarrow> user_quota list \<Rightarrow> user_quota list \<Rightarrow> bool" where
  "quota_read u q t t' \<longleftrightarrow>
     (quota_row t u = Some q \<and> t' = t)
     \<or> (quota_row t u = None \<and> t' = t @ [q] \<and> (\<exists>env qid w. q = default_quota env qid u w))"

lemma default_quota_user [simp]: "q_userId (default_quota env qid u w) = u"
  by (simp add: default_quota_def)

lemma fetch_or_insert_quota_calm:
  assumes "calm env" and "guc w = Some u"
  shows "wp (fetch_or_insert_quota env u)
     (\<lambda>q w'. quota_read u q (quota_tbl w) (quota_tbl w') \<and> cache w' = cache w \<and> redis w' = redis w
        \<and> s3 w' = s3 w \<and> published w' = published w \<and> media_tbl w' = media_tbl w \<and> log_tbl w' = log_tbl w)
     (\<lambda>_ _. False) w"
proof (cases "quota_row (quota_tbl w) u")
  case None
  then show ?thesis
    using assms
    by (auto simp: fetch_or_insert_quota_def wp_bindE wp_randomUUID wp_ret find_quota_calm insert_quota_calm
        quota_row_append quota_read_def)
next
  case (Some q)
  then show ?thesis
    using assms by (simp add: fetch_or_insert_quota_def wp_bindE find_quota_calm wp_ret quota_read_def)
qed

lemma quota_read_row: "quota_read u q t t' \<Longrightarrow> quota_row t' u = Some q"
  by (auto simp: quota_read_def quota_row_append)

lemma getOrCreateQuota_calm:
  assumes "calm env" and "acts_as env u" and "quota_coherent w"
  shows "wp (getOrCreateQuota env u)
     (\<lambda>q w'. quota_read u q (quota_tbl w) (quota_tbl w') \<and> quota_coherent w' \<and> redis w' = redis w
        \<and> s3 w' = s3 w \<and> published w' = published w \<and> media_tbl w' = media_tbl w \<and> log_tbl w' = log_tbl w)
     (\<lambda>_ _. False) w"
proof (cases "cache_find (now env (tick w)) (cache w) (quota_cacheKey u)")
  case None
  have c: "quota_coherent (w'\<lparr>cache := (cache w)(quota_cacheKey u := Some (CQuota (to_cached_quota q), d))\<rparr>)"
    if "quota_read u q (quota_tbl w) (quota_tbl w')" for q w' d
  proof -
    have "cache_kv.agrees (quota_truth (quota_tbl w')) (cache w)"
      using that assms(3) quota_coherent_append by (auto simp: quota_read_def quota_coherent_def)
    then show ?thesis
      using quota_coherent_put quota_read_row [OF that] by (simp add: quota_coherent_def)
  qed
  have f: "wp (fetch_or_insert_quota env u)
     (\<lambda>q w'. quota_read u q (quota_tbl w) (quota_tbl w') \<and> cache w' = cache w \<and> redis w' = redis w
        \<and> s3 w' = s3 w \<and> published w' = published w \<and> media_tbl w' = media_tbl w \<and> log_tbl w' = log_tbl w)
     (\<lambda>_ _. False) (enter_tx env (tick w))"
    using fetch_or_insert_quota_calm [OF assms(1), of "enter_tx env (tick w)" u] assms(2) by simp
  show ?thesis
    apply (simp add: getOrCreateQuota_def wp_bindE wp_catchE wp_calm assms(1) None)
    apply (rule wp_mono [OF f])
     apply (simp_all add: wp_catchE wp_bindE wp_calm assms(1) wp_ret c)
    done
next
  case (Some v)
  from quota_coherentD [OF assms(3) this] obtain q
    where "quota_row (quota_tbl w) u = Some q" "rehydrate v = Inr q" by blast
  with Some show ?thesis
    using assms(3) quota_coherent_cong [of "tick w" w]
    by (simp add: getOrCreateQuota_def wp_bindE wp_catchE wp_calm assms(1) wp_from_result quota_read_def)
qed

text \<open>The accounting contract: what a user has used, and what the user may use.\<close>

record usage =
  u_storage :: int
  u_files :: int
  u_daily :: int

record limits =
  lim_storage :: int
  lim_files :: int
  lim_daily :: int

definition row_usage :: "user_quota \<Rightarrow> usage" where
  "row_usage q = \<lparr>u_storage = q_storageUsed q, u_files = q_filesCount q, u_daily = q_dailyUploads q\<rparr>"

definition row_limits :: "user_quota \<Rightarrow> limits" where
  "row_limits q = \<lparr>lim_storage = q_storageLimit q, lim_files = q_filesLimit q, lim_daily = q_dailyUploadLimit q\<rparr>"

definition usage_of :: "world \<Rightarrow> uuid \<Rightarrow> usage" where
  "usage_of w u = (case quota_row (quota_tbl w) u of
     None \<Rightarrow> \<lparr>u_storage = 0, u_files = 0, u_daily = 0\<rparr> | Some q \<Rightarrow> row_usage q)"

definition limits_of :: "world \<Rightarrow> uuid \<Rightarrow> limits" where
  "limits_of w u = (case quota_row (quota_tbl w) u of
     None \<Rightarrow> \<lparr>lim_storage = DEFAULT_STORAGE_LIMIT_BYTES, lim_files = DEFAULT_FILES_LIMIT,
              lim_daily = DEFAULT_DAILY_UPLOAD_LIMIT\<rparr>
   | Some q \<Rightarrow> row_limits q)"

definition admits :: "limits \<Rightarrow> usage \<Rightarrow> int \<Rightarrow> bool" where
  "admits l x n \<longleftrightarrow> u_storage x + n \<le> lim_storage l \<and> u_files x < lim_files l \<and> u_daily x < lim_daily l"

definition charge :: "int \<Rightarrow> usage \<Rightarrow> usage" where
  "charge n x = \<lparr>u_storage = u_storage x + n, u_files = u_files x + 1, u_daily = u_daily x + 1\<rparr>"

definition release :: "int \<Rightarrow> usage \<Rightarrow> usage" where
  "release n x = \<lparr>u_storage = max 0 (u_storage x - n), u_files = max 0 (u_files x - 1), u_daily = u_daily x\<rparr>"

definition within :: "limits \<Rightarrow> usage \<Rightarrow> bool" where
  "within l x \<longleftrightarrow> 0 \<le> u_storage x \<and> u_storage x \<le> lim_storage l \<and> 0 \<le> u_files x \<and> u_files x \<le> lim_files l
     \<and> 0 \<le> u_daily x \<and> u_daily x \<le> lim_daily l"

lemma within_charge: "within l x \<Longrightarrow> 0 \<le> n \<Longrightarrow> admits l x n \<Longrightarrow> within l (charge n x)"
  and within_release: "within l x \<Longrightarrow> 0 \<le> n \<Longrightarrow> within l (release n x)"
  by (auto simp: within_def admits_def charge_def release_def)

lemma row_usage_upd [simp]:
  "row_usage (charge_row n q) = charge n (row_usage q)" "row_limits (charge_row n q) = row_limits q"
  "row_usage (release_row n q) = release n (row_usage q)" "row_limits (release_row n q) = row_limits q"
  by (simp_all add: row_usage_def row_limits_def charge_row_def release_row_def charge_def release_def)

lemma usage_of_cong: "quota_tbl w' = quota_tbl w \<Longrightarrow> usage_of w' = usage_of w"
  and limits_of_cong: "quota_tbl w' = quota_tbl w \<Longrightarrow> limits_of w' = limits_of w"
  by (simp_all add: usage_of_def limits_of_def fun_eq_iff)

lemma quota_read_accounts:
  assumes "quota_read u q (quota_tbl w) (quota_tbl w')"
  shows "usage_of w' = usage_of w" and "limits_of w' = limits_of w"
    and "row_usage q = usage_of w u" and "row_limits q = limits_of w u"
  using assms
  by (auto simp: quota_read_def usage_of_def limits_of_def fun_eq_iff quota_row_append default_quota_def
      row_usage_def row_limits_def split: option.split if_splits)

lemma accounts_update:
  assumes "quota_tbl w' = update_row u f (quota_tbl w)" and "has_row u (quota_tbl w)"
    and "\<And>q. q_userId (f q) = q_userId q"
    and "\<And>q. row_usage (f q) = g (row_usage q)" and "\<And>q. row_limits (f q) = row_limits q"
  shows "usage_of w' = (usage_of w)(u := g (usage_of w u))" and "limits_of w' = limits_of w"
  using assms quota_row_None [of "quota_tbl w" u]
  by (auto simp: usage_of_def limits_of_def fun_eq_iff split: option.split)

lemma quota_decision_admits: "allowed (quota_decision q n) = admits (row_limits q) (row_usage q) n"
  by (auto simp: quota_decision_def admits_def row_limits_def row_usage_def)

lemma checkQuota_calm:
  assumes "calm env" and "acts_as env u" and "quota_coherent w" and "0 \<le> n" and "n \<le> MAX_SAFE_INTEGER"
  shows "wp (checkQuota env u n)
     (\<lambda>res w'. allowed res = admits (limits_of w u) (usage_of w u) n
        \<and> usage_of w' = usage_of w \<and> limits_of w' = limits_of w \<and> quota_coherent w')
     (\<lambda>_ _. False) w"
  using assms(4,5)
  by (simp add: checkQuota_def wp_bindE wp_validateBlobSize wp_ret quota_decision_admits)
    (rule wp_mono [OF getOrCreateQuota_calm [OF assms(1-3)]], auto simp: quota_read_accounts wp_ret quota_decision_admits)

text \<open>Without failures the pre-upload check never errors and decides exactly by the
  contract, whether it reads the cache, the row, or creates the row; it changes no account.\<close>

theorem checkQuota_decides:
  assumes "calm env" and "acts_as env u" and "quota_coherent w" and "0 \<le> n" and "n \<le> MAX_SAFE_INTEGER"
  shows "\<exists>res w'. checkQuota env u n w = (Inr res, w')
     \<and> (allowed res \<longleftrightarrow> admits (limits_of w u) (usage_of w u) n)
     \<and> usage_of w' = usage_of w \<and> limits_of w' = limits_of w \<and> quota_coherent w'"
  using checkQuota_calm [OF assms] by (auto simp: wp_def split: prod.splits sum.splits)

theorem checkQuota_decides_witness:
  "\<exists>res w'. checkQuota sample_env alice 150 quota_world = (Inr res, w')
     \<and> (allowed res \<longleftrightarrow> admits (limits_of quota_world alice) (usage_of quota_world alice) 150)
     \<and> usage_of w' = usage_of quota_world \<and> limits_of w' = limits_of quota_world \<and> quota_coherent w'"
  by (rule checkQuota_decides [OF calm_sample acts_as_sample])
    (simp_all add: quota_coherent_def cache_kv.agrees_def quota_world_def empty_world_def MAX_SAFE_INTEGER_def)

lemma invalidateCache_calm:
  assumes "calm env"
  shows "wp (invalidateCache env u) Q R w = Q () ((tick w)\<lparr>cache := (cache w)(quota_cacheKey u := None)\<rparr>)"
  by (simp add: invalidateCache_def wp_catchE wp_calm assms)

lemma quota_coherent_tick_free: "tick_free quota_coherent"
  by (rule tick_freeI) (simp add: quota_coherent_def)

text \<open>After the row's update the cached copy is stale; the invalidation repairs it.\<close>

definition stale_only :: "uuid \<Rightarrow> world \<Rightarrow> bool" where
  "stale_only u w \<longleftrightarrow> cache_kv.agrees (quota_truth (quota_tbl w)) ((cache w)(quota_cacheKey u := None))"

lemma stale_only_tick_free: "tick_free (stale_only u)"
  by (rule tick_freeI) (simp add: stale_only_def)

lemma coherent_stale_only: "quota_coherent w \<Longrightarrow> stale_only u w"
  by (auto simp: quota_coherent_def stale_only_def cache_kv.agrees_def)

lemma wp_update_coherent:
  assumes "acts_as env u" and "quota_coherent w" and "\<And>q. q_userId (f q) = q_userId q"
  shows "wp (update_quota_or_fail env u f) (\<lambda>_. stale_only u) (\<lambda>_. stale_only u) w"
proof (rule wp_update_quota_or_fail [OF assms(1)])
  show "stale_only u (w\<lparr>quota_tbl := update_row u f (quota_tbl w)\<rparr>)
      \<and> stale_only u (w\<lparr>quota_tbl := update_row u f (quota_tbl w)\<rparr>)"
    using quota_coherent_update [of "quota_tbl w" "cache w" f u] assms(2,3)
    by (simp add: stale_only_def quota_coherent_def)
qed (use assms(2) in \<open>auto intro: stale_only_tick_free coherent_stale_only\<close>)

lemma wp_invalidate_coherent:
  "calm env \<Longrightarrow> stale_only u w \<Longrightarrow> wp (invalidateCache env u) (\<lambda>_. quota_coherent) (\<lambda>_ _. False) w"
  by (simp add: invalidateCache_calm stale_only_def quota_coherent_def)

lemma frame_quota_coherent:
  "frame quota_tbl m \<Longrightarrow> frame cache m \<Longrightarrow> keeps quota_coherent m"
  by (simp add: frame_def keeps_def quota_coherent_def)

lemma wp_checkAndPublish_coherent:
  assumes "calm env" and "acts_as env u" and "quota_coherent w"
  shows "wp (checkAndPublishQuotaAlert env u) (\<lambda>_. quota_coherent) (\<lambda>_. quota_coherent) w"
proof -
  have k: "keeps quota_coherent (for_each QUOTA_ALERT_THRESHOLDS (\<lambda>threshold.
       if percent_used q \<ge> threshold then publishQuotaAlert env u a b threshold else ret ()))" for q a b
    by (intro keeps_intros frame_quota_coherent frame_intros) simp_all
  show ?thesis
    unfolding checkAndPublishQuotaAlert_def wp_bindE
    by (rule wp_mono [OF getOrCreateQuota_calm [OF assms]])
      (auto simp: wp_ret intro!: keeps_wp_const [OF k])
qed

lemma recordUpload_coherent:
  assumes "calm env" and "acts_as env u" and "quota_coherent w"
    and "recordUpload env u n w = (Inr (), w')"
  shows "quota_coherent w'"
proof -
  have "wp (recordUpload env u n) (\<lambda>_. quota_coherent) (\<lambda>_ _. True) w"
  proof (cases "0 \<le> n \<and> n \<le> MAX_SAFE_INTEGER")
    case True
    have k: "wp (bindE (invalidateCache env u) (\<lambda>_. fire_and_forget (checkAndPublishQuotaAlert env u)))
        (\<lambda>_. quota_coherent) (\<lambda>_ _. True) w1" if "stale_only u w1" for w1
      unfolding wp_bindE wp_fire_and_forget
      by (rule wp_mono [OF wp_invalidate_coherent [OF assms(1) that]])
        (auto intro: wp_checkAndPublish_coherent [OF assms(1,2)])
    have "wp (update_quota_or_fail env u (charge_row n)) (\<lambda>_. wp (bindE (invalidateCache env u)
        (\<lambda>_. fire_and_forget (checkAndPublishQuotaAlert env u))) (\<lambda>_. quota_coherent) (\<lambda>_ _. True)) (\<lambda>_ _. True) w"
      by (rule wp_mono [OF wp_update_coherent [OF assms(2,3)]]) (use k in auto)
    with True show ?thesis
      by (simp only: recordUpload_def wp_bindE wp_validateBlobSize) simp
  next
    case False
    then show ?thesis by (simp only: recordUpload_def wp_bindE wp_validateBlobSize) simp
  qed
  with assms(4) show ?thesis by (simp add: wp_def)
qed

lemma recordDelete_coherent:
  assumes "calm env" and "acts_as env u" and "quota_coherent w"
    and "recordDelete env u n w = (Inr (), w')"
  shows "quota_coherent w'"
proof -
  have "wp (recordDelete env u n) (\<lambda>_. quota_coherent) (\<lambda>_ _. True) w"
  proof (cases "0 \<le> n \<and> n \<le> MAX_SAFE_INTEGER")
    case True
    have "wp (update_quota_or_fail env u (release_row n)) (\<lambda>_. wp (invalidateCache env u) (\<lambda>_. quota_coherent)
        (\<lambda>_ _. True)) (\<lambda>_ _. True) w"
      by (rule wp_mono [OF wp_update_coherent [OF assms(2,3)]])
        (auto intro: wp_mono [OF wp_invalidate_coherent [OF assms(1)]])
    with True show ?thesis
      by (simp only: recordDelete_def wp_bindE wp_validateBlobSize) simp
  next
    case False
    then show ?thesis by (simp only: recordDelete_def wp_bindE wp_validateBlobSize) simp
  qed
  with assms(4) show ?thesis by (simp add: wp_def)
qed

lemma recordUpload_accounts:
  assumes "acts_as env u" and "recordUpload env u n w = (Inr (), w')"
  shows "usage_of w' = (usage_of w)(u := charge n (usage_of w u)) \<and> limits_of w' = limits_of w
     \<and> (calm env \<and> quota_coherent w \<longrightarrow> quota_coherent w')"
proof -
  have "quota_tbl w' = update_row u (charge_row n) (quota_tbl w)" "has_row u (quota_tbl w)"
    using wp_Inr [OF assms(2) wp_recordUpload_tables [OF assms(1)]] by auto
  then show ?thesis
    using accounts_update [of w' u "charge_row n" w "charge n"] recordUpload_coherent [OF _ assms(1) _ assms(2)]
    by simp
qed

text \<open>C26. \<open>recordUpload\<close> refines the contract: when it returns, the user's account is charged
  and no other account moved; without failures the cache stays coherent.\<close>

theorem recordUpload_refines_charge:
  assumes "acts_as env u" and "recordUpload env u n w = (Inr (), w')"
  shows "usage_of w' = (usage_of w)(u := charge n (usage_of w u)) \<and> limits_of w' = limits_of w
     \<and> (calm env \<and> quota_coherent w \<longrightarrow> quota_coherent w')"
  using assms by (rule recordUpload_accounts)

theorem recordUpload_refines_charge_witness:
  "usage_of (snd (recordUpload sample_env alice 150 quota_world)) alice
     = \<lparr>u_storage = 950, u_files = 4, u_daily = 2\<rparr>"
proof -
  have "fst (recordUpload sample_env alice 150 quota_world) = Inr ()"
    by code_simp
  then have "recordUpload sample_env alice 150 quota_world
      = (Inr (), snd (recordUpload sample_env alice 150 quota_world))"
    by (metis prod.collapse)
  from recordUpload_refines_charge [OF acts_as_sample this]
  have "usage_of (snd (recordUpload sample_env alice 150 quota_world)) alice
     = charge 150 (usage_of quota_world alice)" by simp
  also have "\<dots> = \<lparr>u_storage = 950, u_files = 4, u_daily = 2\<rparr>"
    by code_simp
  finally show ?thesis .
qed

lemma recordDelete_accounts:
  assumes "acts_as env u" and "recordDelete env u n w = (Inr (), w')"
  shows "usage_of w' = (usage_of w)(u := release n (usage_of w u)) \<and> limits_of w' = limits_of w
     \<and> u_daily (usage_of w' u) = u_daily (usage_of w u)
     \<and> (calm env \<and> quota_coherent w \<longrightarrow> quota_coherent w')"
proof -
  have "quota_tbl w' = update_row u (release_row n) (quota_tbl w)" "has_row u (quota_tbl w)"
    using wp_Inr [OF assms(2) wp_recordDelete_tables [OF assms(1)]] by auto
  then show ?thesis
    using accounts_update [of w' u "release_row n" w "release n"] recordDelete_coherent [OF _ assms(1) _ assms(2)]
    by (simp add: release_def)
qed

text \<open>\<open>recordDelete\<close> refines the contract's release: what comes back is the blob's size and
  one file, never below zero, and never part of the daily allowance.\<close>

theorem recordDelete_refines_release:
  assumes "acts_as env u" and "recordDelete env u n w = (Inr (), w')"
  shows "usage_of w' = (usage_of w)(u := release n (usage_of w u)) \<and> limits_of w' = limits_of w
     \<and> u_daily (usage_of w' u) = u_daily (usage_of w u)
     \<and> (calm env \<and> quota_coherent w \<longrightarrow> quota_coherent w')"
  using assms by (rule recordDelete_accounts)

theorem recordDelete_refines_release_witness:
  "usage_of (snd (recordDelete sample_env alice 850 quota_world)) alice
     = \<lparr>u_storage = 0, u_files = 2, u_daily = 1\<rparr>"
proof -
  have "fst (recordDelete sample_env alice 850 quota_world) = Inr ()"
    by code_simp
  then have "recordDelete sample_env alice 850 quota_world
      = (Inr (), snd (recordDelete sample_env alice 850 quota_world))"
    by (metis prod.collapse)
  from recordDelete_refines_release [OF acts_as_sample this]
  have "usage_of (snd (recordDelete sample_env alice 850 quota_world)) alice
     = release 850 (usage_of quota_world alice)" by simp
  also have "\<dots> = \<lparr>u_storage = 0, u_files = 2, u_daily = 1\<rparr>"
    by code_simp
  finally show ?thesis .
qed

section \<open>Midnight reset\<close>

lemma concat_id_chunks [simp]: "concat (id_chunks xs) = xs"
  by (induction xs rule: id_chunks.induct) (simp_all add: append_take_drop_id del: take_Suc_Cons drop_Suc_Cons)

lemma id_chunks_bounded: "c \<in> set (id_chunks xs) \<Longrightarrow> c \<noteq> [] \<and> length c \<le> CHUNK_SIZE"
  by (induction xs rule: id_chunks.induct) (auto simp: CHUNK_SIZE_def)

lemma invalidate_all_calm:
  assumes "calm env"
  shows "wp (for_each us (invalidateCache env))
     (\<lambda>_ w'. quota_tbl w' = quota_tbl w \<and> cache w' = (\<lambda>k. if k \<in> quota_cacheKey ` set us then None else cache w k))
     (\<lambda>_ _. False) w"
proof (induction us arbitrary: w)
  case Nil
  then show ?case by (simp add: wp_ret)
next
  case (Cons u us)
  show ?case
    by (simp add: wp_bindE invalidateCache_calm [OF assms])
      (rule wp_mono [OF Cons.IH], auto simp: fun_eq_iff)
qed

definition reset_row :: "int \<Rightarrow> user_quota \<Rightarrow> user_quota" where
  "reset_row today q = (if q_quotaDate q < today then q\<lparr>q_dailyUploads := 0, q_quotaDate := today\<rparr> else q)"

lemma quota_row_map:
  "(\<And>q. q_userId (f q) = q_userId q) \<Longrightarrow> quota_row (map f t) u = map_option f (quota_row t u)"
  by (induction t) (auto simp: quota_row_def)

lemma reset_row_user [simp]: "q_userId (reset_row today q) = q_userId q"
  by (simp add: reset_row_def)

lemma resetDailyUploads_calm:
  assumes "calm env"
  defines "today w \<equiv> current_date env (tick w)"
  shows "wp (resetDailyUploads env)
     (\<lambda>_ w'. quota_tbl w' = map (reset_row (today w)) (quota_tbl w)
        \<and> cache w' = (\<lambda>k. if \<exists>q \<in> set (quota_tbl w). q_quotaDate q < today w \<and> k = quota_cacheKey (q_userId q)
             then None else cache w k))
     (\<lambda>_ _. False) w"
proof -
  let ?stale = "\<lambda>q. q_quotaDate q < today w"
  have "update_where ?stale (\<lambda>q. q\<lparr>q_dailyUploads := 0, q_quotaDate := today w\<rparr>) (quota_tbl w)
      = map (reset_row (today w)) (quota_tbl w)"
    by (simp add: update_where_def reset_row_def)
  then have run: "reset_daily_uploads env w = (Inr (map q_userId (filter ?stale (quota_tbl w))),
      (tick w)\<lparr>quota_tbl := map (reset_row (today w)) (quota_tbl w)\<rparr>)"
    using assms(1) by (simp add: reset_daily_uploads_def Let_def today_def)
  show ?thesis
    unfolding resetDailyUploads_def wp_bindE for_each_concat concat_id_chunks wp_eval [where m = "reset_daily_uploads env", OF run]
    by (rule wp_mono [OF invalidate_all_calm [OF assms(1)]]) (auto simp: fun_eq_iff)
qed

lemma resetDailyUploads_rows:
  assumes "calm env" and "resetDailyUploads env w = (r, w')"
  shows "quota_row (quota_tbl w') u = map_option (reset_row (current_date env (tick w))) (quota_row (quota_tbl w) u)
     \<and> r = Inr () \<and> limits_of w' = limits_of w \<and> u_storage (usage_of w' u) = u_storage (usage_of w u)
     \<and> (quota_coherent w \<longrightarrow> quota_coherent w')"
proof -
  let ?r = "reset_row (current_date env (tick w))"
  have t: "quota_tbl w' = map ?r (quota_tbl w)"
    and c: "cache w' = (\<lambda>k. if \<exists>q \<in> set (quota_tbl w). q_quotaDate q < current_date env (tick w)
        \<and> k = quota_cacheKey (q_userId q) then None else cache w k)"
    and r: "r = Inr ()"
    using resetDailyUploads_calm [OF assms(1), of w] assms(2) by (cases r; simp add: wp_def)+
  have row: "quota_row (quota_tbl w') v = map_option ?r (quota_row (quota_tbl w) v)" for v
    by (simp add: t quota_row_map)
  have same: "quota_row (quota_tbl w') v = quota_row (quota_tbl w) v"
    if "cache w' (quota_cacheKey v) \<noteq> None" for v
  proof (cases "quota_row (quota_tbl w) v")
    case (Some q)
    then have "q \<in> set (quota_tbl w)" "q_userId q = v"
      by (auto simp: quota_row_def dest: find_Some_in)
    with that have "\<not> q_quotaDate q < current_date env (tick w)"
      by (auto simp: c split: if_splits)
    with Some show ?thesis by (simp add: row reset_row_def)
  qed (simp add: row)
  have "quota_coherent w'" if "quota_coherent w"
    unfolding quota_coherent_def cache_kv.agrees_def
  proof (intro allI impI)
    fix k v
    assume kv: "cache w' k = Some v"
    then have "cache w k = Some v"
      by (simp add: c split: if_splits)
    then have "quota_truth (quota_tbl w) k v"
      using that by (cases v) (simp add: quota_coherent_def cache_kv.agrees_def)
    with kv same show "quota_truth (quota_tbl w') k v"
      by (auto simp: quota_truth_def)
  qed
  moreover have "limits_of w' = limits_of w"
    by (auto simp: limits_of_def row fun_eq_iff reset_row_def row_limits_def split: option.split)
  moreover have "u_storage (usage_of w' u) = u_storage (usage_of w u)"
    by (auto simp: usage_of_def row reset_row_def row_usage_def split: option.split)
  ultimately show ?thesis
    using row r by blast
qed



section \<open>Histories\<close>

lemma wp_enforceQuota:
  assumes "calm env" and "acts_as env u" and "quota_coherent w"
  shows "wp (enforceQuota env u n)
     (\<lambda>_ w'. 0 \<le> n \<and> admits (limits_of w u) (usage_of w u) n
        \<and> usage_of w' = usage_of w \<and> limits_of w' = limits_of w \<and> quota_coherent w')
     (\<lambda>e w'. http_status e \<in> {400, 413} \<and> \<not> (0 \<le> n \<and> n \<le> MAX_SAFE_INTEGER \<and> admits (limits_of w u) (usage_of w u) n)
        \<and> usage_of w' = usage_of w \<and> limits_of w' = limits_of w \<and> quota_coherent w') w"
proof (cases "0 \<le> n \<and> n \<le> MAX_SAFE_INTEGER")
  case True
  then show ?thesis
    unfolding enforceQuota_def wp_bindE
    by (intro wp_mono [OF checkQuota_calm [OF assms]])
      (auto simp: wp_throw_when quota_error_def)
next
  case False
  then show ?thesis
    using assms(3) by (auto simp: enforceQuota_def checkQuota_def wp_bindE wp_validateBlobSize)
qed

text \<open>
  One request after the other, in environments with a given property: an upload that was admitted
  and then recorded, one that was refused, a recorded delete, a midnight reset.
\<close>

inductive quota_step :: "(env \<Rightarrow> bool) \<Rightarrow> world \<Rightarrow> world \<Rightarrow> bool" for P where
  admitted: "P env \<Longrightarrow> acts_as env u \<Longrightarrow> enforceQuota env u n w = (Inr (), w1) \<Longrightarrow>
     recordUpload env u n w1 = (Inr (), w2) \<Longrightarrow> quota_step P w w2"
| refused: "P env \<Longrightarrow> acts_as env u \<Longrightarrow> enforceQuota env u n w = (Inl e, w1) \<Longrightarrow> quota_step P w w1"
| deleted: "P env \<Longrightarrow> acts_as env u \<Longrightarrow> recordDelete env u n w = (Inr (), w1) \<Longrightarrow> quota_step P w w1"
| midnight: "P env \<Longrightarrow> resetDailyUploads env w = (Inr (), w1) \<Longrightarrow> quota_step P w w1"

inductive_cases quota_stepE: "quota_step P w w'"

definition quota_ok :: "world \<Rightarrow> bool" where
  "quota_ok w \<longleftrightarrow> quota_coherent w \<and> (\<forall>u. within (limits_of w u) (usage_of w u))"

lemma reset_within:
  assumes "calm env" and "resetDailyUploads env w = (r, w')" and "within (limits_of w u) (usage_of w u)"
  shows "within (limits_of w' u) (usage_of w' u)"
proof -
  have rows: "quota_row (quota_tbl w') u =
      map_option (reset_row (current_date env (tick w))) (quota_row (quota_tbl w) u)"
    using resetDailyUploads_calm [OF assms(1), of w] assms(2)
    by (cases r) (auto simp: wp_def quota_row_map)
  show ?thesis
    using assms(3)
    by (auto simp: within_def limits_of_def usage_of_def rows reset_row_def row_limits_def row_usage_def
        split: option.split)
qed

lemma resetDailyUploads_coherent:
  "calm env \<Longrightarrow> resetDailyUploads env w = (r, w') \<Longrightarrow> quota_coherent w \<Longrightarrow> quota_coherent w'"
  and resetDailyUploads_limits:
  "calm env \<Longrightarrow> resetDailyUploads env w = (r, w') \<Longrightarrow> limits_of w' = limits_of w"
  using resetDailyUploads_rows by blast+

lemma quota_step_ok:
  assumes "quota_step calm w w'" and "quota_ok w"
  shows "quota_ok w' \<and> limits_of w' = limits_of w"
proof -
  have coh: "quota_coherent w" and win: "\<And>u. within (limits_of w u) (usage_of w u)"
    using assms(2) by (auto simp: quota_ok_def)
  from assms(1) show ?thesis
  proof cases
    case (admitted env u n w1)
    note e = wp_Inr [OF admitted(3) wp_enforceQuota [OF admitted(1,2) coh]]
    note r = recordUpload_accounts [OF admitted(2,4)]
    have "within (limits_of w u) (charge n (usage_of w u))"
      using e win by (intro within_charge) auto
    with e r win admitted(1) show ?thesis
      by (simp add: quota_ok_def)
  next
    case (refused env u n e)
    from wp_Inl [OF refused(3) wp_enforceQuota [OF refused(1,2) coh]] win show ?thesis
      by (simp add: quota_ok_def)
  next
    case (deleted env u n)
    note r = recordDelete_accounts [OF deleted(2,3)]
    have "0 \<le> n"
      using wp_Inr [OF deleted(3) wp_recordDelete_tables [OF deleted(2)]] by simp
    then have "within (limits_of w u) (release n (usage_of w u))"
      using win by (intro within_release) auto
    with r win deleted(1) coh show ?thesis
      by (simp add: quota_ok_def)
  next
    case (midnight env)
    then show ?thesis
      using reset_within [OF midnight] win resetDailyUploads_coherent [OF midnight coh]
        resetDailyUploads_limits [OF midnight]
      by (auto simp: quota_ok_def)
  qed
qed

interpretation quota_life: fixed_by_steps "quota_step calm" quota_ok limits_of
  by unfold_locales (blast dest: quota_step_ok)+

text \<open>C25. While no external call fails, no history of requests served one after the other takes a user over
  the storage, file or daily limit, nor any counter below zero; the limits themselves never move.  The
  condition is needed: after a lost invalidation the check reads a stale copy for up to an hour.\<close>

theorem quota_never_exceeded:
  assumes "(quota_step calm)\<^sup>*\<^sup>* w w'" and "quota_ok w"
  shows "within (limits_of w u) (usage_of w' u)"
  using quota_life.history_ok [OF assms] quota_life.history_fixed [OF assms]
  by (metis quota_ok_def)

lemma quota_ok_sample: "quota_ok quota_world"
  by (auto simp: quota_ok_def quota_coherent_def cache_kv.agrees_def quota_world_def empty_world_def
      within_def limits_of_def usage_of_def quota_row_def sample_quota_def row_usage_def row_limits_def
      quota_defaults)

theorem quota_never_exceeded_witness:
  "within (limits_of quota_world alice) (usage_of (snd (recordDelete sample_env alice 700 quota_world)) alice)"
proof -
  have "fst (recordDelete sample_env alice 700 quota_world) = Inr ()"
    by code_simp
  then have "recordDelete sample_env alice 700 quota_world
      = (Inr (), snd (recordDelete sample_env alice 700 quota_world))"
    by (metis prod.collapse)
  from quota_step.deleted [where P = calm, OF calm_sample acts_as_sample this] show ?thesis
    by (intro quota_never_exceeded [OF r_into_rtranclp quota_ok_sample])
qed

text \<open>A user with room for one file: the invalidation after the first upload is rejected, so the copy that
  the check of the first has cached admits a second.\<close>

definition one_file_left :: world where
  "one_file_left = quota_world\<lparr>quota_tbl := [(sample_quota alice)\<lparr>q_filesCount := 0, q_filesLimit := 1\<rparr>]\<rparr>"

lemma stale_quota_admits:
  "(let lossy = sample_env\<lparr>outcome_at := (\<lambda>n. if n = 10 then Rejected ''redis down'' else Done)\<rparr>;
        w1 = snd (enforceQuota lossy alice 10 one_file_left); r2 = recordUpload lossy alice 10 w1;
        r3 = enforceQuota sample_env alice 10 (snd r2); r4 = recordUpload sample_env alice 10 (snd r3) in
    fst r2 = Inr () \<and> fst r3 = Inr () \<and> fst r4 = Inr ()
    \<and> map q_filesCount (quota_tbl (snd r4)) = [2] \<and> map q_filesLimit (quota_tbl (snd r4)) = [1])"
  by code_simp

section \<open>Alerts\<close>

definition justified_alert :: "uuid \<Rightarrow> int \<Rightarrow> int \<Rightarrow> event \<Rightarrow> bool" where
  "justified_alert u used limit e \<longleftrightarrow>
     (\<exists>p \<in> {80, 95}. e = QuotaAlert u (show_int used) (show_int limit) p \<and> p * limit \<le> used * 100)"

text \<open>\<open>w1\<close> has published, beyond \<open>w\<close>, only alerts for \<open>u\<close> that this usage justifies.\<close>

definition truthful_alerts :: "uuid \<Rightarrow> int \<Rightarrow> int \<Rightarrow> world \<Rightarrow> world \<Rightarrow> bool" where
  "truthful_alerts u used limit w w1 \<longleftrightarrow>
     (\<exists>es. published w1 = published w @ es \<and> list_all (justified_alert u used limit) es)"

lemma truthful_alerts_refl: "published w1 = published w \<Longrightarrow> truthful_alerts u a b w w1"
  by (simp add: truthful_alerts_def)

lemma truthful_alerts_add:
  assumes "truthful_alerts u a b w w1" and "published w2 = published w1 @ [e]" and "justified_alert u a b e"
  shows "truthful_alerts u a b w w2"
proof -
  obtain es where "published w1 = published w @ es" "list_all (justified_alert u a b) es"
    using assms(1) unfolding truthful_alerts_def by blast
  with assms(2,3) show ?thesis
    unfolding truthful_alerts_def by (intro exI [of _ "es @ [e]"]) simp
qed

lemma frame_truthful_alerts: "frame published m \<Longrightarrow> keeps (truthful_alerts u a b w) m"
  by (simp add: frame_def keeps_def truthful_alerts_def)

lemma percent_used_ge:
  assumes "0 \<le> q_storageUsed q" and "0 < q_storageLimit q" and "p \<le> percent_used q"
  shows "p * q_storageLimit q \<le> q_storageUsed q * 100"
proof -
  have "p \<le> q_storageUsed q * 100 div q_storageLimit q"
    using assms by (simp add: percent_used_def bigint_div_nonneg)
  then have "p * q_storageLimit q \<le> (q_storageUsed q * 100 div q_storageLimit q) * q_storageLimit q"
    using assms(2) by simp
  also have "\<dots> \<le> q_storageUsed q * 100"
    using assms(2) by (metis mult.commute pos_mod_sign mult_div_mod_eq le_add_same_cancel1)
  finally show ?thesis .
qed

lemma keeps_publishQuotaAlert:
  assumes "justified_alert u a b (QuotaAlert u (show_int a) (show_int b) p)"
  shows "keeps (truthful_alerts u a b w) (publishQuotaAlert env u a b p)"
  unfolding publishQuotaAlert_def
proof (intro keeps_intros)
  show "keeps (truthful_alerts u a b w) (redis_set_nx_ex env (cooldownKey u p) 1 QUOTA_ALERT_COOLDOWN_TTL_SECONDS)"
    by (intro frame_truthful_alerts frame_intros) simp_all
  show "keeps (truthful_alerts u a b w) (redis_publish env (QuotaAlert u (show_int a) (show_int b) p))"
    unfolding redis_publish_def
  proof (rule keeps_ext)
    show "keeps (truthful_alerts u a b w)
       (\<lambda>w. (Inr (), w\<lparr>published := published w @ [QuotaAlert u (show_int a) (show_int b) p]\<rparr>))"
      unfolding keeps_def by (auto intro: truthful_alerts_add [OF _ _ assms])
  qed (simp add: truthful_alerts_def)
qed

lemma keeps_alert_loop:
  assumes "q_storageUsed q = a" and "q_storageLimit q = b" and "0 \<le> a" and "0 < b"
  shows "keeps (truthful_alerts u a b w) (for_each QUOTA_ALERT_THRESHOLDS (\<lambda>p.
     if percent_used q \<ge> p then publishQuotaAlert env u (q_storageUsed q) (q_storageLimit q) p else ret ()))"
proof -
  have j: "keeps (truthful_alerts u a b w) (publishQuotaAlert env u a b p)"
    if "p \<in> {80, 95}" "p \<le> percent_used q" for p
  proof (rule keeps_publishQuotaAlert)
    have "p * b \<le> a * 100"
      using percent_used_ge [of q p] assms that(2) by simp
    with that(1) show "justified_alert u a b (QuotaAlert u (show_int a) (show_int b) p)"
      unfolding justified_alert_def by blast
  qed
  show ?thesis
    unfolding QUOTA_ALERT_THRESHOLDS_def for_each.simps assms(1,2)
    by (intro keeps_intros j) simp_all
qed

lemma frame_update_quota_or_fail [frame_intros]:
  "(\<And>w. g (tick w) = g w) \<Longrightarrow> (\<And>w q. g (w\<lparr>quota_tbl := q\<rparr>) = g w) \<Longrightarrow> (\<And>w u. g (w\<lparr>guc := u\<rparr>) = g w) \<Longrightarrow>
   (\<forall>w0 w1. g (restore_db w0 w1) = g w1) \<or> (\<forall>w0 w1. g (restore_db w0 w1) = g w0) \<Longrightarrow>
   frame g (update_quota_or_fail env u f)"
  unfolding update_quota_or_fail_def by (intro frame_intros)

lemma recordUpload_alerts:
  assumes "calm env" and "acts_as env u" and "quota_coherent w"
    and "recordUpload env u n w = (Inr (), w')"
    and "0 \<le> u_storage (usage_of w u)" and "0 < lim_storage (limits_of w u)"
  shows "truthful_alerts u (u_storage (usage_of w u) + n) (lim_storage (limits_of w u)) w w'"
proof -
  have n: "0 \<le> n" "n \<le> MAX_SAFE_INTEGER"
    and t: "quota_tbl w' = update_row u (charge_row n) (quota_tbl w)" "has_row u (quota_tbl w)"
    using wp_Inr [OF assms(4) wp_recordUpload_tables [OF assms(2)]] by auto
  let ?a = "u_storage (usage_of w u) + n" and ?b = "lim_storage (limits_of w u)"
  have "bindE (update_quota_or_fail env u (charge_row n)) (\<lambda>_. bindE (invalidateCache env u)
      (\<lambda>_. fire_and_forget (checkAndPublishQuotaAlert env u))) w = (Inr (), w')"
    using assms(4) n by (simp add: recordUpload_def validateBlobSize_Inr [THEN iffD2] bindE_Inr)
  then obtain w1 where w1: "update_quota_or_fail env u (charge_row n) w = (Inr (), w1)"
    and w': "bindE (invalidateCache env u) (\<lambda>_. fire_and_forget (checkAndPublishQuotaAlert env u)) w1 = (Inr (), w')"
    by (rule bindE_InrD) simp
  have p1: "published w1 = published w"
    by (rule frameD [where m = "update_quota_or_fail env u (charge_row n)", OF _ w1]) (intro frame_intros, simp_all)
  have "wp (update_quota_or_fail env u (charge_row n))
      (\<lambda>_ w1. stale_only u w1 \<and> quota_tbl w1 = update_row u (charge_row n) (quota_tbl w)) (\<lambda>_ _. True) w"
    by (rule wp_mono [OF wp_conj [OF wp_update_coherent [OF assms(2,3), of "charge_row n"]
          wp_update_quota_or_fail [OF assms(2), where R = "\<lambda>_ _. True"
             and Q = "\<lambda>w1. quota_tbl w1 = update_row u (charge_row n) (quota_tbl w)"]]])
      (auto intro!: tick_freeI)
  from wp_Inr [OF w1 this] have s1: "stale_only u w1" "quota_tbl w1 = update_row u (charge_row n) (quota_tbl w)"
    by auto
  have acc: "usage_of w1 u = charge n (usage_of w u)" "limits_of w1 = limits_of w"
    using accounts_update [OF s1(2) t(2), of "charge n"] by simp_all
  have loop: "wp (checkAndPublishQuotaAlert env u) (\<lambda>_. truthful_alerts u ?a ?b w) (\<lambda>_. truthful_alerts u ?a ?b w) w2"
    if w2: "quota_coherent w2" "quota_tbl w2 = quota_tbl w1" "published w2 = published w" for w2
  proof -
    have k: "wp (for_each QUOTA_ALERT_THRESHOLDS (\<lambda>p. if percent_used q \<ge> p
         then publishQuotaAlert env u (q_storageUsed q) (q_storageLimit q) p else ret ()))
        (\<lambda>_. truthful_alerts u ?a ?b w) (\<lambda>_. truthful_alerts u ?a ?b w) w3"
      if "row_usage q = usage_of w2 u" "row_limits q = limits_of w2 u" "published w3 = published w" for q w3
    proof (rule keeps_wp_const [OF keeps_alert_loop])
      have u: "row_usage q = charge n (usage_of w u)" "row_limits q = limits_of w u"
        using that usage_of_cong [OF w2(2)] limits_of_cong [OF w2(2)] acc by simp_all
      then have "u_storage (row_usage q) = ?a" "lim_storage (row_limits q) = ?b"
        by (simp_all add: charge_def)
      then show "q_storageUsed q = ?a" "q_storageLimit q = ?b"
        by (simp_all add: row_usage_def row_limits_def)
    qed (use assms(5,6) n truthful_alerts_refl [OF that(3)] in auto)
    show ?thesis
      unfolding checkAndPublishQuotaAlert_def wp_bindE
      by (rule wp_mono [OF getOrCreateQuota_calm [OF assms(1,2) w2(1)]])
        (use w2(3) in \<open>auto simp: wp_ret truthful_alerts_refl quota_read_accounts intro!: k\<close>)
  qed
  have "wp (bindE (invalidateCache env u) (\<lambda>_. fire_and_forget (checkAndPublishQuotaAlert env u)))
      (\<lambda>_. truthful_alerts u ?a ?b w) (\<lambda>_. truthful_alerts u ?a ?b w) w1"
    unfolding wp_bindE invalidateCache_calm [OF assms(1)] wp_fire_and_forget
    by (rule loop) (use s1 p1 in \<open>simp_all add: stale_only_def quota_coherent_def\<close>)
  from wp_Inr [OF w' this] show ?thesis .
qed

lemma publishQuotaAlert_published:
  assumes "publishQuotaAlert env u a b p w = (r, w1)" and "published w1 \<noteq> published w"
  shows "redis w1 (cooldownKey u p) = Some (1, Some (now env (tick w) + QUOTA_ALERT_COOLDOWN_TTL_SECONDS * 1000))"
  using assms
  by (auto simp: publishQuotaAlert_def bindE_def redis_set_nx_ex_def redis_publish_def ext_def ret_def
      split: outcome.splits option.splits if_splits prod.splits)

lemma publishQuotaAlert_silent:
  assumes "redis_live env (tick w) (cooldownKey u p) \<noteq> None"
  shows "published (snd (publishQuotaAlert env u a b p w)) = published w"
  using assms
  by (auto simp: publishQuotaAlert_def bindE_def redis_set_nx_ex_def ext_def ret_def
      split: outcome.splits option.splits)

text \<open>After an alert was published, no second one for the same user and threshold is published
  while the cooldown key stands and less than an hour has passed, whatever calls fail.\<close>

theorem publishQuotaAlert_cooldown:
  assumes "publishQuotaAlert env u a b p w = (r, w1)" and "published w1 \<noteq> published w"
    and "redis w2 (cooldownKey u p) = redis w1 (cooldownKey u p)"
    and "now env (tick w2) < now env (tick w) + 3600000"
  shows "published (snd (publishQuotaAlert env u a' b' p w2)) = published w2"
proof (rule publishQuotaAlert_silent)
  have "redis (tick w2) (cooldownKey u p) = Some (1, Some (now env (tick w) + 3600000))"
    using publishQuotaAlert_published [OF assms(1,2)] assms(3)
    by (simp add: QUOTA_ALERT_COOLDOWN_TTL_SECONDS_def)
  then show "redis_live env (tick w2) (cooldownKey u p) \<noteq> None"
    using assms(4) by (simp add: redis_live_def)
qed

theorem publishQuotaAlert_cooldown_witness:
  "published (snd (publishQuotaAlert sample_env alice 960 1000 95
      (snd (publishQuotaAlert sample_env alice 950 1000 95 quota_world))))
   = published (snd (publishQuotaAlert sample_env alice 950 1000 95 quota_world))"
proof (rule publishQuotaAlert_cooldown [OF prod.collapse [symmetric]])
  have "published (snd (publishQuotaAlert sample_env alice 950 1000 95 quota_world)) \<noteq> []"
    by code_simp
  then show "published (snd (publishQuotaAlert sample_env alice 950 1000 95 quota_world)) \<noteq> published quota_world"
    by (simp add: quota_world_def empty_world_def)
  show "now sample_env (tick (snd (publishQuotaAlert sample_env alice 950 1000 95 quota_world)))
      < now sample_env (tick quota_world) + 3600000"
    by code_simp
qed simp

text \<open>Every alert that \<open>recordUpload\<close> publishes is for its user, carries the storage use after
  the upload and the limit, and names a threshold of 80 or 95 percent that this use reaches.\<close>

theorem recordUpload_alerts_truthful:
  assumes "calm env" and "acts_as env u" and "quota_coherent w"
    and "recordUpload env u n w = (Inr (), w')"
    and "0 \<le> u_storage (usage_of w u)" and "0 < lim_storage (limits_of w u)"
  shows "\<exists>es. published w' = published w @ es
     \<and> list_all (justified_alert u (u_storage (usage_of w u) + n) (lim_storage (limits_of w u))) es"
  using recordUpload_alerts [OF assms] by (simp add: truthful_alerts_def)

theorem recordUpload_alerts_truthful_witness:
  "\<exists>es. published (snd (recordUpload sample_env alice 150 quota_world)) = published quota_world @ es
     \<and> list_all (justified_alert alice 950 1000) es"
proof -
  have r: "recordUpload sample_env alice 150 quota_world
      = (Inr (), snd (recordUpload sample_env alice 150 quota_world))"
    by (rule run_Inr) code_simp
  have v: "u_storage (usage_of quota_world alice) = 800" "lim_storage (limits_of quota_world alice) = 1000"
    by code_simp+
  have c: "quota_coherent quota_world"
    using quota_ok_sample by (simp add: quota_ok_def)
  show ?thesis
    using recordUpload_alerts_truthful [OF calm_sample acts_as_sample c r] by (simp add: v)
qed

text \<open>Reading a quota through the cache returns the row itself, byte counts of any size
  included, and leaves the cache agreeing with the table.\<close>

theorem getOrCreateQuota_transparent:
  assumes "calm env" and "acts_as env u" and "quota_coherent w"
  shows "\<exists>q w'. getOrCreateQuota env u w = (Inr q, w') \<and> quota_row (quota_tbl w') u = Some q
     \<and> (\<forall>v. v \<noteq> u \<longrightarrow> quota_row (quota_tbl w') v = quota_row (quota_tbl w) v)
     \<and> quota_coherent w'"
proof -
  obtain q w' where r: "getOrCreateQuota env u w = (Inr q, w')"
    and q: "quota_read u q (quota_tbl w) (quota_tbl w')" and c: "quota_coherent w'"
    using getOrCreateQuota_calm [OF assms] by (auto simp: wp_def split: prod.splits sum.splits)
  have "quota_row (quota_tbl w') v = quota_row (quota_tbl w) v" if "v \<noteq> u" for v
    using q that by (auto simp: quota_read_def quota_row_append split: option.split)
  with r c quota_read_row [OF q] show ?thesis by blast
qed

theorem getOrCreateQuota_transparent_witness:
  "\<exists>q w'. getOrCreateQuota sample_env alice quota_world = (Inr q, w') \<and> quota_row (quota_tbl w') alice = Some q
     \<and> (\<forall>v. v \<noteq> alice \<longrightarrow> quota_row (quota_tbl w') v = quota_row (quota_tbl quota_world) v)
     \<and> quota_coherent w'"
  by (rule getOrCreateQuota_transparent [OF calm_sample acts_as_sample])
    (use quota_ok_sample in \<open>simp add: quota_ok_def\<close>)

end
