(* ===== verification/Remote_Services.thy ===== *)
theory Remote_Services
  imports Samples
begin

text \<open>
  \<open>group.service.ts\<close> and \<open>messaging.service.ts\<close>: the two HTTP clients.  A reply is a
  status and, when it parses, a JSON value; an aborted or failed request is the rejection
  of the call.  Property access on a JSON value follows JavaScript: \<open>undefined\<close> on
  anything but an object or \<open>null\<close>, a \<open>TypeError\<close> on \<open>null\<close>.
\<close>

section \<open>Requests\<close>

definition hex_upper :: "nat \<Rightarrow> char" where
  "hex_upper d = (if d < 10 then char_of (48 + d) else char_of (55 + d))"

definition percent_byte :: "nat \<Rightarrow> string" where
  "percent_byte n = [CHR ''%'', hex_upper (n div 16), hex_upper (n mod 16)]"

definition uri_unreserved :: "char \<Rightarrow> bool" where
  "uri_unreserved c \<longleftrightarrow>
     (let n = (of_char c :: nat)
      in (48 \<le> n \<and> n \<le> 57) \<or> (65 \<le> n \<and> n \<le> 90) \<or> (97 \<le> n \<and> n \<le> 122)
         \<or> n \<in> {45, 95, 46, 33, 126, 42, 39, 40, 41})"

definition encodeURIComponent_char :: "char \<Rightarrow> string" where
  "encodeURIComponent_char c =
     (let n = (of_char c :: nat) in
      if uri_unreserved c then [c]
      else if n < 128 then percent_byte n
      else percent_byte (192 + n div 64) @ percent_byte (128 + n mod 64))"

definition encodeURIComponent :: "string \<Rightarrow> string" where
  "encodeURIComponent s = concat (map encodeURIComponent_char s)"

text \<open>\<open>replace(/\/$/, '')\<close>\<close>

definition strip_final_slash :: "string \<Rightarrow> string" where
  "strip_final_slash s = (if s \<noteq> [] \<and> last s = CHR ''/'' then butlast s else s)"

definition base_url :: "string option \<Rightarrow> string" where
  "base_url url = strip_final_slash (case url of None \<Rightarrow> [] | Some s \<Rightarrow> s)"

definition fetch :: "env \<Rightarrow> string \<Rightarrow> (string \<times> string) list \<Rightarrow> http_response io" where
  "fetch env url headers = ext env (gets (\<lambda>w. http_get env (ticks w) url headers))"

definition response_ok :: "http_response \<Rightarrow> bool" where
  "response_ok r \<longleftrightarrow> 200 \<le> status r \<and> status r \<le> 299"

definition response_json :: "http_response \<Rightarrow> exn + json" where
  "response_json r = (case json_body r of None \<Rightarrow> Inl (JsError ''Unexpected token in JSON'') | Some j \<Rightarrow> Inr j)"

section \<open>JSON values\<close>

definition json_prop :: "json \<Rightarrow> string \<Rightarrow> exn + json option" where
  "json_prop j k =
     (case j of
        JNull \<Rightarrow> Inl (TypeError (''Cannot read properties of null (reading '' @ squote @ k @ squote @ '')''))
      | JObj ps \<Rightarrow> Inr (map_of (rev ps) k)
      | _ \<Rightarrow> Inr None)"

definition prop_is :: "json \<Rightarrow> string \<Rightarrow> json \<Rightarrow> exn + bool" where
  "prop_is j k v = (case json_prop j k of Inl e \<Rightarrow> Inl e | Inr x \<Rightarrow> Inr (x = Some v))"

text \<open>\<open>members.some(m => m.role === 'admin' && m.userId === id)\<close>\<close>

fun some_admin :: "json list \<Rightarrow> uuid \<Rightarrow> exn + bool" where
  "some_admin [] mid = Inr False"
| "some_admin (m # ms) mid =
     (case prop_is m ''role'' (JStr ''admin'') of
        Inl e \<Rightarrow> Inl e
      | Inr False \<Rightarrow> some_admin ms mid
      | Inr True \<Rightarrow>
          (case prop_is m ''userId'' (JStr mid) of
             Inl e \<Rightarrow> Inl e
           | Inr True \<Rightarrow> Inr True
           | Inr False \<Rightarrow> some_admin ms mid))"

definition members_of :: "json \<Rightarrow> exn + json list" where
  "members_of body =
     (case body of
        JArr ms \<Rightarrow> Inr ms
      | _ \<Rightarrow>
          (case json_prop body ''members'' of
             Inl e \<Rightarrow> Inl e
           | Inr None \<Rightarrow> Inr []
           | Inr (Some JNull) \<Rightarrow> Inr []
           | Inr (Some (JArr ms)) \<Rightarrow> Inr ms
           | Inr (Some _) \<Rightarrow> Inl (TypeError ''members.some is not a function'')))"

section \<open>GroupService\<close>

definition group_headers :: "env \<Rightarrow> (string \<times> string) list" where
  "group_headers env =
     (''Accept'', ''application/json'') #
     (case cfg_GROUP_SERVICE_AUTH_TOKEN (cfg env) of
        Some t \<Rightarrow> if t \<noteq> [] then [(''Authorization'', ''Bearer '' @ t)] else []
      | None \<Rightarrow> [])"

definition isAdmin :: "env \<Rightarrow> uuid \<Rightarrow> bool io" where
  "isAdmin env gid =
     (let base = base_url (cfg_GROUP_SERVICE_URL (cfg env)) in
      if base = [] then throw (JsError ''GROUP_SERVICE_URL is not configured'')
      else
        bindE (fetch env (base @ ''/groups/v1/'' @ encodeURIComponent gid @ ''/members'') (group_headers env))
          (\<lambda>response.
        if status response = 404 \<or> status response = 403 then ret False
        else if \<not> response_ok response
        then throw (JsError (''group-service returned HTTP '' @ show_nat (status response)))
        else
          bindE (from_result (response_json response)) (\<lambda>body.
          bindE (from_result (members_of body)) (\<lambda>members.
          from_result (some_admin members gid)))))"

section \<open>MessagingService\<close>

definition E2EE_STATUS_CACHE_TTL_MS :: int where
  "E2EE_STATUS_CACHE_TTL_MS = 60000"

definition messaging_headers :: "env \<Rightarrow> (string \<times> string) list" where
  "messaging_headers env =
     (''Accept'', ''application/json'') #
     (case cfg_INTERNAL_API_TOKEN (cfg env) of
        Some t \<Rightarrow> if t \<noteq> [] then [(''x-internal-token'', t)] else []
      | None \<Rightarrow> [])"

definition e2ee_url :: "env \<Rightarrow> string \<Rightarrow> string" where
  "e2ee_url env conversationId =
     base_url (cfg_MESSAGING_SERVICE_URL (cfg env)) @ ''/messaging/api/v1/internal/conversations/''
     @ encodeURIComponent conversationId @ ''/e2ee-status''"

definition fetchE2eeStatus :: "env \<Rightarrow> string \<Rightarrow> bool io" where
  "fetchE2eeStatus env conversationId =
     (if base_url (cfg_MESSAGING_SERVICE_URL (cfg env)) = [] then ret False
      else
        catchE
          (bindE (fetch env (e2ee_url env conversationId) (messaging_headers env)) (\<lambda>response.
           if status response = 404 then ret False
           else if \<not> response_ok response then ret False
           else
             bindE (from_result (response_json response)) (\<lambda>body.
             from_result (prop_is body ''e2ee_enabled'' (JBool True)))))
          (\<lambda>_. ret False))"

definition e2ee_cacheKey :: "string \<Rightarrow> string" where
  "e2ee_cacheKey conversationId = ''e2ee:conv:'' @ conversationId"

text \<open>The cache holds a boolean under this key; anything else it held would be returned as it is.\<close>

definition cval_truthy :: "cval \<Rightarrow> bool" where
  "cval_truthy v = (case v of CBool b \<Rightarrow> b | CStr s \<Rightarrow> s \<noteq> [] | _ \<Rightarrow> True)"

definition isConversationE2EE :: "env \<Rightarrow> string \<Rightarrow> bool io" where
  "isConversationE2EE env conversationId =
     bindE (cache_get env (e2ee_cacheKey conversationId)) (\<lambda>cached.
     case cached of
       Some v \<Rightarrow> ret (cval_truthy v)
     | None \<Rightarrow>
         bindE (fetchE2eeStatus env conversationId) (\<lambda>result.
         bindE (cache_set env (e2ee_cacheKey conversationId) (CBool result) E2EE_STATUS_CACHE_TTL_MS) (\<lambda>_.
         ret result)))"

section \<open>Lemmas\<close>

text \<open>A reply that says that \<open>gid\<close> is an administrator.\<close>

definition admin_reply :: "http_response \<Rightarrow> uuid \<Rightarrow> bool" where
  "admin_reply r gid \<longleftrightarrow> response_ok r \<and>
     (\<exists>body ms m. json_body r = Some body \<and> members_of body = Inr ms \<and> m \<in> set ms
        \<and> prop_is m ''role'' (JStr ''admin'') = Inr True \<and> prop_is m ''userId'' (JStr gid) = Inr True)"

definition e2ee_reply :: "http_response \<Rightarrow> bool" where
  "e2ee_reply r \<longleftrightarrow> response_ok r \<and>
     (\<exists>body. json_body r = Some body \<and> prop_is body ''e2ee_enabled'' (JBool True) = Inr True)"

lemma some_admin_True:
  "some_admin ms gid = Inr True \<Longrightarrow>
     \<exists>m \<in> set ms. prop_is m ''role'' (JStr ''admin'') = Inr True \<and> prop_is m ''userId'' (JStr gid) = Inr True"
  by (induction ms) (auto split: sum.splits bool.splits)

lemma response_json_Inr: "response_json r = Inr j \<longleftrightarrow> json_body r = Some j"
  by (auto simp: response_json_def split: option.splits)

lemma frame_fetch [frame_intros]: "(\<And>w. g (tick w) = g w) \<Longrightarrow> frame g (fetch env url hs)"
  unfolding fetch_def by (intro frame_intros)

lemma frame_isAdmin [frame_intros]: "(\<And>w. g (tick w) = g w) \<Longrightarrow> frame g (isAdmin env gid)"
  unfolding isAdmin_def by (intro frame_intros)

lemma frame_fetchE2eeStatus [frame_intros]: "(\<And>w. g (tick w) = g w) \<Longrightarrow> frame g (fetchE2eeStatus env c)"
  unfolding fetchE2eeStatus_def by (intro frame_intros)

lemma frame_isConversationE2EE [frame_intros]:
  "(\<And>w. g (tick w) = g w) \<Longrightarrow> (\<And>w c. g (w\<lparr>cache := c\<rparr>) = g w) \<Longrightarrow> frame g (isConversationE2EE env c)"
  unfolding isConversationE2EE_def by (intro frame_intros)

lemma wp_fetch [wp_simps]:
  "wp (fetch env url hs) Q R w =
     (case outcome_at env (ticks w) of
        Done \<Rightarrow> Q (http_get env (Suc (ticks w)) url hs) (tick w)
      | Rejected msg \<Rightarrow> R (IoError msg) (tick w)
      | Lost msg \<Rightarrow> R (IoError msg) (tick w))"
  by (simp add: fetch_def wp_simps split: outcome.split)

lemma wp_isAdmin:
  assumes "\<And>w1. Q False w1" and "\<And>e w1. R e w1"
    and "\<And>n. admin_reply (http_get env n (base_url (cfg_GROUP_SERVICE_URL (cfg env)) @ ''/groups/v1/''
            @ encodeURIComponent gid @ ''/members'') (group_headers env)) gid \<Longrightarrow> Q True (tick w)"
  shows "wp (isAdmin env gid) Q R w"
proof -
  let ?r = "http_get env (Suc (ticks w)) (base_url (cfg_GROUP_SERVICE_URL (cfg env)) @ ''/groups/v1/''
            @ encodeURIComponent gid @ ''/members'') (group_headers env)"
  have "Q b (tick w)"
    if "response_ok ?r" "response_json ?r = Inr body" "members_of body = Inr ms" "some_admin ms gid = Inr b"
    for body ms b
  proof (cases b)
    case True
    then show ?thesis
      using that some_admin_True [of ms gid] assms(3) by (auto simp: admin_reply_def response_json_Inr)
  qed (simp add: assms(1))
  then show ?thesis
    using assms(1,2)
    by (auto simp only: isAdmin_def Let_def wp_simps split: outcome.split sum.split if_splits)
qed

lemma wp_fetchE2eeStatus:
  assumes "\<And>w1. Q False w1"
    and "\<And>n. e2ee_reply (http_get env n (e2ee_url env c) (messaging_headers env)) \<Longrightarrow> Q True (tick w)"
  shows "wp (fetchE2eeStatus env c) Q R w"
proof -
  let ?r = "http_get env (Suc (ticks w)) (e2ee_url env c) (messaging_headers env)"
  have "Q b (tick w)"
    if "response_ok ?r" "response_json ?r = Inr body" "prop_is body ''e2ee_enabled'' (JBool True) = Inr b" for body b
    using that assms by (cases b) (auto simp: e2ee_reply_def response_json_Inr)
  then show ?thesis
    using assms(1)
    by (auto simp only: fetchE2eeStatus_def Let_def wp_simps split: outcome.split sum.split if_splits)
qed

section \<open>Properties\<close>

text \<open>A user is taken for an administrator only on a 2xx reply of group-service that lists a
  member with the role \<open>admin\<close> and that id; every other reply, failure or malformed body is a
  refusal or an error, whatever the network does.\<close>

theorem isAdmin_sound:
  assumes "isAdmin env gid w = (Inr True, w')"
  shows "\<exists>n. admin_reply (http_get env n (base_url (cfg_GROUP_SERVICE_URL (cfg env)) @ ''/groups/v1/''
            @ encodeURIComponent gid @ ''/members'') (group_headers env)) gid"
proof -
  let ?P = "\<exists>n. admin_reply (http_get env n (base_url (cfg_GROUP_SERVICE_URL (cfg env)) @ ''/groups/v1/''
            @ encodeURIComponent gid @ ''/members'') (group_headers env)) gid"
  have "wp (isAdmin env gid) (\<lambda>b _. b \<longrightarrow> ?P) (\<lambda>_ _. True) w"
    by (rule wp_isAdmin) blast+
  from wp_Inr [OF assms this] show ?thesis by simp
qed

definition group_env :: env where
  "group_env = sample_env\<lparr>cfg := sample_config\<lparr>cfg_GROUP_SERVICE_URL := Some ''http://groups/''\<rparr>,
     http_get := (\<lambda>_ _ _. \<lparr>status = 200, json_body = Some (JObj [(''members'', JArr
        [JObj [(''userId'', JStr bob), (''role'', JStr ''member'')],
         JObj [(''userId'', JStr alice), (''role'', JStr ''admin'')]])])\<rparr>)\<rparr>"

theorem isAdmin_sound_witness:
  "\<exists>n. admin_reply (http_get group_env n (base_url (cfg_GROUP_SERVICE_URL (cfg group_env)) @ ''/groups/v1/''
            @ encodeURIComponent alice @ ''/members'') (group_headers group_env)) alice"
proof -
  have "isAdmin group_env alice empty_world = (Inr True, snd (isAdmin group_env alice empty_world))"
    by (rule run_Inr) code_simp
  then show ?thesis by (rule isAdmin_sound)
qed

text \<open>Asking for the encryption state never fails: no error of the network, of the reply's
  status or of its body reaches the caller, and \<open>true\<close> is returned only when a 2xx reply says
  \<open>e2ee_enabled: true\<close>.\<close>

theorem fetchE2eeStatus_fail_open:
  "\<exists>b w'. fetchE2eeStatus env c w = (Inr b, w')
     \<and> (b \<longrightarrow> (\<exists>n. e2ee_reply (http_get env n (e2ee_url env c) (messaging_headers env))))"
proof -
  let ?P = "\<exists>n. e2ee_reply (http_get env n (e2ee_url env c) (messaging_headers env))"
  have "wp (fetchE2eeStatus env c) (\<lambda>b _. b \<longrightarrow> ?P) (\<lambda>_ _. False) w"
    by (rule wp_fetchE2eeStatus) blast+
  then show ?thesis
    by (auto simp: wp_def split: prod.splits sum.splits)
qed

definition messaging_env :: env where
  "messaging_env = sample_env\<lparr>cfg := sample_config\<lparr>cfg_MESSAGING_SERVICE_URL := Some ''http://messaging''\<rparr>,
     http_get := (\<lambda>_ _ _. \<lparr>status = 200, json_body = Some (JObj [(''e2ee_enabled'', JBool True)])\<rparr>)\<rparr>"

theorem fetchE2eeStatus_fail_open_witness:
  "\<exists>n. e2ee_reply (http_get messaging_env n (e2ee_url messaging_env ''c1'') (messaging_headers messaging_env))"
proof -
  have "fst (fetchE2eeStatus messaging_env ''c1'' empty_world) = Inr True"
    by code_simp
  then show ?thesis
    using fetchE2eeStatus_fail_open [of messaging_env "''c1''" empty_world] by auto
qed

end
