(* ===== verification/Media_Service.thy ===== *)
theory Media_Service
  imports Media_Access Storage_Service Quota Remote_Services "HOL-Library.Multiset"
begin

text \<open>
  The read, share, delete and listing methods of \<open>media.service.ts\<close>, and its helpers for
  signed URLs and the access log.  A fire-and-forget promise runs to its end where it is
  started.  The metadata cache only ever holds metadata under its keys; an entry of another
  kind is not read.
\<close>

definition E2EE_REQUIRED_CONTENT_TYPE :: string where
  "E2EE_REQUIRED_CONTENT_TYPE = ''application/octet-stream''"

definition META_CACHE_TTL_MS :: int where
  "META_CACHE_TTL_MS = 30 * 60 * 1000"

definition meta_key :: "uuid \<Rightarrow> string" where
  "meta_key mid = ''media:meta:'' @ mid"

definition signedUrlExpirySeconds :: "env \<Rightarrow> int" where
  "signedUrlExpirySeconds env = (case cfg_SIGNED_URL_EXPIRY_SECONDS (cfg env) of None \<Rightarrow> 60 * 60 | Some n \<Rightarrow> n)"

definition media_not_found :: "uuid \<Rightarrow> exn" where
  "media_not_found mid = NotFound (''Media '' @ mid @ '' not found'')"

section \<open>Helpers\<close>

definition enforceE2EEContentType :: "env \<Rightarrow> string \<Rightarrow> string \<Rightarrow> unit io" where
  "enforceE2EEContentType env conversationId contentType =
     bindE (isConversationE2EE env conversationId) (\<lambda>isE2EE.
     throw_when (isE2EE \<and> contentType \<noteq> E2EE_REQUIRED_CONTENT_TYPE)
       (HttpException 422 (Obj
         [(''error'', ''plaintext_media_not_allowed_on_e2ee_conversation''),
          (''message'', ''Conversation '' @ conversationId
             @ '' has E2EE enabled - only application/octet-stream is accepted'')])))"

definition generatePresignedUrl :: "env \<Rightarrow> string \<Rightarrow> int \<Rightarrow> string io" where
  "generatePresignedUrl env storagePath expiresIn = gets (\<lambda>w. presigned env storagePath expiresIn (now env w))"

definition regenerateSignedUrl :: "env \<Rightarrow> media \<Rightarrow> millis \<Rightarrow> (string \<times> millis) io" where
  "regenerateSignedUrl env media t =
     (let expiresAt = t + signedUrlExpirySeconds env * 1000 in
      bindE (generatePresignedUrl env (m_storagePath media) (signedUrlExpirySeconds env)) (\<lambda>url.
      bindE (updateSignedUrlExpiry env (m_id media) expiresAt) (\<lambda>_.
      ret (url, expiresAt))))"

definition getOrGenerateSignedUrl :: "env \<Rightarrow> media \<Rightarrow> (string \<times> millis) io" where
  "getOrGenerateSignedUrl env media =
     bindE (gets (now env)) (\<lambda>t.
     case m_signedUrlExpiresAt media of
       Some until \<Rightarrow>
         if until > t then
           bindE (generatePresignedUrl env (m_storagePath media) (max 1 ((until - t) div 1000))) (\<lambda>url.
           ret (url, until))
         else regenerateSignedUrl env media t
     | None \<Rightarrow> regenerateSignedUrl env media t)"

text \<open>\<open>accessLogRepo.save\<close> opens its own transaction.\<close>

definition writeAccessLog ::
  "env \<Rightarrow> uuid \<Rightarrow> uuid option \<Rightarrow> string \<Rightarrow> string option \<Rightarrow> string option \<Rightarrow> unit io" where
  "writeAccessLog env mediaId accessorId accessType ipAddress userAgent =
     bindE (gets (now env)) (\<lambda>t.
     bindE (randomUUID env) (\<lambda>lid.
     transaction env (insert_access_log env
       \<lparr>l_accessedAt = t, l_id = lid, l_mediaId = mediaId, l_accessorId = accessorId,
        l_accessType = accessType, l_ipAddress = ipAddress,
        l_userAgent = map_option (take 512) userAgent\<rparr>)))"

definition logAccess :: "env \<Rightarrow> uuid \<Rightarrow> uuid option \<Rightarrow> string \<Rightarrow> unit io" where
  "logAccess env mediaId accessorId accessType =
     bindE (gets (now env)) (\<lambda>t.
     bindE (randomUUID env) (\<lambda>lid.
     fire_and_forget (transaction env (insert_access_log env
       \<lparr>l_accessedAt = t, l_id = lid, l_mediaId = mediaId, l_accessorId = accessorId,
        l_accessType = accessType, l_ipAddress = None, l_userAgent = None\<rparr>))))"

definition find_media :: "env \<Rightarrow> uuid \<Rightarrow> media option io" where
  "find_media env mid = transaction env (findById env mid)"

text \<open>\<open>findById\<close>, the 404 and the read check, as every read begins.\<close>

definition readable :: "uuid \<Rightarrow> uuid \<Rightarrow> media option \<Rightarrow> exn + media" where
  "readable mid requesterId found =
     (case found of
        None \<Rightarrow> Inl (media_not_found mid)
      | Some media \<Rightarrow>
          (case enforceReadAccess (m_context media) (m_ownerId media) (m_sharedWith media) requesterId of
             Inl e \<Rightarrow> Inl e
           | Inr _ \<Rightarrow> Inr media))"

section \<open>Reads\<close>

definition metadata_of :: "media \<Rightarrow> media_metadata" where
  "metadata_of m = \<lparr>md_id = m_id m, md_ownerId = m_ownerId m, md_context = m_context m,
     md_contentType = m_contentType m, md_blobSize = m_blobSize m, md_expiresAt = m_expiresAt m,
     md_isActive = m_isActive m, md_createdAt = m_createdAt m, md_hasThumbnail = (m_thumbnailPath m \<noteq> None)\<rparr>"

definition cached_meta_of :: "media \<Rightarrow> cached_meta" where
  "cached_meta_of m = media_metadata.extend (metadata_of m) (cached_meta.fields (m_sharedWith m))"

definition getMetadata :: "env \<Rightarrow> uuid \<Rightarrow> uuid \<Rightarrow> media_metadata io" where
  "getMetadata env mid requesterId =
     bindE (cache_get env (meta_key mid)) (\<lambda>cached.
     case cached of
       Some (CMeta c) \<Rightarrow>
         bindE (from_result (enforceReadAccess (md_context c) (md_ownerId c) (md_sharedWith c) requesterId)) (\<lambda>_.
         ret (media_metadata.truncate c))
     | _ \<Rightarrow>
         bindE (find_media env mid) (\<lambda>found.
         bindE (from_result (readable mid requesterId found)) (\<lambda>media.
         bindE (cache_set env (meta_key mid) (CMeta (cached_meta_of media)) META_CACHE_TTL_MS) (\<lambda>_.
         ret (metadata_of media)))))"

definition inc_downloads :: "unit io" where
  "inc_downloads = modify (\<lambda>w. w\<lparr>downloadsTotal := downloadsTotal w + 1\<rparr>)"

definition getBlob ::
  "env \<Rightarrow> uuid \<Rightarrow> uuid \<Rightarrow> string option \<Rightarrow> string option \<Rightarrow> (string \<times> millis) io" where
  "getBlob env mid requesterId ipAddress userAgent =
     bindE (transaction env
       (bindE (findById env mid) (\<lambda>found.
        bindE (from_result (readable mid requesterId found)) (\<lambda>media.
        bindE (getOrGenerateSignedUrl env media) (\<lambda>su.
        ret (media, su)))))) (\<lambda>(media, su).
     bindE (fire_and_forget (writeAccessLog env (m_id media) (Some requesterId) ''blob'' ipAddress userAgent)) (\<lambda>_.
     bindE inc_downloads (\<lambda>_.
     ret su)))"

text \<open>\<open>if (!media.thumbnailPath)\<close>: absent or empty.\<close>

definition thumbnail_path :: "media \<Rightarrow> string option" where
  "thumbnail_path m = (if truthy (m_thumbnailPath m) then m_thumbnailPath m else None)"

definition getThumbnail ::
  "env \<Rightarrow> uuid \<Rightarrow> uuid \<Rightarrow> string option \<Rightarrow> string option \<Rightarrow> (string \<times> millis) option io" where
  "getThumbnail env mid requesterId ipAddress userAgent =
     bindE (find_media env mid) (\<lambda>found.
     bindE (from_result (readable mid requesterId found)) (\<lambda>media.
     case thumbnail_path media of
       None \<Rightarrow> ret None
     | Some path \<Rightarrow>
         bindE (generatePresignedUrl env path (signedUrlExpirySeconds env)) (\<lambda>url.
         bindE (gets (now env)) (\<lambda>t.
         bindE (fire_and_forget (writeAccessLog env (m_id media) (Some requesterId) ''thumbnail'' ipAddress userAgent))
           (\<lambda>_.
         bindE inc_downloads (\<lambda>_.
         ret (Some (url, t + signedUrlExpirySeconds env * 1000))))))))"

record streamable_file =
  sf_body :: "byte list"
  sf_type :: string
  sf_length :: "int option"

definition streamBlob ::
  "env \<Rightarrow> uuid \<Rightarrow> uuid \<Rightarrow> string option \<Rightarrow> string option \<Rightarrow> streamable_file io" where
  "streamBlob env mid requesterId ipAddress userAgent =
     bindE (find_media env mid) (\<lambda>found.
     bindE (from_result (readable mid requesterId found)) (\<lambda>media.
     bindE (storage_download env (m_storagePath media)) (\<lambda>bytes.
     bindE (fire_and_forget (writeAccessLog env (m_id media) (Some requesterId) ''blob'' ipAddress userAgent)) (\<lambda>_.
     ret \<lparr>sf_body = bytes, sf_type = m_contentType media, sf_length = Some (m_blobSize media)\<rparr>))))"

definition streamThumbnail ::
  "env \<Rightarrow> uuid \<Rightarrow> uuid \<Rightarrow> string option \<Rightarrow> string option \<Rightarrow> streamable_file option io" where
  "streamThumbnail env mid requesterId ipAddress userAgent =
     bindE (find_media env mid) (\<lambda>found.
     bindE (from_result (readable mid requesterId found)) (\<lambda>media.
     case thumbnail_path media of
       None \<Rightarrow> ret None
     | Some path \<Rightarrow>
         bindE (storage_download env path) (\<lambda>bytes.
         bindE (fire_and_forget (writeAccessLog env (m_id media) (Some requesterId) ''thumbnail'' ipAddress userAgent))
           (\<lambda>_.
         ret (Some \<lparr>sf_body = bytes, sf_type = ''image/*'', sf_length = None\<rparr>)))))"

section \<open>Sharing\<close>

definition add_reader :: "uuid \<Rightarrow> uuid list \<Rightarrow> uuid \<Rightarrow> uuid list" where
  "add_reader ownerId us uid = (if uid \<noteq> [] \<and> uid \<noteq> ownerId then set_add us uid else us)"

definition current_readers :: "media \<Rightarrow> uuid list" where
  "current_readers m = (case m_sharedWith m of None \<Rightarrow> [] | Some us \<Rightarrow> us)"

definition share_union :: "media \<Rightarrow> uuid list \<Rightarrow> uuid list" where
  "share_union m us = foldl (add_reader (m_ownerId m)) (set_of_list (current_readers m)) us"

definition owned :: "uuid \<Rightarrow> uuid \<Rightarrow> media option \<Rightarrow> exn + media" where
  "owned mid requesterId found =
     (case found of
        None \<Rightarrow> Inl (media_not_found mid)
      | Some media \<Rightarrow>
          if m_ownerId media \<noteq> requesterId then Inl (Forbidden (''You do not own media '' @ mid))
          else Inr media)"

definition share_in_transaction :: "env \<Rightarrow> uuid \<Rightarrow> uuid \<Rightarrow> uuid list \<Rightarrow> (uuid list \<times> bool) io" where
  "share_in_transaction env mid requesterId userIdsToAdd =
     bindE (findById env mid) (\<lambda>found.
     bindE (from_result (owned mid requesterId found)) (\<lambda>media.
     let next = share_union media userIdsToAdd in
     if length next = length (set_of_list (current_readers media)) then ret (next, False)
     else
       bindE (updateSharedWith env mid (if length next > 0 then Some next else None)) (\<lambda>_.
       ret (next, True))))"

definition share :: "env \<Rightarrow> uuid \<Rightarrow> uuid \<Rightarrow> uuid list \<Rightarrow> uuid list io" where
  "share env mid requesterId userIdsToAdd =
     bindE (transaction env (share_in_transaction env mid requesterId userIdsToAdd)) (\<lambda>(sharedWith, changed).
     bindE (if changed then cache_del env (meta_key mid) else ret ()) (\<lambda>_.
     ret sharedWith))"

section \<open>Deleting\<close>

definition delete_in_transaction :: "env \<Rightarrow> uuid \<Rightarrow> uuid \<Rightarrow> media io" where
  "delete_in_transaction env mid requesterId =
     bindE (findById env mid) (\<lambda>found.
     bindE (from_result (owned mid requesterId found)) (\<lambda>media.
     bindE (softDelete env mid) (\<lambda>_.
     ret media)))"

definition delete_media :: "env \<Rightarrow> uuid \<Rightarrow> uuid \<Rightarrow> string option \<Rightarrow> string option \<Rightarrow> unit io" where
  "delete_media env mid requesterId ipAddress userAgent =
     bindE (transaction env (delete_in_transaction env mid requesterId)) (\<lambda>media.
     bindE (storage_delete env (m_storagePath media)) (\<lambda>_.
     bindE (case thumbnail_path media of None \<Rightarrow> ret () | Some path \<Rightarrow> storage_delete env path) (\<lambda>_.
     bindE (cache_del env (meta_key mid)) (\<lambda>_.
     bindE (recordDelete env requesterId (m_blobSize media)) (\<lambda>_.
     bindE (fire_and_forget (writeAccessLog env (m_id media) (Some requesterId) ''delete'' ipAddress userAgent)) (\<lambda>_.
     bindE (fire_and_forget (redis_publish env (MediaDeleted (m_id media) (m_ownerId media) (m_context media)))) (\<lambda>_.
     modify (\<lambda>w. w\<lparr>deletesTotal := deletesTotal w + 1\<rparr>))))))))"

section \<open>Quota report and listing\<close>

record quota_report =
  qr_storageUsed :: int
  qr_storageLimit :: int
  qr_filesCount :: int
  qr_filesLimit :: int
  qr_dailyUploads :: int
  qr_dailyUploadLimit :: int
  qr_quotaDate :: "int option"
  qr_usagePercent_x100 :: int

text \<open>The percentage, a multiple of 0.01, is kept in hundredths.\<close>

definition usage_percent_x100 :: "int \<Rightarrow> int \<Rightarrow> int" where
  "usage_percent_x100 used limit =
     (if limit > 0 then min 10000 (max 0 (bigint_div (used * 10000) limit)) else 0)"

definition clamp_safe :: "int \<Rightarrow> int" where
  "clamp_safe n = (if n > MAX_SAFE_INTEGER then MAX_SAFE_INTEGER else n)"

definition quota_report_of :: "user_quota option \<Rightarrow> quota_report" where
  "quota_report_of quota =
     (let used = (case quota of None \<Rightarrow> 0 | Some q \<Rightarrow> q_storageUsed q);
          limit = (case quota of None \<Rightarrow> DEFAULT_STORAGE_LIMIT_BYTES | Some q \<Rightarrow> q_storageLimit q) in
      \<lparr>qr_storageUsed = clamp_safe used, qr_storageLimit = clamp_safe limit,
       qr_filesCount = (case quota of None \<Rightarrow> 0 | Some q \<Rightarrow> q_filesCount q),
       qr_filesLimit = (case quota of None \<Rightarrow> DEFAULT_FILES_LIMIT | Some q \<Rightarrow> q_filesLimit q),
       qr_dailyUploads = (case quota of None \<Rightarrow> 0 | Some q \<Rightarrow> q_dailyUploads q),
       qr_dailyUploadLimit = (case quota of None \<Rightarrow> DEFAULT_DAILY_UPLOAD_LIMIT | Some q \<Rightarrow> q_dailyUploadLimit q),
       qr_quotaDate = map_option q_quotaDate quota,
       qr_usagePercent_x100 = usage_percent_x100 used limit\<rparr>)"

definition getUserQuota :: "env \<Rightarrow> uuid \<Rightarrow> quota_report io" where
  "getUserQuota env userId =
     bindE (transaction env (find_quota env userId)) (\<lambda>quota. ret (quota_report_of quota))"

record media_item =
  mi_id :: uuid
  mi_contentType :: string
  mi_blobSize :: int
  mi_context :: string
  mi_createdAt :: millis

record media_page =
  pg_items :: "media_item list"
  pg_total :: int
  pg_page :: int
  pg_limit :: int
  pg_totalPages :: int

definition item_of :: "media \<Rightarrow> media_item" where
  "item_of m = \<lparr>mi_id = m_id m, mi_contentType = m_contentType m, mi_blobSize = m_blobSize m,
     mi_context = m_context m, mi_createdAt = m_createdAt m\<rparr>"

text \<open>The user's active rows, newest first.  The query orders by nothing else, so rows of the same
  instant come in an order that is the query's own.\<close>

definition user_rows :: "env \<Rightarrow> world \<Rightarrow> uuid \<Rightarrow> media list" where
  "user_rows env w userId =
     sort_key (\<lambda>r. - m_createdAt r)
       (sort_key (\<lambda>r. tie_rank env (ticks w) (m_id r))
         (filter (\<lambda>r. m_ownerId r = userId \<and> m_isActive r \<and> media_visible env w r) (media_tbl w)))"

definition find_and_count :: "env \<Rightarrow> uuid \<Rightarrow> int \<Rightarrow> int \<Rightarrow> (media list \<times> int) io" where
  "find_and_count env userId skip limit =
     bindE (ext env (\<lambda>w.
       if skip < 0 then (Inl (IoError ''OFFSET must not be negative''), w)
       else if limit < 0 then (Inl (IoError ''LIMIT must not be negative''), w)
       else (Inr (take (nat limit) (drop (nat skip) (user_rows env w userId))), w))) (\<lambda>items.
     bindE (ext env (gets (\<lambda>w. int (length (user_rows env w userId))))) (\<lambda>total.
     ret (items, total)))"

definition ceil_div :: "int \<Rightarrow> int \<Rightarrow> int" where
  "ceil_div a b = - ((- a) div b)"

definition getUserMedia :: "env \<Rightarrow> uuid \<Rightarrow> int \<Rightarrow> int \<Rightarrow> media_page io" where
  "getUserMedia env userId page limit =
     bindE (transaction env (find_and_count env userId ((page - 1) * limit) limit)) (\<lambda>(items, total).
     ret \<lparr>pg_items = map item_of items, pg_total = total, pg_page = page, pg_limit = limit,
          pg_totalPages = ceil_div total limit\<rparr>)"

lemma wp_K: "wp m (\<lambda>_ _. P) (\<lambda>_ _. P) w = P"
  and wp_K_pf: "wp m (\<lambda>_ _. P) (\<lambda>_ _. P) = (\<lambda>_. P)"
  by (simp_all add: wp_def fun_eq_iff split: prod.splits sum.splits)

section \<open>Reads give away only what the requester may read\<close>

text \<open>Some active row with this id may be read by this user.\<close>

definition granted :: "world \<Rightarrow> uuid \<Rightarrow> uuid \<Rightarrow> media \<Rightarrow> bool" where
  "granted w mid u r \<longleftrightarrow> r \<in> set (media_tbl w) \<and> m_id r = mid \<and> m_isActive r \<and> may_read r u"

lemma readable_Inr:
  "readable mid u found = Inr r \<longleftrightarrow> found = Some r \<and> may_read r u"
  by (auto simp: readable_def may_read_def split: option.splits sum.splits)

lemma readable_Inl: "readable mid u found = Inl e \<Longrightarrow>
    (found = None \<and> e = media_not_found mid) \<or> (\<exists>r. found = Some r \<and> \<not> may_read r u \<and> e = Forbidden ''Access denied'')"
  by (auto simp: readable_def may_read_def split: option.splits sum.splits dest: enforceReadAccess_Inl)

lemma wp_readable [wp_simps]:
  "wp (from_result (readable mid u found)) Q R w =
     (case found of
        None \<Rightarrow> R (media_not_found mid) w
      | Some r \<Rightarrow> if may_read r u then Q r w else R (Forbidden ''Access denied'') w)"
  by (auto simp: wp_from_result readable_def may_read_def split: option.split sum.split dest: enforceReadAccess_Inl)

lemma wp_granted_read:
  assumes k: "\<And>r. granted w mid u r \<Longrightarrow> wp (k r) (\<lambda>x _. P r x) (\<lambda>_ _. True) w'"
    and v: "\<forall>r. found = Some r \<longrightarrow> visible_rows env w mid r"
  shows "wp (bindE (from_result (readable mid u found)) k) (\<lambda>x _. \<exists>r. granted w mid u r \<and> P r x) (\<lambda>_ _. True) w'"
proof (cases found)
  case None
  then show ?thesis by (simp add: wp_bindE wp_readable)
next
  case (Some r)
  show ?thesis
  proof (cases "may_read r u")
    case True
    with Some v have g: "granted w mid u r"
      by (simp add: granted_def visible_rows_def)
    with True Some show ?thesis
      by (simp add: wp_bindE wp_readable) (rule wp_mono [OF k [OF g]], auto)
  qed (simp add: Some wp_bindE wp_readable)
qed

lemma read_op_granted:
  assumes m: "m = bindE (find_media env mid) (\<lambda>found. bindE (from_result (readable mid u found)) k)"
    and "m w = (Inr x, w')"
    and k: "\<And>r w1. granted w mid u r \<Longrightarrow> s3 w1 = s3 w \<Longrightarrow> wp (k r) (\<lambda>x _. P r x) (\<lambda>_ _. True) w1"
  shows "\<exists>r. granted w mid u r \<and> P r x"
proof -
  have "wp (find_media env mid) (\<lambda>found. wp (bindE (from_result (readable mid u found)) k)
      (\<lambda>x _. \<exists>r. granted w mid u r \<and> P r x) (\<lambda>_ _. True)) (\<lambda>_ _. True) w"
  proof -
    have "wp (find_media env mid) (\<lambda>found w1. s3 w1 = s3 w \<and> (\<forall>r. found = Some r \<longrightarrow> visible_rows env w mid r))
        (\<lambda>_ _. True) w"
      unfolding find_media_def by (rule wp_find_media) (auto intro: tick_freeI)
    then show ?thesis
      by (rule wp_mono) (auto intro!: wp_granted_read k)
  qed
  then have "wp m (\<lambda>x _. \<exists>r. granted w mid u r \<and> P r x) (\<lambda>_ _. True) w"
    by (simp only: m wp_bindE)
  with assms(2) show ?thesis by (simp add: wp_def)
qed

lemma wp_storage_download:
  "wp (storage_download env p) (\<lambda>bytes _. \<exists>ob. s3 w p = Some ob \<and> o_body ob = bytes) (\<lambda>_ _. True) w"
  by (auto simp: storage_download_def s3_get_def wp_bindE wp_ret wp_def ext_def run_simps split: outcome.split option.split)

lemma streamBlob_granted:
  assumes "streamBlob env mid u ip ua w = (Inr f, w')"
  shows "\<exists>r. granted w mid u r \<and> sf_type f = m_contentType r \<and> sf_length f = Some (m_blobSize r)
     \<and> (\<exists>ob. s3 w (m_storagePath r) = Some ob \<and> o_body ob = sf_body f)"
proof (rule read_op_granted [OF streamBlob_def assms])
  fix r and w1 :: world
  assume s: "s3 w1 = s3 w"
  show "wp (bindE (storage_download env (m_storagePath r)) (\<lambda>bytes.
     bindE (fire_and_forget (writeAccessLog env (m_id r) (Some u) ''blob'' ip ua)) (\<lambda>_.
     ret \<lparr>sf_body = bytes, sf_type = m_contentType r, sf_length = Some (m_blobSize r)\<rparr>)))
     (\<lambda>f _. sf_type f = m_contentType r \<and> sf_length f = Some (m_blobSize r)
       \<and> (\<exists>ob. s3 w (m_storagePath r) = Some ob \<and> o_body ob = sf_body f)) (\<lambda>_ _. True) w1"
    unfolding wp_bindE wp_fire_and_forget wp_ret
    by (rule wp_mono [OF wp_storage_download]) (use s in \<open>auto simp: wp_True\<close>)
qed

text \<open>
  What a read of the thumbnail may give: nothing when the row has none; otherwise the bytes of the
  object under the row's thumbnail path, or a URL for this path and its expiry.
\<close>

definition thumbnail_bytes :: "world \<Rightarrow> media \<Rightarrow> streamable_file option \<Rightarrow> bool" where
  "thumbnail_bytes w r x \<longleftrightarrow>
     (case thumbnail_path r of
        None \<Rightarrow> x = None
      | Some p \<Rightarrow> \<exists>ob. s3 w p = Some ob \<and> x = Some \<lparr>sf_body = o_body ob, sf_type = ''image/*'', sf_length = None\<rparr>)"

definition thumbnail_link :: "env \<Rightarrow> media \<Rightarrow> (string \<times> millis) option \<Rightarrow> bool" where
  "thumbnail_link env r x \<longleftrightarrow>
     (case thumbnail_path r of
        None \<Rightarrow> x = None
      | Some p \<Rightarrow> \<exists>t. x = Some (presigned env p (signedUrlExpirySeconds env) t, t + signedUrlExpirySeconds env * 1000))"

lemma streamThumbnail_granted:
  assumes "streamThumbnail env mid u ip ua w = (Inr x, w')"
  shows "\<exists>r. granted w mid u r \<and> thumbnail_bytes w r x"
proof (rule read_op_granted [OF streamThumbnail_def assms])
  fix r and w1 :: world
  assume s: "s3 w1 = s3 w"
  show "wp (case thumbnail_path r of
       None \<Rightarrow> ret None
     | Some path \<Rightarrow>
         bindE (storage_download env path) (\<lambda>bytes.
         bindE (fire_and_forget (writeAccessLog env (m_id r) (Some u) ''thumbnail'' ip ua)) (\<lambda>_.
         ret (Some \<lparr>sf_body = bytes, sf_type = ''image/*'', sf_length = None\<rparr>))))
     (\<lambda>x _. thumbnail_bytes w r x) (\<lambda>_ _. True) w1"
  proof (cases "thumbnail_path r")
    case (Some path)
    show ?thesis
      unfolding Some option.case wp_bindE wp_fire_and_forget wp_ret
      by (rule wp_mono [OF wp_storage_download]) (use s Some in \<open>auto simp: wp_True thumbnail_bytes_def\<close>)
  qed (simp add: wp_pf thumbnail_bytes_def)
qed

lemma getThumbnail_granted:
  assumes "getThumbnail env mid u ip ua w = (Inr x, w')"
  shows "\<exists>r. granted w mid u r \<and> thumbnail_link env r x"
proof (rule read_op_granted [OF getThumbnail_def assms])
  fix r and w1 :: world
  show "wp (case thumbnail_path r of
       None \<Rightarrow> ret None
     | Some path \<Rightarrow>
         bindE (generatePresignedUrl env path (signedUrlExpirySeconds env)) (\<lambda>url.
         bindE (gets (now env)) (\<lambda>t.
         bindE (fire_and_forget (writeAccessLog env (m_id r) (Some u) ''thumbnail'' ip ua)) (\<lambda>_.
         bindE inc_downloads (\<lambda>_.
         ret (Some (url, t + signedUrlExpirySeconds env * 1000)))))))
     (\<lambda>x _. thumbnail_link env r x) (\<lambda>_ _. True) w1"
    by (cases "thumbnail_path r")
      (auto simp: wp_pf generatePresignedUrl_def inc_downloads_def wp_K_pf thumbnail_link_def)
qed


text \<open>
  A signed URL for the row's own object that stops working no later than the expiry that is
  reported with it, up to the shortest signature of one second.
\<close>

definition signed_for :: "env \<Rightarrow> media \<Rightarrow> string \<times> millis \<Rightarrow> bool" where
  "signed_for env r su \<longleftrightarrow>
     (\<exists>t n. fst su = presigned env (m_storagePath r) n t \<and> (t + n * 1000 \<le> snd su \<or> n = 1 \<and> t < snd su))"

lemma wp_getOrGenerateSignedUrl:
  "wp (getOrGenerateSignedUrl env r) (\<lambda>su _. signed_for env r su) (\<lambda>_ _. True) w"
proof -
  have new: "wp (regenerateSignedUrl env r t) (\<lambda>su _. signed_for env r su) (\<lambda>_ _. True) w"
    if "t = now env w" for t
  proof -
    have "signed_for env r (presigned env (m_storagePath r) (signedUrlExpirySeconds env) t, t + signedUrlExpirySeconds env * 1000)"
      unfolding signed_for_def by (rule exI [of _ t], rule exI [of _ "signedUrlExpirySeconds env"]) simp
    with that show ?thesis
      by (simp add: regenerateSignedUrl_def Let_def generatePresignedUrl_def wp_pf wp_True_pf)
  qed
  have old: "signed_for env r (presigned env (m_storagePath r) (max 1 ((until - t) div 1000)) t, until)"
    if "t < until" for t until
  proof -
    have "(until - t) div 1000 * 1000 \<le> until - t"
      by simp
    with that show ?thesis
      unfolding signed_for_def
      by (intro exI [of _ t] exI [of _ "max 1 ((until - t) div 1000)"]) (auto simp: max_def)
  qed
  show ?thesis
    by (auto simp: getOrGenerateSignedUrl_def wp_bindE wp_gets wp_pf new old generatePresignedUrl_def split: option.split)
qed

lemma getBlob_granted:
  assumes "getBlob env mid u ip ua w = (Inr su, w')"
  shows "\<exists>r. granted w mid u r \<and> signed_for env r su"
proof -
  let ?P = "\<lambda>(r, su) (_ :: world). granted w mid u r \<and> signed_for env r su"
  have body: "wp (bindE (findById env mid) (\<lambda>found.
        bindE (from_result (readable mid u found)) (\<lambda>media.
        bindE (getOrGenerateSignedUrl env media) (\<lambda>su. ret (media, su))))) ?P (\<lambda>_ _. True) w1"
    if w1: "same_db w w1" "guc w1 = request_guc env" for w1
  proof -
    have v: "visible_rows env w1 mid = visible_rows env w mid"
      by (simp add: visible_rows_def same_dbD [OF w1(1)] fun_eq_iff)
    have "wp (from_result (readable mid u found)) (\<lambda>media. wp (getOrGenerateSignedUrl env media)
        (\<lambda>su w. ?P (media, su) w) (\<lambda>_ _. True)) (\<lambda>_ _. True) w2"
      if "\<forall>r. found = Some r \<longrightarrow> visible_rows env w mid r" for found w2
      using that wp_mono [OF wp_getOrGenerateSignedUrl]
      by (cases found) (auto simp: wp_readable granted_def visible_rows_def)
    then show ?thesis
      unfolding wp_pf by (intro wp_findById_general [OF w1(2)]) (simp_all add: v)
  qed
  have "wp (getBlob env mid u ip ua) (\<lambda>su _. \<exists>r. granted w mid u r \<and> signed_for env r su) (\<lambda>_ _. True) w"
    unfolding getBlob_def wp_bindE
    by (rule wp_mono [OF wp_transactionI [where Q = ?P and R = "\<lambda>_ _. True"]])
      (use body in \<open>auto simp: tick_free_def wp_pf inc_downloads_def wp_K_pf\<close>)
  with assms show ?thesis by (simp add: wp_def)
qed

section \<open>The metadata cache never widens an access list\<close>

text \<open>
  A cached entry names the owner and the context of a row with its id, and a reader list
  that the row's own list contains.  It may be stale; it never grants more.
\<close>

definition covers :: "media \<Rightarrow> cached_meta \<Rightarrow> bool" where
  "covers r c \<longleftrightarrow> m_ownerId r = md_ownerId c \<and> m_context r = md_context c
     \<and> (\<forall>us. md_sharedWith c = Some us \<longrightarrow> set us \<subseteq> set (current_readers r))"

definition meta_truth :: "media list \<Rightarrow> string \<Rightarrow> cval \<times> millis \<Rightarrow> bool" where
  "meta_truth rows k v \<longleftrightarrow> (\<forall>mid c. k = meta_key mid \<longrightarrow> fst v = CMeta c \<longrightarrow>
     (\<exists>r \<in> set rows. m_id r = mid \<and> covers r c))"

definition meta_safe :: "world \<Rightarrow> bool" where
  "meta_safe w \<longleftrightarrow> distinct (map m_id (media_tbl w)) \<and> cache_kv.agrees (meta_truth (media_tbl w)) (cache w)"

text \<open>Rows stay, with their owner and context, and lists only grow.\<close>

definition row_grows :: "media \<Rightarrow> media \<Rightarrow> bool" where
  "row_grows r r' \<longleftrightarrow> m_id r' = m_id r \<and> m_ownerId r' = m_ownerId r
     \<and> m_context r' = m_context r \<and> set (current_readers r) \<subseteq> set (current_readers r')"

definition acl_grows :: "media list \<Rightarrow> media list \<Rightarrow> bool" where
  "acl_grows rows rows' \<longleftrightarrow> map m_id rows' = map m_id rows \<and> (\<forall>r \<in> set rows. \<exists>r' \<in> set rows'. row_grows r r')"

lemma row_grows_refl [simp]: "row_grows r r"
  by (simp add: row_grows_def)

lemma acl_grows_refl [simp]: "acl_grows rows rows"
  unfolding acl_grows_def using row_grows_refl by blast

lemma covers_grows: "row_grows r r' \<Longrightarrow> covers r c \<Longrightarrow> covers r' c"
  by (auto simp: row_grows_def covers_def)

lemma meta_truth_mono:
  assumes "acl_grows rows rows'" and "meta_truth rows k v"
  shows "meta_truth rows' k v"
  unfolding meta_truth_def
proof (intro allI impI)
  fix mid c
  assume "k = meta_key mid" "fst v = CMeta c"
  then obtain r where r: "r \<in> set rows" "m_id r = mid" "covers r c"
    using assms(2) by (auto simp: meta_truth_def)
  then obtain r' where "r' \<in> set rows'" "row_grows r r'"
    using assms(1) by (auto simp: acl_grows_def)
  with r show "\<exists>r \<in> set rows'. m_id r = mid \<and> covers r c"
    by (intro bexI [of _ r']) (auto intro: covers_grows simp: row_grows_def)
qed

lemma meta_safe_grows:
  assumes "meta_safe w" and "acl_grows (media_tbl w) (media_tbl w')" and "cache w' = cache w"
  shows "meta_safe w'"
  using assms cache_kv.agrees_mono [of "meta_truth (media_tbl w)" "cache w" "meta_truth (media_tbl w')"]
  by (auto simp: meta_safe_def acl_grows_def meta_truth_mono [OF assms(2)])

lemma meta_safe_tick_free: "tick_free meta_safe"
  by (rule tick_freeI) (simp add: meta_safe_def)

lemma acl_grows_update:
  assumes "\<And>r. r \<in> set rows \<Longrightarrow> p r \<Longrightarrow> row_grows r (f r)"
  shows "acl_grows rows (update_where p f rows)"
proof -
  have "map m_id (update_where p f rows) = map m_id rows"
    using assms by (induction rows) (auto simp: row_grows_def)
  moreover have "\<exists>r' \<in> set (update_where p f rows). row_grows r r'" if "r \<in> set rows" for r
  proof -
    have "(if p r then f r else r) \<in> set (update_where p f rows)"
      using imageI [OF that, of "\<lambda>r. if p r then f r else r"] by (simp only: set_update_where)
    moreover have "row_grows r (if p r then f r else r)"
      using assms that by simp
    ultimately show ?thesis by blast
  qed
  ultimately show ?thesis
    by (simp add: acl_grows_def)
qed

lemma wp_update_media_grows:
  assumes "\<And>r. r \<in> set (media_tbl w) \<Longrightarrow> m_id r = mid \<Longrightarrow> row_grows r (f r)"
  shows "wp (update_media env mid f) (\<lambda>_ w'. acl_grows (media_tbl w) (media_tbl w')) (\<lambda>_ _. True) w"
proof -
  have "acl_grows (media_tbl w) (update_where (\<lambda>r. m_id r = mid \<and> media_writable env v r)
      (\<lambda>r. (f r)\<lparr>m_updatedAt := t\<rparr>) (media_tbl w))" for v t
    by (rule acl_grows_update) (use assms in \<open>auto simp: current_readers_def row_grows_def\<close>)
  then show ?thesis
    by (simp add: update_media_def wp_ext wp_modify split: outcome.split)
qed

lemma wp_grows_frame:
  "frame media_tbl m \<Longrightarrow> wp m (\<lambda>_ w'. acl_grows (media_tbl w) (media_tbl w')) (\<lambda>_ _. True) w"
  by (auto simp: wp_def frame_def split: prod.split sum.split) (metis acl_grows_refl snd_conv)

lemma meta_safe_transaction:
  assumes c: "frame cache body"
    and b: "\<And>w. distinct (map m_id (media_tbl w)) \<Longrightarrow>
      wp body (\<lambda>_ w'. acl_grows (media_tbl w) (media_tbl w')) (\<lambda>_ _. True) w"
  shows "keeps meta_safe (transaction env body)"
proof -
  have "wp (transaction env body) (\<lambda>_. meta_safe) (\<lambda>_. meta_safe) w" if m: "meta_safe w" for w
  proof (rule wp_transactionI [OF meta_safe_tick_free meta_safe_tick_free m])
    fix w1
    assume "same_db w w1"
    note s = same_dbD [OF this]
    have "wp body (\<lambda>_ w2. cache w2 = cache w) (\<lambda>_ w2. cache w2 = cache w) w1"
      using c s by (simp add: wp_const frame_def)
    moreover have "wp body (\<lambda>_ w'. acl_grows (media_tbl w1) (media_tbl w')) (\<lambda>_ _. True) w1"
      using b [of w1] m s(1) by (simp add: meta_safe_def)
    ultimately have "wp body (\<lambda>_ w2. acl_grows (media_tbl w1) (media_tbl w2) \<and> cache w2 = cache w)
        (\<lambda>_ w2. True \<and> cache w2 = cache w) w1"
      by (intro wp_conj) auto
    then show "wp body (\<lambda>_ w2. meta_safe w2 \<and> (\<forall>e :: exn. meta_safe w2 \<and> meta_safe (restore_db w w2)))
        (\<lambda>_ w2. meta_safe (restore_db w w2)) w1"
    proof (rule wp_mono)
      have r: "meta_safe (restore_db w w2)" if "cache w2 = cache w" for w2
        using m that by (simp add: meta_safe_def)
      show "meta_safe w2 \<and> (\<forall>e :: exn. meta_safe w2 \<and> meta_safe (restore_db w w2))"
        if "acl_grows (media_tbl w1) (media_tbl w2) \<and> cache w2 = cache w" for w2
        using meta_safe_grows [OF m, of w2] that s(1) r by simp
    qed (use m in \<open>simp add: meta_safe_def\<close>)
  qed
  then show ?thesis by (simp add: keeps_wp)
qed

lemma meta_safe_frame: "frame media_tbl m \<Longrightarrow> frame cache m \<Longrightarrow> keeps meta_safe m"
  by (simp add: frame_def keeps_def meta_safe_def)

lemma meta_safe_cache_del: "keeps meta_safe (cache_del env k)"
  unfolding cache_del_def
proof (rule keeps_ext)
  show "keeps meta_safe (\<lambda>w. (Inr (), w\<lparr>cache := (cache w)(k := None)\<rparr>))"
    by (auto simp: keeps_def meta_safe_def cache_kv.agrees_def)
qed (simp add: meta_safe_def)

section \<open>Reader lists\<close>

lemma set_add_readers:
  "set (foldl (add_reader owner) acc us) = set acc \<union> {u \<in> set us. u \<noteq> [] \<and> u \<noteq> owner}"
  by (induction us arbitrary: acc) (auto simp: add_reader_def)

lemma distinct_add_readers [simp]: "distinct (foldl (add_reader owner) acc us) = distinct acc"
  by (induction us arbitrary: acc) (auto simp: add_reader_def)

lemma set_share_union:
  "set (share_union m us) = set (current_readers m) \<union> {u \<in> set us. u \<noteq> [] \<and> u \<noteq> m_ownerId m}"
  by (simp add: share_union_def set_add_readers)

lemma distinct_share_union [simp]: "distinct (share_union m us)"
  by (simp add: share_union_def)

lemma share_union_absorb:
  assumes "{u \<in> set us. u \<noteq> [] \<and> u \<noteq> m_ownerId m} \<subseteq> set (current_readers m)"
  shows "share_union m us = set_of_list (current_readers m)"
proof -
  have "foldl (add_reader owner) acc us = acc" if "{u \<in> set us. u \<noteq> [] \<and> u \<noteq> owner} \<subseteq> set acc" for owner acc
    using that by (induction us arbitrary: acc) (auto simp: add_reader_def set_add_def subset_eq)
  then show ?thesis
    using assms by (simp add: share_union_def)
qed

lemma share_union_same_length:
  assumes "length (share_union m us) = length (set_of_list (current_readers m))"
  shows "set (share_union m us) = set (current_readers m)"
proof -
  have "set (current_readers m) \<subseteq> set (share_union m us)"
    by (auto simp: set_share_union)
  moreover have "card (set (share_union m us)) = card (set (current_readers m))"
    using assms distinct_card [OF distinct_share_union, of m us] distinct_card [OF set_of_list_distinct, of "current_readers m"]
    by simp
  ultimately show ?thesis
    by (metis List.finite_set card_subset_eq)
qed

section \<open>Every operation keeps the metadata cache safe\<close>

lemma wp_owned [wp_simps]:
  "wp (from_result (owned mid u found)) Q R w =
     (case found of
        None \<Rightarrow> R (media_not_found mid) w
      | Some r \<Rightarrow> if m_ownerId r = u then Q r w else R (Forbidden (''You do not own media '' @ mid)) w)"
  by (auto simp: wp_from_result owned_def split: option.split)

lemma wp_findById:
  assumes "\<And>e. R e (tick w)" and "Q None (tick w)"
    and "\<And>r. r \<in> set (media_tbl w) \<Longrightarrow> m_id r = mid \<Longrightarrow> m_isActive r \<Longrightarrow> media_visible env (tick w) r \<Longrightarrow> Q (Some r) (tick w)"
  shows "wp (findById env mid) Q R w"
proof -
  define found where
    "found = List.find (\<lambda>r. m_id r = mid \<and> (m_isActive r \<and> media_visible env (tick w) r)) (media_tbl w)"
  have q: "Q found (tick w)"
  proof (cases found)
    case None
    then show ?thesis using assms(2) by simp
  next
    case (Some r)
    from find_Some_in [OF this [unfolded found_def]] Some show ?thesis
      by (simp add: assms(3))
  qed
  show ?thesis
    unfolding findById_def wp_ext wp_gets tick_simps found_def [symmetric]
    using q assms(1) by (simp split: outcome.split)
qed

lemma wp_share_grows:
  assumes "distinct (map m_id (media_tbl w))"
  shows "wp (share_in_transaction env mid u us) (\<lambda>_ w'. acl_grows (media_tbl w) (media_tbl w')) (\<lambda>_ _. True) w"
proof -
  have upd: "wp (updateSharedWith env mid (if length (share_union r us) > 0 then Some (share_union r us) else None))
      (\<lambda>_ w'. acl_grows (media_tbl w) (media_tbl w')) (\<lambda>_ _. True) (tick w)"
    if r: "r \<in> set (media_tbl w)" "m_id r = mid" for r
  proof -
    have "row_grows r' (r'\<lparr>m_sharedWith := if length (share_union r us) > 0 then Some (share_union r us) else None\<rparr>)"
      if "r' \<in> set (media_tbl w)" "m_id r' = mid" for r'
    proof -
      have "r' = r"
        using distinct_key_eq [OF assms] that r by simp
      then show ?thesis
        using set_share_union [of r us] by (cases "share_union r us") (auto simp: row_grows_def current_readers_def)
    qed
    then show ?thesis
      using wp_update_media_grows [of "tick w" mid] by (simp add: updateSharedWith_def)
  qed
  have k: "wp (from_result (owned mid u (Some r))) (\<lambda>media.
      wp (let next = share_union media us in
          if length next = length (set_of_list (current_readers media)) then ret (next, False)
          else bindE (updateSharedWith env mid (if length next > 0 then Some next else None)) (\<lambda>_. ret (next, True)))
        (\<lambda>_ w'. acl_grows (media_tbl w) (media_tbl w')) (\<lambda>_ _. True)) (\<lambda>_ _. True) (tick w)"
    if "r \<in> set (media_tbl w)" "m_id r = mid" for r
    using upd [OF that] by (simp add: wp_owned wp_pf Let_def wp_ret del: length_greater_0_conv)
  show ?thesis
    unfolding share_in_transaction_def wp_bindE
    by (rule wp_findById) (simp add: k | simp add: wp_owned)+
qed

lemma wp_delete_grows:
  "wp (delete_in_transaction env mid u) (\<lambda>_ w'. acl_grows (media_tbl w) (media_tbl w')) (\<lambda>_ _. True) w"
proof -
  have "wp (softDelete env mid) (\<lambda>_ w'. acl_grows (media_tbl w) (media_tbl w')) (\<lambda>_ _. True) (tick w)"
    using wp_update_media_grows [of "tick w" mid "\<lambda>r. r\<lparr>m_isActive := False\<rparr>"]
    by (simp add: softDelete_def row_grows_def current_readers_def)
  then show ?thesis
    unfolding delete_in_transaction_def wp_bindE
    by (intro wp_findById) (auto simp: wp_owned wp_pf)
qed

lemma wp_signed_grows:
  "wp (getOrGenerateSignedUrl env r) (\<lambda>_ w'. acl_grows (media_tbl w) (media_tbl w')) (\<lambda>_ _. True) w"
proof -
  have "wp (updateSignedUrlExpiry env (m_id r) t) (\<lambda>_ w'. acl_grows (media_tbl w) (media_tbl w')) (\<lambda>_ _. True) w" for t
    using wp_update_media_grows [of w "m_id r" "\<lambda>x. x\<lparr>m_signedUrlExpiresAt := Some t\<rparr>"]
    by (simp add: updateSignedUrlExpiry_def row_grows_def current_readers_def)
  then show ?thesis
    by (auto simp: getOrGenerateSignedUrl_def regenerateSignedUrl_def generatePresignedUrl_def Let_def wp_bindE wp_gets
        wp_pf split: option.split)
qed

lemma frame_find_media [frame_intros]:
  assumes "\<And>w. g (tick w) = g w" and "\<And>w u. g (w\<lparr>guc := u\<rparr>) = g w"
    and "(\<forall>w0 w1. g (restore_db w0 w1) = g w1) \<or> (\<forall>w0 w1. g (restore_db w0 w1) = g w0)"
  shows "frame g (find_media env mid)"
  unfolding find_media_def using assms by (intro frame_intros)

lemma frame_writeAccessLog [frame_intros]:
  assumes "\<And>w. g (tick w) = g w" and "\<And>w u. g (w\<lparr>guc := u\<rparr>) = g w" and "\<And>w n. g (w\<lparr>uuids_used := n\<rparr>) = g w"
    and "\<And>w l. g (w\<lparr>log_tbl := l\<rparr>) = g w"
    and "(\<forall>w0 w1. g (restore_db w0 w1) = g w1) \<or> (\<forall>w0 w1. g (restore_db w0 w1) = g w0)"
  shows "frame g (writeAccessLog env m a t ip ua)"
  unfolding writeAccessLog_def using assms by (intro frame_intros)

lemma frame_getOrGenerateSignedUrl [frame_intros]:
  assumes "\<And>w. g (tick w) = g w" and "\<And>w m. g (w\<lparr>media_tbl := m\<rparr>) = g w"
  shows "frame g (getOrGenerateSignedUrl env r)"
  unfolding getOrGenerateSignedUrl_def regenerateSignedUrl_def generatePresignedUrl_def
  using assms by (intro frame_intros)

lemma frame_inc_downloads [frame_intros]: "(\<And>w n. g (w\<lparr>downloadsTotal := n\<rparr>) = g w) \<Longrightarrow> frame g inc_downloads"
  unfolding inc_downloads_def by (intro frame_intros)

lemma frame_recordDelete [frame_intros]:
  assumes "\<And>w. g (tick w) = g w" and "\<And>w q. g (w\<lparr>quota_tbl := q\<rparr>) = g w" and "\<And>w u. g (w\<lparr>guc := u\<rparr>) = g w"
    and "\<And>w c. g (w\<lparr>cache := c\<rparr>) = g w"
    and "(\<forall>w0 w1. g (restore_db w0 w1) = g w1) \<or> (\<forall>w0 w1. g (restore_db w0 w1) = g w0)"
  shows "frame g (recordDelete env u n)"
  unfolding recordDelete_def using assms by (intro frame_intros)

lemma keeps_prod_case [keeps_intros]:
  "(\<And>a b. keeps I (n a b)) \<Longrightarrow> keeps I (case x of (a, b) \<Rightarrow> n a b)"
  by (simp split: prod.split)

lemma frame_share_in_transaction [frame_intros]:
  assumes "\<And>w. g (tick w) = g w" and "\<And>w m. g (w\<lparr>media_tbl := m\<rparr>) = g w"
  shows "frame g (share_in_transaction env mid u us)"
  unfolding share_in_transaction_def using assms by (intro frame_intros)

lemma frame_delete_in_transaction [frame_intros]:
  assumes "\<And>w. g (tick w) = g w" and "\<And>w m. g (w\<lparr>media_tbl := m\<rparr>) = g w"
  shows "frame g (delete_in_transaction env mid u)"
  unfolding delete_in_transaction_def using assms by (intro frame_intros)

lemma meta_safe_log: "keeps meta_safe (fire_and_forget (writeAccessLog env m a t ip ua))"
  by (intro keeps_fire_and_forget meta_safe_frame frame_intros) auto

lemma meta_safe_share: "keeps meta_safe (share env mid u us)"
  unfolding share_def
  by (intro keeps_intros meta_safe_transaction meta_safe_cache_del wp_share_grows frame_intros) auto

lemma meta_safe_invalidateCache: "keeps meta_safe (invalidateCache env u)"
  unfolding invalidateCache_def by (intro keeps_intros meta_safe_cache_del)

lemma meta_safe_update_quota: "keeps meta_safe (update_quota_or_fail env u f)"
  by (intro meta_safe_frame; unfold update_quota_or_fail_def; intro frame_intros) auto

lemma meta_safe_recordDelete: "keeps meta_safe (recordDelete env u n)"
  unfolding recordDelete_def by (intro keeps_intros meta_safe_update_quota meta_safe_invalidateCache)

lemma meta_safe_storage_delete: "keeps meta_safe (storage_delete env p)"
  by (intro meta_safe_frame frame_intros) auto

lemma meta_safe_publish: "keeps meta_safe (redis_publish env e)"
  by (intro meta_safe_frame frame_intros) auto

lemma meta_safe_modify: "(\<And>w. media_tbl (f w) = media_tbl w \<and> cache (f w) = cache w) \<Longrightarrow> keeps meta_safe (modify f)"
  by (intro meta_safe_frame frame_intros) auto

lemma meta_safe_delete: "keeps meta_safe (delete_media env mid u ip ua)"
  unfolding delete_media_def
  by (intro keeps_bindE keeps_option keeps_ret keeps_fire_and_forget meta_safe_transaction meta_safe_cache_del wp_delete_grows meta_safe_log
      meta_safe_storage_delete meta_safe_recordDelete meta_safe_publish meta_safe_modify frame_intros) auto

lemma meta_safe_getBlob: "keeps meta_safe (getBlob env mid u ip ua)"
  unfolding getBlob_def
proof (intro keeps_bindE keeps_prod keeps_ret meta_safe_transaction meta_safe_log)
  show "keeps meta_safe inc_downloads"
    by (intro meta_safe_frame frame_intros) auto
next
  fix w :: world
  show "wp (bindE (findById env mid) (\<lambda>found. bindE (from_result (readable mid u found)) (\<lambda>media.
        bindE (getOrGenerateSignedUrl env media) (\<lambda>su. ret (media, su)))))
      (\<lambda>_ w'. acl_grows (media_tbl w) (media_tbl w')) (\<lambda>_ _. True) w"
    using wp_signed_grows [of env _ "tick w"]
    unfolding wp_bindE by (intro wp_findById) (simp_all add: wp_readable wp_pf)
qed (intro frame_intros; auto)+

lemma covers_cached_meta_of: "covers r (cached_meta_of r)"
  by (simp add: covers_def cached_meta_of_def metadata_of_def media_metadata.defs cached_meta.defs current_readers_def)

lemma meta_safe_put:
  assumes "meta_safe w" and "r \<in> set (media_tbl w)" and "m_id r = mid"
  shows "meta_safe (w\<lparr>cache := (cache w)(meta_key mid := Some (CMeta (cached_meta_of r), until))\<rparr>)"
proof -
  have "meta_truth (media_tbl w) (meta_key mid) (CMeta (cached_meta_of r), until)"
    using assms(2,3) covers_cached_meta_of by (auto simp: meta_truth_def meta_key_def)
  with assms(1) show ?thesis
    using cache_kv.agrees_put [of "meta_truth (media_tbl w)" "cache w"] by (simp add: meta_safe_def map_put_def)
qed

lemma covers_may_read:
  assumes "covers r c" and "enforceReadAccess (md_context c) (md_ownerId c) (md_sharedWith c) u = Inr ()"
  shows "may_read r u"
proof -
  have "enforceReadAccess (m_context r) (m_ownerId r) (md_sharedWith c) u = Inr ()"
    using assms by (simp add: covers_def)
  then show ?thesis
    unfolding may_read_def
    by (rule enforceReadAccess_mono)
      (use assms(1) in \<open>cases "m_sharedWith r"; auto simp: covers_def current_readers_def subset_eq\<close>)
qed

text \<open>The answer describes a row with this id that the requester may read.\<close>

definition described :: "world \<Rightarrow> uuid \<Rightarrow> uuid \<Rightarrow> media_metadata \<Rightarrow> bool" where
  "described w mid u d \<longleftrightarrow> (\<exists>r \<in> set (media_tbl w). m_id r = mid \<and> may_read r u
     \<and> md_ownerId d = m_ownerId r \<and> md_context d = m_context r)"

lemma wp_getMetadata:
  assumes m: "meta_safe w"
  shows "wp (getMetadata env mid u) (\<lambda>d w'. described w mid u d \<and> meta_safe w') (\<lambda>_. meta_safe) w"
proof -
  have hit: "described w mid u (media_metadata.truncate c)"
    if h: "cache_find t (cache w) (meta_key mid) = Some (CMeta c)"
      and a: "enforceReadAccess (md_context c) (md_ownerId c) (md_sharedWith c) u = Inr ()" for c t
  proof -
    obtain until where "cache w (meta_key mid) = Some (CMeta c, until)"
      using cache_find_Some [OF h] by blast
    then have "meta_truth (media_tbl w) (meta_key mid) (CMeta c, until)"
      using m cache_kv.agreesD by (auto simp: meta_safe_def)
    then obtain r where "r \<in> set (media_tbl w)" "m_id r = mid" "covers r c"
      by (auto simp: meta_truth_def)
    with covers_may_read [OF _ a] show ?thesis
      by (auto simp: described_def covers_def media_metadata.defs intro!: bexI [of _ r])
  qed
  have miss: "wp (bindE (find_media env mid) (\<lambda>found. bindE (from_result (readable mid u found)) (\<lambda>media.
         bindE (cache_set env (meta_key mid) (CMeta (cached_meta_of media)) META_CACHE_TTL_MS) (\<lambda>_.
         ret (metadata_of media))))) (\<lambda>d w'. described w mid u d \<and> meta_safe w') (\<lambda>_. meta_safe) w1"
    if w1: "media_tbl w1 = media_tbl w" "cache w1 = cache w" for w1
  proof -
    have m1: "meta_safe w1"
      using m w1 by (simp add: meta_safe_def)
    have set: "wp (cache_set env (meta_key mid) (CMeta (cached_meta_of r)) META_CACHE_TTL_MS)
        (\<lambda>_ w'. described w mid u (metadata_of r) \<and> meta_safe w') (\<lambda>_. meta_safe) w2"
      if r: "visible_rows env w1 mid r" "may_read r u" and w2: "meta_safe w2" "media_tbl w2 = media_tbl w1" for r w2
    proof -
      have "described w mid u (metadata_of r)"
        using r w1 by (auto simp: described_def visible_rows_def metadata_of_def)
      moreover have "meta_safe ((tick w2)\<lparr>cache := (cache (tick w2))(meta_key mid := Some (CMeta (cached_meta_of r), d))\<rparr>)" for d
        using r w2 by (intro meta_safe_put) (auto simp: visible_rows_def meta_safe_def)
      moreover have "meta_safe (tick w2)"
        using w2 by (simp add: meta_safe_def)
      ultimately show ?thesis
        by (simp add: cache_set_def wp_ext split: outcome.split) (simp add: wp_def)
    qed
    have "wp (find_media env mid) (\<lambda>found w2. (meta_safe w2 \<and> media_tbl w2 = media_tbl w1)
        \<and> (\<forall>r. found = Some r \<longrightarrow> visible_rows env w1 mid r)) (\<lambda>_. meta_safe) w1"
      unfolding find_media_def
      by (rule wp_find_media) (use m1 in \<open>auto intro!: tick_freeI simp: meta_safe_def\<close>)
    then show ?thesis
      unfolding wp_bindE
      by (rule wp_mono) (auto simp: wp_readable wp_pf set split: option.split)
  qed
  have "wp (case cached of
       Some (CMeta c) \<Rightarrow>
         bindE (from_result (enforceReadAccess (md_context c) (md_ownerId c) (md_sharedWith c) u)) (\<lambda>_.
         ret (media_metadata.truncate c))
     | _ \<Rightarrow>
         bindE (find_media env mid) (\<lambda>found.
         bindE (from_result (readable mid u found)) (\<lambda>media.
         bindE (cache_set env (meta_key mid) (CMeta (cached_meta_of media)) META_CACHE_TTL_MS) (\<lambda>_.
         ret (metadata_of media)))))
     (\<lambda>d w'. described w mid u d \<and> meta_safe w') (\<lambda>_. meta_safe) (tick w)"
    if c: "cached = cache_find t (cache w) (meta_key mid)" for cached t
  proof (cases "\<exists>c. cached = Some (CMeta c)")
    case True
    then obtain cm where "cached = Some (CMeta cm)" by blast
    moreover have "meta_safe (tick w)"
      using m by (simp add: meta_safe_def)
    ultimately show ?thesis
      using hit [of t cm] c by (simp add: wp_bindE wp_from_result wp_pf split: sum.split)
  next
    case False
    with miss [of "tick w"] show ?thesis
      by (simp split: option.split cval.split)
  qed
  moreover have "meta_safe (tick w)"
    using m by (simp add: meta_safe_def)
  ultimately show ?thesis
    unfolding getMetadata_def wp_bindE cache_get_def wp_ext
    by (simp split: outcome.split) (simp add: wp_def)
qed

section \<open>Undisturbed shares and deletes\<close>

lemma wp_findById_calm [wp_calm]:
  "calm env \<Longrightarrow> wp (findById env mid) Q R w =
     Q (List.find (\<lambda>r. m_id r = mid \<and> (m_isActive r \<and> media_visible env (tick w) r)) (media_tbl w)) (tick w)"
  by (simp add: findById_def wp_ext_calm wp_gets)

lemma wp_update_media_calm [wp_calm]:
  "calm env \<Longrightarrow> wp (update_media env mid f) Q R w =
     Q () ((tick w)\<lparr>media_tbl := update_where (\<lambda>r. m_id r = mid \<and> media_writable env (tick w) r)
         (\<lambda>r. (f r)\<lparr>m_updatedAt := now env (tick w)\<rparr>) (media_tbl w)\<rparr>)"
  by (simp add: update_media_def wp_ext_calm wp_modify)

lemma media_visible_tick [simp]: "media_visible env (tick w) = media_visible env w"
  and media_writable_tick [simp]: "media_writable env (tick w) = media_writable env w"
  by (simp_all add: media_visible_def media_writable_def fun_eq_iff)

lemma own_visible: "guc w = Some (m_ownerId r) \<Longrightarrow> media_visible env w r"
  and own_writable: "guc w = Some (m_ownerId r) \<Longrightarrow> media_writable env w r"
  by (simp_all add: media_visible_def media_writable_def media_select_allowed_def media_owner_write_policy_def)

lemma find_own:
  assumes "distinct (map m_id (media_tbl w))" and "r \<in> set (media_tbl w)" and "m_id r = mid" and "m_isActive r"
    and "guc w = Some (m_ownerId r)"
  shows "List.find (\<lambda>r. m_id r = mid \<and> (m_isActive r \<and> media_visible env w r)) (media_tbl w) = Some r"
  using assms by (intro find_key_unique) (simp_all add: own_visible)

text \<open>The table with one owned row replaced.\<close>

definition with_row :: "uuid \<Rightarrow> (media \<Rightarrow> media) \<Rightarrow> media list \<Rightarrow> media list" where
  "with_row mid f rows = update_where (\<lambda>r. m_id r = mid) f rows"

lemma update_own:
  assumes "distinct (map m_id rows)" and "r \<in> set rows" and "m_id r = mid" and "media_writable env w r"
  shows "update_where (\<lambda>r. m_id r = mid \<and> media_writable env w r) f rows = with_row mid f rows"
proof -
  have "media_writable env w x" if "x \<in> set rows" "m_id x = mid" for x
    using distinct_key_eq [OF assms(1) that(1) assms(2)] that(2) assms(3,4) by simp
  then show ?thesis
    by (auto simp: with_row_def update_where_def)
qed

lemma with_row_mem:
  "r \<in> set rows \<Longrightarrow> m_id r = mid \<Longrightarrow> f r \<in> set (with_row mid f rows)"
  by (force simp: with_row_def set_update_where)

text \<open>The row after its reader list was set.\<close>

definition reshared :: "uuid list \<Rightarrow> millis \<Rightarrow> media \<Rightarrow> media" where
  "reshared us t r = r\<lparr>m_sharedWith := (if us = [] then None else Some us), m_updatedAt := t\<rparr>"

lemma reshared_simps [simp]: "m_id (reshared us t r) = m_id r" "current_readers (reshared us t r) = us"
  by (simp_all add: reshared_def current_readers_def)

lemma share_calm:
  assumes "calm env" and "acts_as env u" and "distinct (map m_id (media_tbl w))"
    and r: "r \<in> set (media_tbl w)" "m_id r = mid" "m_isActive r" "m_ownerId r = u"
  shows "wp (share env mid u us)
     (\<lambda>next w'. next = share_union r us
        \<and> (if length next = length (set_of_list (current_readers r)) then media_tbl w' = media_tbl w
           else (\<exists>t. media_tbl w' = with_row mid (reshared next t) (media_tbl w)) \<and> cache w' (meta_key mid) = None))
     (\<lambda>_ _. False) w"
proof -
  have g: "guc (enter_tx env w) = Some (m_ownerId r)"
    using assms(2) r(4) by simp
  have f: "List.find (\<lambda>r. m_id r = mid \<and> m_isActive r \<and> media_visible env (enter_tx env w) r) (media_tbl w) = Some r"
    using find_own [of "enter_tx env w" r mid env] assms(3) r g by simp
  have up: "update_where (\<lambda>r. m_id r = mid \<and> media_writable env (enter_tx env w) r) h (media_tbl w) = with_row mid h (media_tbl w)" for h
    by (rule update_own [OF assms(3) r(1,2)]) (rule own_writable [OF g])
  have rs: "share_union r us \<noteq> [] \<Longrightarrow>
      (\<lambda>x. x\<lparr>m_sharedWith := Some (share_union r us), m_updatedAt := t\<rparr>) = reshared (share_union r us) t"
    "(\<lambda>x. x\<lparr>m_sharedWith := None, m_updatedAt := t\<rparr>) = reshared [] t" for t
    by (simp_all add: reshared_def fun_eq_iff)
  show ?thesis
    unfolding share_def share_in_transaction_def
    by (auto simp: wp_bindE wp_pf wp_calm assms(1) f wp_owned r(4) Let_def updateSharedWith_def up rs)
qed

text \<open>Deleting.\<close>

definition deactivated :: "millis \<Rightarrow> media \<Rightarrow> media" where
  "deactivated t r = r\<lparr>m_isActive := False, m_updatedAt := t\<rparr>"

lemma release_in_range: "0 \<le> n \<Longrightarrow> quota_in_range q \<Longrightarrow> quota_in_range (release_row n q)"
  by (auto simp: quota_in_range_def release_row_def INT4_MAX_def INT8_MAX_def)

lemma deletesTotal_enter [simp]: "deletesTotal (enter_tx env w) = deletesTotal w"
  by (simp add: enter_tx_def begin_tx_def)

lemma recordDelete_calm:
  assumes "calm env" and "acts_as env u" and "has_row u (quota_tbl w)"
    and "\<forall>q \<in> set (quota_tbl w). quota_in_range q" and n: "0 \<le> n" "n \<le> MAX_SAFE_INTEGER"
  shows "wp (recordDelete env u n)
     (\<lambda>_ w'. quota_tbl w' = update_row u (release_row n) (quota_tbl w) \<and> media_tbl w' = media_tbl w
        \<and> s3 w' = s3 w \<and> published w' = published w \<and> deletesTotal w' = deletesTotal w
        \<and> cache w' = (cache w)(quota_cacheKey u := None))
     (\<lambda>_ _. False) w"
proof -
  have g: "guc (enter_tx env w) = Some u"
    using assms(2) by simp
  have ok: "\<not> (\<exists>q \<in> set (quota_tbl w). q_userId q = u \<and> \<not> quota_in_range (release_row n q))"
    using assms(4) n(1) release_in_range by blast
  have ne: "filter (\<lambda>q. q_userId q = u) (quota_tbl w) \<noteq> []"
    using assms(3) by (auto simp: has_row_def filter_empty_conv)
  have o: "outcome_at env k = Done" for k
    using assms(1) by (simp add: calm_def)
  show ?thesis
    using n ok ne
    by (simp add: recordDelete_def wp_bindE wp_validateBlobSize update_quota_or_fail_def wp_calm assms(1)
        wp_update_quota_own [OF g] o wp_throw_when wp_pf invalidateCache_calm Let_def)
qed

definition without_objects :: "media \<Rightarrow> (string \<Rightarrow> s3_object option) \<Rightarrow> string \<Rightarrow> s3_object option" where
  "without_objects r b =
     (case thumbnail_path r of None \<Rightarrow> b(m_storagePath r := None) | Some p \<Rightarrow> b(m_storagePath r := None, p := None))"

text \<open>What a write to the access log leaves alone.\<close>

definition but_log :: "world \<Rightarrow> media list \<times> user_quota list \<times> (string \<Rightarrow> (cval \<times> millis) option)
    \<times> (string \<Rightarrow> s3_object option) \<times> event list \<times> nat" where
  "but_log w = (media_tbl w, quota_tbl w, cache w, s3 w, published w, deletesTotal w)"

lemma frame_but_log: "frame but_log (writeAccessLog env m a t ip ua)"
proof -
  have "frame media_tbl (writeAccessLog env m a t ip ua)" "frame quota_tbl (writeAccessLog env m a t ip ua)"
    "frame cache (writeAccessLog env m a t ip ua)" "frame s3 (writeAccessLog env m a t ip ua)"
    "frame published (writeAccessLog env m a t ip ua)" "frame deletesTotal (writeAccessLog env m a t ip ua)"
    by (intro frame_intros; simp)+
  then show ?thesis
    by (simp add: frame_def but_log_def)
qed

lemma wp_writeAccessLog_skip:
  assumes "\<And>w'. but_log w' = but_log w \<Longrightarrow> Q w'"
  shows "wp (writeAccessLog env m a t ip ua) (\<lambda>_. Q) (\<lambda>_. Q) w"
  using assms frame_but_log by (simp add: wp_const frame_def)

definition deleted_state :: "uuid \<Rightarrow> media \<Rightarrow> world \<Rightarrow> world \<Rightarrow> bool" where
  "deleted_state u r w w' \<longleftrightarrow>
     (\<exists>t. media_tbl w' = with_row (m_id r) (deactivated t) (media_tbl w))
     \<and> quota_tbl w' = update_row u (release_row (m_blobSize r)) (quota_tbl w)
     \<and> s3 w' = without_objects r (s3 w)
     \<and> cache w' = (cache w)(meta_key (m_id r) := None, quota_cacheKey u := None)
     \<and> published w' = published w @ [MediaDeleted (m_id r) u (m_context r)]
     \<and> deletesTotal w' = deletesTotal w + 1"

lemma meta_key_not_quota [simp]: "meta_key m \<noteq> quota_cacheKey u" "quota_cacheKey u \<noteq> meta_key m"
  by (simp_all add: meta_key_def quota_cacheKey_def)

lemma delete_calm:
  assumes "calm env" and "acts_as env u" and "distinct (map m_id (media_tbl w))"
    and r: "r \<in> set (media_tbl w)" "m_id r = mid" "m_isActive r" "m_ownerId r = u"
    and q: "has_row u (quota_tbl w)" "\<forall>q \<in> set (quota_tbl w). quota_in_range q"
    and n: "0 \<le> m_blobSize r" "m_blobSize r \<le> MAX_SAFE_INTEGER"
  shows "wp (delete_media env mid u ip ua) (\<lambda>_ w'. deleted_state u r w w') (\<lambda>_ _. False) w"
proof -
  have g: "guc (enter_tx env w) = Some (m_ownerId r)"
    using assms(2) r(4) by simp
  have f: "List.find (\<lambda>r. m_id r = mid \<and> m_isActive r \<and> media_visible env (enter_tx env w) r) (media_tbl w) = Some r"
    using find_own [of "enter_tx env w" r mid env] assms(3) r g by simp
  have up: "update_where (\<lambda>r. m_id r = mid \<and> media_writable env (enter_tx env w) r) h (media_tbl w) = with_row mid h (media_tbl w)" for h
    by (rule update_own [OF assms(3) r(1,2)]) (rule own_writable [OF g])
  have de: "(\<lambda>x. x\<lparr>m_isActive := False, m_updatedAt := t\<rparr>) = deactivated t" for t
    by (simp add: deactivated_def fun_eq_iff)
  let ?tail = "bindE (recordDelete env u (m_blobSize r)) (\<lambda>_.
     bindE (fire_and_forget (writeAccessLog env mid (Some u) ''delete'' ip ua)) (\<lambda>_.
     bindE (fire_and_forget (redis_publish env (MediaDeleted mid u (m_context r)))) (\<lambda>_.
     modify (\<lambda>w. w\<lparr>deletesTotal := Suc (deletesTotal w)\<rparr>))))"
  have tail: "wp ?tail (\<lambda>_ w'. deleted_state u r w w') (\<lambda>_ _. False) w1"
    if w1: "media_tbl w1 = with_row mid (deactivated t) (media_tbl w)" "quota_tbl w1 = quota_tbl w"
      "s3 w1 = without_objects r (s3 w)" "cache w1 = (cache w)(meta_key mid := None)"
      "published w1 = published w" "deletesTotal w1 = deletesTotal w" for w1 t
    unfolding wp_bindE wp_pf
    by (rule wp_mono [OF recordDelete_calm [OF assms(1,2) _ _ n]])
      (use w1 q in \<open>auto intro!: wp_writeAccessLog_skip simp: but_log_def wp_calm assms(1) deleted_state_def r(2)\<close>)
  show ?thesis
    unfolding delete_media_def delete_in_transaction_def
    by (cases "thumbnail_path r"; simp add: wp_bindE wp_pf wp_calm assms(1) f wp_owned r(2,4) softDelete_def up de
        storage_delete_def;
      rule tail [unfolded wp_bindE wp_pf, where t = "now env (tick (tick (enter_tx env w)))"];
      simp add: without_objects_def)
qed

section \<open>Undisturbed, the metadata cache is exact\<close>

text \<open>Every entry is the metadata of an active row as it is in the table.\<close>

definition exact_truth :: "media list \<Rightarrow> string \<Rightarrow> cval \<times> millis \<Rightarrow> bool" where
  "exact_truth rows k v \<longleftrightarrow> (\<forall>mid c. k = meta_key mid \<longrightarrow> fst v = CMeta c \<longrightarrow>
     (\<exists>r \<in> set rows. m_id r = mid \<and> m_isActive r \<and> c = cached_meta_of r))"

definition meta_exact :: "world \<Rightarrow> bool" where
  "meta_exact w \<longleftrightarrow> cache_kv.agrees (exact_truth (media_tbl w)) (cache w)"

lemma meta_exact_same:
  "meta_exact w \<Longrightarrow> media_tbl w' = media_tbl w \<Longrightarrow> cache w' = cache w \<Longrightarrow> meta_exact w'"
  by (simp add: meta_exact_def)

lemma meta_exact_frame: "frame media_tbl m \<Longrightarrow> frame cache m \<Longrightarrow> keeps meta_exact m"
  by (simp add: frame_def keeps_def meta_exact_def)

lemma meta_exact_touch:
  assumes "meta_exact w" and "cache w' = cache w" and "media_tbl w' = update_where p f (media_tbl w)"
    and "\<And>r. m_id (f r) = m_id r \<and> m_isActive (f r) = m_isActive r \<and> cached_meta_of (f r) = cached_meta_of r"
  shows "meta_exact w'"
proof -
  have "exact_truth (media_tbl w') k v" if "exact_truth (media_tbl w) k v" for k v
    unfolding exact_truth_def
  proof (intro allI impI)
    fix mid c
    assume "k = meta_key mid" "fst v = CMeta c"
    with that obtain r where "r \<in> set (media_tbl w)" "m_id r = mid" "m_isActive r" "c = cached_meta_of r"
      by (auto simp: exact_truth_def)
    then show "\<exists>r \<in> set (media_tbl w'). m_id r = mid \<and> m_isActive r \<and> c = cached_meta_of r"
      using assms(4) [of r] unfolding assms(3) set_update_where by (intro bexI [of _ "if p r then f r else r"]) auto
  qed
  with assms(1,2) show ?thesis
    by (auto simp: meta_exact_def intro: cache_kv.agrees_mono)
qed

text \<open>A change of one row is covered by dropping its entry.\<close>

lemma meta_exact_drop:
  assumes "meta_exact w" and "cache w' = (cache w)(meta_key mid := None)"
    and "media_tbl w' = update_where (\<lambda>r. m_id r = mid \<and> q r) f (media_tbl w)"
  shows "meta_exact w'"
proof -
  have "exact_truth (media_tbl w') k v" if "k \<noteq> meta_key mid" "exact_truth (media_tbl w) k v" for k v
    unfolding exact_truth_def
  proof (intro allI impI)
    fix mid' c
    assume "k = meta_key mid'" "fst v = CMeta c"
    with that obtain r where r: "r \<in> set (media_tbl w)" "m_id r = mid'" "m_isActive r" "c = cached_meta_of r" "mid' \<noteq> mid"
      by (auto simp: exact_truth_def)
    then have "r \<in> set (media_tbl w')"
      unfolding assms(3) set_update_where by (intro image_eqI [of _ _ r]) auto
    with r show "\<exists>r \<in> set (media_tbl w'). m_id r = mid' \<and> m_isActive r \<and> c = cached_meta_of r"
      by blast
  qed
  then show ?thesis
    using cache_kv.agrees_invalidate [of "exact_truth (media_tbl w)" "cache w" "meta_key mid" "exact_truth (media_tbl w')"] assms(1,2)
    by (simp add: meta_exact_def map_remove_def)
qed

lemma meta_exact_cache_del: "calm env \<Longrightarrow> keeps meta_exact (cache_del env k)"
  by (auto simp: keeps_def cache_del_def meta_exact_def cache_kv.agrees_def)

lemma meta_exact_log: "keeps meta_exact (fire_and_forget (writeAccessLog env m a t ip ua))"
  by (intro keeps_fire_and_forget meta_exact_frame frame_intros) auto

lemma meta_exact_downloads: "keeps meta_exact inc_downloads"
  by (intro meta_exact_frame frame_intros) auto

lemma meta_exact_recordDelete: "calm env \<Longrightarrow> keeps meta_exact (recordDelete env u n)"
  unfolding recordDelete_def invalidateCache_def
  by (intro keeps_intros meta_exact_cache_del; (intro meta_exact_frame; unfold update_quota_or_fail_def; intro frame_intros)?)
    auto

lemma keeps_at: "keeps I m \<Longrightarrow> I w \<Longrightarrow> wp m (\<lambda>_. I) (\<lambda>_. I) w"
  by (simp add: keeps_wp)

lemma meta_exact_getBlob:
  assumes "calm env"
  shows "keeps meta_exact (getBlob env mid u ip ua)"
  unfolding keeps_wp
proof (intro allI impI)
  fix w
  assume e: "meta_exact w"
  have k: "keeps meta_exact (bindE (fire_and_forget (writeAccessLog env a b c d f)) (\<lambda>_. bindE inc_downloads (\<lambda>_. ret su)))"
    for a b c d f and su :: "string \<times> millis"
    by (intro keeps_bindE keeps_ret meta_exact_log meta_exact_downloads)
  have s: "meta_exact w1" if "cache w1 = cache w" "media_tbl w1 = media_tbl w" for w1
    by (rule meta_exact_same [OF e that(2,1)])
  have t: "meta_exact w1" if "cache w1 = cache w"
      "media_tbl w1 = update_where p (\<lambda>r. r\<lparr>m_signedUrlExpiresAt := x, m_updatedAt := y\<rparr>) (media_tbl w)" for w1 p x y
    by (rule meta_exact_touch [OF e that]) (simp add: cached_meta_of_def metadata_of_def)
  show "wp (getBlob env mid u ip ua) (\<lambda>_. meta_exact) (\<lambda>_. meta_exact) w"
    unfolding getBlob_def wp_bindE [of "transaction env m" for m]
    by (auto simp: wp_bindE wp_pf wp_calm assms wp_readable getOrGenerateSignedUrl_def regenerateSignedUrl_def
        generatePresignedUrl_def updateSignedUrlExpiry_def Let_def intro!: keeps_at [OF k, unfolded wp_bindE wp_pf]
        split: option.split)
      (((rule s; simp; fail) | (rule t; simp; fail))+)
qed

lemma meta_exact_share:
  assumes "calm env"
  shows "keeps meta_exact (share env mid u us)"
  unfolding keeps_wp
proof (intro allI impI)
  fix w
  assume e: "meta_exact w"
  have s: "meta_exact w1" if "cache w1 = cache w" "media_tbl w1 = media_tbl w" for w1
    by (rule meta_exact_same [OF e that(2,1)])
  have d: "meta_exact w1" if "cache w1 = (cache w)(meta_key mid := None)"
      "media_tbl w1 = update_where (\<lambda>r. m_id r = mid \<and> q r) f (media_tbl w)" for w1 q f
    by (rule meta_exact_drop [OF e that])
  show "wp (share env mid u us) (\<lambda>_. meta_exact) (\<lambda>_. meta_exact) w"
    unfolding share_def share_in_transaction_def
    by (auto simp: wp_bindE wp_pf wp_calm assms wp_owned Let_def updateSharedWith_def split: option.split)
      (((rule s; simp; fail) | (rule d; simp; fail))+)
qed

lemma meta_exact_delete:
  assumes "calm env"
  shows "keeps meta_exact (delete_media env mid u ip ua)"
  unfolding keeps_wp
proof (intro allI impI)
  fix w
  assume e: "meta_exact w"
  have s: "meta_exact w1" if "cache w1 = cache w" "media_tbl w1 = media_tbl w" for w1
    by (rule meta_exact_same [OF e that(2,1)])
  let ?tail = "\<lambda>v r. bindE (recordDelete env v (m_blobSize r)) (\<lambda>_.
     bindE (fire_and_forget (writeAccessLog env (m_id r) (Some v) ''delete'' ip ua)) (\<lambda>_.
     bindE (fire_and_forget (redis_publish env (MediaDeleted (m_id r) (m_ownerId r) (m_context r)))) (\<lambda>_.
     modify (\<lambda>w. w\<lparr>deletesTotal := Suc (deletesTotal w)\<rparr>))))"
  have k: "keeps meta_exact (?tail v r)" for v r
    by (intro keeps_bindE meta_exact_recordDelete [OF assms] meta_exact_log keeps_fire_and_forget meta_exact_frame frame_intros)
      auto
  have d: "wp (?tail v r) (\<lambda>_. meta_exact) (\<lambda>_. meta_exact) w1" if "cache w1 = (cache w)(meta_key mid := None)"
      "media_tbl w1 = update_where (\<lambda>r. m_id r = mid \<and> q r) f (media_tbl w)" for v r w1 q f
    by (rule keeps_at [OF k meta_exact_drop [OF e that]])
  show "wp (delete_media env mid u ip ua) (\<lambda>_. meta_exact) (\<lambda>_. meta_exact) w"
    unfolding delete_media_def delete_in_transaction_def
    by (auto simp: wp_bindE wp_pf wp_calm assms wp_owned softDelete_def storage_delete_def
        split: option.split)
      (((rule s; simp; fail) | (rule d [unfolded wp_bindE wp_pf]; simp; fail))+)
qed

lemma meta_exact_getMetadata:
  assumes "calm env"
  shows "keeps meta_exact (getMetadata env mid u)"
  unfolding keeps_wp
proof (intro allI impI)
  fix w
  assume e: "meta_exact w"
  have s: "meta_exact w1" if "cache w1 = cache w" "media_tbl w1 = media_tbl w" for w1
    by (rule meta_exact_same [OF e that(2,1)])
  have p: "meta_exact w1" if "cache w1 = (cache w)(meta_key mid := Some (CMeta (cached_meta_of r), t))" "media_tbl w1 = media_tbl w"
      "r \<in> set (media_tbl w)" "m_id r = mid" "m_isActive r" for w1 r t
  proof -
    have "exact_truth (media_tbl w) (meta_key mid) (CMeta (cached_meta_of r), t)"
      using that(3-5) by (auto simp: exact_truth_def meta_key_def)
    with e that(1,2) show ?thesis
      using cache_kv.agrees_put [of "exact_truth (media_tbl w)" "cache w"] by (simp add: meta_exact_def map_put_def)
  qed
  have put: "wp (cache_set env (meta_key mid) (CMeta (cached_meta_of r)) ttl) (\<lambda>_. meta_exact) (\<lambda>_. meta_exact) w1"
    if "cache w1 = cache w" "media_tbl w1 = media_tbl w" "r \<in> set (media_tbl w)" "m_id r = mid" "m_isActive r" for w1 r ttl
    using p [OF _ _ that(3-5)] that(1,2) by (simp add: cache_set_def wp_ext_calm assms) (simp add: wp_def)
  have miss: "wp (bindE (find_media env mid) (\<lambda>found. bindE (from_result (readable mid u found)) (\<lambda>media.
         bindE (cache_set env (meta_key mid) (CMeta (cached_meta_of media)) META_CACHE_TTL_MS) (\<lambda>_.
         ret (metadata_of media))))) (\<lambda>_. meta_exact) (\<lambda>_. meta_exact) w1"
    if w1: "media_tbl w1 = media_tbl w" "cache w1 = cache w" for w1
  proof -
    have "wp (find_media env mid) (\<lambda>found w2. (cache w2 = cache w \<and> media_tbl w2 = media_tbl w)
        \<and> (\<forall>r. found = Some r \<longrightarrow> visible_rows env w1 mid r)) (\<lambda>_. meta_exact) w1"
      unfolding find_media_def
      by (rule wp_find_media) (use w1 s in \<open>auto intro!: tick_freeI simp: meta_exact_def\<close>)
    then show ?thesis
      unfolding wp_bindE
      by (rule wp_mono) (use w1 in \<open>auto simp: wp_readable wp_pf visible_rows_def intro!: s put split: option.split\<close>)
  qed
  have run: "wp (cache_get env k) Q R w = Q (cache_find (now env (tick w)) (cache w) k) (tick w)" for k Q R
    by (simp add: cache_get_def wp_ext_calm assms) (simp add: wp_def)
  show "wp (getMetadata env mid u) (\<lambda>_. meta_exact) (\<lambda>_. meta_exact) w"
    unfolding getMetadata_def wp_bindE [of "cache_get env k" for k] run
    using miss [of "tick w"] s
    by (auto simp: wp_bindE [of "from_result x" for x] wp_from_result wp_pf split: option.split cval.split sum.split)
qed

section \<open>Only the owner\<close>

definition owns_active :: "world \<Rightarrow> uuid \<Rightarrow> uuid \<Rightarrow> bool" where
  "owns_active w u mid \<longleftrightarrow> (\<exists>r \<in> set (media_tbl w). m_id r = mid \<and> m_isActive r \<and> m_ownerId r = u)"

definition stores :: "world \<Rightarrow> media list \<times> user_quota list \<times> (string \<Rightarrow> (cval \<times> millis) option)
    \<times> (string \<Rightarrow> s3_object option)" where
  "stores w = (media_tbl w, quota_tbl w, cache w, s3 w)"

lemma stores_tick [simp]: "stores (tick w) = stores w"
  by (simp add: stores_def)

lemma stores_restore: "same_db w w1 \<Longrightarrow> stores (restore_db w (tick w1)) = stores w"
  by (auto simp: stores_def dest: same_dbD)

lemma wp_not_owned_transaction:
  assumes n: "\<not> owns_active w u mid"
  shows "wp (transaction env (bindE (findById env mid) (\<lambda>found. bindE (from_result (owned mid u found)) k)))
     (\<lambda>_ _. False) (\<lambda>_ w'. stores w' = stores w) w"
proof (rule wp_transactionI)
  fix w1
  assume w1: "same_db w w1"
  show "wp (bindE (findById env mid) (\<lambda>found. bindE (from_result (owned mid u found)) k))
      (\<lambda>x w2. False \<and> (\<forall>e :: exn. stores w2 = stores w \<and> stores (restore_db w w2) = stores w))
      (\<lambda>e w2. stores (restore_db w w2) = stores w) w1"
    unfolding wp_bindE
    by (rule wp_findById)
      (use n same_dbD(1) [OF w1] in \<open>auto simp: wp_owned stores_restore [OF w1] owns_active_def\<close>)
qed (auto intro!: tick_freeI simp: stores_def)

lemma wp_not_owned:
  assumes n: "\<not> owns_active w u mid"
  shows "wp (share env mid u us) (\<lambda>_ _. False) (\<lambda>_ w'. stores w' = stores w) w"
    and "wp (delete_media env mid u ip ua) (\<lambda>_ _. False) (\<lambda>_ w'. stores w' = stores w) w"
proof -
  note t = wp_not_owned_transaction [OF n, of env]
  show "wp (share env mid u us) (\<lambda>_ _. False) (\<lambda>_ w'. stores w' = stores w) w"
    unfolding share_def share_in_transaction_def wp_bindE [of "transaction env m" for m]
    by (rule wp_mono [OF t]) auto
  show "wp (delete_media env mid u ip ua) (\<lambda>_ _. False) (\<lambda>_ w'. stores w' = stores w) w"
    unfolding delete_media_def delete_in_transaction_def wp_bindE [of "transaction env m" for m]
    by (rule wp_mono [OF t]) auto
qed

section \<open>Rows of other users\<close>

definition others :: "uuid \<Rightarrow> media list \<Rightarrow> media list" where
  "others u rows = filter (\<lambda>r. m_ownerId r \<noteq> u) rows"

lemma others_update:
  assumes "\<And>r. p r \<Longrightarrow> m_ownerId r = u" and "\<And>r. m_ownerId (f r) = m_ownerId r"
  shows "others u (update_where p f rows) = others u rows"
  using assms by (induction rows) (auto simp: others_def)

section \<open>Listing and quota report\<close>

lemma concat_pages:
  assumes "0 < n"
  shows "concat (map (\<lambda>k. take n (drop (k * n) xs)) [0..<m]) = take (m * n) xs"
proof (induction m)
  case (Suc m)
  then show ?case
    by (simp add: take_add [of "m * n" n xs, symmetric] add.commute)
qed simp

text \<open>The rows that the listing of a user is about.\<close>

definition own_active :: "uuid \<Rightarrow> media list \<Rightarrow> media list" where
  "own_active u rows = filter (\<lambda>r. m_ownerId r = u \<and> m_isActive r) rows"

lemma user_rows_mset:
  assumes "guc w = Some u"
  shows "mset (user_rows env w u) = mset (own_active u (media_tbl w))"
proof -
  have "(\<lambda>r. m_ownerId r = u \<and> m_isActive r \<and> media_visible env w r) = (\<lambda>r. m_ownerId r = u \<and> m_isActive r)"
    using assms own_visible by (auto simp: fun_eq_iff)
  then show ?thesis
    by (simp add: user_rows_def own_active_def)
qed

lemma getUserMedia_calm:
  assumes "calm env" and "acts_as env u" and "1 \<le> page" and "1 \<le> limit"
  shows "wp (getUserMedia env u page limit)
     (\<lambda>p w'. pg_items p = map item_of (take (nat limit) (drop (nat ((page - 1) * limit))
            (user_rows env (tick (enter_tx env w)) u)))
        \<and> pg_total p = int (length (own_active u (media_tbl w))) \<and> pg_totalPages p = ceil_div (pg_total p) limit)
     (\<lambda>_ _. False) w"
proof -
  have s: "\<not> (page - 1) * limit < 0" "\<not> limit < 0"
    using assms(3,4) mult_nonneg_nonneg [of "page - 1" limit] by linarith+
  have n: "length (user_rows env (tick (tick (enter_tx env w))) u) = length (own_active u (media_tbl w))"
    using mset_eq_length [OF user_rows_mset [of "tick (tick (enter_tx env w))" u env]] assms(2) by simp
  show ?thesis
    using s
    by (simp add: getUserMedia_def find_and_count_def wp_bindE wp_pf wp_calm wp_ext_calm assms(1))
      (simp add: wp_def n wp_ext_calm assms(1) run_simps)
qed

text \<open>The listing in the order in which it is shown, which is unique when no two rows are of the same
  instant.\<close>

definition listing :: "uuid \<Rightarrow> media list \<Rightarrow> media_item list" where
  "listing u rows = map item_of (sort_key (\<lambda>r. - m_createdAt r) (own_active u rows))"

lemma user_rows_own:
  assumes "guc w = Some u" and "distinct (map m_createdAt (own_active u (media_tbl w)))"
  shows "map item_of (user_rows env w u) = listing u (media_tbl w)"
proof -
  have "sort_key (\<lambda>r. - m_createdAt r) (own_active u (media_tbl w)) = user_rows env w u"
  proof (rule sort_key_inj_key_eq)
    show "mset (own_active u (media_tbl w)) = mset (user_rows env w u)"
      using user_rows_mset [OF assms(1)] by simp
    show "inj_on (\<lambda>r. - m_createdAt r) (set (own_active u (media_tbl w)))"
      using assms(2) by (simp add: distinct_map inj_on_def)
    show "sorted (map (\<lambda>r. - m_createdAt r) (user_rows env w u))"
      by (simp add: user_rows_def)
  qed
  then show ?thesis
    by (simp add: listing_def)
qed

lemma getUserMedia_page:
  assumes "calm env" and "acts_as env u" and "1 \<le> limit" and "distinct (map m_createdAt (own_active u (media_tbl w)))"
  shows "\<exists>p. fst (getUserMedia env u (int k + 1) limit w) = Inr p
     \<and> pg_items p = take (nat limit) (drop (k * nat limit) (listing u (media_tbl w)))
     \<and> pg_total p = int (length (listing u (media_tbl w)))
     \<and> pg_totalPages p = ceil_div (int (length (listing u (media_tbl w)))) limit"
proof -
  let ?w = "tick (enter_tx env w)"
  have r: "map item_of (user_rows env ?w u) = listing u (media_tbl w)"
    using user_rows_own [of ?w u env] assms(2,4) by simp
  have n: "nat (int k * limit) = k * nat limit"
    using assms(3) by (simp add: nat_mult_distrib)
  have "map item_of (take (nat limit) (drop (k * nat limit) (user_rows env ?w u)))
      = take (nat limit) (drop (k * nat limit) (listing u (media_tbl w)))"
    using r by (simp add: take_map [symmetric] drop_map [symmetric])
  moreover have "length (own_active u (media_tbl w)) = length (listing u (media_tbl w))"
    by (simp add: listing_def)
  ultimately show ?thesis
    using getUserMedia_calm [OF assms(1,2) _ assms(3), of "int k + 1" w] n
    by (auto simp: wp_def split: prod.splits sum.splits)
qed

lemma ceil_div_covers:
  assumes "0 < b" and "0 \<le> a"
  shows "a \<le> ceil_div a b * b \<and> ceil_div a b * b < a + b"
proof -
  have "(- a) div b * b \<le> - a" "- a < (- a) div b * b + b"
    using assms(1) by (simp_all add: minus_mod_eq_div_mult [symmetric])
  then show ?thesis
    by (simp add: ceil_div_def)
qed

lemma usage_percent_bounds: "0 \<le> usage_percent_x100 used limit \<and> usage_percent_x100 used limit \<le> 10000"
  by (simp add: usage_percent_x100_def)

section \<open>Properties\<close>

definition sample_media :: media where
  "sample_media = \<lparr>m_id = sample_uuid 1, m_ownerId = alice, m_context = ''message'',
     m_storagePath = ''messages/m1.bin'', m_thumbnailPath = None, m_contentType = ''image/png'', m_blobSize = 700,
     m_expiresAt = None, m_signedUrlExpiresAt = None, m_isActive = True, m_sharedWith = Some [bob],
     m_createdAt = 1, m_updatedAt = 1\<rparr>"

definition media_world :: world where
  "media_world = quota_world\<lparr>media_tbl := [sample_media],
     s3 := (\<lambda>k. if k = ''messages/m1.bin'' then Some \<lparr>o_body = [1, 2, 3], o_contentType = ''image/png''\<rparr> else None)\<rparr>"

text \<open>C16. Every read of a blob or of a thumbnail that succeeds, whatever calls fail on the way, is of an
  active row with the requested id that the requester may read.  A signed URL of a blob is for that row's
  object and expires no later than reported; streamed bytes are that object's, under the row's type and
  size; a thumbnail is reported as missing exactly when the row has none, and otherwise its URL or its
  bytes are those of the row's own thumbnail.\<close>

theorem reads_authorized:
  "(getBlob env mid u ip ua w = (Inr su, w1) \<longrightarrow> (\<exists>r. granted w mid u r \<and> signed_for env r su))
   \<and> (getThumbnail env mid u ip ua w = (Inr tu, w2) \<longrightarrow> (\<exists>r. granted w mid u r \<and> thumbnail_link env r tu))
   \<and> (streamBlob env mid u ip ua w = (Inr f, w3) \<longrightarrow>
        (\<exists>r. granted w mid u r \<and> sf_type f = m_contentType r \<and> sf_length f = Some (m_blobSize r)
          \<and> (\<exists>ob. s3 w (m_storagePath r) = Some ob \<and> o_body ob = sf_body f)))
   \<and> (streamThumbnail env mid u ip ua w = (Inr tf, w4) \<longrightarrow> (\<exists>r. granted w mid u r \<and> thumbnail_bytes w r tf))"
  by (intro conjI impI;
    (erule getBlob_granted | erule getThumbnail_granted | erule streamBlob_granted | erule streamThumbnail_granted))

theorem reads_authorized_witness:
  "\<exists>r. granted media_world (sample_uuid 1) alice r
     \<and> (\<exists>ob. s3 media_world (m_storagePath r) = Some ob \<and> o_body ob = [1, 2, 3])"
proof -
  let ?f = "\<lparr>sf_body = [1, 2, 3], sf_type = ''image/png'', sf_length = Some 700\<rparr> :: streamable_file"
  have "streamBlob sample_env (sample_uuid 1) alice None None media_world
      = (Inr ?f, snd (streamBlob sample_env (sample_uuid 1) alice None None media_world))"
    by (rule run_Inr) code_simp
  from reads_authorized [THEN conjunct2, THEN conjunct2, THEN conjunct1, THEN mp, OF this]
  show ?thesis by auto
qed

text \<open>Metadata is given only to a requester who may read a row with that id, also when it comes
  from the cache and the entry is stale, and the answer leaves the cache safe.\<close>

theorem getMetadata_authorized:
  assumes "meta_safe w" and "getMetadata env mid u w = (r, w')"
  shows "meta_safe w' \<and> (\<forall>d. r = Inr d \<longrightarrow> described w mid u d)"
  using wp_getMetadata [OF assms(1), of env mid u] assms(2) by (cases r) (auto simp: wp_def)

theorem getMetadata_authorized_witness:
  "described media_world (sample_uuid 1) alice (metadata_of sample_media)"
proof -
  have m: "meta_safe media_world"
    by (simp add: meta_safe_def media_world_def quota_world_def empty_world_def cache_kv.agrees_def)
  have "getMetadata sample_env (sample_uuid 1) alice media_world
      = (Inr (metadata_of sample_media), snd (getMetadata sample_env (sample_uuid 1) alice media_world))"
    by (rule run_Inr) code_simp
  from getMetadata_authorized [OF m this] show ?thesis by simp
qed

text \<open>C21. Whatever calls fail, reading metadata or a blob, sharing and deleting leave every cached entry covered
  by its row: it names the row's owner and context, and no reader that the row does not name.  While no
  call fails they even leave every entry equal to the metadata of an active row as the table has it, so a
  share or a delete is seen by the next read.  After a lost invalidation the entry of a deleted row can
  stay until it expires; it still grants nobody whom the row did not name.\<close>

theorem metadata_cache_never_widens:
  "(meta_safe w \<longrightarrow> meta_safe (snd (getMetadata env mid u w)) \<and> meta_safe (snd (getBlob env mid u ip ua w))
      \<and> meta_safe (snd (share env mid u us w)) \<and> meta_safe (snd (delete_media env mid u ip ua w)))
   \<and> (calm env \<and> meta_exact w \<longrightarrow> meta_exact (snd (getMetadata env mid u w)) \<and> meta_exact (snd (getBlob env mid u ip ua w))
      \<and> meta_exact (snd (share env mid u us w)) \<and> meta_exact (snd (delete_media env mid u ip ua w)))"
proof (intro conjI impI)
  assume m: "meta_safe w"
  show "meta_safe (snd (getMetadata env mid u w))"
    using wp_mono [OF wp_getMetadata [OF m, of env mid u], of "\<lambda>_. meta_safe" "\<lambda>_. meta_safe"] by (simp add: wp_const)
  from m show "meta_safe (snd (getBlob env mid u ip ua w))" "meta_safe (snd (share env mid u us w))"
      "meta_safe (snd (delete_media env mid u ip ua w))"
    using meta_safe_getBlob meta_safe_share meta_safe_delete by (simp_all add: keeps_def)
next
  assume "calm env \<and> meta_exact w"
  then show "meta_exact (snd (getMetadata env mid u w))" "meta_exact (snd (getBlob env mid u ip ua w))"
      "meta_exact (snd (share env mid u us w))" "meta_exact (snd (delete_media env mid u ip ua w))"
    using meta_exact_getMetadata meta_exact_getBlob meta_exact_share meta_exact_delete by (simp_all add: keeps_def)
qed

definition lossy_env :: env where
  "lossy_env = sample_env\<lparr>outcome_at := (\<lambda>n. if n = 5 then Rejected ''redis down'' else Done)\<rparr>"

definition cached_world :: world where
  "cached_world = snd (getMetadata sample_env (sample_uuid 1) bob media_world)"

theorem metadata_cache_never_widens_witness:
  "meta_safe (snd (share lossy_env (sample_uuid 1) alice [sample_uuid 7] media_world))
   \<and> meta_exact (snd (share sample_env (sample_uuid 1) alice [sample_uuid 7] cached_world))
   \<and> cache cached_world (meta_key (sample_uuid 1)) \<noteq> None
   \<and> cache (snd (share sample_env (sample_uuid 1) alice [sample_uuid 7] cached_world)) (meta_key (sample_uuid 1)) = None"
proof -
  have "meta_safe media_world" "meta_exact media_world"
    by (simp_all add: meta_safe_def meta_exact_def media_world_def quota_world_def empty_world_def cache_kv.agrees_def)
  moreover have "meta_exact cached_world"
    using metadata_cache_never_widens [of media_world sample_env "sample_uuid 1" bob] \<open>meta_exact media_world\<close>
    by (simp add: cached_world_def)
  moreover have "cache cached_world (meta_key (sample_uuid 1)) \<noteq> None"
      "cache (snd (share sample_env (sample_uuid 1) alice [sample_uuid 7] cached_world)) (meta_key (sample_uuid 1)) = None"
    by code_simp+
  ultimately show ?thesis
    using metadata_cache_never_widens [of media_world lossy_env] metadata_cache_never_widens [of cached_world sample_env] by simp
qed



text \<open>After a delete the id is gone for everybody.\<close>

definition inactive :: "uuid \<Rightarrow> world \<Rightarrow> bool" where
  "inactive mid w \<longleftrightarrow> (\<forall>r \<in> set (media_tbl w). m_id r = mid \<longrightarrow> \<not> m_isActive r)"

lemma find_inactive:
  "inactive mid w \<Longrightarrow> List.find (\<lambda>r. m_id r = mid \<and> (m_isActive r \<and> media_visible env v r)) (media_tbl w) = None"
  by (auto simp: find_None_iff inactive_def)

lemma wp_inactive:
  assumes "calm env" and "inactive mid w"
  shows "wp (delete_media env mid v ip ua) (\<lambda>_ _. False) (\<lambda>e _. e = media_not_found mid) w"
    and "wp (share env mid v us) (\<lambda>_ _. False) (\<lambda>e _. e = media_not_found mid) w"
    and "wp (getBlob env mid v ip ua) (\<lambda>_ _. False) (\<lambda>e _. e = media_not_found mid) w"
    and "wp (streamBlob env mid v ip ua) (\<lambda>_ _. False) (\<lambda>e _. e = media_not_found mid) w"
  by (simp_all add: delete_media_def delete_in_transaction_def share_def share_in_transaction_def getBlob_def streamBlob_def
      find_media_def wp_bindE wp_pf wp_calm assms(1) find_inactive [OF assms(2)] wp_owned wp_readable)

lemma deleted_inactive:
  assumes "distinct (map m_id (media_tbl w))" and "deleted_state u r w w'"
  shows "inactive (m_id r) w'"
  using assms(2) by (auto simp: deleted_state_def inactive_def with_row_def set_update_where deactivated_def)

lemma result_of_wp_False: "wp m (\<lambda>_ _. False) (\<lambda>e _. e = x) w \<Longrightarrow> fst (m w) = Inl x"
  by (auto simp: wp_def split: prod.splits sum.splits)

text \<open>C19. Without failures the owner's delete marks exactly this row, removes both its objects, drops
  the cached metadata, gives its bytes and its file back to the quota and announces the deletion
  once; afterwards reading, sharing or deleting the id is a 404 for every user.\<close>

theorem delete_correct:
  assumes "calm env" and "acts_as env u" and "distinct (map m_id (media_tbl w))"
    and "r \<in> set (media_tbl w)" "m_id r = mid" "m_isActive r" "m_ownerId r = u"
    and "has_row u (quota_tbl w)" "\<forall>q \<in> set (quota_tbl w). quota_in_range q"
    and "0 \<le> m_blobSize r" "m_blobSize r \<le> MAX_SAFE_INTEGER"
  shows "\<exists>w'. delete_media env mid u ip ua w = (Inr (), w') \<and> deleted_state u r w w'
     \<and> (\<forall>v us. fst (delete_media env mid v ip ua w') = Inl (media_not_found mid)
          \<and> fst (share env mid v us w') = Inl (media_not_found mid)
          \<and> fst (getBlob env mid v ip ua w') = Inl (media_not_found mid)
          \<and> fst (streamBlob env mid v ip ua w') = Inl (media_not_found mid))"
proof -
  obtain w' where d: "delete_media env mid u ip ua w = (Inr (), w')" "deleted_state u r w w'"
    using delete_calm [OF assms, of ip ua] by (auto simp: wp_def split: prod.splits sum.splits)
  from deleted_inactive [OF assms(3) this(2)] assms(5) have "inactive mid w'"
    by simp
  with d show ?thesis
    using wp_inactive [OF assms(1), of mid w', THEN result_of_wp_False] by blast
qed

lemma media_world_hyps:
  "distinct (map m_id (media_tbl media_world))" "sample_media \<in> set (media_tbl media_world)"
  "m_isActive sample_media" "m_ownerId sample_media = alice" "m_id sample_media = sample_uuid 1"
  "has_row alice (quota_tbl media_world)" "\<forall>q \<in> set (quota_tbl media_world). quota_in_range q"
  "m_blobSize sample_media = 700"
  by (simp_all add: media_world_def sample_media_def has_row_def quota_world_def sample_quota_def
      quota_in_range_def INT4_MAX_def INT8_MAX_def)

theorem delete_correct_witness:
  "\<exists>w'. delete_media sample_env (sample_uuid 1) alice None None media_world = (Inr (), w')
     \<and> fst (getBlob sample_env (sample_uuid 1) alice None None w') = Inl (media_not_found (sample_uuid 1))"
  using delete_correct [OF calm_sample acts_as_sample media_world_hyps(1,2,5,3,4,6,7), of None None]
  by (auto simp: media_world_hyps(8) MAX_SAFE_INTEGER_def)

text \<open>Without failures the owner's share answers the old readers and the new ones, without
  duplicates, empty ids or the owner among the added, stores that list and no other change, so
  that every added user may read; sharing the same again writes nothing.\<close>

theorem share_correct:
  assumes "calm env" and "acts_as env u" and "distinct (map m_id (media_tbl w))"
    and "r \<in> set (media_tbl w)" "m_id r = mid" "m_isActive r" "m_ownerId r = u"
  shows "\<exists>next w' r'. share env mid u us w = (Inr next, w') \<and> distinct next
     \<and> set next = set (current_readers r) \<union> {v \<in> set us. v \<noteq> [] \<and> v \<noteq> u}
     \<and> r' \<in> set (media_tbl w') \<and> set (current_readers r') = set next
     \<and> r' = r\<lparr>m_sharedWith := m_sharedWith r', m_updatedAt := m_updatedAt r'\<rparr>
     \<and> media_tbl w' = with_row mid (\<lambda>_. r') (media_tbl w)
     \<and> (\<exists>w''. share env mid u us w' = (Inr (set_of_list (current_readers r')), w'') \<and> media_tbl w'' = media_tbl w')"
proof -
  let ?next = "share_union r us"
  have distinct_rows: "x = r" if "x \<in> set (media_tbl w)" "m_id x = mid" for x
    using distinct_key_eq [OF assms(3) that(1) assms(4)] that(2) assms(5) by simp
  have row: "with_row mid f (media_tbl w) = with_row mid (\<lambda>_. f r) (media_tbl w)" for f
    unfolding with_row_def update_where_def using distinct_rows by auto
  obtain w' where s: "share env mid u us w = (Inr ?next, w')"
    and c: "if length ?next = length (set_of_list (current_readers r)) then media_tbl w' = media_tbl w
           else \<exists>t. media_tbl w' = with_row mid (reshared ?next t) (media_tbl w)"
    using share_calm [OF assms, of us] by (auto simp: wp_def split: prod.splits sum.splits if_splits)
  obtain r' where r': "r' \<in> set (media_tbl w')" "set (current_readers r') = set ?next"
      "r' = r\<lparr>m_sharedWith := m_sharedWith r', m_updatedAt := m_updatedAt r'\<rparr>"
      "media_tbl w' = with_row mid (\<lambda>_. r') (media_tbl w)"
  proof (cases "length ?next = length (set_of_list (current_readers r))")
    case True
    have "with_row mid (\<lambda>_. r) (media_tbl w) = media_tbl w"
      unfolding row [of "\<lambda>x. x", symmetric] by (simp add: with_row_def update_where_def)
    with True c show ?thesis
      using that [of r] assms(4) share_union_same_length [OF True] by simp
  next
    case False
    with c obtain t where t: "media_tbl w' = with_row mid (reshared ?next t) (media_tbl w)" by auto
    show ?thesis
    proof (rule that [of "reshared ?next t r"])
      show "reshared ?next t r \<in> set (media_tbl w')"
        unfolding t by (rule with_row_mem [OF assms(4,5)])
      show "media_tbl w' = with_row mid (\<lambda>_. reshared ?next t r) (media_tbl w)"
        unfolding t by (rule row)
    qed (simp_all add: reshared_def current_readers_def)
  qed
  have ids: "m_id r' = mid" "m_isActive r'" "m_ownerId r' = u"
    using assms(5-7) by (subst r'(3), simp)+
  have "map m_id (media_tbl w') = map m_id (media_tbl w)"
    unfolding r'(4) with_row_def using ids(1) by (auto simp: update_where_def)
  then have dist: "distinct (map m_id (media_tbl w'))"
    using assms(3) by simp
  have union: "set ?next = set (current_readers r) \<union> {v \<in> set us. v \<noteq> [] \<and> v \<noteq> u}"
    by (simp add: set_share_union assms(7))
  then have again: "share_union r' us = set_of_list (current_readers r')"
    using r'(2) ids(3) by (intro share_union_absorb) auto
  obtain w'' where "share env mid u us w' = (Inr (set_of_list (current_readers r')), w'')" "media_tbl w'' = media_tbl w'"
    using share_calm [OF assms(1,2) dist r'(1) ids, of us] again
    by (auto simp: wp_def split: prod.splits sum.splits)
  with s union r' show ?thesis
    by (intro exI [of _ ?next] exI [of _ w'] exI [of _ r']) auto
qed

theorem share_correct_witness:
  "\<exists>next w'. share sample_env (sample_uuid 1) alice [sample_uuid 7, alice, []] media_world = (Inr next, w')
     \<and> set next = {bob, sample_uuid 7}"
  using share_correct [OF calm_sample acts_as_sample media_world_hyps(1,2,5,3,4), of "[sample_uuid 7, alice, []]"]
  by (auto simp: sample_media_def current_readers_def alice_def sample_uuid_def)

text \<open>C40. While the table stays the same, no call fails and no two of the user's active rows were created
  in the same millisecond, the pages \<open>1..totalPages\<close> of a listing, each asked for by a request of its
  own, are one after the other all of the user's active rows, newest first, each exactly once.  Rows of the
  same instant are excluded because the query orders by the creation time only.\<close>

theorem getUserMedia_pages_partition:
  assumes "\<And>k. calm (env k) \<and> acts_as (env k) u \<and> media_tbl (w k) = rows" and "1 \<le> limit"
    and "distinct (map m_createdAt (own_active u rows))"
  shows "\<exists>pages. (\<forall>k < length pages. fst (getUserMedia (env k) u (int k + 1) limit (w k)) = Inr (pages ! k)
        \<and> pg_totalPages (pages ! k) = int (length pages))
     \<and> concat (map pg_items pages) = listing u rows"
proof -
  let ?xs = "listing u rows"
  let ?m = "nat (ceil_div (int (length ?xs)) limit)"
  let ?page = "\<lambda>k. SOME p. fst (getUserMedia (env k) u (int k + 1) limit (w k)) = Inr p"
  have p: "fst (getUserMedia (env k) u (int k + 1) limit (w k)) = Inr (?page k)
      \<and> pg_items (?page k) = take (nat limit) (drop (k * nat limit) ?xs)
      \<and> pg_totalPages (?page k) = ceil_div (int (length ?xs)) limit" for k
    using getUserMedia_page [of "env k" u limit "w k" k] assms(1) [of k] assms(2,3) by auto
  have c: "int (length ?xs) \<le> ceil_div (int (length ?xs)) limit * limit"
    using ceil_div_covers [of limit "int (length ?xs)"] assms(2) by simp
  then have pos: "0 \<le> ceil_div (int (length ?xs)) limit"
    using assms(2) by (smt (verit) mult_neg_pos of_nat_0_le_iff)
  have "concat (map pg_items (map ?page [0..<?m])) = concat (map (\<lambda>k. take (nat limit) (drop (k * nat limit) ?xs)) [0..<?m])"
    using p by (simp add: comp_def)
  also have "\<dots> = take (?m * nat limit) ?xs"
    using assms(2) by (intro concat_pages) simp
  also have "\<dots> = ?xs"
  proof -
    have "int (length ?xs) \<le> int (?m * nat limit)"
      using c pos assms(2) by simp
    then show ?thesis
      by (metis of_nat_le_iff take_all)
  qed
  finally show ?thesis
    using p pos by (intro exI [of _ "map ?page [0..<?m]"]) auto
qed

theorem getUserMedia_pages_partition_witness:
  "\<exists>pages. concat (map pg_items pages) = [item_of sample_media]
     \<and> (\<forall>k < length pages. fst (getUserMedia sample_env alice (int k + 1) 20 (media_world\<lparr>ticks := k\<rparr>)) = Inr (pages ! k))"
proof -
  have l: "listing alice (media_tbl media_world) = [item_of sample_media]"
    and d: "distinct (map m_createdAt (own_active alice (media_tbl media_world)))"
    by (simp_all add: listing_def own_active_def media_world_def media_world_hyps)
  show ?thesis
    using getUserMedia_pages_partition [where env = "\<lambda>_. sample_env" and w = "\<lambda>k. media_world\<lparr>ticks := k\<rparr>"
        and u = alice and limit = 20, OF _ _ d]
    by (auto simp: l)
qed

text \<open>Two rows of the same instant can take the same place on both pages, so that one is listed twice and the
  other never.\<close>

definition twin_media :: media where
  "twin_media = sample_media\<lparr>m_id := sample_uuid 2, m_storagePath := ''messages/m2.bin''\<rparr>"

lemma pages_can_repeat:
  "let env = sample_env\<lparr>tie_rank := (\<lambda>n mid. if mid = sample_uuid 1 then (if n < 9 then 0 else 2) else 1)\<rparr>;
       w = media_world\<lparr>media_tbl := [sample_media, twin_media]\<rparr> in
     map_sum id pg_items (fst (getUserMedia env alice 1 1 w)) = Inr [item_of sample_media]
     \<and> map_sum id pg_items (fst (getUserMedia env alice 2 1 (w\<lparr>ticks := 9\<rparr>))) = Inr [item_of sample_media]"
  by code_simp

text \<open>The quota report is total: whatever the row holds, the percentage lies between 0 and 100,
  the byte counts are exact as JavaScript numbers when they are not negative, and a user without a
  row is shown the defaults.\<close>

theorem quota_report_bounds:
  "0 \<le> qr_usagePercent_x100 (quota_report_of q) \<and> qr_usagePercent_x100 (quota_report_of q) \<le> 10000
   \<and> qr_storageUsed (quota_report_of q) \<le> MAX_SAFE_INTEGER \<and> qr_storageLimit (quota_report_of q) \<le> MAX_SAFE_INTEGER
   \<and> qr_usagePercent_x100 (quota_report_of None) = 0"
  using usage_percent_bounds
  by (auto simp: quota_report_of_def Let_def clamp_safe_def usage_percent_x100_def bigint_div_def)

end
