(* ===== verification/Upload_Semaphore.thy ===== *)
theory Upload_Semaphore
  imports Samples Histories
begin

text \<open>
  The per-user upload semaphore of \<open>media.service.ts\<close>, a Redis counter: first the
  operations as one upload runs them, then the interleaving of several uploads, one Redis
  command per step.
\<close>

definition SEMAPHORE_TTL_SECONDS :: int where
  "SEMAPHORE_TTL_SECONDS = 30 * 60"

definition MAX_CONCURRENT_UPLOADS :: int where
  "MAX_CONCURRENT_UPLOADS = 3"

definition semaphore_key :: "uuid \<Rightarrow> string" where
  "semaphore_key userId = ''upload:semaphore:'' @ userId"

definition acquireSemaphore :: "env \<Rightarrow> uuid \<Rightarrow> unit io" where
  "acquireSemaphore env userId =
     bindE (redis_incr env (semaphore_key userId)) (\<lambda>count.
     bindE (redis_expire env (semaphore_key userId) SEMAPHORE_TTL_SECONDS) (\<lambda>_.
     if count > MAX_CONCURRENT_UPLOADS
     then bindE (redis_decr env (semaphore_key userId)) (\<lambda>_.
            throw (TooManyRequests (''You have reached the maximum of '' @ show_int MAX_CONCURRENT_UPLOADS
              @ '' concurrent uploads'')))
     else ret ()))"

definition releaseSemaphore :: "env \<Rightarrow> uuid \<Rightarrow> unit io" where
  "releaseSemaphore env userId =
     bindE (redis_decr env (semaphore_key userId)) (\<lambda>remaining.
     if remaining \<le> 0 then redis_del env (semaphore_key userId) else ret ())"

text \<open>
  The timer of \<open>runWithSemaphoreTtlRefresh\<close> fires \<open>k\<close> times while the operation runs; a
  firing only touches the semaphore's key, which the operation does not use, so the model
  runs the firings first.  Clearing the timer has no effect on the state.
\<close>

definition refresh :: "env \<Rightarrow> uuid \<Rightarrow> unit io" where
  "refresh env userId =
     catchE (redis_expire env (semaphore_key userId) SEMAPHORE_TTL_SECONDS) (\<lambda>_. ret ())"

definition runWithSemaphoreTtlRefresh :: "env \<Rightarrow> uuid \<Rightarrow> nat \<Rightarrow> 'a io \<Rightarrow> 'a io" where
  "runWithSemaphoreTtlRefresh env userId k operation =
     bindE (for_each [0..<k] (\<lambda>_. refresh env userId)) (\<lambda>_.
     finallyE operation (ret ()))"

section \<open>One upload\<close>

text \<open>The count that Redis holds for a user: an absent or expired key counts as zero.\<close>

definition sem_count :: "env \<Rightarrow> world \<Rightarrow> uuid \<Rightarrow> int" where
  "sem_count env w u = (case redis_live env w (semaphore_key u) of None \<Rightarrow> 0 | Some (v, t) \<Rightarrow> v)"

lemma frame_acquireSemaphore [frame_intros]:
  "(\<And>w. g (tick w) = g w) \<Longrightarrow> (\<And>w c. g (w\<lparr>redis := c\<rparr>) = g w) \<Longrightarrow> frame g (acquireSemaphore env u)"
  unfolding acquireSemaphore_def by (intro frame_intros)

lemma frame_releaseSemaphore [frame_intros]:
  "(\<And>w. g (tick w) = g w) \<Longrightarrow> (\<And>w c. g (w\<lparr>redis := c\<rparr>) = g w) \<Longrightarrow> frame g (releaseSemaphore env u)"
  unfolding releaseSemaphore_def by (intro frame_intros)

lemma frame_refresh [frame_intros]:
  "(\<And>w. g (tick w) = g w) \<Longrightarrow> (\<And>w c. g (w\<lparr>redis := c\<rparr>) = g w) \<Longrightarrow> frame g (refresh env u)"
  unfolding refresh_def by (intro frame_intros)

lemma frame_runWithSemaphoreTtlRefresh [frame_intros]:
  "(\<And>w. g (tick w) = g w) \<Longrightarrow> (\<And>w c. g (w\<lparr>redis := c\<rparr>) = g w) \<Longrightarrow> frame g m \<Longrightarrow>
   frame g (runWithSemaphoreTtlRefresh env u k m)"
  unfolding runWithSemaphoreTtlRefresh_def by (intro frame_intros)

lemma redis_add_calm:
  "calm env \<Longrightarrow> redis_add env k d w =
     (case redis_live env (tick w) k of
        None \<Rightarrow> (Inr d, (tick w)\<lparr>redis := (redis w)(k := Some (d, None))\<rparr>)
      | Some (v, t) \<Rightarrow> (Inr (v + d), (tick w)\<lparr>redis := (redis w)(k := Some (v + d, t))\<rparr>))"
  by (simp add: redis_add_def split: option.split)

lemma wp_redis_add_calm:
  "calm env \<Longrightarrow> wp (redis_add env k d) Q R w =
     (case redis_live env (tick w) k of
        None \<Rightarrow> Q d ((tick w)\<lparr>redis := (redis w)(k := Some (d, None))\<rparr>)
      | Some (v, t) \<Rightarrow> Q (v + d) ((tick w)\<lparr>redis := (redis w)(k := Some (v + d, t))\<rparr>))"
  by (simp add: wp_def redis_add_calm split: option.split)

lemma wp_redis_expire_calm:
  "calm env \<Longrightarrow> wp (redis_expire env k s) Q R w =
     (case redis_live env (tick w) k of
        None \<Rightarrow> Q () (tick w)
      | Some (v, t) \<Rightarrow> Q () ((tick w)\<lparr>redis := (redis w)(k := Some (v, Some (now env (tick w) + s * 1000)))\<rparr>))"
  by (simp add: wp_def redis_expire_def split: option.split)

lemma wp_redis_del_calm:
  "calm env \<Longrightarrow> wp (redis_del env k) Q R w = Q () ((tick w)\<lparr>redis := (redis w)(k := None)\<rparr>)"
  by (simp add: wp_def redis_del_def)

text \<open>What \<open>upload\<close> wraps around its work.\<close>

definition with_upload_semaphore :: "env \<Rightarrow> uuid \<Rightarrow> nat \<Rightarrow> 'a io \<Rightarrow> 'a io" where
  "with_upload_semaphore env ownerId k operation =
     bindE (acquireSemaphore env ownerId) (\<lambda>_.
     finallyE (runWithSemaphoreTtlRefresh env ownerId k operation) (releaseSemaphore env ownerId))"

text \<open>
  The clock stays within one TTL over the calls considered, and the key does not expire
  meanwhile.  Then the count does not depend on when it is read.
\<close>

definition within_ttl :: "env \<Rightarrow> bool" where
  "within_ttl env \<longleftrightarrow> (\<forall>m n. clock_at env n < clock_at env m + 1800000)"

definition sem_fresh :: "env \<Rightarrow> world \<Rightarrow> uuid \<Rightarrow> bool" where
  "sem_fresh env w u \<longleftrightarrow>
     (case redis w (semaphore_key u) of Some (v, Some t) \<Rightarrow> (\<forall>n. clock_at env n < t) | _ \<Rightarrow> True)"

definition raw_count :: "world \<Rightarrow> uuid \<Rightarrow> int" where
  "raw_count w u = (case redis w (semaphore_key u) of None \<Rightarrow> 0 | Some (v, t) \<Rightarrow> v)"

lemma fresh_live: "sem_fresh env w u \<Longrightarrow> redis_live env w (semaphore_key u) = redis w (semaphore_key u)"
  by (auto simp: sem_fresh_def redis_live_def now_def split: option.splits)

lemma sem_count_raw: "sem_fresh env w u \<Longrightarrow> sem_count env w u = raw_count w u"
  by (simp add: sem_count_def raw_count_def fresh_live)

lemma sem_fresh_upds [simp]:
  "sem_fresh env (tick w) u = sem_fresh env w u" "raw_count (tick w) u = raw_count w u"
  by (simp_all add: sem_fresh_def raw_count_def)

lemma acquire_calm:
  assumes "calm env" and "within_ttl env" and f: "sem_fresh env w u"
  shows "wp (acquireSemaphore env u)
     (\<lambda>_ w'. raw_count w u < 3 \<and> raw_count w' u = raw_count w u + 1 \<and> sem_fresh env w' u)
     (\<lambda>e w'. 3 \<le> raw_count w u \<and> http_status e = 429 \<and> raw_count w' u = raw_count w u \<and> sem_fresh env w' u) w"
proof -
  have t: "clock_at env n < clock_at env m + 1800000" for m n
    using assms(2) by (simp add: within_ttl_def)
  show ?thesis
    using f t
    by (cases "redis w (semaphore_key u)")
      (auto simp: acquireSemaphore_def redis_incr_def redis_decr_def wp_bindE wp_redis_add_calm wp_redis_expire_calm
        assms(1) redis_live_def sem_fresh_def raw_count_def now_def wp_ret wp_throw MAX_CONCURRENT_UPLOADS_def
        SEMAPHORE_TTL_SECONDS_def split: option.splits)
qed

lemma release_calm:
  assumes "calm env" and f: "sem_fresh env w u"
  shows "wp (releaseSemaphore env u)
     (\<lambda>_ w'. raw_count w' u = max 0 (raw_count w u - 1) \<and> sem_fresh env w' u) (\<lambda>_ _. False) w"
  using f
  by (cases "redis w (semaphore_key u)")
    (auto simp: releaseSemaphore_def redis_decr_def wp_bindE wp_redis_add_calm wp_redis_del_calm
      assms(1) redis_live_def sem_fresh_def raw_count_def now_def wp_ret split: option.splits)

lemma refresh_calm:
  assumes "calm env" and "within_ttl env"
  shows "keeps (\<lambda>w. raw_count w u = c \<and> sem_fresh env w u) (refresh env u)"
proof -
  have t: "clock_at env n < clock_at env m + 1800000" for m n
    using assms(2) by (simp add: within_ttl_def)
  have "wp (refresh env u) (\<lambda>_ w'. raw_count w' u = raw_count w u \<and> sem_fresh env w' u)
      (\<lambda>_ w'. raw_count w' u = raw_count w u \<and> sem_fresh env w' u) w" if "sem_fresh env w u" for w
    using that t
    by (cases "redis w (semaphore_key u)")
      (auto simp: refresh_def wp_catchE wp_redis_expire_calm assms(1) redis_live_def sem_fresh_def raw_count_def
        now_def wp_ret SEMAPHORE_TTL_SECONDS_def split: option.splits)
  then show ?thesis
    by (auto simp: keeps_wp wp_const)
qed

lemma frame_raw_count:
  "frame (\<lambda>w. redis w (semaphore_key u)) m \<Longrightarrow> keeps (\<lambda>w. raw_count w u = c \<and> sem_fresh env w u) m"
  by (simp add: frame_def keeps_def raw_count_def sem_fresh_def)

lemma with_semaphore_calm:
  assumes "calm env" and "within_ttl env" and "sem_fresh env w u" and "0 \<le> raw_count w u"
    and m: "frame (\<lambda>w. redis w (semaphore_key u)) m"
  shows "wp (with_upload_semaphore env u k m)
     (\<lambda>_ w'. raw_count w' u = raw_count w u \<and> sem_fresh env w' u \<and> raw_count w u < 3)
     (\<lambda>_ w'. raw_count w' u = raw_count w u \<and> sem_fresh env w' u) w"
proof -
  let ?I = "\<lambda>w'. raw_count w' u = raw_count w u + 1 \<and> sem_fresh env w' u"
  let ?Q = "\<lambda>w'. raw_count w' u = raw_count w u \<and> sem_fresh env w' u"
  have rel: "wp (releaseSemaphore env u) (\<lambda>_. ?Q) (\<lambda>_. ?Q) w1" if "?I w1" for w1
    by (rule wp_mono [OF release_calm [OF assms(1)]]) (use that assms(4) in auto)
  have k: "keeps ?I (runWithSemaphoreTtlRefresh env u k m)"
    unfolding runWithSemaphoreTtlRefresh_def
    by (intro keeps_intros refresh_calm [OF assms(1,2)] frame_raw_count m)
  show ?thesis
    unfolding with_upload_semaphore_def wp_bindE wp_finallyE
    by (rule wp_mono [OF acquire_calm [OF assms(1-3)]])
      (auto intro!: keeps_wp_const [OF k] wp_mono [OF rel])
qed

section \<open>Properties of one upload\<close>

lemma with_upload_semaphore_balanced:
  assumes "calm env" and "within_ttl env" and "sem_fresh env w u" and "0 \<le> sem_count env w u"
    and "frame (\<lambda>w. redis w (semaphore_key u)) m"
    and "with_upload_semaphore env u k m w = (r, w')"
  shows "sem_count env w' u = sem_count env w u
     \<and> (3 \<le> sem_count env w u \<longrightarrow>
          (\<exists>e. http_status e = 429 \<and> r = Inl e \<and> acquireSemaphore env u w = (Inl e, w')))"
proof
  note c = sem_count_raw [OF assms(3)]
  have "wp (with_upload_semaphore env u k m)
     (\<lambda>_ w'. raw_count w' u = raw_count w u \<and> sem_fresh env w' u)
     (\<lambda>_ w'. raw_count w' u = raw_count w u \<and> sem_fresh env w' u) w"
    by (rule wp_mono [OF with_semaphore_calm [OF assms(1-3) _ assms(5)]]) (use assms(4) c in auto)
  then have "raw_count w' u = raw_count w u \<and> sem_fresh env w' u"
    using assms(6) by (cases r) (auto simp: wp_def)
  then show "sem_count env w' u = sem_count env w u"
    using c by (simp add: sem_count_raw)
  show "3 \<le> sem_count env w u \<longrightarrow>
          (\<exists>e. http_status e = 429 \<and> r = Inl e \<and> acquireSemaphore env u w = (Inl e, w'))"
  proof
    assume "3 \<le> sem_count env w u"
    then obtain e w1 where a: "acquireSemaphore env u w = (Inl e, w1)" "http_status e = 429"
      using acquire_calm [OF assms(1-3)] c by (auto simp: wp_def split: prod.splits sum.splits)
    with assms(6) show "\<exists>e. http_status e = 429 \<and> r = Inl e \<and> acquireSemaphore env u w = (Inl e, w')"
      by (auto simp: with_upload_semaphore_def bindE_Inl [where m = "acquireSemaphore env u", OF a(1)])
  qed
qed

definition still_env :: env where
  "still_env = sample_env\<lparr>clock_at := (\<lambda>_. 0)\<rparr>"

text \<open>
  A count that leaks: \<open>acquireSemaphore\<close> runs before the \<open>try\<close>, so an \<open>EXPIRE\<close> that is
  rejected after the \<open>INCR\<close> leaves the count raised, without a TTL.
\<close>

definition leak_env :: env where
  "leak_env = sample_env\<lparr>outcome_at := (\<lambda>n. if n = 1 then Rejected ''connection lost'' else Done)\<rparr>"

text \<open>An upload whose \<open>EXPIRE\<close> is rejected does nothing, fails, and still leaves the user's
  count at one with no expiry: it is never given back.\<close>

theorem acquireSemaphore_leak:
  "fst (with_upload_semaphore leak_env alice 0 (ret ()) empty_world) = Inl (IoError ''connection lost'')
   \<and> redis (snd (with_upload_semaphore leak_env alice 0 (ret ()) empty_world)) (semaphore_key alice) = Some (1, None)"
  by code_simp

section \<open>Interleaved uploads of one user\<close>

text \<open>
  Several uploads of a user run at the same time, on one or on several instances; what is
  atomic is one Redis command.  A phase is the next command of an upload: after \<open>INCR\<close> it
  holds the count it was given; after \<open>EXPIRE\<close> it is working or about to roll back; when
  it has finished it decrements, and deletes the key if the reply was not positive.  An
  absent key is a count of zero.
\<close>

datatype phase =
    Arriving
  | Counted int
  | RollingBack
  | Working
  | Releasing int
  | Gone

record semaphore =
  counter :: int
  phases :: "phase list"

fun counted :: "phase \<Rightarrow> bool" where
  "counted (Counted n) = True"
| "counted RollingBack = True"
| "counted Working = True"
| "counted p = False"

fun admitted :: "phase \<Rightarrow> bool" where
  "admitted (Counted n) = (n \<le> MAX_CONCURRENT_UPLOADS)"
| "admitted Working = True"
| "admitted p = False"

definition holders :: "semaphore \<Rightarrow> nat" where
  "holders s = length (filter counted (phases s))"

definition working :: "semaphore \<Rightarrow> nat" where
  "working s = length (filter (\<lambda>p. p = Working) (phases s))"

text \<open>
  \<open>command False\<close> is the code.  \<open>command True\<close> excludes the race: there no other upload holds
  a count when the key is deleted.
\<close>

inductive command :: "bool \<Rightarrow> semaphore \<Rightarrow> semaphore \<Rightarrow> bool" for quiet where
  incr: "phases s = ps @ Arriving # qs \<Longrightarrow>
    command quiet s \<lparr>counter = counter s + 1, phases = ps @ Counted (counter s + 1) # qs\<rparr>"
| expire: "phases s = ps @ Counted n # qs \<Longrightarrow>
    command quiet s (s\<lparr>phases := ps @ (if n > MAX_CONCURRENT_UPLOADS then RollingBack else Working) # qs\<rparr>)"
| roll_back: "phases s = ps @ RollingBack # qs \<Longrightarrow>
    command quiet s \<lparr>counter = counter s - 1, phases = ps @ Gone # qs\<rparr>"
| decr: "phases s = ps @ Working # qs \<Longrightarrow>
    command quiet s \<lparr>counter = counter s - 1, phases = ps @ Releasing (counter s - 1) # qs\<rparr>"
| del: "phases s = ps @ Releasing n # qs \<Longrightarrow> n \<le> 0 \<Longrightarrow> (quiet \<longrightarrow> holders s = 0) \<Longrightarrow>
    command quiet s \<lparr>counter = 0, phases = ps @ Gone # qs\<rparr>"
| keep: "phases s = ps @ Releasing n # qs \<Longrightarrow> 0 < n \<Longrightarrow>
    command quiet s (s\<lparr>phases := ps @ Gone # qs\<rparr>)"

inductive_cases commandE: "command quiet s s'"

definition idle :: "nat \<Rightarrow> semaphore" where
  "idle n = \<lparr>counter = 0, phases = replicate n Arriving\<rparr>"

definition admitted_count :: "semaphore \<Rightarrow> nat" where
  "admitted_count s = length (filter admitted (phases s))"

lemma idle_counts [simp]: "counter (idle n) = 0" "holders (idle n) = 0" "admitted_count (idle n) = 0"
  by (simp_all add: idle_def holders_def admitted_count_def)

text \<open>The counter never exceeds the uploads that hold a count.\<close>

lemma command_counter_le:
  "command quiet s s' \<Longrightarrow> counter s \<le> int (holders s) \<Longrightarrow> counter s' \<le> int (holders s')"
  by (erule commandE) (auto simp: holders_def)

interpretation any_commands: kept_by_steps "command quiet" "\<lambda>s. counter s \<le> int (holders s)" for quiet
  by unfold_locales (rule command_counter_le)

lemma reachable_counter_le:
  "(command quiet)\<^sup>*\<^sup>* (idle n) s \<Longrightarrow> counter s \<le> int (holders s)"
  by (erule any_commands.history_ok) simp

lemma filter_length_mono: "(\<And>x. p x \<Longrightarrow> q x) \<Longrightarrow> length (filter p xs) \<le> length (filter q xs)"
  by (induction xs) auto

lemma admitted_counted: "admitted p \<Longrightarrow> counted p"
  by (cases p) auto

lemma admitted_le_holders: "admitted_count s \<le> holders s"
  unfolding admitted_count_def holders_def by (rule filter_length_mono) (rule admitted_counted)

lemma quiet_command_exact:
  assumes "command True s s'" and "counter s = int (holders s)" and "int (admitted_count s) \<le> MAX_CONCURRENT_UPLOADS"
  shows "counter s' = int (holders s') \<and> int (admitted_count s') \<le> MAX_CONCURRENT_UPLOADS"
  using assms admitted_le_holders [of s]
  by (elim commandE) (auto simp: holders_def admitted_count_def)

interpretation quiet_commands: kept_by_steps "command True"
    "\<lambda>s. counter s = int (holders s) \<and> int (admitted_count s) \<le> MAX_CONCURRENT_UPLOADS"
  by unfold_locales (blast dest: quiet_command_exact)

text \<open>The next command of upload \<open>i\<close>, to run schedules.\<close>

definition run_command :: "nat \<Rightarrow> semaphore \<Rightarrow> semaphore" where
  "run_command i s =
     (if i < length (phases s) then
        (case phases s ! i of
           Arriving \<Rightarrow> \<lparr>counter = counter s + 1, phases = (phases s)[i := Counted (counter s + 1)]\<rparr>
         | Counted n \<Rightarrow> s\<lparr>phases := (phases s)[i := if n > MAX_CONCURRENT_UPLOADS then RollingBack else Working]\<rparr>
         | RollingBack \<Rightarrow> \<lparr>counter = counter s - 1, phases = (phases s)[i := Gone]\<rparr>
         | Working \<Rightarrow> \<lparr>counter = counter s - 1, phases = (phases s)[i := Releasing (counter s - 1)]\<rparr>
         | Releasing n \<Rightarrow>
             if n \<le> 0 then \<lparr>counter = 0, phases = (phases s)[i := Gone]\<rparr>
             else s\<lparr>phases := (phases s)[i := Gone]\<rparr>
         | Gone \<Rightarrow> s)
      else s)"

lemma run_command_step: "run_command i s = s \<or> command False s (run_command i s)"
proof (cases "i < length (phases s)")
  case True
  note split = id_take_nth_drop [OF True] and upd = upd_conv_take_nth_drop [OF True]
  show ?thesis
  proof (cases "phases s ! i")
    case Arriving
    with command.incr [of s "take i (phases s)" "drop (Suc i) (phases s)" False] split True show ?thesis
      by (simp add: run_command_def upd)
  next
    case (Counted n)
    with command.expire [of s "take i (phases s)" n "drop (Suc i) (phases s)" False] split True show ?thesis
      by (simp add: run_command_def upd)
  next
    case RollingBack
    with command.roll_back [of s "take i (phases s)" "drop (Suc i) (phases s)" False] split True show ?thesis
      by (simp add: run_command_def upd)
  next
    case Working
    with command.decr [of s "take i (phases s)" "drop (Suc i) (phases s)" False] split True show ?thesis
      by (simp add: run_command_def upd)
  next
    case (Releasing n)
    with command.del [of s "take i (phases s)" n "drop (Suc i) (phases s)" False]
      command.keep [of s "take i (phases s)" n "drop (Suc i) (phases s)" False] split True show ?thesis
      by (cases "n \<le> 0") (simp_all add: run_command_def upd)
  next
    case Gone
    then show ?thesis by (simp add: run_command_def)
  qed
qed (simp add: run_command_def)

lemma run_schedule_reachable: "(command False)\<^sup>*\<^sup>* s (fold run_command is s)"
proof (induction "is" arbitrary: s)
  case (Cons i "is")
  have "(command False)\<^sup>*\<^sup>* s (run_command i s)"
    using run_command_step [of i s] by (auto intro: r_into_rtranclp)
  with Cons show ?case by (auto intro: rtranclp_trans)
qed simp

section \<open>Properties of interleaved uploads\<close>

text \<open>In every interleaving an upload is refused only when three others of the same user hold a
  count at that moment: races never cost a user an upload.\<close>

theorem semaphore_refusal_justified:
  assumes "(command False)\<^sup>*\<^sup>* (idle n) s" and "counter s + 1 > MAX_CONCURRENT_UPLOADS"
  shows "MAX_CONCURRENT_UPLOADS \<le> int (holders s)"
  using reachable_counter_le [OF assms(1)] assms(2) by simp

theorem semaphore_refusal_justified_witness:
  "MAX_CONCURRENT_UPLOADS \<le> int (holders (fold run_command [0, 1, 2] (idle 4)))"
proof (rule semaphore_refusal_justified [OF run_schedule_reachable])
  show "MAX_CONCURRENT_UPLOADS < counter (fold run_command [0, 1, 2] (idle 4)) + 1"
    by code_simp
qed

text \<open>C32. As long as the key is deleted only when no upload holds a count, the counter is exact and at
  most three uploads work at the same time.\<close>

theorem semaphore_bounded_when_quiet:
  assumes "(command True)\<^sup>*\<^sup>* (idle n) s"
  shows "int (working s) \<le> MAX_CONCURRENT_UPLOADS \<and> counter s = int (holders s)"
proof -
  have "counter s = int (holders s) \<and> int (admitted_count s) \<le> MAX_CONCURRENT_UPLOADS"
    using quiet_commands.history_ok [OF assms] by (simp add: MAX_CONCURRENT_UPLOADS_def)
  moreover have "working s \<le> admitted_count s"
    unfolding working_def admitted_count_def by (rule filter_length_mono) auto
  ultimately show ?thesis by linarith
qed

theorem semaphore_bounded_when_quiet_witness:
  "int (working \<lparr>counter = 1, phases = [Working]\<rparr>) \<le> MAX_CONCURRENT_UPLOADS
   \<and> counter \<lparr>counter = 1, phases = [Working]\<rparr> = int (holders \<lparr>counter = 1, phases = [Working]\<rparr>)"
proof (rule semaphore_bounded_when_quiet)
  have "command True (idle 1) \<lparr>counter = 1, phases = [Counted 1]\<rparr>"
    using command.incr [of "idle 1" "[]" "[]" True] by (simp add: idle_def)
  moreover have "command True \<lparr>counter = 1, phases = [Counted 1]\<rparr> \<lparr>counter = 1, phases = [Working]\<rparr>"
    using command.expire [of "\<lparr>counter = 1, phases = [Counted 1]\<rparr>" "[]" 1 "[]" True]
    by (simp add: MAX_CONCURRENT_UPLOADS_def)
  ultimately show "(command True)\<^sup>*\<^sup>* (idle 1) \<lparr>counter = 1, phases = [Working]\<rparr>"
    by (meson r_into_rtranclp rtranclp_trans)
qed

text \<open>C33. The release decrements and deletes in two commands.  A deletion that comes after another
  upload's increment forgets that upload: four uploads can then work at once, and the counter can
  stay below zero when all are gone.\<close>

theorem semaphore_release_race:
  "(\<exists>s. (command False)\<^sup>*\<^sup>* (idle 5) s \<and> working s = 4)
   \<and> (\<exists>s. (command False)\<^sup>*\<^sup>* (idle 5) s \<and> phases s = replicate 5 Gone \<and> counter s = -1)"
proof
  have "working (fold run_command [0, 0, 0, 1, 1, 0, 2, 2, 3, 3, 4, 4] (idle 5)) = 4"
    by code_simp
  then show "\<exists>s. (command False)\<^sup>*\<^sup>* (idle 5) s \<and> working s = 4"
    using run_schedule_reachable by blast
  have "phases (fold run_command [0, 0, 0, 1, 1, 2, 2, 3, 3, 4, 0, 1, 1, 2, 2, 3, 3, 4, 4] (idle 5)) = replicate 5 Gone"
    "counter (fold run_command [0, 0, 0, 1, 1, 2, 2, 3, 3, 4, 0, 1, 1, 2, 2, 3, 3, 4, 4] (idle 5)) = -1"
    by code_simp+
  then show "\<exists>s. (command False)\<^sup>*\<^sup>* (idle 5) s \<and> phases s = replicate 5 Gone \<and> counter s = -1"
    using run_schedule_reachable by blast
qed

end
