(* ===== verification/Magic_Bytes.thy ===== *)
theory Magic_Bytes
  imports Prelude
begin

text \<open>
  \<open>magic-bytes.validator.ts\<close>: the table of magic-byte signatures and the check that the
  first bytes of an upload match its declared MIME type.  A signature is a conjunction
  of entries, a type accepts any of its signatures, a type outside the table passes.
\<close>

record magic_entry =
  me_bytes :: "byte list"
  me_offset :: "nat option"

type_synonym magic_signature = "magic_entry list"

definition MAGIC_MAP :: "(string \<times> magic_signature list) list" where
  "MAGIC_MAP = [
    (''image/jpeg'',
      [[\<lparr>me_bytes = [0xff, 0xd8, 0xff], me_offset = None\<rparr>]]),
    (''image/png'',
      [[\<lparr>me_bytes = [0x89, 0x50, 0x4e, 0x47, 0x0d, 0x0a, 0x1a, 0x0a], me_offset = None\<rparr>]]),
    (''image/gif'',
      [[\<lparr>me_bytes = [0x47, 0x49, 0x46, 0x38], me_offset = None\<rparr>]]),
    (''image/webp'',
      [[\<lparr>me_bytes = [0x52, 0x49, 0x46, 0x46], me_offset = Some 0\<rparr>,
        \<lparr>me_bytes = [0x57, 0x45, 0x42, 0x50], me_offset = Some 8\<rparr>]]),
    (''image/heic'',
      [[\<lparr>me_bytes = [0x66, 0x74, 0x79, 0x70, 0x68, 0x65, 0x69, 0x63], me_offset = Some 4\<rparr>],
       [\<lparr>me_bytes = [0x66, 0x74, 0x79, 0x70, 0x68, 0x65, 0x69, 0x78], me_offset = Some 4\<rparr>],
       [\<lparr>me_bytes = [0x66, 0x74, 0x79, 0x70, 0x68, 0x65, 0x76, 0x63], me_offset = Some 4\<rparr>]]),
    (''image/heif'',
      [[\<lparr>me_bytes = [0x66, 0x74, 0x79, 0x70, 0x6d, 0x69, 0x66, 0x31], me_offset = Some 4\<rparr>],
       [\<lparr>me_bytes = [0x66, 0x74, 0x79, 0x70, 0x6d, 0x73, 0x66, 0x31], me_offset = Some 4\<rparr>]]),
    (''video/mp4'',
      [[\<lparr>me_bytes = [0x66, 0x74, 0x79, 0x70], me_offset = Some 4\<rparr>]]),
    (''video/quicktime'',
      [[\<lparr>me_bytes = [0x66, 0x74, 0x79, 0x70, 0x71, 0x74], me_offset = Some 4\<rparr>]]),
    (''video/webm'',
      [[\<lparr>me_bytes = [0x1a, 0x45, 0xdf, 0xa3], me_offset = None\<rparr>]]),
    (''video/x-matroska'',
      [[\<lparr>me_bytes = [0x1a, 0x45, 0xdf, 0xa3], me_offset = None\<rparr>]]),
    (''audio/mpeg'',
      [[\<lparr>me_bytes = [0xff, 0xfb], me_offset = None\<rparr>],
       [\<lparr>me_bytes = [0xff, 0xf3], me_offset = None\<rparr>],
       [\<lparr>me_bytes = [0xff, 0xf2], me_offset = None\<rparr>],
       [\<lparr>me_bytes = [0x49, 0x44, 0x33], me_offset = None\<rparr>]]),
    (''audio/ogg'',
      [[\<lparr>me_bytes = [0x4f, 0x67, 0x67, 0x53], me_offset = None\<rparr>]]),
    (''audio/wav'',
      [[\<lparr>me_bytes = [0x52, 0x49, 0x46, 0x46], me_offset = Some 0\<rparr>,
        \<lparr>me_bytes = [0x57, 0x41, 0x56, 0x45], me_offset = Some 8\<rparr>]]),
    (''audio/mp4'',
      [[\<lparr>me_bytes = [0x66, 0x74, 0x79, 0x70], me_offset = Some 4\<rparr>]]),
    (''audio/aac'',
      [[\<lparr>me_bytes = [0xff, 0xf1], me_offset = None\<rparr>],
       [\<lparr>me_bytes = [0xff, 0xf9], me_offset = None\<rparr>]]),
    (''application/pdf'',
      [[\<lparr>me_bytes = [0x25, 0x50, 0x44, 0x46], me_offset = None\<rparr>]]),
    (''application/msword'',
      [[\<lparr>me_bytes = [0xd0, 0xcf, 0x11, 0xe0, 0xa1, 0xb1, 0x1a, 0xe1], me_offset = None\<rparr>]]),
    (''application/vnd.openxmlformats-officedocument.wordprocessingml.document'',
      [[\<lparr>me_bytes = [0x50, 0x4b, 0x03, 0x04], me_offset = None\<rparr>]]),
    (''application/vnd.openxmlformats-officedocument.spreadsheetml.sheet'',
      [[\<lparr>me_bytes = [0x50, 0x4b, 0x03, 0x04], me_offset = None\<rparr>]]),
    (''application/vnd.openxmlformats-officedocument.presentationml.presentation'',
      [[\<lparr>me_bytes = [0x50, 0x4b, 0x03, 0x04], me_offset = None\<rparr>]]),
    (''application/zip'',
      [[\<lparr>me_bytes = [0x50, 0x4b, 0x03, 0x04], me_offset = None\<rparr>]])]"

definition MAX_MAGIC_BYTES :: nat where
  "MAX_MAGIC_BYTES = 16"

text \<open>
  \<open>MAGIC_MAP[mime]\<close> also finds the properties that every object inherits.
\<close>

definition object_prototype_keys :: "string list" where
  "object_prototype_keys =
     [''constructor'', ''__defineGetter__'', ''__defineSetter__'', ''hasOwnProperty'',
      ''__lookupGetter__'', ''__lookupSetter__'', ''isPrototypeOf'', ''propertyIsEnumerable'',
      ''toString'', ''valueOf'', ''__proto__'', ''toLocaleString'']"

datatype magic_lookup = Signatures "magic_signature list" | Inherited | Undefined

definition magic_lookup :: "string \<Rightarrow> magic_lookup" where
  "magic_lookup mime =
     (case map_of MAGIC_MAP mime of
        Some sigs \<Rightarrow> Signatures sigs
      | None \<Rightarrow> if mime \<in> set object_prototype_keys then Inherited else Undefined)"

definition matchesEntry :: "byte list \<Rightarrow> magic_entry \<Rightarrow> bool" where
  "matchesEntry header e =
     (let offset = (case me_offset e of None \<Rightarrow> 0 | Some n \<Rightarrow> n); bytes = me_bytes e in
      if length header < offset + length bytes then False
      else list_all (\<lambda>i. header ! (offset + i) = bytes ! i) [0..<length bytes])"

definition normalise_mime :: "string \<Rightarrow> string" where
  "normalise_mime declared = js_lower (js_trim (hd (js_split (CHR '';'') declared)))"

definition validateMagicBytes :: "byte list \<Rightarrow> string \<Rightarrow> exn + unit" where
  "validateMagicBytes buffer declaredMimeType =
     (let mime = normalise_mime declaredMimeType in
      case magic_lookup mime of
        Undefined \<Rightarrow> Inr ()
      | Inherited \<Rightarrow> Inl (TypeError ''signatures.some is not a function'')
      | Signatures sigs \<Rightarrow>
          let header = take MAX_MAGIC_BYTES buffer in
          if list_ex (\<lambda>sig. list_all (matchesEntry header) sig) sigs then Inr ()
          else Inl (UnsupportedMediaType
            (''Content-Type '' @ squote @ mime @ squote @ '' does not match the actual file content'')))"

section \<open>What a match means\<close>

definition entry_at :: "byte list \<Rightarrow> magic_entry \<Rightarrow> bool" where
  "entry_at buffer e \<longleftrightarrow>
     (let offset = (case me_offset e of None \<Rightarrow> 0 | Some n \<Rightarrow> n) in
      take (length (me_bytes e)) (drop offset buffer) = me_bytes e)"

definition entry_end :: "magic_entry \<Rightarrow> nat" where
  "entry_end e = (case me_offset e of None \<Rightarrow> 0 | Some n \<Rightarrow> n) + length (me_bytes e)"

lemma take_drop_eq_iff:
  assumes "bs \<noteq> []"
  shows "take (length bs) (drop k xs) = bs \<longleftrightarrow>
     k + length bs \<le> length xs \<and> (\<forall>i < length bs. xs ! (k + i) = bs ! i)"
proof
  assume eq: "take (length bs) (drop k xs) = bs"
  then have "length (take (length bs) (drop k xs)) = length bs" by simp
  with assms have len: "k + length bs \<le> length xs"
    by (cases bs) (auto simp: min_def split: if_splits)
  have "xs ! (k + i) = bs ! i" if "i < length bs" for i
  proof -
    have "take (length bs) (drop k xs) ! i = xs ! (k + i)"
      using that len by simp
    then show ?thesis by (simp add: eq)
  qed
  with len show "k + length bs \<le> length xs \<and> (\<forall>i < length bs. xs ! (k + i) = bs ! i)"
    by blast
next
  assume "k + length bs \<le> length xs \<and> (\<forall>i < length bs. xs ! (k + i) = bs ! i)"
  then show "take (length bs) (drop k xs) = bs"
    by (intro nth_equalityI) auto
qed

lemma matchesEntry_at:
  assumes "me_bytes e \<noteq> []"
  shows "matchesEntry buffer e \<longleftrightarrow> entry_at buffer e"
  using assms
  by (auto simp: matchesEntry_def entry_at_def take_drop_eq_iff Let_def list_all_iff)

lemma entry_at_take: "entry_end e \<le> n \<Longrightarrow> entry_at (take n buffer) e \<longleftrightarrow> entry_at buffer e"
  by (simp add: entry_at_def entry_end_def Let_def drop_take min_def le_diff_conv2)

lemma MAGIC_MAP_entries_all:
  "list_all (\<lambda>ms. list_all (list_all (\<lambda>e. me_bytes e \<noteq> [] \<and> entry_end e \<le> MAX_MAGIC_BYTES)) (snd ms))
     MAGIC_MAP"
  by (simp add: MAGIC_MAP_def entry_end_def MAX_MAGIC_BYTES_def)

lemma MAGIC_MAP_entries:
  assumes "(m, sigs) \<in> set MAGIC_MAP" and "sig \<in> set sigs" and "e \<in> set sig"
  shows "me_bytes e \<noteq> []" and "entry_end e \<le> MAX_MAGIC_BYTES"
  using MAGIC_MAP_entries_all assms by (auto simp: list_all_iff)

lemma matches_header:
  assumes "map_of MAGIC_MAP m = Some sigs" and "sig \<in> set sigs" and "e \<in> set sig"
  shows "matchesEntry (take MAX_MAGIC_BYTES buffer) e \<longleftrightarrow> entry_at buffer e"
proof -
  note e = MAGIC_MAP_entries [OF map_of_SomeD [OF assms(1)] assms(2,3)]
  from e show ?thesis by (simp add: matchesEntry_at entry_at_take)
qed

definition accepted_as :: "byte list \<Rightarrow> string \<Rightarrow> bool" where
  "accepted_as buffer mime \<longleftrightarrow>
     (case map_of MAGIC_MAP mime of
        None \<Rightarrow> mime \<notin> set object_prototype_keys
      | Some sigs \<Rightarrow> \<exists>sig \<in> set sigs. \<forall>e \<in> set sig. entry_at buffer e)"

lemma validate_iff_accepted:
  "validateMagicBytes buffer declared = Inr () \<longleftrightarrow> accepted_as buffer (normalise_mime declared)"
proof (cases "map_of MAGIC_MAP (normalise_mime declared)")
  case None
  then show ?thesis
    by (simp add: validateMagicBytes_def accepted_as_def magic_lookup_def Let_def)
next
  case (Some sigs)
  then show ?thesis
    using matches_header [OF Some]
    by (auto simp: validateMagicBytes_def accepted_as_def magic_lookup_def Let_def
        list_ex_iff list_all_iff)
qed


lemma validate_cases:
  "validateMagicBytes buffer declared = Inr () \<or>
   (\<exists>e. validateMagicBytes buffer declared = Inl e \<and> http_status e \<in> {415, 500})"
  by (auto simp: validateMagicBytes_def Let_def split: magic_lookup.split)

section \<open>Types told apart by their first bytes\<close>

definition header_types :: "string list" where
  "header_types =
     [''image/jpeg'', ''image/png'', ''image/gif'', ''image/webp'', ''video/webm'', ''audio/mpeg'',
      ''audio/ogg'', ''audio/wav'', ''audio/aac'', ''application/pdf'', ''application/msword'',
      ''application/zip'']"

definition sniff :: "byte list \<Rightarrow> string" where
  "sniff b =
     (let x = b ! 0; y = b ! 1 in
      if x = 0x89 then ''image/png''
      else if x = 0x47 then ''image/gif''
      else if x = 0x1a then ''video/webm''
      else if x = 0x4f then ''audio/ogg''
      else if x = 0x25 then ''application/pdf''
      else if x = 0xd0 then ''application/msword''
      else if x = 0x50 then ''application/zip''
      else if x = 0x49 then ''audio/mpeg''
      else if x = 0x52 then (if b ! 9 = 0x45 then ''image/webp'' else ''audio/wav'')
      else if y = 0xd8 then ''image/jpeg''
      else if y = 0xf1 \<or> y = 0xf9 then ''audio/aac''
      else ''audio/mpeg'')"

lemma entry_at_nth:
  assumes "entry_at b e" and "i < length (me_bytes e)"
  shows "b ! ((case me_offset e of None \<Rightarrow> 0 | Some n \<Rightarrow> n) + i) = me_bytes e ! i"
proof -
  from assms(2) have "me_bytes e \<noteq> []" by auto
  with assms show ?thesis
    by (auto simp: entry_at_def Let_def take_drop_eq_iff)
qed

lemma entry_at_start_0:
  "entry_at b \<lparr>me_bytes = x # xs, me_offset = None\<rparr> \<Longrightarrow> b ! 0 = x"
  by (drule entry_at_nth [where i = 0]) simp_all

lemma entry_at_start_1:
  "entry_at b \<lparr>me_bytes = x # y # xs, me_offset = None\<rparr> \<Longrightarrow> b ! 1 = y"
  by (drule entry_at_nth [where i = 1]) simp_all

lemma entry_at_start_riff0:
  "entry_at b \<lparr>me_bytes = x # xs, me_offset = Some 0\<rparr> \<Longrightarrow> b ! 0 = x"
  by (drule entry_at_nth [where i = 0]) simp_all

lemma entry_at_start_riff9:
  "entry_at b \<lparr>me_bytes = x # y # xs, me_offset = Some 8\<rparr> \<Longrightarrow> b ! 9 = y"
  by (drule entry_at_nth [where i = 1]) simp_all

lemma entry_at_start_01:
  "entry_at b \<lparr>me_bytes = x # y # xs, me_offset = None\<rparr> \<Longrightarrow> b ! 0 = x \<and> b ! 1 = y"
  by (blast dest: entry_at_start_0 entry_at_start_1)

lemmas entry_at_start = entry_at_start_01 entry_at_start_riff0 entry_at_start_riff9

lemma accepted_sniff_all: "list_all (\<lambda>m. accepted_as b m \<longrightarrow> sniff b = m) header_types"
  unfolding header_types_def list.pred_inject
  by (intro conjI impI TrueI; simp add: accepted_as_def MAGIC_MAP_def;
      (elim disjE)?; (drule entry_at_start | (elim conjE, drule entry_at_start, drule entry_at_start));
      simp add: sniff_def)

lemma accepted_sniff: "accepted_as b m \<Longrightarrow> m \<in> set header_types \<Longrightarrow> sniff b = m"
  using accepted_sniff_all by (auto simp: list_all_iff)

section \<open>Properties\<close>

text \<open>C34. The validator accepts a buffer exactly when the whole buffer carries, at the
  stated offsets, every entry of some signature of the declared type (or the type has no
  signature), so looking at the first 16 bytes loses nothing; every other buffer of a
  type of the table is a 415, and only an inherited key is a \<open>TypeError\<close>.\<close>

theorem validateMagicBytes_correct:
  "validateMagicBytes buffer declared =
     (let mime = normalise_mime declared in
      if accepted_as buffer mime then Inr ()
      else if mime \<in> fst ` set MAGIC_MAP
      then Inl (UnsupportedMediaType
             (''Content-Type '' @ squote @ mime @ squote @ '' does not match the actual file content''))
      else Inl (TypeError ''signatures.some is not a function''))"
proof (cases "map_of MAGIC_MAP (normalise_mime declared)")
  case None
  then have "normalise_mime declared \<notin> fst ` set MAGIC_MAP"
    by (simp add: map_of_eq_None_iff)
  with None show ?thesis
    by (simp add: validateMagicBytes_def accepted_as_def magic_lookup_def Let_def)
next
  case (Some sigs)
  then have "normalise_mime declared \<in> fst ` set MAGIC_MAP"
    by (force dest: map_of_SomeD)
  with Some show ?thesis
    using validate_iff_accepted [of buffer declared]
    by (auto simp: validateMagicBytes_def magic_lookup_def Let_def)
qed

text \<open>Twelve of the types (JPEG, PNG, GIF, WebP, WebM, MP3, Ogg, WAV, AAC, PDF, DOC, ZIP)
  are told apart by the validator: no buffer passes under two of them.\<close>

theorem header_types_exclusive:
  assumes "validateMagicBytes buffer d1 = Inr ()" and "validateMagicBytes buffer d2 = Inr ()"
    and "normalise_mime d1 \<in> set header_types" and "normalise_mime d2 \<in> set header_types"
  shows "normalise_mime d1 = normalise_mime d2"
  using accepted_sniff assms by (metis validate_iff_accepted)

theorem header_types_exclusive_witness:
  "normalise_mime ''IMAGE/PNG; q=1'' = normalise_mime ''image/png''"
  by (rule header_types_exclusive [where buffer = "[0x89, 0x50, 0x4e, 0x47, 0x0d, 0x0a, 0x1a, 0x0a]"])
    code_simp+

text \<open>A declared type that names an inherited property of the lookup table's object is
  neither accepted nor rejected as unsupported: the lookup finds a value that is not a
  list of signatures and the validator throws a \<open>TypeError\<close>, which is a 500.\<close>

theorem validateMagicBytes_inherited_key:
  "validateMagicBytes buffer ''constructor'' = Inl (TypeError ''signatures.some is not a function'')"
  by code_simp

end
