(* ===== verification/Content_Safety.thy ===== *)
theory Content_Safety
  imports Magic_Bytes Samples
begin

text \<open>
  \<open>content-safety.validator.ts\<close>: image dimensions, embedded JavaScript in PDFs and the
  ClamAV scan.  What sharp reports for a buffer and what clamd answers come from the
  environment; a check that cannot be carried out lets the upload pass.
\<close>

definition MAX_PIXELS :: int where
  "MAX_PIXELS = 50000000"

definition PDF_JS_SCAN_BYTES :: nat where
  "PDF_JS_SCAN_BYTES = 64 * 1024"

definition PDF_JS_TOKENS :: "string list" where
  "PDF_JS_TOKENS = [''/JS '', ''/JavaScript'', ''/JS'' @ [CHR 0x0D], ''/JS'' @ [CHR 0x0A], ''/JS('', ''/JS<'']"

definition IMAGE_MIME_TYPES :: "string list" where
  "IMAGE_MIME_TYPES =
     [''image/jpeg'', ''image/png'', ''image/gif'', ''image/webp'', ''image/heic'', ''image/heif'']"

definition checkImageDimensions :: "env \<Rightarrow> byte list \<Rightarrow> string \<Rightarrow> exn + unit" where
  "checkImageDimensions env buffer mimeType =
     (let mime = normalise_mime mimeType in
      if mime \<notin> set IMAGE_MIME_TYPES then Inr ()
      else (case sharp_metadata env buffer of
          None \<Rightarrow> Inr ()
        | Some (Some width, Some height) \<Rightarrow>
            let pixels = width * height in
            if pixels > MAX_PIXELS
            then Inl (PayloadTooLarge (''Image dimensions '' @ show_int width @ ''x'' @ show_int height
                   @ '' ('' @ show_int pixels @ '' px) exceed the '' @ show_int MAX_PIXELS @ '' px limit''))
            else Inr ()
        | Some _ \<Rightarrow> Inr ()))"

definition latin1 :: "byte list \<Rightarrow> string" where
  "latin1 bs = map (\<lambda>b. char_of (unat b)) bs"

fun scan_tokens :: "string \<Rightarrow> string list \<Rightarrow> exn + unit" where
  "scan_tokens hay [] = Inr ()"
| "scan_tokens hay (token # ts) =
     (if js_includes hay token
      then Inl (UnprocessableEntity ''PDF contains embedded JavaScript which is not permitted'')
      else scan_tokens hay ts)"

definition checkPdfJavaScript :: "byte list \<Rightarrow> string \<Rightarrow> exn + unit" where
  "checkPdfJavaScript buffer mimeType =
     (let mime = normalise_mime mimeType in
      if mime \<noteq> ''application/pdf'' then Inr ()
      else scan_tokens (latin1 (take PDF_JS_SCAN_BYTES buffer)) PDF_JS_TOKENS)"

section \<open>ClamAV\<close>

text \<open>
  The bytes \<open>sendToClamd\<close> writes: the command, one chunk with its big-endian length, and
  the empty chunk that ends the stream.
\<close>

definition uint32_be :: "nat \<Rightarrow> byte list" where
  "uint32_be n = map (\<lambda>k. word_of_nat (n div 256 ^ k)) [3, 2, 1, 0]"

definition instream_command :: "byte list" where
  "instream_command = map (\<lambda>c. word_of_nat (of_char c)) (''zINSTREAM'' @ [CHR 0x00])"

definition clamd_request :: "byte list \<Rightarrow> byte list" where
  "clamd_request buffer = instream_command @ uint32_be (length buffer) @ buffer @ uint32_be 0"

definition sendToClamd :: "env \<Rightarrow> byte list \<Rightarrow> string io" where
  "sendToClamd env buffer =
     ext env (\<lambda>w. case clamd_reply env (ticks w) (clamd_request buffer) of
        None \<Rightarrow> (Inl (JsError ''ClamAV connection timeout''), w)
      | Some reply \<Rightarrow> (Inr (js_trim reply), w))"

definition clamav_verdict :: "string \<Rightarrow> exn + unit" where
  "clamav_verdict result =
     (if js_includes result ''FOUND'' then
        (let virus = (case js_split (CHR '':'') result of
             p # v # ps \<Rightarrow> js_trim v
           | _ \<Rightarrow> ''unknown'')
         in Inl (UnprocessableEntity (''File rejected by antivirus scanner: '' @ virus)))
      else Inr ())"

definition checkClamAv :: "env \<Rightarrow> byte list \<Rightarrow> unit io" where
  "checkClamAv env buffer =
     (case cfg_CLAMAV_HOST (cfg env) of
        None \<Rightarrow> ret ()
      | Some host \<Rightarrow>
          if host = [] then ret ()
          else catchE (bindE (sendToClamd env buffer) (\<lambda>result. from_result (clamav_verdict result)))
                 (\<lambda>err. case err of
                    HttpException st b \<Rightarrow> if st = 422 then throw err else ret ()
                  | _ \<Rightarrow> ret ()))"

section \<open>Characterisations\<close>

lemma scan_tokens_Inr: "scan_tokens hay ts = Inr () \<longleftrightarrow> (\<forall>t \<in> set ts. \<not> js_includes hay t)"
  by (induction ts) auto

lemma scan_tokens_cases:
  "scan_tokens hay ts = Inr ()
   \<or> scan_tokens hay ts = Inl (UnprocessableEntity ''PDF contains embedded JavaScript which is not permitted'')"
  by (induction ts) auto

lemma clamav_verdict_Inl:
  "clamav_verdict result = Inl e \<Longrightarrow> js_includes result ''FOUND'' \<and> http_status e = 422"
  by (auto simp: clamav_verdict_def Let_def split: if_splits)

lemma frame_sendToClamd [frame_intros]: "(\<And>w. g (tick w) = g w) \<Longrightarrow> frame g (sendToClamd env b)"
  unfolding sendToClamd_def by (rule frame_ext) (simp_all add: frame_def split: option.split)

lemma frame_checkClamAv [frame_intros]: "(\<And>w. g (tick w) = g w) \<Longrightarrow> frame g (checkClamAv env b)"
  unfolding checkClamAv_def
  by (intro frame_intros) (auto split: exn.split intro: frame_intros)

text \<open>What a daemon that follows the INSTREAM framing reads: chunks up to the empty one.\<close>

definition read_uint32_be :: "byte list \<Rightarrow> nat" where
  "read_uint32_be bs = foldl (\<lambda>acc b. 256 * acc + unat b) 0 bs"

function read_chunks :: "byte list \<Rightarrow> byte list option" where
  "read_chunks bs =
     (let n = read_uint32_be (take 4 bs); rest = drop 4 bs in
      if length bs < 4 then None
      else if n = 0 then Some []
      else if length rest < n then None
      else map_option (\<lambda>more. take n rest @ more) (read_chunks (drop n rest)))"
  by pat_completeness auto
termination
  by (relation "measure length") auto

declare read_chunks.simps [simp del]

lemma length_uint32_be [simp]: "length (uint32_be n) = 4"
  by (simp add: uint32_be_def)

lemma read_uint32_be: 
  assumes "n < 2 ^ 32"
  shows "read_uint32_be (uint32_be n) = n"
proof -
  define a b c where "a = n div 256" and "b = a div 256" and "c = b div 256"
  have "n div 65536 = b" and "n div 16777216 = c"
    by (simp_all add: a_def b_def c_def div_mult2_eq [symmetric])
  moreover have "n = 256 * a + n mod 256" and "a = 256 * b + a mod 256" and "b = 256 * c + b mod 256"
    by (simp_all add: a_def b_def c_def)
  moreover have "c mod 256 = c"
  proof (rule mod_less)
    show "c < 256"
      using assms \<open>n div 16777216 = c\<close> by (auto simp: less_mult_imp_div_less)
  qed
  ultimately show ?thesis
    by (simp add: read_uint32_be_def uint32_be_def unat_of_nat a_def [symmetric])
qed

lemma read_chunks_step:
  assumes "0 < length buffer" and "length buffer < 2 ^ 32"
  shows "read_chunks (uint32_be (length buffer) @ buffer @ rest)
       = map_option (\<lambda>more. buffer @ more) (read_chunks rest)"
  using assms read_uint32_be [of "length buffer"]
  by (subst read_chunks.simps) (simp add: Let_def)

lemma read_chunks_end: "read_chunks (uint32_be 0 @ rest) = Some []"
  using read_uint32_be [of 0] by (subst read_chunks.simps) (simp add: Let_def)

lemma wp_sendToClamd:
  assumes "\<And>n reply w'. clamd_reply env n (clamd_request buffer) = Some reply \<Longrightarrow> Q (js_trim reply) w'"
    and "\<And>m w'. R (JsError m) w'" and "\<And>m w'. R (IoError m) w'"
  shows "wp (sendToClamd env buffer) Q R w"
  using assms by (auto simp: sendToClamd_def wp_def ext_def split: outcome.split option.split)

lemma wp_checkClamAv:
  "wp (checkClamAv env buffer) (\<lambda>_ _. True) (\<lambda>e _. http_status e = 422 \<and> cfg_CLAMAV_HOST (cfg env) \<noteq> None
      \<and> (\<exists>n reply. clamd_reply env n (clamd_request buffer) = Some reply \<and> js_includes (js_trim reply) ''FOUND'')) w"
  by (auto simp: checkClamAv_def wp_simps split: option.split sum.split exn.split
      intro!: wp_sendToClamd dest!: clamav_verdict_Inl) blast

section \<open>Properties\<close>

text \<open>A PDF is refused, with a 422, exactly when one of the JavaScript tokens occurs in
  its first 64 KiB; nothing else is refused by this check.\<close>

theorem checkPdfJavaScript_correct:
  "checkPdfJavaScript buffer mimeType =
     (if normalise_mime mimeType = ''application/pdf''
         \<and> (\<exists>token \<in> set PDF_JS_TOKENS. \<exists>a b. latin1 (take 65536 buffer) = a @ token @ b)
      then Inl (UnprocessableEntity ''PDF contains embedded JavaScript which is not permitted'')
      else Inr ())"
proof -
  let ?hay = "latin1 (take 65536 buffer)"
  have "scan_tokens ?hay PDF_JS_TOKENS = Inr () \<longleftrightarrow>
      \<not> (\<exists>token \<in> set PDF_JS_TOKENS. \<exists>a b. ?hay = a @ token @ b)"
    by (simp add: scan_tokens_Inr js_includes_iff)
  then show ?thesis
    using scan_tokens_cases [of ?hay PDF_JS_TOKENS]
    by (auto simp: checkPdfJavaScript_def PDF_JS_SCAN_BYTES_def Let_def)
qed

text \<open>The antivirus check rejects an upload only when a configured clamd answered that
  it found something; an unreachable daemon, a lost connection or any other answer lets
  the upload pass, whatever calls fail.\<close>

theorem checkClamAv_rejects_only_found:
  assumes "checkClamAv env buffer w = (Inl e, w')"
  shows "http_status e = 422 \<and> cfg_CLAMAV_HOST (cfg env) \<noteq> None
     \<and> (\<exists>n reply. clamd_reply env n (clamd_request buffer) = Some reply
            \<and> js_includes (js_trim reply) ''FOUND'')"
  using wp_Inl [OF assms wp_checkClamAv] by blast

theorem checkClamAv_rejects_only_found_witness:
  "http_status (UnprocessableEntity ''File rejected by antivirus scanner: Eicar FOUND'') = 422"
proof -
  let ?cfg = "sample_config\<lparr>cfg_CLAMAV_HOST := Some ''127.0.0.1''\<rparr>"
  let ?env = "sample_env\<lparr>cfg := ?cfg, clamd_reply := (\<lambda>_ _. Some ''stream: Eicar FOUND'')\<rparr>"
  have "js_trim ''stream: Eicar FOUND'' = ''stream: Eicar FOUND''"
    and "js_trim '' Eicar FOUND'' = ''Eicar FOUND''"
    by code_simp+
  then have "checkClamAv ?env [1] empty_world =
      (Inl (UnprocessableEntity ''File rejected by antivirus scanner: Eicar FOUND''), tick empty_world)"
    by (simp add: checkClamAv_def sendToClamd_def clamav_verdict_def run_simps ext_def sample_defs Let_def)
  then show ?thesis
    by (rule checkClamAv_rejects_only_found [THEN conjunct1])
qed

text \<open>C35. A daemon that reads the INSTREAM framing gets back the buffer that was sent, for
  every buffer whose length fits the 32-bit chunk header.\<close>

theorem clamd_request_roundtrip:
  assumes "length buffer < 2 ^ 32"
  shows "clamd_request buffer = instream_command @ drop 10 (clamd_request buffer)
     \<and> read_chunks (drop 10 (clamd_request buffer)) = Some buffer"
proof -
  have cmd: "length instream_command = 10"
    by (simp add: instream_command_def)
  have "read_chunks (uint32_be (length buffer) @ buffer @ uint32_be 0) = Some buffer"
  proof (cases "buffer = []")
    case True
    then show ?thesis by (simp add: read_chunks_end)
  next
    case False
    then show ?thesis
      using assms read_chunks_end [of "[]"] by (simp add: read_chunks_step)
  qed
  then show ?thesis by (simp add: clamd_request_def cmd)
qed

theorem clamd_request_roundtrip_witness:
  "read_chunks (drop 10 (clamd_request [1, 2, 3])) = Some [1, 2, 3]"
  by (rule clamd_request_roundtrip [THEN conjunct2]) simp

end
