(* ===== verification/Media_Upload.thy ===== *)
theory Media_Upload
  imports Media_Service Upload_Semaphore Content_Safety
begin

text \<open>
  \<open>MediaService.upload\<close>: the upload limits, the checks in the order of the code, the
  deduplication, the two objects, the row with its compensation, and what follows a saved
  row.  A file is what multer hands over: the declared type, the declared size, and the
  bytes in memory or as a stream.
\<close>

record upload_file =
  f_mimetype :: string
  f_size :: int
  f_buffer :: "byte list option"
  f_stream :: "byte list option"

section \<open>Limits\<close>

fun CONTEXT_SIZE_LIMITS :: "media_context \<Rightarrow> int" where
  "CONTEXT_SIZE_LIMITS MESSAGE = 100 * 1024 * 1024"
| "CONTEXT_SIZE_LIMITS AVATAR = 5 * 1024 * 1024"
| "CONTEXT_SIZE_LIMITS GROUP_ICON = 5 * 1024 * 1024"

definition THUMBNAIL_ALLOWED_MIME :: "string list" where
  "THUMBNAIL_ALLOWED_MIME =
     [''image/jpeg'', ''image/png'', ''image/gif'', ''image/webp'', ''image/heic'', ''image/heif'']"

definition THUMBNAIL_MAX_BYTES :: int where
  "THUMBNAIL_MAX_BYTES = 5 * 1024 * 1024"

fun CONTEXT_MIME_ALLOWLIST :: "media_context \<Rightarrow> string list" where
  "CONTEXT_MIME_ALLOWLIST MESSAGE =
     [''image/jpeg'', ''image/png'', ''image/gif'', ''image/webp'', ''image/heic'', ''image/heif'',
      ''video/mp4'', ''video/quicktime'', ''video/webm'', ''video/x-matroska'',
      ''audio/mpeg'', ''audio/ogg'', ''audio/wav'', ''audio/mp4'', ''audio/aac'',
      ''application/pdf'', ''application/msword'',
      ''application/vnd.openxmlformats-officedocument.wordprocessingml.document'',
      ''application/vnd.openxmlformats-officedocument.spreadsheetml.sheet'',
      ''application/vnd.openxmlformats-officedocument.presentationml.presentation'',
      ''application/zip'', ''application/octet-stream'']"
| "CONTEXT_MIME_ALLOWLIST AVATAR =
     [''image/jpeg'', ''image/png'', ''image/gif'', ''image/webp'', ''image/heic'', ''image/heif'']"
| "CONTEXT_MIME_ALLOWLIST GROUP_ICON =
     [''image/jpeg'', ''image/png'', ''image/gif'', ''image/webp'', ''image/heic'', ''image/heif'']"

definition DEDUP_CACHE_TTL_MS :: int where
  "DEDUP_CACHE_TTL_MS = 7 * 24 * 60 * 60 * 1000"

section \<open>Checks\<close>

definition blob_buffer :: "upload_file \<Rightarrow> byte list" where
  "blob_buffer file = (case f_buffer file of None \<Rightarrow> [] | Some b \<Rightarrow> b)"

definition blob_stream :: "upload_file \<Rightarrow> byte list" where
  "blob_stream file = (case f_stream file of None \<Rightarrow> blob_buffer file | Some s \<Rightarrow> s)"

definition authorizeGroupIconUpload :: "env \<Rightarrow> media_context \<Rightarrow> uuid \<Rightarrow> unit io" where
  "authorizeGroupIconUpload env ctx ownerId =
     (if ctx \<noteq> GROUP_ICON then ret ()
      else
        bindE (catchE (isAdmin env ownerId)
                 (\<lambda>_. throw (ServiceUnavailable ''Group authorization service unavailable''))) (\<lambda>admin.
        throw_when (\<not> admin) (Forbidden ''You are not allowed to upload an icon for this group'')))"

definition enforceContextSizeLimit :: "int \<Rightarrow> media_context \<Rightarrow> exn + unit" where
  "enforceContextSizeLimit fsize ctx =
     (let limit = CONTEXT_SIZE_LIMITS ctx in
      if fsize > limit
      then Inl (PayloadTooLarge (''File size '' @ show_int fsize @ '' exceeds the '' @ show_int limit
             @ '' byte limit for context '' @ squote @ context_value ctx @ squote))
      else Inr ())"

definition check_allowlist :: "upload_file \<Rightarrow> media_context \<Rightarrow> exn + unit" where
  "check_allowlist file ctx =
     (if f_mimetype file \<notin> set (CONTEXT_MIME_ALLOWLIST ctx)
      then Inl (UnsupportedMediaType (''MIME type '' @ squote @ f_mimetype file @ squote
             @ '' is not allowed for context '' @ squote @ context_value ctx @ squote))
      else Inr ())"

definition check_upload :: "env \<Rightarrow> uuid \<Rightarrow> upload_file \<Rightarrow> media_context \<Rightarrow> unit io" where
  "check_upload env ownerId file ctx =
     bindE (authorizeGroupIconUpload env ctx ownerId) (\<lambda>_.
     bindE (enforceQuota env ownerId (f_size file)) (\<lambda>_.
     bindE (from_result (enforceContextSizeLimit (f_size file) ctx)) (\<lambda>_.
     bindE (from_result (validateMagicBytes (blob_buffer file) (f_mimetype file))) (\<lambda>_.
     bindE (from_result (check_allowlist file ctx)) (\<lambda>_.
     bindE (from_result (checkImageDimensions env (blob_buffer file) (f_mimetype file))) (\<lambda>_.
     bindE (from_result (checkPdfJavaScript (blob_buffer file) (f_mimetype file))) (\<lambda>_.
     checkClamAv env (blob_buffer file))))))))"

definition check_thumbnail :: "upload_file \<Rightarrow> exn + unit" where
  "check_thumbnail file =
     (case validateMagicBytes (blob_buffer file) (f_mimetype file) of
        Inl e \<Rightarrow> Inl e
      | Inr _ \<Rightarrow>
          if f_mimetype file \<notin> set THUMBNAIL_ALLOWED_MIME
          then Inl (UnsupportedMediaType (''Thumbnail MIME type '' @ squote @ f_mimetype file @ squote @ '' is not allowed''))
          else if f_size file > THUMBNAIL_MAX_BYTES
          then Inl (PayloadTooLarge (''Thumbnail size '' @ show_int (f_size file) @ '' exceeds the 5 MB limit''))
          else Inr ())"

section \<open>Response\<close>

record upload_response =
  media_id :: uuid
  url :: "string option"
  thumbnail_url :: "string option"
  expires_at :: millis
  r_context :: string
  r_size :: int

definition presign_opt :: "env \<Rightarrow> string option \<Rightarrow> string option io" where
  "presign_opt env path =
     (if truthy path
      then bindE (generatePresignedUrl env (the path) (signedUrlExpirySeconds env)) (\<lambda>u. ret (Some u))
      else ret None)"

definition buildUploadResponse :: "env \<Rightarrow> media \<Rightarrow> upload_response io" where
  "buildUploadResponse env media =
     bindE (presign_opt env (Some (m_storagePath media))) (\<lambda>url.
     bindE (presign_opt env (m_thumbnailPath media)) (\<lambda>thumbnail_url.
     bindE (gets (now env)) (\<lambda>t.
     ret \<lparr>media_id = m_id media, url = url, thumbnail_url = thumbnail_url,
          expires_at = t + signedUrlExpirySeconds env * 1000, r_context = m_context media,
          r_size = m_blobSize media\<rparr>)))"

section \<open>Deduplication\<close>

definition dedup_key :: "uuid \<Rightarrow> media_context \<Rightarrow> string \<Rightarrow> string" where
  "dedup_key ownerId ctx sha256 = ''dedup:blob:'' @ ownerId @ '':'' @ context_value ctx @ '':'' @ sha256"

text \<open>The cached id; only a non-empty string counts.\<close>

definition cached_id :: "cval option \<Rightarrow> uuid option" where
  "cached_id v = (case v of Some (CStr s) \<Rightarrow> if s \<noteq> [] then Some s else None | _ \<Rightarrow> None)"

definition merge_readers :: "env \<Rightarrow> media \<Rightarrow> uuid list option \<Rightarrow> media io" where
  "merge_readers env existing sharedWith =
     (case sharedWith of
        None \<Rightarrow> ret existing
      | Some us \<Rightarrow>
          if length us > 0 then
            (let next = share_union existing us in
             if length next \<noteq> length (current_readers existing) then
               bindE (transaction env (updateSharedWith env (m_id existing) (Some next))) (\<lambda>_.
               bindE (cache_del env (meta_key (m_id existing))) (\<lambda>_.
               ret (existing\<lparr>m_sharedWith := Some next\<rparr>)))
             else ret existing)
          else ret existing)"

definition try_dedup :: "env \<Rightarrow> string \<Rightarrow> uuid list option \<Rightarrow> upload_response option io" where
  "try_dedup env key sharedWith =
     bindE (cache_get env key) (\<lambda>cached.
     case cached_id cached of
       None \<Rightarrow> ret None
     | Some existingId \<Rightarrow>
         bindE (find_media env existingId) (\<lambda>found.
         case found of
           None \<Rightarrow> ret None
         | Some existing \<Rightarrow>
             bindE (merge_readers env existing sharedWith) (\<lambda>existing.
             bindE (buildUploadResponse env existing) (\<lambda>resp.
             ret (Some resp)))))"

section \<open>A new object\<close>

fun contextToStorageContext :: "media_context \<Rightarrow> string" where
  "contextToStorageContext AVATAR = ''avatars''"
| "contextToStorageContext GROUP_ICON = ''group_icons''"
| "contextToStorageContext MESSAGE = ''messages''"

definition computeExpiresAt :: "env \<Rightarrow> millis \<Rightarrow> millis" where
  "computeExpiresAt env t =
     t + (case cfg_MESSAGE_BLOB_TTL_DAYS (cfg env) of None \<Rightarrow> 30 | Some d \<Rightarrow> d) * 24 * 60 * 60 * 1000"

definition upload_thumbnail :: "env \<Rightarrow> uuid \<Rightarrow> uuid \<Rightarrow> upload_file option \<Rightarrow> string option io" where
  "upload_thumbnail env ownerId mid thumbnailFile =
     (case thumbnailFile of
        None \<Rightarrow> ret None
      | Some thumb \<Rightarrow>
          bindE (from_result (check_thumbnail thumb)) (\<lambda>_.
          bindE (from_result (buildPath ''thumbnails'' ownerId mid)) (\<lambda>path.
          bindE (storage_upload env path (blob_stream thumb) (f_mimetype thumb)) (\<lambda>_.
          ret (Some path)))))"

definition initial_readers :: "uuid \<Rightarrow> uuid list option \<Rightarrow> uuid list option" where
  "initial_readers ownerId sharedWith =
     (case sharedWith of
        None \<Rightarrow> None
      | Some us \<Rightarrow>
          if length us > 0 then
            (let dedup = set_of_list (filter (\<lambda>u. u \<noteq> [] \<and> u \<noteq> ownerId) us)
             in if length dedup > 0 then Some dedup else None)
          else None)"

definition new_media ::
  "env \<Rightarrow> uuid \<Rightarrow> uuid \<Rightarrow> media_context \<Rightarrow> upload_file \<Rightarrow> string \<Rightarrow> string option \<Rightarrow> uuid list option \<Rightarrow> millis \<Rightarrow> media" where
  "new_media env mid ownerId ctx file storagePath thumbnailPath sharedWith t =
     \<lparr>m_id = mid, m_ownerId = ownerId, m_context = context_value ctx, m_storagePath = storagePath,
      m_thumbnailPath = thumbnailPath, m_contentType = f_mimetype file, m_blobSize = f_size file,
      m_expiresAt = (if ctx = MESSAGE then Some (computeExpiresAt env t) else None),
      m_signedUrlExpiresAt = None, m_isActive = True, m_sharedWith = initial_readers ownerId sharedWith,
      m_createdAt = t, m_updatedAt = t\<rparr>"

text \<open>The row, and the removal of the objects when it cannot be written.\<close>

definition persist :: "env \<Rightarrow> media \<Rightarrow> string option \<Rightarrow> unit io" where
  "persist env media thumbnailPath =
     catchE (transaction env (save env media)) (\<lambda>dbErr.
       bindE (fire_and_forget (storage_delete env (m_storagePath media))) (\<lambda>_.
       bindE (case thumbnailPath of None \<Rightarrow> ret () | Some p \<Rightarrow> fire_and_forget (storage_delete env p)) (\<lambda>_.
       throw dbErr)))"

definition inc_uploads :: "unit io" where
  "inc_uploads = modify (\<lambda>w. w\<lparr>uploadsTotal := uploadsTotal w + 1\<rparr>)"

definition after_saved :: "env \<Rightarrow> string \<Rightarrow> media \<Rightarrow> upload_response io" where
  "after_saved env key media =
     bindE (cache_set env key (CStr (m_id media)) DEDUP_CACHE_TTL_MS) (\<lambda>_.
     bindE (recordUpload env (m_ownerId media) (m_blobSize media)) (\<lambda>_.
     bindE inc_uploads (\<lambda>_.
     bindE (fire_and_forget (redis_publish env (MediaUploaded (m_id media) (m_ownerId media) (m_context media)
              (m_contentType media) (m_blobSize media) (m_thumbnailPath media \<noteq> None)))) (\<lambda>_.
     buildUploadResponse env media))))"

definition store_new :: "env \<Rightarrow> string \<Rightarrow> uuid \<Rightarrow> upload_file \<Rightarrow> media_context \<Rightarrow> upload_file option \<Rightarrow> uuid list option
    \<Rightarrow> upload_response io" where
  "store_new env key ownerId file ctx thumbnailFile sharedWith =
     bindE (randomUUID env) (\<lambda>mid.
     bindE (from_result (buildPath (contextToStorageContext ctx) ownerId mid)) (\<lambda>storagePath.
     bindE (storage_upload env storagePath (blob_stream file) (f_mimetype file)) (\<lambda>_.
     bindE (upload_thumbnail env ownerId mid thumbnailFile) (\<lambda>thumbnailPath.
     bindE (gets (\<lambda>w. new_media env mid ownerId ctx file storagePath thumbnailPath sharedWith (now env w))) (\<lambda>media.
     bindE (persist env media thumbnailPath) (\<lambda>_.
     after_saved env key media))))))"

section \<open>The whole request\<close>

definition upload_work :: "env \<Rightarrow> uuid \<Rightarrow> upload_file \<Rightarrow> media_context \<Rightarrow> upload_file option \<Rightarrow> uuid list option
    \<Rightarrow> upload_response io" where
  "upload_work env ownerId file ctx thumbnailFile sharedWith =
     bindE (check_upload env ownerId file ctx) (\<lambda>_.
     let key = dedup_key ownerId ctx (sha256_hex env (blob_buffer file)) in
     bindE (try_dedup env key sharedWith) (\<lambda>hit.
     case hit of
       Some resp \<Rightarrow> ret resp
     | None \<Rightarrow> store_new env key ownerId file ctx thumbnailFile sharedWith))"

definition upload :: "env \<Rightarrow> nat \<Rightarrow> uuid \<Rightarrow> upload_file \<Rightarrow> media_context \<Rightarrow> upload_file option \<Rightarrow> uuid list option
    \<Rightarrow> upload_response io" where
  "upload env firings ownerId file ctx thumbnailFile sharedWith =
     with_upload_semaphore env ownerId firings (upload_work env ownerId file ctx thumbnailFile sharedWith)"

section \<open>What each stage leaves alone\<close>

lemma frame_getOrCreateQuota [frame_intros]:
  assumes "\<And>w. g (tick w) = g w" and "\<And>w q. g (w\<lparr>quota_tbl := q\<rparr>) = g w" and "\<And>w u. g (w\<lparr>guc := u\<rparr>) = g w"
    and "\<And>w c. g (w\<lparr>cache := c\<rparr>) = g w" and "\<And>w n. g (w\<lparr>uuids_used := n\<rparr>) = g w"
    and "(\<forall>w0 w1. g (restore_db w0 w1) = g w1) \<or> (\<forall>w0 w1. g (restore_db w0 w1) = g w0)"
  shows "frame g (getOrCreateQuota env u)"
  unfolding getOrCreateQuota_def fetch_or_insert_quota_def using assms by (intro frame_intros)

lemma frame_enforceQuota [frame_intros]:
  assumes "\<And>w. g (tick w) = g w" and "\<And>w q. g (w\<lparr>quota_tbl := q\<rparr>) = g w" and "\<And>w u. g (w\<lparr>guc := u\<rparr>) = g w"
    and "\<And>w c. g (w\<lparr>cache := c\<rparr>) = g w" and "\<And>w n. g (w\<lparr>uuids_used := n\<rparr>) = g w"
    and "(\<forall>w0 w1. g (restore_db w0 w1) = g w1) \<or> (\<forall>w0 w1. g (restore_db w0 w1) = g w0)"
  shows "frame g (enforceQuota env u n)"
  unfolding enforceQuota_def checkQuota_def using assms by (intro frame_intros)

lemma frame_authorizeGroupIconUpload [frame_intros]:
  "(\<And>w. g (tick w) = g w) \<Longrightarrow> frame g (authorizeGroupIconUpload env ctx u)"
  unfolding authorizeGroupIconUpload_def by (intro frame_intros)

lemma frame_check_upload [frame_intros]:
  assumes "\<And>w. g (tick w) = g w" and "\<And>w q. g (w\<lparr>quota_tbl := q\<rparr>) = g w" and "\<And>w u. g (w\<lparr>guc := u\<rparr>) = g w"
    and "\<And>w c. g (w\<lparr>cache := c\<rparr>) = g w" and "\<And>w n. g (w\<lparr>uuids_used := n\<rparr>) = g w"
    and "(\<forall>w0 w1. g (restore_db w0 w1) = g w1) \<or> (\<forall>w0 w1. g (restore_db w0 w1) = g w0)"
  shows "frame g (check_upload env u fl ctx)"
  unfolding check_upload_def using assms by (intro frame_intros)

lemma frame_buildUploadResponse [frame_intros]: "frame g (buildUploadResponse env m)"
  unfolding buildUploadResponse_def presign_opt_def generatePresignedUrl_def by (intro frame_intros)

lemma frame_storage_upload_opt [frame_intros]:
  "(\<And>w. g (tick w) = g w) \<Longrightarrow> (\<And>w c. g (w\<lparr>s3 := c\<rparr>) = g w) \<Longrightarrow> frame g (upload_thumbnail env u m t)"
  unfolding upload_thumbnail_def by (intro frame_intros)

lemma frame_merge_readers [frame_intros]:
  assumes "\<And>w. g (tick w) = g w" and "\<And>w m. g (w\<lparr>media_tbl := m\<rparr>) = g w" and "\<And>w u. g (w\<lparr>guc := u\<rparr>) = g w"
    and "\<And>w c. g (w\<lparr>cache := c\<rparr>) = g w"
    and "(\<forall>w0 w1. g (restore_db w0 w1) = g w1) \<or> (\<forall>w0 w1. g (restore_db w0 w1) = g w0)"
  shows "frame g (merge_readers env m us)"
  unfolding merge_readers_def using assms by (intro frame_intros)

lemma frame_try_dedup [frame_intros]:
  assumes "\<And>w. g (tick w) = g w" and "\<And>w m. g (w\<lparr>media_tbl := m\<rparr>) = g w" and "\<And>w u. g (w\<lparr>guc := u\<rparr>) = g w"
    and "\<And>w c. g (w\<lparr>cache := c\<rparr>) = g w"
    and "(\<forall>w0 w1. g (restore_db w0 w1) = g w1) \<or> (\<forall>w0 w1. g (restore_db w0 w1) = g w0)"
  shows "frame g (try_dedup env k us)"
  unfolding try_dedup_def using assms by (intro frame_intros)

lemma frame_persist [frame_intros]:
  assumes "\<And>w. g (tick w) = g w" and "\<And>w m. g (w\<lparr>media_tbl := m\<rparr>) = g w" and "\<And>w u. g (w\<lparr>guc := u\<rparr>) = g w"
    and "\<And>w c. g (w\<lparr>s3 := c\<rparr>) = g w"
    and "(\<forall>w0 w1. g (restore_db w0 w1) = g w1) \<or> (\<forall>w0 w1. g (restore_db w0 w1) = g w0)"
  shows "frame g (persist env m t)"
  unfolding persist_def using assms by (intro frame_intros)

text \<open>Redis is only used for the semaphore, the cooldowns and the events.\<close>

lemma keys_apart [simp]: "semaphore_key u \<noteq> cooldownKey v p" "cooldownKey v p \<noteq> semaphore_key u"
  by (simp_all add: semaphore_key_def cooldownKey_def)

lemma frame_semaphore_set_nx: "frame (\<lambda>w. redis w (semaphore_key u)) (redis_set_nx_ex env (cooldownKey v p) n s)"
  unfolding redis_set_nx_ex_def by (rule frame_ext) (auto simp: frame_def split: option.split)

lemma frame_semaphore_recordUpload: "frame (\<lambda>w. redis w (semaphore_key u)) (recordUpload env v n)"
  unfolding recordUpload_def checkAndPublishQuotaAlert_def publishQuotaAlert_def
  by (intro frame_bindE frame_from_result frame_fire_and_forget frame_for_each frame_if frame_ret frame_semaphore_set_nx;
      (intro frame_intros)?; simp)

lemma frame_semaphore_work: "frame (\<lambda>w. redis w (semaphore_key u)) (upload_work env v fl ctx t us)"
  unfolding upload_work_def store_new_def after_saved_def Let_def inc_uploads_def
  by (intro frame_bindE frame_option frame_ret frame_from_result frame_fire_and_forget frame_gets frame_semaphore_recordUpload;
      (intro frame_intros)?; simp)

section \<open>The gate\<close>

text \<open>Some reply of group-service names the user as an administrator.\<close>

definition confirmed_admin :: "env \<Rightarrow> uuid \<Rightarrow> bool" where
  "confirmed_admin env ownerId \<longleftrightarrow> (\<exists>n. admin_reply (http_get env n (base_url (cfg_GROUP_SERVICE_URL (cfg env))
      @ ''/groups/v1/'' @ encodeURIComponent ownerId @ ''/members'') (group_headers env)) ownerId)"

text \<open>What the code requires of a file before it stores anything, apart from the quota and the scanner.\<close>

definition acceptable :: "env \<Rightarrow> uuid \<Rightarrow> upload_file \<Rightarrow> media_context \<Rightarrow> bool" where
  "acceptable env ownerId fl ctx \<longleftrightarrow>
     f_mimetype fl \<in> set (CONTEXT_MIME_ALLOWLIST ctx)
     \<and> accepted_as (blob_buffer fl) (normalise_mime (f_mimetype fl))
     \<and> 0 \<le> f_size fl \<and> f_size fl \<le> CONTEXT_SIZE_LIMITS ctx
     \<and> checkImageDimensions env (blob_buffer fl) (f_mimetype fl) = Inr ()
     \<and> checkPdfJavaScript (blob_buffer fl) (f_mimetype fl) = Inr ()
     \<and> (ctx = GROUP_ICON \<longrightarrow> confirmed_admin env ownerId)"

lemma wp_authorizeGroupIconUpload:
  "wp (authorizeGroupIconUpload env ctx u)
     (\<lambda>_ _. ctx = GROUP_ICON \<longrightarrow> confirmed_admin env u)
     (\<lambda>_ _. True) w"
proof (cases "ctx = GROUP_ICON")
  case True
  show ?thesis
    unfolding authorizeGroupIconUpload_def using True
    by (simp add: wp_bindE wp_catchE wp_pf wp_throw) (rule wp_isAdmin, auto simp: confirmed_admin_def)
qed (simp add: authorizeGroupIconUpload_def wp_ret)

lemma wp_enforceQuota_size: "wp (enforceQuota env u n) (\<lambda>_ _. 0 \<le> n) (\<lambda>_ _. True) w"
  by (cases "0 \<le> n") (simp_all add: enforceQuota_def checkQuota_def wp_bindE wp_validateBlobSize wp_K wp_True wp_pf wp_True_pf)

lemma enforceContextSizeLimit_Inr: "enforceContextSizeLimit n ctx = Inr () \<longleftrightarrow> n \<le> CONTEXT_SIZE_LIMITS ctx"
  by (auto simp: enforceContextSizeLimit_def Let_def)

lemma check_allowlist_Inr: "check_allowlist fl ctx = Inr () \<longleftrightarrow> f_mimetype fl \<in> set (CONTEXT_MIME_ALLOWLIST ctx)"
  by (simp add: check_allowlist_def)

lemma wp_check: "wp (from_result (r :: exn + unit)) Q R w = (case r of Inl e \<Rightarrow> R e w | Inr _ \<Rightarrow> r = Inr () \<longrightarrow> Q () w)"
  by (auto simp: wp_from_result split: sum.split)

lemma wp_check_upload:
  "wp (check_upload env u fl ctx) (\<lambda>_ _. acceptable env u fl ctx) (\<lambda>_ _. True) w"
proof -
  let ?G = "ctx = GROUP_ICON \<longrightarrow> confirmed_admin env u"
  have rest: "wp (bindE (from_result (enforceContextSizeLimit (f_size fl) ctx)) (\<lambda>_.
     bindE (from_result (validateMagicBytes (blob_buffer fl) (f_mimetype fl))) (\<lambda>_.
     bindE (from_result (check_allowlist fl ctx)) (\<lambda>_.
     bindE (from_result (checkImageDimensions env (blob_buffer fl) (f_mimetype fl))) (\<lambda>_.
     bindE (from_result (checkPdfJavaScript (blob_buffer fl) (f_mimetype fl))) (\<lambda>_.
     checkClamAv env (blob_buffer fl))))))) (\<lambda>_ _. acceptable env u fl ctx) (\<lambda>_ _. True) w1"
    if "?G" "0 \<le> f_size fl" for w1
    using that
    by (auto simp only: wp_bindE wp_check enforceContextSizeLimit_Inr validate_iff_accepted check_allowlist_Inr acceptable_def
        wp_K simp_thms split: sum.split)
  show ?thesis
    unfolding check_upload_def wp_bindE [of "authorizeGroupIconUpload env ctx u"] wp_bindE [of "enforceQuota env u (f_size fl)"]
    by (rule wp_mono [OF wp_authorizeGroupIconUpload])
      (auto simp only: wp_pf intro!: wp_mono [OF wp_enforceQuota_size] rest [unfolded wp_pf])
qed

text \<open>What a refused upload must leave as it was: the media rows, the access log, what every user has used and
  may use, the bucket, the events and the counter of uploads.\<close>

definition kept :: "world \<Rightarrow> media list \<times> access_log list \<times> (uuid \<Rightarrow> usage) \<times> (uuid \<Rightarrow> limits)
    \<times> (string \<Rightarrow> s3_object option) \<times> event list \<times> nat" where
  "kept w = (media_tbl w, log_tbl w, usage_of w, limits_of w, s3 w, published w, uploadsTotal w)"

lemma frame_kept:
  assumes "frame media_tbl m" and "frame log_tbl m" and "frame usage_of m" and "frame limits_of m"
    and "frame s3 m" and "frame published m" and "frame uploadsTotal m"
  shows "frame kept m"
  using assms by (simp add: frame_def kept_def)

lemma accounts_upds [simp]:
  "usage_of (tick w) = usage_of w" "limits_of (tick w) = limits_of w"
  "usage_of (w\<lparr>guc := g\<rparr>) = usage_of w" "limits_of (w\<lparr>guc := g\<rparr>) = limits_of w"
  "usage_of (w\<lparr>cache := c\<rparr>) = usage_of w" "limits_of (w\<lparr>cache := c\<rparr>) = limits_of w"
  "usage_of (w\<lparr>redis := rs\<rparr>) = usage_of w" "limits_of (w\<lparr>redis := rs\<rparr>) = limits_of w"
  "usage_of (w\<lparr>uuids_used := n\<rparr>) = usage_of w" "limits_of (w\<lparr>uuids_used := n\<rparr>) = limits_of w"
  "usage_of (restore_db w0 w) = usage_of w0" "limits_of (restore_db w0 w) = limits_of w0"
  by (rule usage_of_cong limits_of_cong; simp)+

text \<open>A first check creates the default row of the user, which stands for nothing used.\<close>

lemma frame_accounts_insert:
  "frame usage_of (insert_quota_or_ignore env (default_quota env qid u))"
  "frame limits_of (insert_quota_or_ignore env (default_quota env qid u))"
proof -
  have n: "quota_row t u = None" if "\<not> (\<exists>r \<in> set t. q_userId r = u)" for t
    using that by (auto simp: quota_row_def find_None_iff)
  show "frame usage_of (insert_quota_or_ignore env (default_quota env qid u))"
    "frame limits_of (insert_quota_or_ignore env (default_quota env qid u))"
    unfolding insert_quota_or_ignore_def
    by (rule frame_ext; auto simp: frame_def Let_def usage_of_def limits_of_def fun_eq_iff quota_row_append n
        default_quota_def row_usage_def row_limits_def split: option.split)+
qed

lemma frame_accounts_enforceQuota: "frame usage_of (enforceQuota env u n)" "frame limits_of (enforceQuota env u n)"
  unfolding enforceQuota_def checkQuota_def getOrCreateQuota_def fetch_or_insert_quota_def
  by (intro frame_bindE frame_catchE frame_option frame_transaction frame_accounts_insert; (intro frame_intros)?; simp)+

lemma frame_accounts_check: "frame usage_of (check_upload env u fl ctx)" "frame limits_of (check_upload env u fl ctx)"
  unfolding check_upload_def
  by (intro frame_bindE frame_accounts_enforceQuota; (intro frame_intros)?; simp)+

lemma frame_kept_check: "frame kept (check_upload env u fl ctx)"
  by (intro frame_kept frame_accounts_check frame_intros) simp_all

lemma frame_kept_semaphore: "frame kept (acquireSemaphore env u)" "frame kept (releaseSemaphore env u)" "frame kept (refresh env u)"
  by (intro frame_kept frame_intros; simp)+

lemma wp_upload_gate:
  assumes "\<not> acceptable env u fl ctx"
  shows "wp (upload env k u fl ctx t us) (\<lambda>_ _. False) (\<lambda>_ w'. kept w' = kept w) w"
proof -
  have kf: "keeps (\<lambda>w'. kept w' = kept w) m" if "frame kept m" for m :: "'b io"
    using that by (simp add: frame_def keeps_def)
  have work: "wp (upload_work env u fl ctx t us) (\<lambda>_ _. False) (\<lambda>_ w'. kept w' = kept w) w1" if "kept w1 = kept w" for w1
  proof -
    have "wp (check_upload env u fl ctx) (\<lambda>_ w'. kept w' = kept w) (\<lambda>_ w'. kept w' = kept w) w1"
      by (rule keeps_wp_const [OF kf [OF frame_kept_check]]) (use that in auto)
    from wp_conj [OF this wp_check_upload] assms show ?thesis
      unfolding upload_work_def wp_bindE by (auto elim: wp_mono)
  qed
  have rel: "wp (releaseSemaphore env u) (\<lambda>_ w'. kept w' = kept w) (\<lambda>_ w'. kept w' = kept w) w1" if "kept w1 = kept w" for w1
    by (rule keeps_wp_const [OF kf [OF frame_kept_semaphore(2)]]) (use that in auto)
  have run: "wp (runWithSemaphoreTtlRefresh env u k (upload_work env u fl ctx t us)) (\<lambda>_ _. False) (\<lambda>_ w'. kept w' = kept w) w1"
    if "kept w1 = kept w" for w1
  proof -
    have "frame kept (for_each [0..<k] (\<lambda>_. refresh env u))"
      by (intro frame_for_each frame_kept_semaphore)
    then have "wp (for_each [0..<k] (\<lambda>_. refresh env u)) (\<lambda>_ w'. kept w' = kept w) (\<lambda>_ w'. kept w' = kept w) w1"
      by (rule keeps_wp_const [OF kf]) (use that in auto)
    then show ?thesis
      unfolding runWithSemaphoreTtlRefresh_def wp_bindE
      by (rule wp_mono) (auto simp: wp_finallyE wp_pf intro: wp_mono [OF work])
  qed
  have "wp (acquireSemaphore env u) (\<lambda>_ w'. kept w' = kept w) (\<lambda>_ w'. kept w' = kept w) w"
    by (rule keeps_wp_const [OF kf [OF frame_kept_semaphore(1)]]) auto
  then show ?thesis
    unfolding upload_def with_upload_semaphore_def wp_bindE
    by (rule wp_mono) (auto simp: wp_finallyE intro!: wp_mono [OF run] wp_mono [OF rel])
qed

section \<open>Compensation\<close>

lemma storage_delete_calm:
  "calm env \<Longrightarrow> storage_delete env p w = (Inr (), (tick w)\<lparr>s3 := (s3 w)(p := None)\<rparr>)"
  by (simp add: storage_delete_def s3_delete_calm)

lemma persist_failed_calm:
  assumes "calm env"
  shows "wp (persist env m th) (\<lambda>_ _. True)
     (\<lambda>_ w'. media_tbl w' = media_tbl w \<and> quota_tbl w' = quota_tbl w
        \<and> s3 w' = (case th of None \<Rightarrow> (s3 w)(m_storagePath m := None)
             | Some p \<Rightarrow> (s3 w)(m_storagePath m := None, p := None))) w"
proof -
  have "wp (transaction env (save env m)) (\<lambda>_ _. True)
     (\<lambda>_ w'. media_tbl w' = media_tbl w \<and> quota_tbl w' = quota_tbl w \<and> s3 w' = s3 w) w"
    unfolding wp_transaction_calm [OF assms]
    by (auto simp: save_def wp_ext_calm assms wp_def)
  then show ?thesis
    unfolding persist_def wp_catchE
    by (rule wp_mono)
      (auto simp: wp_bindE wp_pf storage_delete_def wp_calm assms wp_ret split: option.split)
qed

section \<open>A new upload\<close>

lemma save_new_calm:
  assumes "calm env" and "acts_as env (m_ownerId m)" and "m_id m \<notin> m_id ` set (media_tbl w)"
  shows "wp (transaction env (save env m)) (\<lambda>_ w'. (\<exists>t. media_tbl w' = media_tbl w @ [m\<lparr>m_createdAt := t, m_updatedAt := t\<rparr>])
        \<and> quota_tbl w' = quota_tbl w \<and> cache w' = cache w \<and> s3 w' = s3 w \<and> published w' = published w)
     (\<lambda>_ _. False) w"
proof -
  have g: "guc (enter_tx env w) = Some (m_ownerId m)"
    using assms(2) by simp
  have "\<not> (\<exists>r \<in> set (media_tbl w). m_id r = m_id m)"
    using assms(3) by (metis imageI)
  with own_writable [OF g, of env] show ?thesis
    unfolding wp_transaction_calm [OF assms(1)]
    by (auto simp: save_def wp_ext_calm assms(1) wp_def)
qed

lemma charge_in_rangeD:
  "0 \<le> q_storageUsed q \<Longrightarrow> 0 \<le> n \<Longrightarrow> q_storageUsed q + n \<le> q_storageLimit q \<Longrightarrow> q_storageLimit q \<le> INT8_MAX \<Longrightarrow>
   0 \<le> q_filesCount q \<Longrightarrow> q_filesCount q < q_filesLimit q \<Longrightarrow> q_filesLimit q \<le> INT4_MAX \<Longrightarrow>
   0 \<le> q_dailyUploads q \<Longrightarrow> q_dailyUploads q < q_dailyUploadLimit q \<Longrightarrow> q_dailyUploadLimit q \<le> INT4_MAX \<Longrightarrow>
   quota_in_range (charge_row n q)"
  by (simp add: quota_in_range_def charge_row_def INT4_MAX_def INT8_MAX_def)

lemma recordUpload_calm_returns:
  assumes "calm env" and "acts_as env u" and "has_row u (quota_tbl w)" and n: "0 \<le> n" "n \<le> MAX_SAFE_INTEGER"
    and r: "\<forall>q \<in> set (quota_tbl w). q_userId q = u \<longrightarrow> quota_in_range (charge_row n q)"
  shows "wp (recordUpload env u n) (\<lambda>_ _. True) (\<lambda>_ _. False) w"
proof -
  have g: "guc (enter_tx env w) = Some u"
    using assms(2) by simp
  have ok: "\<not> (\<exists>q \<in> set (quota_tbl w). q_userId q = u \<and> \<not> quota_in_range (charge_row n q))"
    using r by blast
  have ne: "filter (\<lambda>q. q_userId q = u) (quota_tbl w) \<noteq> []"
    using assms(3) by (auto simp: has_row_def filter_empty_conv)
  have o: "outcome_at env k = Done" for k
    using assms(1) by (simp add: calm_def)
  show ?thesis
    using n ok ne
    by (simp add: recordUpload_def wp_bindE wp_validateBlobSize update_quota_or_fail_def wp_calm assms(1)
        wp_update_quota_own [OF g] o wp_throw_when wp_pf invalidateCache_calm Let_def wp_K)
qed

text \<open>Only quota keys of the cache are touched by the quota's bookkeeping.\<close>

lemma frame_cache_at:
  "k \<noteq> k' \<Longrightarrow> frame (\<lambda>w. cache w k) (cache_set env k' v ttl)"
  "k \<noteq> k' \<Longrightarrow> frame (\<lambda>w. cache w k) (cache_del env k')"
  unfolding cache_set_def cache_del_def by (rule frame_ext; simp add: frame_def)+

lemma frame_cache_recordUpload:
  assumes k: "\<And>v. k \<noteq> quota_cacheKey v"
  shows "frame (\<lambda>w. cache w k) (recordUpload env u n)"
  unfolding recordUpload_def checkAndPublishQuotaAlert_def getOrCreateQuota_def fetch_or_insert_quota_def invalidateCache_def
  by (intro frame_bindE frame_from_result frame_fire_and_forget frame_for_each frame_if frame_option frame_catchE frame_ret
      frame_cache_at [OF k]; (intro frame_intros)?; simp)

lemma dedup_key_not_quota [simp]: "dedup_key u ctx h \<noteq> quota_cacheKey v"
  by (simp add: dedup_key_def quota_cacheKey_def)

lemma frame_recordUpload:
  assumes "\<And>w. g (tick w) = g w" and "\<And>w q. g (w\<lparr>quota_tbl := q\<rparr>) = g w" and "\<And>w u. g (w\<lparr>guc := u\<rparr>) = g w"
    and "\<And>w c. g (w\<lparr>cache := c\<rparr>) = g w" and "\<And>w n. g (w\<lparr>uuids_used := n\<rparr>) = g w" and "\<And>w c. g (w\<lparr>redis := c\<rparr>) = g w"
    and "\<And>w c. g (w\<lparr>published := c\<rparr>) = g w"
    and "(\<forall>w0 w1. g (restore_db w0 w1) = g w1) \<or> (\<forall>w0 w1. g (restore_db w0 w1) = g w0)"
  shows "frame g (recordUpload env u n)"
  unfolding recordUpload_def checkAndPublishQuotaAlert_def using assms by (intro frame_intros)

lemma quota_coherent_put_other:
  assumes "quota_coherent w" and "\<And>u. k \<noteq> quota_cacheKey u"
  shows "quota_coherent (w\<lparr>cache := (cache w)(k := Some v)\<rparr>)"
  using assms cache_kv.agrees_put [of "quota_truth (quota_tbl w)" "cache w" k v]
  by (simp add: quota_coherent_def map_put_def quota_truth_def)

lemma recordUpload_calm_all:
  assumes "calm env" and "acts_as env u" and "quota_coherent w" and "has_row u (quota_tbl w)" and n: "0 \<le> n" "n \<le> MAX_SAFE_INTEGER"
    and "\<forall>q \<in> set (quota_tbl w). q_userId q = u \<longrightarrow> quota_in_range (charge_row n q)" and k: "\<And>v. k \<noteq> quota_cacheKey v"
  shows "wp (recordUpload env u n) (\<lambda>_ w'. usage_of w' = (usage_of w)(u := charge n (usage_of w u))
      \<and> limits_of w' = limits_of w \<and> quota_coherent w' \<and> media_tbl w' = media_tbl w \<and> s3 w' = s3 w \<and> cache w' k = cache w k)
     (\<lambda>_ _. False) w"
proof -
  obtain w' where run: "recordUpload env u n w = (Inr (), w')"
    using recordUpload_calm_returns [OF assms(1,2,4) n assms(7)] by (auto simp: wp_def split: prod.splits sum.splits)
  have f: "f w' = f w" if "frame f (recordUpload env u n)" for f :: "world \<Rightarrow> 'b"
    using that run by (metis frame_def snd_conv)
  have "media_tbl w' = media_tbl w" "s3 w' = s3 w"
    by (rule f, rule frame_recordUpload; simp)+
  moreover have "cache w' k = cache w k"
    by (rule f [OF frame_cache_recordUpload [OF k]])
  ultimately show ?thesis
    using recordUpload_accounts [OF assms(2) run] assms(1,3) run by (simp add: wp_def)
qed

lemma quota_views_upds [simp]:
  "limits_of (tick w) = limits_of w" "limits_of (w\<lparr>published := p\<rparr>) = limits_of w"
  "limits_of (w\<lparr>uploadsTotal := n\<rparr>) = limits_of w" "limits_of (w\<lparr>cache := c\<rparr>) = limits_of w"
  "limits_of (w\<lparr>s3 := b\<rparr>) = limits_of w" "limits_of (w\<lparr>uuids_used := n\<rparr>) = limits_of w"
  "usage_of (tick w) = usage_of w" "usage_of (w\<lparr>published := p\<rparr>) = usage_of w"
  "usage_of (w\<lparr>uploadsTotal := n\<rparr>) = usage_of w" "usage_of (w\<lparr>cache := c\<rparr>) = usage_of w"
  "usage_of (w\<lparr>s3 := b\<rparr>) = usage_of w" "usage_of (w\<lparr>uuids_used := n\<rparr>) = usage_of w"
  "quota_coherent (tick w) = quota_coherent w" "quota_coherent (w\<lparr>published := p\<rparr>) = quota_coherent w"
  "quota_coherent (w\<lparr>uploadsTotal := n\<rparr>) = quota_coherent w" "quota_coherent (w\<lparr>s3 := b\<rparr>) = quota_coherent w"
  "quota_coherent (w\<lparr>uuids_used := n\<rparr>) = quota_coherent w"
  by (simp_all add: usage_of_def limits_of_def quota_coherent_def fun_eq_iff)

text \<open>Building the response changes nothing.\<close>

definition signed_path :: "env \<Rightarrow> string option \<Rightarrow> millis \<Rightarrow> string option" where
  "signed_path env path t = (if truthy path then Some (presigned env (the path) (signedUrlExpirySeconds env) t) else None)"

definition response_at :: "env \<Rightarrow> media \<Rightarrow> millis \<Rightarrow> upload_response" where
  "response_at env m t = \<lparr>media_id = m_id m, url = signed_path env (Some (m_storagePath m)) t,
     thumbnail_url = signed_path env (m_thumbnailPath m) t, expires_at = t + signedUrlExpirySeconds env * 1000,
     r_context = m_context m, r_size = m_blobSize m\<rparr>"

lemma buildUploadResponse_run: "buildUploadResponse env m w = (Inr (response_at env m (now env w)), w)"
  by (simp add: buildUploadResponse_def presign_opt_def generatePresignedUrl_def response_at_def signed_path_def
      run_simps)

lemma wp_buildUploadResponse: "wp (buildUploadResponse env m) Q R w = Q (response_at env m (now env w)) w"
  by (simp add: wp_def buildUploadResponse_run)

lemma after_saved_calm:
  assumes "calm env" and "acts_as env (m_ownerId m)" and "quota_coherent w" and "has_row (m_ownerId m) (quota_tbl w)"
    and n: "0 \<le> m_blobSize m" "m_blobSize m \<le> MAX_SAFE_INTEGER"
    and "\<forall>q \<in> set (quota_tbl w). q_userId q = m_ownerId m \<longrightarrow> quota_in_range (charge_row (m_blobSize m) q)"
    and k: "\<And>v. k \<noteq> quota_cacheKey v"
  shows "wp (after_saved env k m) (\<lambda>resp w'. (\<exists>t. resp = response_at env m t)
      \<and> usage_of w' = (usage_of w)(m_ownerId m := charge (m_blobSize m) (usage_of w (m_ownerId m)))
      \<and> limits_of w' = limits_of w \<and> quota_coherent w' \<and> media_tbl w' = media_tbl w \<and> s3 w' = s3 w
      \<and> (\<exists>until. cache w' k = Some (CStr (m_id m), until)))
     (\<lambda>_ _. False) w"
proof -
  have qc: "quota_coherent ((tick w)\<lparr>cache := (cache w)(k := Some v)\<rparr>)" for v
    using quota_coherent_put_other [of "tick w" k v] assms(3) k by (simp add: quota_coherent_def)
  have rec: "wp (recordUpload env (m_ownerId m) (m_blobSize m))
      (\<lambda>_ w'. usage_of w' = (usage_of w)(m_ownerId m := charge (m_blobSize m) (usage_of w (m_ownerId m)))
        \<and> limits_of w' = limits_of w \<and> quota_coherent w' \<and> media_tbl w' = media_tbl w \<and> s3 w' = s3 w
        \<and> (\<exists>until. cache w' k = Some (CStr (m_id m), until))) (\<lambda>_ _. False)
      ((tick w)\<lparr>cache := (cache w)(k := Some (CStr (m_id m), until))\<rparr>)" for until
    by (rule wp_mono [OF recordUpload_calm_all [OF assms(1,2) qc _ n _ k]]) (use assms(4,7) in \<open>simp_all\<close>)
  show ?thesis
    unfolding after_saved_def wp_bindE wp_cache_set_calm [OF assms(1)]
    by (rule wp_mono [OF rec])
      (auto simp: wp_pf inc_uploads_def wp_calm assms(1) wp_buildUploadResponse)
qed

text \<open>The semaphore touches nothing but Redis.\<close>

definition core :: "world \<Rightarrow> world" where
  "core w = w\<lparr>ticks := 0, redis := (\<lambda>_. None)\<rparr>"

lemma core_upds [simp]: "core (tick w) = core w" "core (w\<lparr>redis := c\<rparr>) = core w"
  by (simp_all add: core_def tick_def)

lemma with_semaphore_lift:
  assumes "calm env" and "within_ttl env" and "sem_fresh env w u" and "raw_count w u < 3"
    and f: "frame (\<lambda>w. redis w (semaphore_key u)) m"
    and c: "\<And>x w1 w2. core w1 = core w2 \<Longrightarrow> Q x w1 = Q x w2"
    and m: "\<And>w1. core w1 = core w \<Longrightarrow> wp m Q (\<lambda>_ _. False) w1"
  shows "wp (with_upload_semaphore env u k m) Q (\<lambda>_ _. False) w"
proof -
  have kc: "wp a (\<lambda>_ w'. core w' = core v) (\<lambda>_ w'. core w' = core v) v" if "frame core a" for a :: "'b io" and v
    using that by (simp add: wp_const frame_def)
  have fr: "frame core (acquireSemaphore env u)" "frame core (releaseSemaphore env u)" "frame core (refresh env u)"
    by (intro frame_intros; simp)+
  have acq: "wp (acquireSemaphore env u) (\<lambda>_ w1. core w1 = core w \<and> sem_fresh env w1 u) (\<lambda>_ _. False) w"
    by (rule wp_mono [OF wp_conj [OF acquire_calm [OF assms(1-3)] kc [OF fr(1)]]]) (use assms(4) in auto)
  have rel: "wp (releaseSemaphore env u) (\<lambda>_. Q x) (\<lambda>_ _. False) w1" if "Q x w1" "sem_fresh env w1 u" for x w1
  proof (rule wp_mono [OF wp_conj [OF release_calm [OF assms(1) that(2)] kc [OF fr(2)]]])
    fix y and w2 :: world
    assume "(raw_count w2 u = max 0 (raw_count w1 u - 1) \<and> sem_fresh env w2 u) \<and> core w2 = core w1"
    then have "core w2 = core w1" by blast
    from c [OF this] that(1) show "Q x w2" by blast
  qed auto
  have fresh_m: "wp m (\<lambda>_ w'. sem_fresh env w' u) (\<lambda>_ w'. sem_fresh env w' u) w1" if "sem_fresh env w1 u" for w1
    using that f by (simp add: wp_const frame_def sem_fresh_def)
  have work: "wp m (\<lambda>x w'. Q x w' \<and> sem_fresh env w' u) (\<lambda>_ _. False) w1"
    if "core w1 = core w" "sem_fresh env w1 u" for w1
    by (rule wp_mono [OF wp_conj [OF m [OF that(1)] fresh_m [OF that(2)]]]) auto
  have ref: "wp (for_each [0..<k] (\<lambda>_. refresh env u)) (\<lambda>_ w1. core w1 = core w \<and> sem_fresh env w1 u) (\<lambda>_ _. False) w1"
    if "core w1 = core w \<and> sem_fresh env w1 u" for w1
  proof (rule wp_for_each [where I = "\<lambda>w1. core w1 = core w \<and> sem_fresh env w1 u"])
    fix x and v :: world
    assume "core v = core w \<and> sem_fresh env v u"
    moreover have "wp (refresh env u) (\<lambda>_ v'. sem_fresh env v' u) (\<lambda>_ v'. sem_fresh env v' u) v" if "sem_fresh env v u"
      by (rule keeps_wp_const [OF refresh_calm [OF assms(1,2)]]) (use that in auto)
    moreover have "wp (refresh env u) (\<lambda>_ _. True) (\<lambda>_ _. False) v"
      by (simp add: refresh_def wp_catchE wp_pf wp_True)
    ultimately show "wp (refresh env u) (\<lambda>_ w1. core w1 = core w \<and> sem_fresh env w1 u) (\<lambda>_ _. False) v"
      using kc [OF fr(3), of v] by (auto simp: wp_def split: prod.splits sum.splits)
  qed (rule that)
  show ?thesis
    unfolding with_upload_semaphore_def runWithSemaphoreTtlRefresh_def wp_bindE wp_finallyE
    by (rule wp_mono [OF acq])
      (auto simp: wp_finallyE wp_pf intro!: wp_mono [OF ref] wp_mono [OF work] rel)
qed

text \<open>The quota check of an upload that fits.\<close>

definition roomy :: "world \<Rightarrow> uuid \<Rightarrow> int \<Rightarrow> bool" where
  "roomy w u n \<longleftrightarrow> distinct (map q_userId (quota_tbl w)) \<and> within (limits_of w u) (usage_of w u)
     \<and> admits (limits_of w u) (usage_of w u) n
     \<and> lim_storage (limits_of w u) \<le> INT8_MAX \<and> lim_files (limits_of w u) \<le> INT4_MAX \<and> lim_daily (limits_of w u) \<le> INT4_MAX"

lemma roomy_row_in_range:
  assumes "distinct (map q_userId t)" and "quota_row t u = Some q" and "row_usage q = x" and "row_limits q = l"
    and "within l x" and "admits l x n" and "0 \<le> n"
    and "lim_storage l \<le> INT8_MAX" and "lim_files l \<le> INT4_MAX" and "lim_daily l \<le> INT4_MAX"
  shows "\<forall>q \<in> set t. q_userId q = u \<longrightarrow> quota_in_range (charge_row n q)"
proof (intro ballI impI)
  fix r
  assume r: "r \<in> set t" "q_userId r = u"
  have "q \<in> set t" "q_userId q = u"
    using assms(2) by (auto simp: quota_row_def dest: find_Some_in)
  then have "r = q"
    using distinct_key_eq [OF assms(1) r(1)] r(2) by simp
  then show "quota_in_range (charge_row n r)"
    using assms(3-) by (intro charge_in_rangeD) (auto simp: within_def admits_def row_usage_def row_limits_def)
qed

lemma enforceQuota_roomy:
  assumes "calm env" and "acts_as env u" and "quota_coherent w" and n: "0 \<le> n" "n \<le> MAX_SAFE_INTEGER" and r: "roomy w u n"
    and k: "\<And>v. k \<noteq> quota_cacheKey v"
  shows "wp (enforceQuota env u n) (\<lambda>_ w'. usage_of w' = usage_of w \<and> limits_of w' = limits_of w \<and> quota_coherent w' \<and> has_row u (quota_tbl w')
        \<and> (\<forall>q \<in> set (quota_tbl w'). q_userId q = u \<longrightarrow> quota_in_range (charge_row n q))
        \<and> media_tbl w' = media_tbl w \<and> s3 w' = s3 w \<and> cache w' k = cache w k)
     (\<lambda>_ _. False) w"
proof -
  have fk: "frame (\<lambda>w. cache w k) (getOrCreateQuota env u)"
    unfolding getOrCreateQuota_def fetch_or_insert_quota_def
    by (intro frame_bindE frame_from_result frame_option frame_catchE frame_ret frame_cache_at [OF k]; (intro frame_intros)?; simp)
  have "wp (getOrCreateQuota env u) (\<lambda>_ w'. cache w' k = cache w k) (\<lambda>_ w'. cache w' k = cache w k) w"
    using fk by (simp add: wp_const frame_def)
  note g = wp_conj [OF getOrCreateQuota_calm [OF assms(1-3)] this]
  have ok: "allowed (quota_decision q n)"
      "has_row u (quota_tbl w')" "\<forall>q \<in> set (quota_tbl w'). q_userId q = u \<longrightarrow> quota_in_range (charge_row n q)"
      "usage_of w' = usage_of w" "limits_of w' = limits_of w"
    if q: "quota_read u q (quota_tbl w) (quota_tbl w')" for q w'
  proof -
    note a = quota_read_accounts [OF q]
    show "allowed (quota_decision q n)"
      using r a by (simp add: quota_decision_admits roomy_def)
    show "has_row u (quota_tbl w')"
      using quota_read_row [OF q] quota_row_None [of "quota_tbl w'" u] by simp
    have "distinct (map q_userId (quota_tbl w'))"
      using q r by (auto simp: quota_read_def roomy_def quota_row_None has_row_def image_iff)
    then show "\<forall>q \<in> set (quota_tbl w'). q_userId q = u \<longrightarrow> quota_in_range (charge_row n q)"
      using r n a quota_read_row [OF q]
      by (intro roomy_row_in_range [of _ u q "usage_of w u" "limits_of w u"]) (auto simp: roomy_def)
    show "usage_of w' = usage_of w" "limits_of w' = limits_of w"
      by (rule a)+
  qed
  show ?thesis
    using n
    by (simp add: enforceQuota_def checkQuota_def wp_bindE wp_validateBlobSize wp_pf)
      (rule wp_mono [OF g], use ok in \<open>auto simp: wp_pf\<close>)
qed

definition object_path :: "media_context \<Rightarrow> uuid \<Rightarrow> uuid \<Rightarrow> string" where
  "object_path ctx u mid =
     (case ctx of
        MESSAGE \<Rightarrow> ''messages/'' @ u @ ''/'' @ mid @ ''.bin''
      | AVATAR \<Rightarrow> ''avatars/'' @ u @ ''/'' @ mid
      | GROUP_ICON \<Rightarrow> ''group_icons/'' @ u @ ''/'' @ mid)"

definition thumb_path :: "upload_file option \<Rightarrow> uuid \<Rightarrow> string option" where
  "thumb_path tf mid = map_option (\<lambda>_. ''thumbnails/'' @ mid @ ''.bin'') tf"

lemma buildPath_object:
  "UUID_PATTERN u \<Longrightarrow> UUID_PATTERN mid \<Longrightarrow> buildPath (contextToStorageContext ctx) u mid = Inr (object_path ctx u mid)"
  by (cases ctx) (simp_all add: buildPath_def object_path_def)

lemma buildPath_thumbnail:
  "UUID_PATTERN u \<Longrightarrow> UUID_PATTERN mid \<Longrightarrow> buildPath ''thumbnails'' u mid = Inr (''thumbnails/'' @ mid @ ''.bin'')"
  by (simp add: buildPath_def)

definition thumb_ok :: "upload_file option \<Rightarrow> bool" where
  "thumb_ok tf \<longleftrightarrow> (case tf of None \<Rightarrow> True | Some t \<Rightarrow> check_thumbnail t = Inr ())"

text \<open>The bucket with the blob and, if there is one, the thumbnail.\<close>

definition with_objects :: "media \<Rightarrow> upload_file \<Rightarrow> upload_file option \<Rightarrow> (string \<Rightarrow> s3_object option) \<Rightarrow> string \<Rightarrow> s3_object option" where
  "with_objects row fl tf b =
     (let b' = b(m_storagePath row := Some \<lparr>o_body = blob_stream fl, o_contentType = f_mimetype fl\<rparr>) in
      case (tf, m_thumbnailPath row) of
        (Some t, Some p) \<Rightarrow> b'(p := Some \<lparr>o_body = blob_stream t, o_contentType = f_mimetype t\<rparr>)
      | _ \<Rightarrow> b')"

text \<open>A new row for this request, and everything that goes with it.\<close>

definition row_for :: "env \<Rightarrow> uuid \<Rightarrow> upload_file \<Rightarrow> media_context \<Rightarrow> upload_file option \<Rightarrow> uuid list option \<Rightarrow> media \<Rightarrow> bool" where
  "row_for env u fl ctx tf us row \<longleftrightarrow>
     (\<exists>mid n t t'. mid = uuid_at env n
        \<and> row = (new_media env mid u ctx fl (object_path ctx u mid) (thumb_path tf mid) us t)\<lparr>m_createdAt := t', m_updatedAt := t'\<rparr>)"

definition stored_new :: "env \<Rightarrow> uuid \<Rightarrow> upload_file \<Rightarrow> media_context \<Rightarrow> upload_file option \<Rightarrow> uuid list option
    \<Rightarrow> string \<Rightarrow> world \<Rightarrow> upload_response \<Rightarrow> world \<Rightarrow> bool" where
  "stored_new env u fl ctx tf us key w resp w' \<longleftrightarrow>
     (\<exists>row t. row_for env u fl ctx tf us row \<and> resp = response_at env row t
        \<and> media_tbl w' = media_tbl w @ [row] \<and> s3 w' = with_objects row fl tf (s3 w)
        \<and> usage_of w' = (usage_of w)(u := charge (f_size fl) (usage_of w u)) \<and> limits_of w' = limits_of w \<and> quota_coherent w'
        \<and> (\<exists>until. cache w' key = Some (CStr (m_id row), until)))"

definition fresh_ids :: "env \<Rightarrow> world \<Rightarrow> bool" where
  "fresh_ids env w \<longleftrightarrow> (\<forall>n. UUID_PATTERN (uuid_at env n) \<and> uuid_at env n \<notin> m_id ` set (media_tbl w))"

lemma new_media_simps [simp]:
  "m_id (new_media env mid u ctx fl p tp us t) = mid" "m_ownerId (new_media env mid u ctx fl p tp us t) = u"
  "m_storagePath (new_media env mid u ctx fl p tp us t) = p" "m_thumbnailPath (new_media env mid u ctx fl p tp us t) = tp"
  "m_blobSize (new_media env mid u ctx fl p tp us t) = f_size fl"
  by (simp_all add: new_media_def)

lemma response_at_stamp [simp]:
  "response_at env (m\<lparr>m_createdAt := a, m_updatedAt := b\<rparr>) t = response_at env m t"
  by (simp add: response_at_def)

text \<open>From the uploaded objects to the response.\<close>

lemma after_saved_stored:
  assumes "calm env" and "acts_as env u" and "quota_coherent w" and "has_row u (quota_tbl w)"
    and n: "0 \<le> f_size fl" "f_size fl \<le> MAX_SAFE_INTEGER"
    and r: "\<forall>q \<in> set (quota_tbl w). q_userId q = u \<longrightarrow> quota_in_range (charge_row (f_size fl) q)"
    and k: "\<And>v. key \<noteq> quota_cacheKey v"
    and row: "row_for env u fl ctx tf us row" "m\<lparr>m_createdAt := a, m_updatedAt := b\<rparr> = row"
    and w2: "media_tbl w2 = media_tbl w @ [row]" "quota_tbl w2 = quota_tbl w" "cache w2 = cache w"
      "s3 w2 = with_objects row fl tf (s3 w)"
  shows "wp (after_saved env key m) (stored_new env u fl ctx tf us key w) (\<lambda>_ _. False) w2"
proof -
  have m: "m_ownerId m = u" "m_blobSize m = f_size fl" "m_id m = m_id row" "response_at env m = response_at env row"
    using row by (auto simp: row_for_def fun_eq_iff new_media_def dest: arg_cong [where f = m_ownerId]
        arg_cong [where f = m_blobSize] arg_cong [where f = m_id])
  have c2: "quota_coherent w2"
    using assms(3) quota_coherent_cong [OF w2(2,3)] by simp
  show ?thesis
    by (rule wp_mono [OF after_saved_calm [OF assms(1) _ c2 _ _ _ _ k]])
      (use assms(2,4) n r w2 row(1) in \<open>auto simp: m stored_new_def usage_of_cong [OF w2(2)] limits_of_cong [OF w2(2)]\<close>)
qed

lemma persist_stored:
  assumes "calm env" and "acts_as env u" and "quota_coherent w" and "has_row u (quota_tbl w)"
    and n: "0 \<le> f_size fl" "f_size fl \<le> MAX_SAFE_INTEGER"
    and r: "\<forall>q \<in> set (quota_tbl w). q_userId q = u \<longrightarrow> quota_in_range (charge_row (f_size fl) q)"
    and k: "\<And>v. key \<noteq> quota_cacheKey v" and f: "fresh_ids env w"
    and m: "m = new_media env mid u ctx fl (object_path ctx u mid) (thumb_path tf mid) us t" "mid = uuid_at env i"
    and w1: "media_tbl w1 = media_tbl w" "quota_tbl w1 = quota_tbl w" "cache w1 = cache w"
      "s3 w1 = with_objects m fl tf (s3 w)"
  shows "wp (bindE (persist env m (thumb_path tf mid)) (\<lambda>_. after_saved env key m))
     (stored_new env u fl ctx tf us key w) (\<lambda>_ _. False) w1"
  unfolding wp_bindE persist_def wp_catchE
proof (rule wp_mono [OF save_new_calm [OF assms(1)]])
  show "m_id m \<notin> m_id ` set (media_tbl w1)" "acts_as env (m_ownerId m)"
    using f m w1 assms(2) by (simp_all add: fresh_ids_def)
next
  fix x :: unit and w2 :: world
  assume *: "(\<exists>t. media_tbl w2 = media_tbl w1 @ [m\<lparr>m_createdAt := t, m_updatedAt := t\<rparr>]) \<and> quota_tbl w2 = quota_tbl w1
     \<and> cache w2 = cache w1 \<and> s3 w2 = s3 w1 \<and> published w2 = published w1"
  then obtain t' where w2: "media_tbl w2 = media_tbl w1 @ [m\<lparr>m_createdAt := t', m_updatedAt := t'\<rparr>]" by blast
  have row: "row_for env u fl ctx tf us (m\<lparr>m_createdAt := t', m_updatedAt := t'\<rparr>)"
    using m unfolding row_for_def by blast
  show "wp (after_saved env key m) (stored_new env u fl ctx tf us key w) (\<lambda>_ _. False) w2"
    by (rule after_saved_stored [OF assms(1-4) n r k row refl]) (use * w1 w2 in \<open>simp_all add: with_objects_def\<close>)
qed auto

lemma upload_thumbnail_calm:
  assumes "calm env" and "UUID_PATTERN u" and "UUID_PATTERN mid" and "thumb_ok tf"
  shows "wp (upload_thumbnail env u mid tf) Q R w =
     (case tf of
        None \<Rightarrow> Q (thumb_path tf mid) w
      | Some th \<Rightarrow> Q (thumb_path tf mid) ((tick w)\<lparr>s3 := (s3 w)(''thumbnails/'' @ mid @ ''.bin'' :=
            Some \<lparr>o_body = blob_stream th, o_contentType = f_mimetype th\<rparr>)\<rparr>))"
  using assms
  by (auto simp: upload_thumbnail_def thumb_ok_def thumb_path_def wp_bindE wp_from_result wp_pf buildPath_thumbnail
      storage_upload_def wp_calm wp_ret split: option.split)

lemma store_new_calm:
  assumes "calm env" and "acts_as env u" and "quota_coherent w" and "has_row u (quota_tbl w)"
    and n: "0 \<le> f_size fl" "f_size fl \<le> MAX_SAFE_INTEGER"
    and r: "\<forall>q \<in> set (quota_tbl w). q_userId q = u \<longrightarrow> quota_in_range (charge_row (f_size fl) q)"
    and k: "\<And>v. key \<noteq> quota_cacheKey v" and u: "UUID_PATTERN u" and f: "fresh_ids env w" and t: "thumb_ok tf"
  shows "wp (store_new env key u fl ctx tf us) (stored_new env u fl ctx tf us key w) (\<lambda>_ _. False) w"
proof -
  define mid where "mid = uuid_at env (uuids_used w)"
  have mid: "UUID_PATTERN mid"
    using f by (simp add: fresh_ids_def mid_def)
  note p = persist_stored [OF assms(1-4) n r k f refl mid_def, unfolded wp_bindE, where tf = tf]
  show ?thesis
    unfolding store_new_def wp_bindE wp_randomUUID mid_def [symmetric] buildPath_object [OF u mid] wp_from_result sum.case
      wp_gets storage_upload_def wp_s3_put_calm [OF assms(1)] wp_pf upload_thumbnail_calm [OF assms(1) u mid t]
    by (split option.split, intro conjI allI impI; rule p; simp add: with_objects_def thumb_path_def)
qed

section \<open>Undisturbed uploads\<close>

text \<open>What an upload needs to be served: an acceptable file, room in the quota, no scanner.\<close>

definition servable :: "env \<Rightarrow> world \<Rightarrow> uuid \<Rightarrow> upload_file \<Rightarrow> media_context \<Rightarrow> bool" where
  "servable env w u fl ctx \<longleftrightarrow> acceptable env u fl ctx \<and> ctx \<noteq> GROUP_ICON \<and> cfg_CLAMAV_HOST (cfg env) = None
     \<and> roomy w u (f_size fl) \<and> quota_coherent w"

lemma CONTEXT_SIZE_LIMITS_safe: "CONTEXT_SIZE_LIMITS ctx \<le> MAX_SAFE_INTEGER"
  by (cases ctx) (simp_all add: MAX_SAFE_INTEGER_def)

lemma check_upload_calm:
  assumes "calm env" and "acts_as env u" and s: "servable env w u fl ctx" and k: "\<And>v. k \<noteq> quota_cacheKey v"
  shows "wp (check_upload env u fl ctx) (\<lambda>_ w'. usage_of w' = usage_of w \<and> limits_of w' = limits_of w \<and> quota_coherent w' \<and> has_row u (quota_tbl w')
        \<and> (\<forall>q \<in> set (quota_tbl w'). q_userId q = u \<longrightarrow> quota_in_range (charge_row (f_size fl) q))
        \<and> media_tbl w' = media_tbl w \<and> s3 w' = s3 w \<and> cache w' k = cache w k)
     (\<lambda>_ _. False) w"
proof -
  have a: "acceptable env u fl ctx" "ctx \<noteq> GROUP_ICON" "cfg_CLAMAV_HOST (cfg env) = None"
    "roomy w u (f_size fl)" "quota_coherent w"
    using s by (simp_all add: servable_def)
  have n: "0 \<le> f_size fl" "f_size fl \<le> MAX_SAFE_INTEGER"
    using a(1) CONTEXT_SIZE_LIMITS_safe [of ctx] by (auto simp: acceptable_def)
  have checks: "enforceContextSizeLimit (f_size fl) ctx = Inr ()" "check_allowlist fl ctx = Inr ()"
    "validateMagicBytes (blob_buffer fl) (f_mimetype fl) = Inr ()"
    "checkImageDimensions env (blob_buffer fl) (f_mimetype fl) = Inr ()"
    "checkPdfJavaScript (blob_buffer fl) (f_mimetype fl) = Inr ()"
    using a(1) by (simp_all add: acceptable_def enforceContextSizeLimit_Inr check_allowlist_Inr validate_iff_accepted)
  show ?thesis
    unfolding check_upload_def authorizeGroupIconUpload_def
    using wp_mono [OF enforceQuota_roomy [OF assms(1,2) a(5) n a(4) k]]
    by (simp add: a(2,3) wp_bindE wp_ret checks wp_from_result wp_pf checkClamAv_def)
qed

lemma try_dedup_miss:
  assumes "calm env" and "cache w key = None"
  shows "wp (try_dedup env key us) Q R w = Q None (tick w)"
  using assms by (simp add: try_dedup_def wp_bindE wp_calm cache_find_def cached_id_def wp_pf)

lemma stored_new_same:
  assumes "media_tbl w1 = media_tbl w" and "s3 w1 = s3 w" and "usage_of w1 = usage_of w" and "limits_of w1 = limits_of w"
  shows "stored_new env u fl ctx tf us key w1 = stored_new env u fl ctx tf us key w"
  by (intro ext) (simp add: stored_new_def assms)

lemma upload_work_new:
  assumes "calm env" and "acts_as env u" and s: "servable env w u fl ctx" and "UUID_PATTERN u" and "fresh_ids env w"
    and "thumb_ok tf" and key: "key = dedup_key u ctx (sha256_hex env (blob_buffer fl))" and "cache w key = None"
  shows "wp (upload_work env u fl ctx tf us) (stored_new env u fl ctx tf us key w) (\<lambda>_ _. False) w"
proof -
  have n: "0 \<le> f_size fl" "f_size fl \<le> MAX_SAFE_INTEGER"
    using s CONTEXT_SIZE_LIMITS_safe [of ctx] by (auto simp: servable_def acceptable_def)
  have k: "\<And>v. key \<noteq> quota_cacheKey v"
    by (simp add: key)
  have rest: "wp (store_new env key u fl ctx tf us) (stored_new env u fl ctx tf us key w) (\<lambda>_ _. False) (tick w1)"
    if "usage_of w1 = usage_of w \<and> limits_of w1 = limits_of w \<and> quota_coherent w1 \<and> has_row u (quota_tbl w1)
        \<and> (\<forall>q \<in> set (quota_tbl w1). q_userId q = u \<longrightarrow> quota_in_range (charge_row (f_size fl) q))
        \<and> media_tbl w1 = media_tbl w \<and> s3 w1 = s3 w \<and> cache w1 key = cache w key" for w1
  proof -
    have "usage_of (tick w1) = usage_of w" "limits_of (tick w1) = limits_of w" "quota_coherent (tick w1)"
      using that usage_of_cong [of "tick w1" w1] quota_coherent_cong [of "tick w1" w1] by simp_all
    then have same: "stored_new env u fl ctx tf us key (tick w1) = stored_new env u fl ctx tf us key w"
      using that by (intro stored_new_same) simp_all
    have "fresh_ids env (tick w1)"
      using that assms(5) by (simp add: fresh_ids_def)
    from store_new_calm [OF assms(1,2) \<open>quota_coherent (tick w1)\<close> _ n _ k assms(4) this assms(6), where us = us and ctx = ctx]
    show ?thesis
      using that unfolding same by simp
  qed
  show ?thesis
    unfolding upload_work_def wp_bindE Let_def key [symmetric]
    by (rule wp_mono [OF check_upload_calm [OF assms(1-3) k]])
      (use rest assms(8) in \<open>simp_all add: wp_pf try_dedup_miss [OF assms(1)]\<close>)
qed

lemma stored_new_core:
  assumes "core w1 = core w2"
  shows "stored_new env u fl ctx tf us key w resp w1 = stored_new env u fl ctx tf us key w resp w2"
proof -
  have "media_tbl w1 = media_tbl w2" "s3 w1 = s3 w2" "cache w1 = cache w2" "quota_tbl w1 = quota_tbl w2"
    using assms by (auto simp: core_def dest: arg_cong [where f = media_tbl] arg_cong [where f = s3]
        arg_cong [where f = cache] arg_cong [where f = quota_tbl])
  then show ?thesis
    using usage_of_cong [of w1 w2] limits_of_cong [of w1 w2] quota_coherent_cong [of w1 w2] by (simp add: stored_new_def)
qed

lemma core_eqD:
  assumes "core w1 = core w2"
  shows "media_tbl w1 = media_tbl w2" and "s3 w1 = s3 w2" and "cache w1 = cache w2" and "quota_tbl w1 = quota_tbl w2"
    and "published w1 = published w2"
  using assms by (auto simp: core_def dest: arg_cong [where f = media_tbl] arg_cong [where f = s3]
      arg_cong [where f = cache] arg_cong [where f = quota_tbl] arg_cong [where f = published])

lemma servable_core: "core w1 = core w2 \<Longrightarrow> servable env w1 u fl ctx = servable env w2 u fl ctx"
  using core_eqD [of w1 w2] usage_of_cong [of w1 w2] limits_of_cong [of w1 w2] quota_coherent_cong [of w1 w2]
  by (simp add: servable_def roomy_def)

lemma upload_new_calm:
  assumes "calm env" and "within_ttl env" and "sem_fresh env w u" and "sem_count env w u < 3"
    and "acts_as env u" and s: "servable env w u fl ctx" and "UUID_PATTERN u" and "fresh_ids env w"
    and "thumb_ok tf" and key: "key = dedup_key u ctx (sha256_hex env (blob_buffer fl))" and "cache w key = None"
  shows "wp (upload env firings u fl ctx tf us) (stored_new env u fl ctx tf us key w) (\<lambda>_ _. False) w"
  unfolding upload_def
proof (rule with_semaphore_lift [OF assms(1-3) _ frame_semaphore_work])
  show "raw_count w u < 3"
    using assms(3,4) sem_count_raw by simp
  show "wp (upload_work env u fl ctx tf us) (stored_new env u fl ctx tf us key w) (\<lambda>_ _. False) w1"
    if c: "core w1 = core w" for w1
  proof -
    have "stored_new env u fl ctx tf us key w1 = stored_new env u fl ctx tf us key w"
      using core_eqD [OF c] by (intro stored_new_same usage_of_cong limits_of_cong) simp_all
    moreover have "fresh_ids env w1" "cache w1 key = None"
      using core_eqD [OF c] assms(8,11) by (simp_all add: fresh_ids_def)
    ultimately show ?thesis
      using upload_work_new [OF assms(1,5) _ assms(7) _ assms(9) key, of w1 us] s servable_core [OF c] by simp
  qed
qed (rule stored_new_core)

section \<open>Repeated uploads\<close>

text \<open>The row with the readers of a repeated upload added.\<close>

definition widened :: "media \<Rightarrow> uuid list option \<Rightarrow> media \<Rightarrow> bool" where
  "widened r us r' \<longleftrightarrow> r' = r\<lparr>m_sharedWith := m_sharedWith r', m_updatedAt := m_updatedAt r'\<rparr>
     \<and> set (current_readers r') = set (current_readers r)
          \<union> {v \<in> set (case us of None \<Rightarrow> [] | Some vs \<Rightarrow> vs). v \<noteq> [] \<and> v \<noteq> m_ownerId r}"

definition reused :: "env \<Rightarrow> media \<Rightarrow> uuid list option \<Rightarrow> world \<Rightarrow> upload_response \<Rightarrow> world \<Rightarrow> bool" where
  "reused env r us w resp w' \<longleftrightarrow>
     (\<exists>r' t. widened r us r' \<and> resp = response_at env r t \<and> media_tbl w' = with_row (m_id r) (\<lambda>_. r') (media_tbl w)
        \<and> s3 w' = s3 w \<and> usage_of w' = usage_of w)"

lemma with_row_same:
  assumes "distinct (map m_id rows)" and "r \<in> set rows"
  shows "with_row (m_id r) f rows = with_row (m_id r) (\<lambda>_. f r) rows"
    and "with_row (m_id r) (\<lambda>_. r) rows = rows"
proof -
  have "x = r" if "x \<in> set rows" "m_id x = m_id r" for x
    by (rule distinct_key_eq [OF assms(1) that(1) assms(2) that(2)])
  then have "x \<in> set rows \<Longrightarrow> m_id x = m_id r \<Longrightarrow> r = x" for x
    by metis
  then show "with_row (m_id r) f rows = with_row (m_id r) (\<lambda>_. f r) rows" "with_row (m_id r) (\<lambda>_. r) rows = rows"
    by (auto simp: with_row_def update_where_def intro!: map_idI)
qed

lemma merge_readers_calm:
  assumes "calm env" and "acts_as env (m_ownerId r)" and d: "distinct (map m_id (media_tbl w))"
    and r: "r \<in> set (media_tbl w)" and "distinct (current_readers r)"
  shows "wp (merge_readers env r us)
     (\<lambda>x w'. response_at env x = response_at env r
        \<and> (\<exists>r'. widened r us r' \<and> media_tbl w' = with_row (m_id r) (\<lambda>_. r') (media_tbl w)))
     (\<lambda>_ _. False) w"
proof -
  have same: "widened r us r \<Longrightarrow> \<exists>r'. widened r us r' \<and> media_tbl w = with_row (m_id r) (\<lambda>_. r') (media_tbl w)"
    using with_row_same(2) [OF d r] by auto
  have g: "guc (enter_tx env w) = Some (m_ownerId r)"
    using assms(2) by simp
  have up: "update_where (\<lambda>x. m_id x = m_id r \<and> media_writable env (enter_tx env w) x) h (media_tbl w)
      = with_row (m_id r) (\<lambda>_. h r) (media_tbl w)" for h
    using update_own [OF d r refl own_writable [OF g]] with_row_same(1) [OF d r] by metis
  have resp: "response_at env (r\<lparr>m_sharedWith := v\<rparr>) = response_at env r" for v
    by (simp add: response_at_def fun_eq_iff)
  show ?thesis
  proof (cases "us = None \<or> us = Some []")
    case True
    then have "widened r us r" by (auto simp: widened_def)
    with same True show ?thesis
      by (auto simp: merge_readers_def wp_ret)
  next
    case False
    then obtain vs where vs: "us = Some vs" "vs \<noteq> []" by auto
    show ?thesis
    proof (cases "length (share_union r vs) = length (current_readers r)")
      case True
      then have "set (share_union r vs) = set (current_readers r)"
        using share_union_same_length [of r vs] assms(5) by (simp add: set_of_list_id)
      then have "widened r us r"
        using vs by (auto simp: widened_def set_share_union)
      with same True vs show ?thesis
        by (auto simp: merge_readers_def wp_ret Let_def)
    next
      case False
      have "widened r us (r\<lparr>m_sharedWith := Some (share_union r vs), m_updatedAt := t\<rparr>)" for t
        using vs by (simp add: widened_def set_share_union current_readers_def)
      with False vs show ?thesis
        by (auto simp: merge_readers_def wp_bindE wp_pf wp_calm assms(1) Let_def updateSharedWith_def up resp)
    qed
  qed
qed

lemma cache_find_unexpired:
  "c k = Some (v, until) \<Longrightarrow> t < until \<Longrightarrow> cache_find t c k = Some v"
  by (simp add: cache_find_def)

text \<open>The cache names an active row of the user for this content.\<close>

definition remembered :: "env \<Rightarrow> world \<Rightarrow> string \<Rightarrow> media \<Rightarrow> bool" where
  "remembered env w key r \<longleftrightarrow> distinct (map m_id (media_tbl w)) \<and> r \<in> set (media_tbl w) \<and> m_isActive r \<and> m_id r \<noteq> []
     \<and> distinct (current_readers r)
     \<and> (\<exists>until. cache w key = Some (CStr (m_id r), until) \<and> (\<forall>n. clock_at env n < until))"

lemma try_dedup_hit:
  assumes "calm env" and "acts_as env (m_ownerId r)" and re: "remembered env w key r"
  shows "wp (try_dedup env key us) (\<lambda>hit w'. \<exists>resp. hit = Some resp \<and> reused env r us w resp w') (\<lambda>_ _. False) w"
proof -
  have d: "distinct (map m_id (media_tbl w))" and r: "r \<in> set (media_tbl w)" "m_isActive r" "m_id r \<noteq> []"
    "distinct (current_readers r)"
    using re by (simp_all add: remembered_def)
  obtain until where c: "cache w key = Some (CStr (m_id r), until)" "\<And>n. clock_at env n < until"
    using re by (auto simp: remembered_def)
  have cf: "cache_find (now env w1) (cache w) key = Some (CStr (m_id r))" for w1
    by (rule cache_find_unexpired [where c = "cache w", OF c(1)]) (simp add: now_def c(2))
  have "frame s3 (merge_readers env r us)" "frame quota_tbl (merge_readers env r us)"
    by (intro frame_intros; simp)+
  then have fr: "frame (\<lambda>w. (s3 w, quota_tbl w)) (merge_readers env r us)"
    by (simp add: frame_def)
  have m: "wp (merge_readers env r us) (\<lambda>x w'. response_at env x = response_at env r
        \<and> (\<exists>r'. widened r us r' \<and> media_tbl w' = with_row (m_id r) (\<lambda>_. r') (media_tbl w))
        \<and> s3 w' = s3 w \<and> quota_tbl w' = quota_tbl w) (\<lambda>_ _. False) w1"
    if w1: "media_tbl w1 = media_tbl w" "s3 w1 = s3 w" "quota_tbl w1 = quota_tbl w" for w1
  proof -
    have "wp (merge_readers env r us) (\<lambda>_ w'. (s3 w', quota_tbl w') = (s3 w, quota_tbl w))
        (\<lambda>_ w'. (s3 w', quota_tbl w') = (s3 w, quota_tbl w)) w1"
      using fr w1 by (simp add: wp_const frame_def)
    from wp_conj [OF merge_readers_calm [OF assms(1,2) _ _ r(4), of w1 us] this] show ?thesis
      using d r(1) w1 by (auto elim!: wp_mono)
  qed
  have f: "List.find (\<lambda>x. m_id x = m_id r \<and> m_isActive x \<and> media_visible env (enter_tx env w1) x) (media_tbl w) = Some r"
    if "media_tbl w1 = media_tbl w" for w1
    using find_own [of "enter_tx env w1" r "m_id r" env] that d r assms(2) by simp
  have re': "reused env r us w (response_at env x t) w'"
    if "response_at env x = response_at env r
      \<and> (\<exists>r'. widened r us r' \<and> media_tbl w' = with_row (m_id r) (\<lambda>_. r') (media_tbl w))
      \<and> s3 w' = s3 w \<and> quota_tbl w' = quota_tbl w" for x t w'
    using that usage_of_cong [of w' w] unfolding reused_def by metis
  show ?thesis
    unfolding try_dedup_def find_media_def
    by (auto simp: wp_bindE wp_pf wp_calm assms(1) cf cached_id_def r(3) f wp_buildUploadResponse
        intro!: wp_mono [OF m] re')
qed

lemma upload_work_repeated:
  assumes "calm env" and "acts_as env u" and s: "servable env w u fl ctx" and "m_ownerId r = u"
    and key: "key = dedup_key u ctx (sha256_hex env (blob_buffer fl))" and re: "remembered env w key r"
  shows "wp (upload_work env u fl ctx tf us) (reused env r us w) (\<lambda>_ _. False) w"
proof -
  have k: "\<And>v. key \<noteq> quota_cacheKey v"
    by (simp add: key)
  have hit: "wp (try_dedup env key us) (\<lambda>hit w'. \<exists>resp. hit = Some resp \<and> reused env r us w resp w') (\<lambda>_ _. False) w1"
    if "usage_of w1 = usage_of w" "media_tbl w1 = media_tbl w" "s3 w1 = s3 w" "cache w1 key = cache w key" for w1
  proof -
    have "remembered env w1 key r"
      using re that by (simp add: remembered_def)
    from try_dedup_hit [OF assms(1) _ this, of us] show ?thesis
      using assms(2,4) that by (simp add: reused_def)
  qed
  show ?thesis
    unfolding upload_work_def wp_bindE Let_def key [symmetric]
    by (rule wp_mono [OF check_upload_calm [OF assms(1-3) k]])
      (auto simp: wp_pf wp_ret intro!: wp_mono [OF hit])
qed

lemma upload_repeated_calm:
  assumes "calm env" and "within_ttl env" and "sem_fresh env w u" and "sem_count env w u < 3"
    and "acts_as env u" and s: "servable env w u fl ctx" and "m_ownerId r = u"
    and key: "key = dedup_key u ctx (sha256_hex env (blob_buffer fl))" and re: "remembered env w key r"
  shows "wp (upload env firings u fl ctx tf us) (reused env r us w) (\<lambda>_ _. False) w"
  unfolding upload_def
proof (rule with_semaphore_lift [OF assms(1-3) _ frame_semaphore_work])
  show "raw_count w u < 3"
    using assms(3,4) sem_count_raw by simp
  show "wp (upload_work env u fl ctx tf us) (reused env r us w) (\<lambda>_ _. False) w1"
    if c: "core w1 = core w" for w1
  proof -
    have "remembered env w1 key r" "servable env w1 u fl ctx"
      using core_eqD [OF c] re s servable_core [OF c] by (simp_all add: remembered_def)
    moreover have "reused env r us w1 = reused env r us w"
      by (intro ext) (simp add: reused_def core_eqD [OF c] usage_of_cong [of w1 w])
    ultimately show ?thesis
      using upload_work_repeated [OF assms(1,5) _ assms(7) key, of w1 tf us] by simp
  qed
  show "reused env r us w x w1 = reused env r us w x w2" if "core w1 = core w2" for x w1 w2
    using core_eqD [OF that] usage_of_cong [of w1 w2] by (simp add: reused_def)
qed

section \<open>Properties of the upload\<close>

text \<open>C17. Whatever fails around it, an upload of a file that is not acceptable (declared type outside the
  context's allowlist or not matching the bytes, size negative or over the context's limit, too many
  pixels, PDF scripts, or a group icon whose administrator nobody confirms) is an error, and the media
  rows, the access log, everybody's usage and limits, the bucket, the published events and the upload
  counter are as before.  What the check may have added is the uploader's own quota row, with its
  defaults and nothing used, and its cached copy.\<close>

theorem upload_gate:
  assumes "\<not> acceptable env u fl ctx"
  shows "\<exists>e w'. upload env firings u fl ctx tf us w = (Inl e, w') \<and> kept w' = kept w"
  using wp_upload_gate [OF assms, of firings tf us w] by (auto simp: wp_def split: prod.splits sum.splits)

definition sample_png :: "byte list" where
  "sample_png = [0x89, 0x50, 0x4E, 0x47, 0x0D, 0x0A, 0x1A, 0x0A, 1, 2, 3, 4]"

definition sample_file :: upload_file where
  "sample_file = \<lparr>f_mimetype = ''image/png'', f_size = 12, f_buffer = Some sample_png, f_stream = None\<rparr>"

theorem upload_gate_witness:
  "\<exists>e w'. upload sample_env 0 alice (sample_file\<lparr>f_mimetype := ''image/jpeg''\<rparr>) AVATAR None None quota_world = (Inl e, w')
     \<and> kept w' = kept quota_world"
proof (rule upload_gate)
  have "validateMagicBytes sample_png ''image/jpeg'' \<noteq> Inr ()"
    by code_simp
  then show "\<not> acceptable sample_env alice (sample_file\<lparr>f_mimetype := ''image/jpeg''\<rparr>) AVATAR"
    by (auto simp: acceptable_def sample_file_def blob_buffer_def validate_iff_accepted)
qed

text \<open>C18. Without failures, an acceptable file that fits the quota and whose content is not remembered is
  stored: one new active row with the uploader as owner and the given readers, the blob and the
  thumbnail under its paths with the declared types, the uploader's usage charged once, nobody
  else's changed, the content remembered under the new id, and the answer describes the new row.\<close>

theorem upload_new_correct:
  assumes "calm env" and "within_ttl env" and "sem_fresh env w u" and "sem_count env w u < 3"
    and "acts_as env u" and "servable env w u fl ctx" and "UUID_PATTERN u" and "fresh_ids env w"
    and "thumb_ok tf" and "cache w (dedup_key u ctx (sha256_hex env (blob_buffer fl))) = None"
  shows "\<exists>resp w'. upload env firings u fl ctx tf us w = (Inr resp, w')
     \<and> stored_new env u fl ctx tf us (dedup_key u ctx (sha256_hex env (blob_buffer fl))) w resp w'"
  using upload_new_calm [OF assms(1-9) refl assms(10), of firings us]
  by (auto simp: wp_def split: prod.splits sum.splits)

lemma still_env_hyps:
  "calm still_env" "within_ttl still_env" "acts_as still_env alice"
  "sem_fresh still_env quota_world alice" "sem_count still_env quota_world alice = 0"
  by (simp_all add: still_env_def calm_def acts_as_def sample_env_def within_ttl_def sem_fresh_def sem_count_def
     redis_live_def quota_world_def empty_world_def alice_def)

lemma UUID_PATTERN_samples: "UUID_PATTERN alice" "UUID_PATTERN (sample_uuid n)"
proof -
  have "\<forall>k \<in> set [0..<10]. UUID_PATTERN (sample_uuid k)"
    by code_simp
  moreover have "sample_uuid n = sample_uuid (n mod 10)" "n mod 10 \<in> set [0..<10]"
    by (simp_all add: sample_uuid_def)
  ultimately show "UUID_PATTERN (sample_uuid n)"
    by metis
qed code_simp

lemma sample_file_servable: "servable still_env quota_world alice sample_file AVATAR"
proof -
  have "f_mimetype sample_file \<in> set (CONTEXT_MIME_ALLOWLIST AVATAR)"
    "validateMagicBytes (blob_buffer sample_file) (f_mimetype sample_file) = Inr ()"
    "checkImageDimensions still_env (blob_buffer sample_file) (f_mimetype sample_file) = Inr ()"
    "checkPdfJavaScript (blob_buffer sample_file) (f_mimetype sample_file) = Inr ()"
    "0 \<le> f_size sample_file \<and> f_size sample_file \<le> CONTEXT_SIZE_LIMITS AVATAR"
    "cfg_CLAMAV_HOST (cfg still_env) = None" "distinct (map q_userId (quota_tbl quota_world))"
    by code_simp+
  moreover have "usage_of quota_world alice = row_usage (sample_quota alice)"
    "limits_of quota_world alice = row_limits (sample_quota alice)"
    by code_simp+
  moreover have "quota_coherent quota_world"
    by (simp add: quota_coherent_def cache_kv.agrees_def quota_world_def empty_world_def)
  ultimately show ?thesis
    by (simp add: servable_def acceptable_def validate_iff_accepted roomy_def within_def admits_def row_usage_def row_limits_def
        sample_quota_def INT4_MAX_def INT8_MAX_def sample_file_def)
qed

theorem upload_new_correct_witness:
  "\<exists>resp w'. upload still_env 1 alice sample_file AVATAR None None quota_world = (Inr resp, w')
     \<and> length (media_tbl w') = 1
     \<and> usage_of w' alice = charge 12 (usage_of quota_world alice)"
proof -
  have "fresh_ids still_env quota_world"
    using UUID_PATTERN_samples
    by (simp add: fresh_ids_def quota_world_def empty_world_def still_env_def sample_env_def)
  moreover have "cache quota_world k = None" "media_tbl quota_world = []" for k
    by (simp_all add: quota_world_def empty_world_def)
  ultimately show ?thesis
    using upload_new_correct [OF still_env_hyps(1,2,4) _ still_env_hyps(3) sample_file_servable UUID_PATTERN_samples(1),
        of None 1 None] still_env_hyps(5)
    by (auto simp: thumb_ok_def stored_new_def sample_file_def)
qed

text \<open>C29. Without failures, uploading a remembered content again stores nothing and charges nothing: the
  answer describes the remembered row, which only gains the named readers (not empty, not the owner).\<close>

theorem upload_repeated_correct:
  assumes "calm env" and "within_ttl env" and "sem_fresh env w u" and "sem_count env w u < 3"
    and "acts_as env u" and "servable env w u fl ctx" and "m_ownerId r = u"
    and "remembered env w (dedup_key u ctx (sha256_hex env (blob_buffer fl))) r"
  shows "\<exists>resp w'. upload env firings u fl ctx tf us w = (Inr resp, w') \<and> reused env r us w resp w'"
  using upload_repeated_calm [OF assms(1-7) refl assms(8), of firings tf us]
  by (auto simp: wp_def split: prod.splits sum.splits)

definition remembered_world :: world where
  "remembered_world = quota_world\<lparr>media_tbl := [sample_media], cache := [dedup_key alice AVATAR
     (sha256_hex still_env sample_png) \<mapsto> (CStr (sample_uuid 1), 1)]\<rparr>"

theorem upload_repeated_correct_witness:
  "\<exists>resp w'. upload still_env 0 alice sample_file AVATAR None (Some [sample_uuid 7, []]) remembered_world = (Inr resp, w')
     \<and> media_id resp = sample_uuid 1 \<and> usage_of w' = usage_of remembered_world"
proof -
  have "quota_tbl remembered_world = quota_tbl quota_world" "redis remembered_world = redis quota_world"
    by (simp_all add: remembered_world_def)
  moreover have "quota_coherent remembered_world"
    by (auto simp: quota_coherent_def cache_kv.agrees_def quota_truth_def remembered_world_def)
  moreover note sample_file_servable
  ultimately have "servable still_env remembered_world alice sample_file AVATAR"
    using usage_of_cong [of remembered_world quota_world] limits_of_cong [of remembered_world quota_world]
    by (simp add: servable_def roomy_def)
  moreover have "sem_fresh still_env remembered_world alice" "sem_count still_env remembered_world alice < 3"
    by (simp_all add: sem_fresh_def sem_count_def redis_live_def remembered_world_def quota_world_def empty_world_def)
  moreover have "blob_buffer sample_file = sample_png"
    by (simp add: blob_buffer_def sample_file_def)
  then have "remembered still_env remembered_world
      (dedup_key alice AVATAR (sha256_hex still_env (blob_buffer sample_file))) sample_media"
    using media_world_hyps(3,5)
    by (simp add: remembered_def remembered_world_def still_env_def sample_media_def current_readers_def sample_uuid_def)
  ultimately show ?thesis
    using upload_repeated_correct [OF still_env_hyps(1,2) _ _ still_env_hyps(3) _ media_world_hyps(4),
        of remembered_world sample_file AVATAR 0 None "Some [sample_uuid 7, []]"] media_world_hyps(5)
    by (auto simp: reused_def response_at_def)
qed

text \<open>C31. An upload that Redis answers gives its place back however it ends, and a user with three
  uploads under way gets a 429 before anything else happens.\<close>

theorem upload_semaphore_balanced:
  assumes "calm env" and "within_ttl env" and "sem_fresh env w u" and "0 \<le> sem_count env w u"
    and "upload env firings u fl ctx tf us w = (r, w')"
  shows "sem_count env w' u = sem_count env w u
     \<and> (3 \<le> sem_count env w u \<longrightarrow> (\<exists>e. http_status e = 429 \<and> r = Inl e \<and> acquireSemaphore env u w = (Inl e, w')))"
  using with_upload_semaphore_balanced [OF assms(1-4) frame_semaphore_work assms(5) [unfolded upload_def]] .

theorem upload_semaphore_balanced_witness:
  "sem_count still_env (snd (upload still_env 2 alice sample_file MESSAGE None None quota_world)) alice = 0"
  using upload_semaphore_balanced [OF still_env_hyps(1,2,4) _ prod.collapse [symmetric]] still_env_hyps(5)
  by simp

lemma storage_delete_done:
  "outcome_at env (ticks w) = Done \<Longrightarrow> storage_delete env p w = (Inr (), (tick w)\<lparr>s3 := (s3 w)(p := None)\<rparr>)"
  by (simp add: storage_delete_def s3_delete_def ext_def)

text \<open>C30. When the row of a new upload cannot be written and the bucket then answers, the blob and the
  thumbnail are both removed, no other object changes, and the database's error is what the caller gets.\<close>

theorem persist_compensates:
  assumes "transaction env (save env m) w = (Inl dbErr, w1)" and "\<And>n. ticks w1 \<le> n \<Longrightarrow> outcome_at env n = Done"
  shows "\<exists>w'. persist env m th w = (Inl dbErr, w') \<and> s3 w' (m_storagePath m) = None
     \<and> (\<forall>p. th = Some p \<longrightarrow> s3 w' p = None)
     \<and> (\<forall>p. p \<noteq> m_storagePath m \<longrightarrow> th \<noteq> Some p \<longrightarrow> s3 w' p = s3 w1 p) \<and> media_tbl w' = media_tbl w1"
  using assms
  by (cases th) (auto simp: persist_def catchE_def bindE_def fire_and_forget_def storage_delete_done throw_def ret_def)

definition refused_env :: env where
  "refused_env = sample_env\<lparr>outcome_at := (\<lambda>n. if n = 0 then Rejected ''connection terminated'' else Done)\<rparr>"

theorem persist_compensates_witness:
  "\<exists>w'. persist refused_env sample_media None media_world = (Inl (IoError ''connection terminated''), w')
     \<and> s3 w' ''messages/m1.bin'' = None"
proof -
  have "transaction refused_env (save refused_env sample_media) media_world
      = (Inl (IoError ''connection terminated''), (tick media_world)\<lparr>guc := None\<rparr>)"
    by (simp add: transaction_def ext_def refused_env_def media_world_def quota_world_def empty_world_def)
  moreover have "outcome_at refused_env n = Done" if "ticks ((tick media_world)\<lparr>guc := None\<rparr>) \<le> n" for n
    using that by (simp add: refused_env_def)
  ultimately show ?thesis
    using persist_compensates [of refused_env sample_media media_world _ _ None] media_world_hyps(5)
    by (fastforce simp: sample_media_def)
qed

end
