(* ===== verification/Media_Controller.thy ===== *)
theory Media_Controller
  imports Media_Upload
begin

text \<open>
  \<open>media.controller.ts\<close>: the handlers of the media routes.  A request is what the handlers
  read of it: the user the guard attached, the headers, the peer's address.  Decorators
  (routing, documentation, rate limits) are not part of a handler.
\<close>

definition UPLOAD_MAX_BYTES :: int where
  "UPLOAD_MAX_BYTES = 100 * 1024 * 1024"

text \<open>A header that Node hands over as one string or, when it allows duplicates, as an array.\<close>

datatype header = One string | Many "string list"

record request =
  rq_userId :: "uuid option"
  rq_authorization :: "string option"
  rq_forwarded_for :: "header option"
  rq_user_agent :: "string option"
  rq_conversation_id :: "string option"
  rq_remoteAddress :: "string option"

section \<open>Client address and paging\<close>

definition first_forwarded :: "header option \<Rightarrow> string option" where
  "first_forwarded forwarded =
     (case forwarded of
        None \<Rightarrow> None
      | Some (One s) \<Rightarrow> Some s
      | Some (Many []) \<Rightarrow> None
      | Some (Many (s # ss)) \<Rightarrow> Some s)"

definition extractClientIp :: "request \<Rightarrow> string option" where
  "extractClientIp req =
     (let fallback = map_option (take 45) (rq_remoteAddress req) in
      case first_forwarded (rq_forwarded_for req) of
        None \<Rightarrow> fallback
      | Some forwarded \<Rightarrow>
          if length forwarded > 0 then
            (let first = js_trim (hd (js_split (CHR '','') forwarded)) in
             if first \<noteq> [] then Some (take 45 first) else fallback)
          else fallback)"

text \<open>\<open>Number.parseInt(s, 10)\<close>: blanks, a sign, digits; \<open>None\<close> is \<open>NaN\<close>.\<close>

definition parse_int :: "string \<Rightarrow> int option" where
  "parse_int s =
     (let t = dropWhile is_js_space s;
          (negative, u) = (case t of
              c # cs \<Rightarrow> if c = CHR ''-'' then (True, cs) else if c = CHR ''+'' then (False, cs) else (False, t)
            | [] \<Rightarrow> (False, t));
          digits = takeWhile is_digit u in
      if digits = [] then None
      else Some (if negative then - int (read_digits digits) else int (read_digits digits)))"

text \<open>\<open>x || d\<close> on numbers: \<open>NaN\<close> and 0 give the default.\<close>

definition or_default :: "int option \<Rightarrow> int \<Rightarrow> int" where
  "or_default x d = (case x of None \<Rightarrow> d | Some n \<Rightarrow> if n = 0 then d else n)"

definition page_of :: "string option \<Rightarrow> int" where
  "page_of rawPage = max 1 (or_default (parse_int (case rawPage of None \<Rightarrow> [] | Some s \<Rightarrow> s)) 1)"

definition limit_of :: "string option \<Rightarrow> int" where
  "limit_of rawLimit = min 100 (max 1 (or_default (parse_int (case rawLimit of None \<Rightarrow> [] | Some s \<Rightarrow> s)) 20))"

section \<open>Handlers\<close>

abbreviation missing_user :: exn where
  "missing_user \<equiv> BadRequest ''Missing authenticated user''"

definition with_user :: "request \<Rightarrow> (uuid \<Rightarrow> 'a io) \<Rightarrow> 'a io" where
  "with_user req k = (if truthy (rq_userId req) then k (the (rq_userId req)) else throw missing_user)"

record upload_files =
  uf_file :: "upload_file list option"
  uf_thumbnail :: "upload_file list option"

record upload_dto =
  d_context :: "media_context option"
  d_ownerId :: "uuid option"
  d_conversationId :: "string option"
  d_sharedWith :: "uuid list option"

definition first_file :: "upload_file list option \<Rightarrow> upload_file option" where
  "first_file fs = (case fs of Some (x # xs) \<Rightarrow> Some x | _ \<Rightarrow> None)"

definition conversation_of :: "request \<Rightarrow> upload_dto \<Rightarrow> string option" where
  "conversation_of req dto =
     (case rq_conversation_id req of Some c \<Rightarrow> Some c | None \<Rightarrow> d_conversationId dto)"

definition conversation_required :: exn where
  "conversation_required = HttpException 400 (Obj
     [(''error'', ''conversation_id_required''),
      (''message'', ''X-Conversation-Id header or conversationId body field required for message uploads'')])"

definition upload_request :: "env \<Rightarrow> nat \<Rightarrow> request \<Rightarrow> upload_files \<Rightarrow> upload_dto \<Rightarrow> upload_response io" where
  "upload_request env firings req files dto =
     (let thumbnail = first_file (uf_thumbnail files) in
      case first_file (uf_file files) of
        None \<Rightarrow> throw (BadRequest ''No file provided'')
      | Some fl \<Rightarrow>
          with_user req (\<lambda>authenticatedUserId.
            let ownerId = (case d_ownerId dto of None \<Rightarrow> authenticatedUserId | Some u \<Rightarrow> u);
                ctx = (case d_context dto of None \<Rightarrow> MESSAGE | Some c \<Rightarrow> c);
                conversationId = conversation_of req dto in
            if ownerId \<noteq> authenticatedUserId
            then throw (BadRequest ''ownerId must match the authenticated user'')
            else if ctx = MESSAGE \<and> \<not> truthy conversationId then throw conversation_required
            else
              bindE (if truthy conversationId
                     then enforceE2EEContentType env (the conversationId) (f_mimetype fl) else ret ()) (\<lambda>_.
              upload env firings ownerId fl ctx thumbnail (d_sharedWith dto))))"

text \<open>\<open>getQuota\<close> and \<open>getMyMedia\<close> rely on the guard for the user.\<close>

definition get_quota_request :: "env \<Rightarrow> request \<Rightarrow> quota_report io" where
  "get_quota_request env req = getUserQuota env (the (rq_userId req))"

definition get_my_media_request :: "env \<Rightarrow> request \<Rightarrow> string option \<Rightarrow> string option \<Rightarrow> media_page io" where
  "get_my_media_request env req rawPage rawLimit =
     getUserMedia env (the (rq_userId req)) (page_of rawPage) (limit_of rawLimit)"

definition get_metadata_request :: "env \<Rightarrow> uuid \<Rightarrow> request \<Rightarrow> media_metadata io" where
  "get_metadata_request env mid req = with_user req (getMetadata env mid)"

definition wants_stream :: "string option \<Rightarrow> bool" where
  "wants_stream stream \<longleftrightarrow> stream = Some ''1'' \<or> stream = Some ''true''"

datatype blob_reply = BlobUrl string millis | BlobBytes streamable_file
datatype thumbnail_reply = ThumbnailUrl "(string \<times> millis) option" | ThumbnailBytes streamable_file

definition get_blob_request :: "env \<Rightarrow> uuid \<Rightarrow> string option \<Rightarrow> request \<Rightarrow> blob_reply io" where
  "get_blob_request env mid stream req =
     with_user req (\<lambda>requesterId.
       let ip = extractClientIp req; ua = rq_user_agent req in
       if wants_stream stream
       then bindE (streamBlob env mid requesterId ip ua) (\<lambda>sf. ret (BlobBytes sf))
       else bindE (getBlob env mid requesterId ip ua) (\<lambda>(url, expiresAt). ret (BlobUrl url expiresAt)))"

definition get_thumbnail_request :: "env \<Rightarrow> uuid \<Rightarrow> string option \<Rightarrow> request \<Rightarrow> thumbnail_reply io" where
  "get_thumbnail_request env mid stream req =
     with_user req (\<lambda>requesterId.
       let ip = extractClientIp req; ua = rq_user_agent req in
       if wants_stream stream
       then bindE (streamThumbnail env mid requesterId ip ua) (\<lambda>streamed.
              case streamed of
                None \<Rightarrow> throw (NotFound ''No thumbnail stored for this media'')
              | Some sf \<Rightarrow> ret (ThumbnailBytes sf))
       else bindE (getThumbnail env mid requesterId ip ua) (\<lambda>r. ret (ThumbnailUrl r)))"

definition share_request :: "env \<Rightarrow> uuid \<Rightarrow> request \<Rightarrow> uuid list \<Rightarrow> uuid list io" where
  "share_request env mid req userIds = with_user req (\<lambda>requesterId. share env mid requesterId userIds)"

definition delete_request :: "env \<Rightarrow> uuid \<Rightarrow> request \<Rightarrow> unit io" where
  "delete_request env mid req =
     with_user req (\<lambda>requesterId. delete_media env mid requesterId (extractClientIp req) (rq_user_agent req))"

section \<open>Bounded inputs\<close>

lemma extractClientIp_length: "extractClientIp req = Some ip \<Longrightarrow> length ip \<le> 45"
  by (auto simp: extractClientIp_def Let_def split: option.splits if_splits)

lemma parse_int_show: "parse_int (show_int n) = Some n"
proof -
  have tw: "takeWhile is_digit (show_nat k) = show_nat k" for k
    using show_nat_digits by (simp add: takeWhile_eq_all_conv)
  have sp: "\<not> is_js_space c" if "is_digit c" for c
    using that by (auto simp: is_digit_def is_js_space_def)
  have hd_digit: "\<exists>c cs. show_nat k = c # cs \<and> is_digit c" for k
    using show_nat_digits [of k] by (cases "show_nat k") auto
  show ?thesis
  proof (cases "n < 0")
    case True
    have "dropWhile is_js_space (show_int n) = show_int n"
      using True by (simp add: show_int_def is_js_space_def)
    with True show ?thesis
      by (simp add: parse_int_def show_int_def tw)
  next
    case False
    obtain c cs where cs: "show_nat (nat n) = c # cs" "is_digit c"
      using hd_digit by blast
    then have "dropWhile is_js_space (show_int n) = show_int n" "c \<noteq> CHR ''-''" "c \<noteq> CHR ''+''"
      using False sp not_digit_minus by (auto simp: show_int_def is_digit_def)
    moreover have ds: "takeWhile is_digit cs = cs" "read_digits (c # cs) = nat n"
      using tw [of "nat n"] read_show_nat [of "nat n"] cs by (simp_all del: read_show_nat)
    ultimately show ?thesis
      using False cs(1) by (simp add: parse_int_def show_int_def cs(2) ds del: takeWhile_eq_all_conv)
  qed
qed

text \<open>Whatever the query says, the page is at least 1 and the page size between 1 and 100, so the
  offset is never negative; a plain number is taken as it is, within these bounds.\<close>

theorem my_media_paging:
  "1 \<le> page_of p \<and> 1 \<le> limit_of l \<and> limit_of l \<le> 100 \<and> 0 \<le> (page_of p - 1) * limit_of l
   \<and> page_of (Some (show_int n)) = max 1 n
   \<and> limit_of (Some (show_int n)) = (if n = 0 then 20 else min 100 (max 1 n))
   \<and> page_of None = 1 \<and> limit_of None = 20"
proof -
  have "1 \<le> page_of p" "1 \<le> limit_of l"
    by (simp_all add: page_of_def limit_of_def)
  moreover have "page_of None = 1" "limit_of None = 20"
    by code_simp+
  ultimately show ?thesis
    by (auto simp: page_of_def limit_of_def parse_int_show or_default_def)
qed

section \<open>The access log accepts every request\<close>

text \<open>Without failures each access is logged with exactly one row: whatever headers the client
  sends, the address and the agent fit their columns, and nothing but the log changes.\<close>

theorem access_logged:
  assumes "calm env" and "t \<in> {''blob'', ''thumbnail'', ''delete''}"
  shows "\<exists>l w'. writeAccessLog env mid (Some u) t (extractClientIp req) (rq_user_agent req) w = (Inr (), w')
     \<and> log_tbl w' = log_tbl w @ [l] \<and> l_mediaId l = mid \<and> l_accessorId l = Some u \<and> l_accessType l = t
     \<and> l_ipAddress l = extractClientIp req \<and> l_userAgent l = map_option (take 512) (rq_user_agent req)
     \<and> media_tbl w' = media_tbl w \<and> quota_tbl w' = quota_tbl w \<and> outside_db w' = outside_db w"
proof -
  have ip: "case extractClientIp req of None \<Rightarrow> True | Some s \<Rightarrow> length s \<le> 45"
    using extractClientIp_length by (auto split: option.split)
  have ua: "case map_option (take 512) (rq_user_agent req) of None \<Rightarrow> True | Some s \<Rightarrow> length s \<le> 512"
    by (auto split: option.split)
  have t: "length t \<le> 64"
    using assms(2) by auto
  have "wp (writeAccessLog env mid (Some u) t (extractClientIp req) (rq_user_agent req))
     (\<lambda>_ w'. \<exists>l. log_tbl w' = log_tbl w @ [l] \<and> l_mediaId l = mid \<and> l_accessorId l = Some u \<and> l_accessType l = t
       \<and> l_ipAddress l = extractClientIp req \<and> l_userAgent l = map_option (take 512) (rq_user_agent req)
       \<and> media_tbl w' = media_tbl w \<and> quota_tbl w' = quota_tbl w \<and> outside_db w' = outside_db w) (\<lambda>_ _. False) w"
    using ip ua t
    by (simp add: writeAccessLog_def wp_bindE wp_gets wp_randomUUID wp_transaction_calm assms(1) insert_access_log_def
        wp_ext_calm) (simp add: wp_def outside_db_def enter_tx_def begin_tx_def)
  then show ?thesis
    by (auto simp: wp_def split: prod.splits sum.splits)
qed

definition long_request :: request where
  "long_request = \<lparr>rq_userId = Some alice, rq_authorization = None,
     rq_forwarded_for = Some (One (replicate 600 (CHR ''1'') @ '',10.0.0.1'')), rq_user_agent = Some (replicate 9000 (CHR ''x'')),
     rq_conversation_id = None, rq_remoteAddress = None\<rparr>"

theorem access_logged_witness:
  "\<exists>w'. writeAccessLog sample_env (sample_uuid 1) (Some alice) ''blob'' (extractClientIp long_request)
       (rq_user_agent long_request) media_world = (Inr (), w') \<and> length (log_tbl w') = 1"
  using access_logged [OF calm_sample, of "''blob''" "sample_uuid 1" alice long_request media_world]
  by (auto simp: media_world_def quota_world_def empty_world_def)

section \<open>Uploads\<close>

lemma e2ee_url_apart [simp]: "e2ee_cacheKey c \<noteq> quota_cacheKey u"
  by (simp add: e2ee_cacheKey_def quota_cacheKey_def)

text \<open>Every answer about the conversation, cached or fetched, says that it is encrypted.\<close>

definition e2ee_confirmed :: "env \<Rightarrow> world \<Rightarrow> string \<Rightarrow> bool" where
  "e2ee_confirmed env w conv \<longleftrightarrow> base_url (cfg_MESSAGING_SERVICE_URL (cfg env)) \<noteq> []
     \<and> (\<forall>n. e2ee_reply (http_get env n (e2ee_url env conv) (messaging_headers env)))
     \<and> (\<forall>v until. cache w (e2ee_cacheKey conv) = Some (v, until) \<longrightarrow> cval_truthy v)"

lemma fetchE2eeStatus_confirmed:
  assumes "calm env" and "e2ee_confirmed env w conv"
  shows "wp (fetchE2eeStatus env conv) (\<lambda>b w'. b \<and> w' = tick w) (\<lambda>_ _. False) w"
proof -
  let ?r = "http_get env (Suc (ticks w)) (e2ee_url env conv) (messaging_headers env)"
  have "e2ee_reply ?r"
    using assms(2) by (simp add: e2ee_confirmed_def)
  then obtain body where r: "status ?r \<noteq> 404" "response_ok ?r" "json_body ?r = Some body"
      "prop_is body ''e2ee_enabled'' (JBool True) = Inr True"
    by (auto simp: e2ee_reply_def response_ok_def)
  show ?thesis
    using assms r
    by (simp add: fetchE2eeStatus_def e2ee_confirmed_def wp_catchE wp_bindE fetch_def wp_ext_calm wp_gets
        wp_pf wp_from_result response_json_def)
qed

lemma isConversationE2EE_confirmed:
  assumes "calm env" and "e2ee_confirmed env w conv"
  shows "wp (isConversationE2EE env conv) (\<lambda>b w'. b \<and> kept w' = kept w \<and> quota_tbl w' = quota_tbl w) (\<lambda>_ _. False) w"
proof -
  have hit: "cval_truthy v" if "cache_find t (cache w) (e2ee_cacheKey conv) = Some v" for v t
    using that assms(2) cache_find_Some by (force simp: e2ee_confirmed_def)
  have "e2ee_confirmed env (tick w) conv"
    using assms(2) by (simp add: e2ee_confirmed_def)
  from fetchE2eeStatus_confirmed [OF assms(1) this] show ?thesis
    using hit
    by (auto simp: isConversationE2EE_def wp_bindE wp_calm assms(1) wp_pf wp_ret kept_def elim!: wp_mono split: option.split)
qed

text \<open>C8. When no call fails, messaging-service says that the conversation is encrypted and the cache holds
  nothing else, an upload to it whose declared type is not \<open>application/octet-stream\<close> is refused
  with a 422 before anything is stored, charged or published: both tables, the access log, the bucket, the
  events and the upload counter are as before.  When messaging-service cannot be reached the check lets
  the upload pass, as its comment says.\<close>

theorem plaintext_refused:
  assumes "calm env" and "truthy (rq_userId req)" and "first_file (uf_file files) = Some fl"
    and "d_ownerId dto = None \<or> d_ownerId dto = rq_userId req"
    and "conversation_of req dto = Some conv" and "conv \<noteq> []"
    and "e2ee_confirmed env w conv" and "f_mimetype fl \<noteq> E2EE_REQUIRED_CONTENT_TYPE"
  shows "\<exists>e w'. upload_request env firings req files dto w = (Inl e, w') \<and> http_status e = 422
     \<and> kept w' = kept w \<and> quota_tbl w' = quota_tbl w"
proof -
  obtain u where u: "rq_userId req = Some u" "u \<noteq> []"
    using assms(2) by (auto simp: truthy_def split: option.splits)
  have "wp (upload_request env firings req files dto) (\<lambda>_ _. False)
      (\<lambda>e w'. http_status e = 422 \<and> kept w' = kept w \<and> quota_tbl w' = quota_tbl w) w"
    using assms(3-6,8) u isConversationE2EE_confirmed [OF assms(1,7)]
    by (auto simp: upload_request_def with_user_def truthy_def enforceE2EEContentType_def wp_bindE wp_pf Let_def elim!: wp_mono)
  then show ?thesis
    by (auto simp: wp_def split: prod.splits sum.splits)
qed

definition sample_request :: request where
  "sample_request = \<lparr>rq_userId = Some alice, rq_authorization = Some ''Bearer t'', rq_forwarded_for = None,
     rq_user_agent = None, rq_conversation_id = Some ''c1'', rq_remoteAddress = None\<rparr>"

definition sample_files :: upload_files where
  "sample_files = \<lparr>uf_file = Some [sample_file], uf_thumbnail = None\<rparr>"

definition sample_dto :: upload_dto where
  "sample_dto = \<lparr>d_context = None, d_ownerId = None, d_conversationId = None, d_sharedWith = None\<rparr>"

theorem plaintext_refused_witness:
  "\<exists>e w'. upload_request messaging_env 0 sample_request sample_files sample_dto quota_world = (Inl e, w')
     \<and> http_status e = 422 \<and> kept w' = kept quota_world \<and> quota_tbl w' = quota_tbl quota_world"
proof (rule plaintext_refused [where fl = sample_file and conv = "''c1''"])
  show "calm messaging_env"
    by (simp add: messaging_env_def calm_def sample_env_def)
  show "e2ee_confirmed messaging_env quota_world ''c1''"
    by (auto simp: e2ee_confirmed_def e2ee_reply_def messaging_env_def response_ok_def prop_is_def json_prop_def
        quota_world_def empty_world_def base_url_def strip_final_slash_def sample_config_def)
qed (simp_all add: sample_request_def sample_files_def sample_dto_def sample_file_def conversation_of_def truthy_def
    first_file_def alice_def E2EE_REQUIRED_CONTENT_TYPE_def)

text \<open>An upload succeeds only for the authenticated user, for a file that is acceptable in its
  context, and, for a message, with a conversation named.\<close>

theorem upload_request_sound:
  assumes "upload_request env firings req files dto w = (Inr resp, w')"
  shows "\<exists>u fl. rq_userId req = Some u \<and> u \<noteq> [] \<and> d_ownerId dto \<in> {None, Some u}
     \<and> first_file (uf_file files) = Some fl
     \<and> acceptable env u fl (case d_context dto of None \<Rightarrow> MESSAGE | Some c \<Rightarrow> c)
     \<and> (d_context dto \<in> {None, Some MESSAGE} \<longrightarrow> truthy (conversation_of req dto))"
proof -
  have up: "wp (upload env firings u fl ctx tf us) (\<lambda>_ _. acceptable env u fl ctx) (\<lambda>_ _. True) w1" for u fl ctx tf us w1
    using wp_upload_gate [of env u fl ctx firings tf us w1] by (cases "acceptable env u fl ctx") (auto simp: wp_K elim: wp_mono)
  have step: "acceptable env u fl ctx"
    if "bindE (if b then enforceE2EEContentType env c t else ret ()) (\<lambda>_. upload env firings u fl ctx tf us) w = (Inr resp, w')"
    for b c t u fl ctx tf us
  proof -
    have "wp (bindE (if b then enforceE2EEContentType env c t else ret ()) (\<lambda>_. upload env firings u fl ctx tf us))
        (\<lambda>_ _. acceptable env u fl ctx) (\<lambda>_ _. True) w"
      unfolding wp_bindE by (rule wp_mono [where Q = "\<lambda>_ _. True" and R = "\<lambda>_ _. True"]) (simp_all add: wp_True up)
    with that show ?thesis by (simp add: wp_def)
  qed
  obtain fl where fl: "first_file (uf_file files) = Some fl"
    using assms by (cases "first_file (uf_file files)") (simp_all add: upload_request_def throw_def Let_def)
  obtain u where u: "rq_userId req = Some u" "u \<noteq> []"
    using assms fl
    by (cases "rq_userId req") (auto simp: upload_request_def with_user_def truthy_def throw_def Let_def split: if_splits)
  note run = assms [unfolded upload_request_def with_user_def, simplified, unfolded fl u Let_def, simplified]
  have "d_ownerId dto \<in> {None, Some u}"
    using run by (cases "d_ownerId dto") (auto simp: throw_def truthy_def u split: if_splits)
  then show ?thesis
    using run fl u step
    by (cases "d_context dto"; cases "d_ownerId dto"; fastforce simp: throw_def truthy_def split: if_splits)
qed

lemma sample_upload:
  "\<exists>resp w'. upload still_env 1 alice sample_file AVATAR None None quota_world = (Inr resp, w')"
proof -
  have "fresh_ids still_env quota_world"
    using UUID_PATTERN_samples
    by (simp add: fresh_ids_def quota_world_def empty_world_def still_env_def sample_env_def)
  moreover have "cache quota_world k = None" for k
    by (simp add: quota_world_def empty_world_def)
  ultimately have "wp (upload still_env 1 alice sample_file AVATAR None None)
      (stored_new still_env alice sample_file AVATAR None None
         (dedup_key alice AVATAR (sha256_hex still_env (blob_buffer sample_file))) quota_world) (\<lambda>_ _. False) quota_world"
    using still_env_hyps(5)
    by (intro upload_new_calm [OF still_env_hyps(1,2,4) _ still_env_hyps(3) sample_file_servable UUID_PATTERN_samples(1)])
      (simp_all add: thumb_ok_def)
  then show ?thesis
    by (auto simp: wp_def split: prod.splits sum.splits)
qed

theorem upload_request_sound_witness:
  "acceptable still_env alice sample_file AVATAR"
proof -
  let ?req = "sample_request\<lparr>rq_conversation_id := None\<rparr>" and ?dto = "sample_dto\<lparr>d_context := Some AVATAR\<rparr>"
  have "upload_request still_env 1 ?req sample_files ?dto = upload still_env 1 alice sample_file AVATAR None None"
    by (simp add: upload_request_def with_user_def sample_request_def sample_files_def first_file_def sample_dto_def
        truthy_def alice_def conversation_of_def bindE_def ret_def fun_eq_iff)
  then obtain resp w' where "upload_request still_env 1 ?req sample_files ?dto quota_world = (Inr resp, w')"
    using sample_upload by metis
  from upload_request_sound [OF this] show ?thesis
    by (auto simp: sample_request_def sample_files_def first_file_def sample_dto_def)
qed

end
