(* ===== verification/Jwks.thy ===== *)
theory Jwks
  imports Remote_Services
begin

text \<open>
  \<open>jwks.service.ts\<close>: the ES256 key of the tokens, its choice from the JWKS document, and the
  loading with back-off at start-up.  The service's state is the key, the fetches made and the
  sleeps asked for; its environment the replies, the keys \<open>createPublicKey\<close> accepts, and
  whether the module has been destroyed by each suspension of the loader (a fetch or a sleep).
\<close>

definition BACKOFF_INITIAL_MS :: int where
  "BACKOFF_INITIAL_MS = 1000"

definition BACKOFF_CAP_MS :: int where
  "BACKOFF_CAP_MS = 30000"

definition BACKOFF_MAX_ATTEMPTS :: nat where
  "BACKOFF_MAX_ATTEMPTS = 10"

datatype fetch_outcome = FetchAborted | FetchRejected string | Fetched http_response

text \<open>A key object, with the JWK it was imported from.\<close>

datatype key_object = KeyObject json

record jwks_env =
  JWT_JWKS_URL :: "string option"
  jwks_fetch :: "nat \<Rightarrow> string \<Rightarrow> fetch_outcome"
  importable :: "json \<Rightarrow> bool"
  spki_pem :: "key_object \<Rightarrow> string"
  destroyed_at :: "nat \<Rightarrow> bool"

record jwks_service =
  publicKey :: "key_object option"
  fetches :: nat
  sleeps :: "int list"

section \<open>Choosing the key\<close>

definition json_truthy :: "json option \<Rightarrow> bool" where
  "json_truthy v = (case v of
     None \<Rightarrow> False
   | Some JNull \<Rightarrow> False
   | Some (JBool b) \<Rightarrow> b
   | Some (JNum n) \<Rightarrow> n \<noteq> 0
   | Some (JStr s) \<Rightarrow> s \<noteq> []
   | Some _ \<Rightarrow> True)"

definition prop_of :: "json \<Rightarrow> string \<Rightarrow> json option" where
  "prop_of j k = (case json_prop j k of Inl e \<Rightarrow> None | Inr v \<Rightarrow> v)"

definition es256_key :: "json \<Rightarrow> bool" where
  "es256_key k \<longleftrightarrow> prop_of k ''kty'' = Some (JStr ''EC'') \<and> prop_of k ''crv'' = Some (JStr ''P-256'')
     \<and> (prop_of k ''use'' = Some (JStr ''sig'') \<or> prop_of k ''alg'' = Some (JStr ''ES256''))"

text \<open>\<open>find\<close> reads a property of every element it visits; \<open>null\<close> has none.\<close>

fun find_key :: "json list \<Rightarrow> exn + json option" where
  "find_key [] = Inr None"
| "find_key (k # ks) =
     (if k = JNull then Inl (TypeError ''Cannot read properties of null (reading kty)'')
      else if es256_key k then Inr (Some k)
      else find_key ks)"

definition find_in_document :: "json \<Rightarrow> exn + json option" where
  "find_in_document doc =
     (case json_prop doc ''keys'' of
        Inl e \<Rightarrow> Inl e
      | Inr None \<Rightarrow> Inr None
      | Inr (Some JNull) \<Rightarrow> Inr None
      | Inr (Some (JArr ks)) \<Rightarrow> find_key ks
      | Inr (Some _) \<Rightarrow> Inl (TypeError ''document.keys?.find is not a function''))"

definition usable_key :: "jwks_env \<Rightarrow> json \<Rightarrow> exn + key_object" where
  "usable_key env doc =
     (case find_in_document doc of
        Inl e \<Rightarrow> Inl e
      | Inr None \<Rightarrow> Inl (JsError ''No ES256 (EC P-256) key found in JWKS document'')
      | Inr (Some k) \<Rightarrow>
          if \<not> json_truthy (prop_of k ''x'') \<or> \<not> json_truthy (prop_of k ''y'')
          then Inl (JsError ''ES256 (EC P-256) key in JWKS is missing required coordinates (x/y)'')
          else if importable env k then Inr (KeyObject k)
          else Inl (JsError ''Failed to import EC public key''))"

definition reply_key :: "jwks_env \<Rightarrow> fetch_outcome \<Rightarrow> exn + key_object" where
  "reply_key env out =
     (case out of
        FetchAborted \<Rightarrow> Inl (JsError ''JWKS fetch failed: timed out after 5000ms'')
      | FetchRejected msg \<Rightarrow> Inl (JsError (''JWKS fetch failed: '' @ msg))
      | Fetched response \<Rightarrow>
          if \<not> response_ok response
          then Inl (JsError (''JWKS endpoint returned HTTP '' @ show_nat (status response)))
          else (case json_body response of
              None \<Rightarrow> Inl (JsError ''Failed to parse JWKS response'')
            | Some doc \<Rightarrow> usable_key env doc))"

definition loadPublicKey :: "jwks_env \<Rightarrow> (jwks_service, unit) action" where
  "loadPublicKey env s =
     (case JWT_JWKS_URL env of
        None \<Rightarrow> (Inl (TypeError ''Configuration key JWT_JWKS_URL does not exist''), s)
      | Some uri \<Rightarrow>
          (let s1 = s\<lparr>fetches := Suc (fetches s)\<rparr> in
           case reply_key env (jwks_fetch env (fetches s) uri) of
             Inl e \<Rightarrow> (Inl e, s1)
           | Inr key \<Rightarrow> (Inr (), s1\<lparr>publicKey := Some key\<rparr>)))"

definition getPublicKeyPem :: "jwks_env \<Rightarrow> jwks_service \<Rightarrow> string option" where
  "getPublicKeyPem env s = map_option (spki_pem env) (publicKey s)"

definition isReady :: "jwks_service \<Rightarrow> bool" where
  "isReady s \<longleftrightarrow> publicKey s \<noteq> None"

section \<open>Loading with back-off\<close>

definition suspensions :: "jwks_service \<Rightarrow> nat" where
  "suspensions s = fetches s + length (sleeps s)"

definition destroyed :: "jwks_env \<Rightarrow> jwks_service \<Rightarrow> bool" where
  "destroyed env s \<longleftrightarrow> destroyed_at env (suspensions s)"

text \<open>
  \<open>onModuleDestroy\<close> clears the timer of a sleep under way, whose promise then never resolves;
  a sleep begun afterwards has a timer of its own.
\<close>

definition sleep :: "jwks_env \<Rightarrow> int \<Rightarrow> jwks_service \<Rightarrow> bool \<times> jwks_service" where
  "sleep env ms s =
     (let s1 = s\<lparr>sleeps := sleeps s @ [ms]\<rparr> in (destroyed env s \<or> \<not> destroyed env s1, s1))"

datatype loader_end = Loaded | Stopped | Suspended | GaveUp

fun load_attempts :: "jwks_env \<Rightarrow> nat \<Rightarrow> int \<Rightarrow> jwks_service \<Rightarrow> loader_end \<times> jwks_service" where
  "load_attempts env 0 delay s = (GaveUp, s)"
| "load_attempts env (Suc n) delay s =
     (if destroyed env s then (Stopped, s)
      else (case loadPublicKey env s of
          (Inr _, s1) \<Rightarrow> (Loaded, s1)
        | (Inl _, s1) \<Rightarrow>
            if n > 0 then
              (case sleep env delay s1 of
                 (False, s2) \<Rightarrow> (Suspended, s2)
               | (True, s2) \<Rightarrow> load_attempts env n (min (delay * 2) BACKOFF_CAP_MS) s2)
            else (GaveUp, s1)))"

partial_function (option) continueBackgroundRetry :: "jwks_env \<Rightarrow> jwks_service \<Rightarrow> (loader_end \<times> jwks_service) option" where
  "continueBackgroundRetry env s =
     (if publicKey s \<noteq> None then Some (Loaded, s)
      else if destroyed env s then Some (Stopped, s)
      else if \<not> fst (sleep env BACKOFF_CAP_MS s) then Some (Suspended, snd (sleep env BACKOFF_CAP_MS s))
      else if destroyed env (snd (sleep env BACKOFF_CAP_MS s)) then Some (Stopped, snd (sleep env BACKOFF_CAP_MS s))
      else continueBackgroundRetry env (snd (loadPublicKey env (snd (sleep env BACKOFF_CAP_MS s)))))"

definition loadPublicKeyWithRetry :: "jwks_env \<Rightarrow> jwks_service \<Rightarrow> (loader_end \<times> jwks_service) option" where
  "loadPublicKeyWithRetry env s =
     (case load_attempts env BACKOFF_MAX_ATTEMPTS BACKOFF_INITIAL_MS s of
        (GaveUp, s1) \<Rightarrow> continueBackgroundRetry env s1
      | r \<Rightarrow> Some r)"

section \<open>The chosen key\<close>

lemma find_key_first:
  "find_key ks = Inr (Some k) \<Longrightarrow> \<exists>before after. ks = before @ k # after \<and> es256_key k \<and> (\<forall>b \<in> set before. \<not> es256_key b)"
proof (induction ks)
  case (Cons a ks)
  show ?case
  proof (cases "es256_key a")
    case True
    with Cons.prems show ?thesis
      by (intro exI [of _ "[]"] exI [of _ ks]) (auto split: if_splits)
  next
    case False
    with Cons obtain before after where "ks = before @ k # after" "es256_key k" "\<forall>b \<in> set before. \<not> es256_key b"
      by (auto split: if_splits)
    with False show ?thesis
      by (intro exI [of _ "a # before"] exI [of _ after]) auto
  qed
qed simp

text \<open>The document offers this key: the first that is meant for ES256, complete and accepted.\<close>

definition offered :: "jwks_env \<Rightarrow> json \<Rightarrow> json \<Rightarrow> bool" where
  "offered env doc k \<longleftrightarrow> (\<exists>before after. json_prop doc ''keys'' = Inr (Some (JArr (before @ k # after)))
      \<and> es256_key k \<and> (\<forall>b \<in> set before. \<not> es256_key b))
     \<and> json_truthy (prop_of k ''x'') \<and> json_truthy (prop_of k ''y'') \<and> importable env k"

lemma usable_key_offered: "usable_key env doc = Inr key \<Longrightarrow> \<exists>k. key = KeyObject k \<and> offered env doc k"
  by (auto simp: usable_key_def find_in_document_def offered_def split: sum.splits option.splits json.splits if_splits
      dest!: find_key_first)

definition usable_reply :: "jwks_env \<Rightarrow> nat \<Rightarrow> bool" where
  "usable_reply env n \<longleftrightarrow> (\<exists>uri key. JWT_JWKS_URL env = Some uri \<and> reply_key env (jwks_fetch env n uri) = Inr key)"

lemma loadPublicKey_cases:
  obtains (fail) e s1 where "loadPublicKey env s = (Inl e, s1)" "publicKey s1 = publicKey s" "sleeps s1 = sleeps s"
      "\<not> usable_reply env (fetches s)"
      "fetches s1 = (if JWT_JWKS_URL env = None then fetches s else Suc (fetches s))"
  | (ok) s1 where "loadPublicKey env s = (Inr (), s1)" "publicKey s1 \<noteq> None" "sleeps s1 = sleeps s"
      "usable_reply env (fetches s)" "fetches s1 = Suc (fetches s)"
proof (cases "JWT_JWKS_URL env")
  case None
  then show ?thesis by (intro fail [of "TypeError ''Configuration key JWT_JWKS_URL does not exist''" s])
      (simp_all add: loadPublicKey_def usable_reply_def)
next
  case (Some uri)
  then show ?thesis
    by (cases "reply_key env (jwks_fetch env (fetches s) uri)")
      (auto simp: loadPublicKey_def usable_reply_def Let_def intro: fail ok)
qed


section \<open>Properties\<close>

text \<open>C12. Loading either fails and leaves the key as it was, or installs the first key of the document
  that is an EC P-256 key for ES256, complete and accepted by the crypto library.\<close>

theorem loadPublicKey_sound:
  "case loadPublicKey env s of
     (Inl e, s') \<Rightarrow> publicKey s' = publicKey s
   | (Inr _, s') \<Rightarrow> \<exists>uri r doc k. JWT_JWKS_URL env = Some uri \<and> jwks_fetch env (fetches s) uri = Fetched r
       \<and> response_ok r \<and> json_body r = Some doc \<and> offered env doc k \<and> publicKey s' = Some (KeyObject k)"
proof (cases "JWT_JWKS_URL env")
  case (Some uri)
  show ?thesis
  proof (cases "reply_key env (jwks_fetch env (fetches s) uri)")
    case (Inr key)
    then obtain r doc where "jwks_fetch env (fetches s) uri = Fetched r" "response_ok r" "json_body r = Some doc"
        "usable_key env doc = Inr key"
      by (auto simp: reply_key_def split: fetch_outcome.splits option.splits if_splits)
    with Some Inr usable_key_offered show ?thesis
      by (fastforce simp: loadPublicKey_def Let_def)
  qed (simp add: loadPublicKey_def Let_def Some)
qed (simp add: loadPublicKey_def)

text \<open>The replies that have already been asked for stay unusable; a usable one is found.\<close>

lemma never_destroyed_sleep:
  "(\<And>n. \<not> destroyed_at env n) \<Longrightarrow> sleep env ms s = (True, s\<lparr>sleeps := sleeps s @ [ms]\<rparr>)"
  by (simp add: sleep_def destroyed_def Let_def)

lemma load_attempts_calm:
  assumes "\<And>n. \<not> destroyed_at env n" and "JWT_JWKS_URL env \<noteq> None"
  shows "(fst (load_attempts env n d s) = Loaded \<and> publicKey (snd (load_attempts env n d s)) \<noteq> None
       \<and> (\<exists>k \<ge> fetches s. usable_reply env k \<and> (\<forall>j. fetches s \<le> j \<longrightarrow> j < k \<longrightarrow> \<not> usable_reply env j)
            \<and> fetches (snd (load_attempts env n d s)) = Suc k))
     \<or> (fst (load_attempts env n d s) = GaveUp \<and> publicKey (snd (load_attempts env n d s)) = publicKey s
       \<and> fetches (snd (load_attempts env n d s)) = fetches s + n
       \<and> (\<forall>j. fetches s \<le> j \<longrightarrow> j < fetches s + n \<longrightarrow> \<not> usable_reply env j))"
proof (induction n arbitrary: d s)
  case (Suc n)
  have nd: "\<not> destroyed env s" for s
    using assms(1) by (simp add: destroyed_def)
  show ?case
  proof (cases rule: loadPublicKey_cases [of env s])
    case (fail e s1)
    let ?s2 = "s1\<lparr>sleeps := sleeps s1 @ [d]\<rparr>"
    have f: "fetches ?s2 = Suc (fetches s)"
      using fail assms(2) by simp
    show ?thesis
    proof (cases "n = 0")
      case True
      with fail nd assms(2) show ?thesis by (auto simp: less_Suc_eq le_less)
    next
      case False
      then have step: "load_attempts env (Suc n) d s = load_attempts env n (min (d * 2) BACKOFF_CAP_MS) ?s2"
        using fail(1) nd by (simp add: never_destroyed_sleep [OF assms(1)])
      have le: "fetches s \<le> j \<longleftrightarrow> j = fetches s \<or> Suc (fetches s) \<le> j" for j by auto
      show ?thesis
        using Suc.IH [of "min (d * 2) BACKOFF_CAP_MS" ?s2] fail(2,4) unfolding step f le by auto
    qed
  next
    case (ok s1)
    with nd show ?thesis by (auto intro!: exI [of _ "fetches s"])
  qed
qed simp

lemma background_calm:
  assumes nd: "\<And>n. \<not> destroyed_at env n" and "usable_reply env (fetches s + m)"
    and "\<And>j. fetches s \<le> j \<Longrightarrow> j < fetches s + m \<Longrightarrow> \<not> usable_reply env j" and "publicKey s = None"
  shows "\<exists>s'. continueBackgroundRetry env s = Some (Loaded, s') \<and> publicKey s' \<noteq> None \<and> fetches s' = Suc (fetches s + m)"
  using assms(2-4)
proof (induction m arbitrary: s)
  case (0 s)
  let ?s1 = "s\<lparr>sleeps := sleeps s @ [BACKOFF_CAP_MS]\<rparr>"
  obtain s2 where "loadPublicKey env ?s1 = (Inr (), s2)" "publicKey s2 \<noteq> None" "fetches s2 = Suc (fetches s)"
    using 0(1) by (cases rule: loadPublicKey_cases [of env ?s1]) auto
  then show ?case
    using 0(3) nd
    by (simp add: continueBackgroundRetry.simps [of env s] destroyed_def never_destroyed_sleep
        continueBackgroundRetry.simps [of env s2])
next
  case (Suc m s)
  let ?s1 = "s\<lparr>sleeps := sleeps s @ [BACKOFF_CAP_MS]\<rparr>"
  have "JWT_JWKS_URL env \<noteq> None" "\<not> usable_reply env (fetches s)"
    using Suc.prems(1,2) by (auto simp: usable_reply_def)
  then obtain e s2 where s2: "loadPublicKey env ?s1 = (Inl e, s2)" "publicKey s2 = None" "fetches s2 = Suc (fetches s)"
    using Suc.prems(3) by (cases rule: loadPublicKey_cases [of env ?s1]) auto
  with Suc.prems(3) nd have step: "continueBackgroundRetry env s = continueBackgroundRetry env s2"
    by (subst continueBackgroundRetry.simps) (simp add: destroyed_def never_destroyed_sleep)
  show ?case
    using Suc.IH [of s2] Suc.prems s2 unfolding step by (simp add: add.commute add.left_commute)
qed

lemma first_usable:
  assumes "usable_reply env k" and "a \<le> k"
  obtains m where "usable_reply env (a + m)" "\<And>j. a \<le> j \<Longrightarrow> j < a + m \<Longrightarrow> \<not> usable_reply env j" "a + m \<le> k"
proof -
  define m where "m = (LEAST m. usable_reply env (a + m))"
  have u: "usable_reply env (a + (k - a))"
    using assms by simp
  have "usable_reply env (a + m)"
    unfolding m_def by (rule LeastI [of "\<lambda>m. usable_reply env (a + m)", OF u])
  moreover have "m \<le> k - a"
    unfolding m_def by (rule Least_le [of "\<lambda>m. usable_reply env (a + m)", OF u])
  moreover have "\<not> usable_reply env j" if "a \<le> j" "j < a + m" for j
    using not_less_Least [of "j - a" "\<lambda>m. usable_reply env (a + m)"] that by (auto simp: m_def)
  moreover have "a + m \<le> k"
    using \<open>m \<le> k - a\<close> assms(2) by simp
  ultimately show thesis
    using that by blast
qed

lemma loader_ready:
  assumes "\<And>n. \<not> destroyed_at env n" and "publicKey s = None" and "usable_reply env k" and "fetches s \<le> k"
  shows "\<exists>s'. loadPublicKeyWithRetry env s = Some (Loaded, s') \<and> isReady s' \<and> fetches s' \<le> Suc k"
proof -
  let ?r = "load_attempts env BACKOFF_MAX_ATTEMPTS BACKOFF_INITIAL_MS s"
  have "JWT_JWKS_URL env \<noteq> None"
    using assms(3) by (auto simp: usable_reply_def)
  from load_attempts_calm [OF assms(1) this, of BACKOFF_MAX_ATTEMPTS BACKOFF_INITIAL_MS s]
  show ?thesis
  proof (elim disjE conjE exE bexE)
    fix j
    assume r: "fst ?r = Loaded" "publicKey (snd ?r) \<noteq> None" "fetches s \<le> j" "fetches (snd ?r) = Suc j"
      "\<forall>i. fetches s \<le> i \<longrightarrow> i < j \<longrightarrow> \<not> usable_reply env i"
    then have "j \<le> k"
      using assms(3,4) by (meson not_le)
    with r show ?thesis
      by (cases ?r) (simp add: loadPublicKeyWithRetry_def isReady_def)
  next
    assume r: "fst ?r = GaveUp" "publicKey (snd ?r) = publicKey s" "fetches (snd ?r) = fetches s + BACKOFF_MAX_ATTEMPTS"
      "\<forall>j. fetches s \<le> j \<longrightarrow> j < fetches s + BACKOFF_MAX_ATTEMPTS \<longrightarrow> \<not> usable_reply env j"
    then have "fetches (snd ?r) \<le> k"
      using assms(3,4) by (metis not_le)
    then obtain m where m: "usable_reply env (fetches (snd ?r) + m)" "fetches (snd ?r) + m \<le> k"
        "\<And>j. fetches (snd ?r) \<le> j \<Longrightarrow> j < fetches (snd ?r) + m \<Longrightarrow> \<not> usable_reply env j"
      using first_usable [OF assms(3)] by metis
    have "publicKey (snd ?r) = None"
      using r(2) assms(2) by simp
    from background_calm [OF assms(1) m(1,3) this] r(1) m(2) show ?thesis
      by (cases ?r) (auto simp: loadPublicKeyWithRetry_def isReady_def)
  qed
qed

text \<open>C13. While the module lives, the loader never gives up: as soon as one of the coming replies offers
  a usable key, however late, the key is loaded and the service is ready, with no further fetch.\<close>

theorem loader_eventually_ready:
  assumes "\<And>n. \<not> destroyed_at env n" and "publicKey s = None" and "usable_reply env k" and "fetches s \<le> k"
  shows "\<exists>s'. loadPublicKeyWithRetry env s = Some (Loaded, s') \<and> isReady s' \<and> fetches s' \<le> Suc k"
  using assms by (rule loader_ready)

section \<open>When the loader ends\<close>

text \<open>A module that is destroyed stays destroyed.\<close>

definition destroyed_for_good :: "jwks_env \<Rightarrow> bool" where
  "destroyed_for_good env \<longleftrightarrow> (\<forall>m n. m \<le> n \<longrightarrow> destroyed_at env m \<longrightarrow> destroyed_at env n)"

lemma suspensions_load: "suspensions s \<le> suspensions (snd (loadPublicKey env s))"
  by (cases rule: loadPublicKey_cases [of env s]) (auto simp: suspensions_def)

lemma suspensions_sleep: "suspensions (snd (sleep env d s)) = Suc (suspensions s)"
  by (simp add: sleep_def suspensions_def Let_def)

lemma background_ends_destroyed:
  assumes "destroyed_for_good env" and "destroyed_at env n"
  shows "\<exists>r. continueBackgroundRetry env s = Some r"
proof (induction "n - suspensions s" arbitrary: s rule: less_induct)
  case less
  let ?s1 = "snd (sleep env BACKOFF_CAP_MS s)"
  let ?s2 = "snd (loadPublicKey env ?s1)"
  show ?case
  proof (cases "suspensions s < n")
    case True
    then have "n - suspensions ?s2 < n - suspensions s"
      using suspensions_load [of ?s1 env] by (simp add: suspensions_sleep)
    from less [OF this] show ?thesis
      by (subst continueBackgroundRetry.simps) auto
  next
    case False
    then have "destroyed env s"
      using assms unfolding destroyed_for_good_def destroyed_def by (meson not_le)
    then show ?thesis
      by (subst continueBackgroundRetry.simps) auto
  qed
qed

definition hopeless :: "jwks_env \<Rightarrow> jwks_service \<Rightarrow> bool" where
  "hopeless env s \<longleftrightarrow> publicKey s = None \<and> (\<forall>n. \<not> destroyed_at env n) \<and> (\<forall>k \<ge> fetches s. \<not> usable_reply env k)"

lemma hopeless_load: "hopeless env s \<Longrightarrow> hopeless env (snd (loadPublicKey env (s\<lparr>sleeps := sl\<rparr>)))"
  by (cases rule: loadPublicKey_cases [of env "s\<lparr>sleeps := sl\<rparr>"]) (auto simp: hopeless_def)

lemma background_hopeless: "continueBackgroundRetry env s = Some r \<Longrightarrow> \<not> hopeless env s"
proof (rule continueBackgroundRetry.raw_induct [where P = "\<lambda>env s r. \<not> hopeless env s"], goal_cases)
  case (1 retry env s r)
  have "retry env (snd (loadPublicKey env (s\<lparr>sleeps := sleeps s @ [BACKOFF_CAP_MS]\<rparr>))) = Some r" if "hopeless env s"
    using 1(3) that by (simp add: hopeless_def never_destroyed_sleep destroyed_def)
  with 1(2) hopeless_load show ?case by blast
qed

lemma attempts_hopeless:
  assumes "\<And>n. \<not> destroyed_at env n" and "\<And>k. fetches s \<le> k \<Longrightarrow> \<not> usable_reply env k"
  shows "\<exists>s'. load_attempts env n d s = (GaveUp, s') \<and> publicKey s' = publicKey s \<and> fetches s \<le> fetches s'"
  using assms(2)
proof (induction n arbitrary: d s)
  case (Suc n)
  then obtain e s1 where s1: "loadPublicKey env s = (Inl e, s1)" "publicKey s1 = publicKey s" "fetches s \<le> fetches s1"
    by (cases rule: loadPublicKey_cases [of env s]) (auto split: if_splits)
  let ?s2 = "s1\<lparr>sleeps := sleeps s1 @ [d]\<rparr>"
  obtain s' where "load_attempts env n (min (d * 2) BACKOFF_CAP_MS) ?s2 = (GaveUp, s')" "publicKey s' = publicKey s1" "fetches s1 \<le> fetches s'"
    using Suc.IH [of ?s2 "min (d * 2) BACKOFF_CAP_MS"] Suc.prems s1(3) by auto
  with s1 assms(1) show ?case
    by (auto simp: never_destroyed_sleep destroyed_def)
qed simp

text \<open>C14. The loader ends exactly when it has a reason to: it comes to rest if and only if the module is destroyed
  at some time or one of the coming replies offers a usable key; otherwise it retries for ever.\<close>

theorem loader_termination:
  assumes "destroyed_for_good env" and "publicKey s = None"
  shows "(\<exists>r. loadPublicKeyWithRetry env s = Some r)
    \<longleftrightarrow> (\<exists>n. destroyed_at env n) \<or> (\<exists>k \<ge> fetches s. usable_reply env k)"
proof (cases "\<exists>n. destroyed_at env n")
  case True
  then obtain n where n: "destroyed_at env n" ..
  have "\<exists>r. loadPublicKeyWithRetry env s = Some r"
    unfolding loadPublicKeyWithRetry_def using background_ends_destroyed [OF assms(1) n]
    by (auto split: prod.split loader_end.split)
  with n show ?thesis by blast
next
  case False
  show ?thesis
  proof (cases "\<exists>k \<ge> fetches s. usable_reply env k")
    case True
    with loader_ready [of env s] assms(2) False show ?thesis by blast
  next
    case none: False
    then obtain s1 where s1: "load_attempts env BACKOFF_MAX_ATTEMPTS BACKOFF_INITIAL_MS s = (GaveUp, s1)" "publicKey s1 = publicKey s"
        "fetches s \<le> fetches s1"
      using attempts_hopeless [of env s BACKOFF_MAX_ATTEMPTS BACKOFF_INITIAL_MS] False by blast
    then have "hopeless env s1"
      using False none assms(2) by (auto simp: hopeless_def)
    then have "continueBackgroundRetry env s1 = None"
      using background_hopeless [of env s1] by (cases "continueBackgroundRetry env s1") auto
    then show ?thesis
      using s1(1) False none by (simp add: loadPublicKeyWithRetry_def)
  qed
qed

section \<open>The delays\<close>

text \<open>The delays between the attempts.\<close>

fun backoff :: "nat \<Rightarrow> int \<Rightarrow> int list" where
  "backoff 0 d = []"
| "backoff (Suc n) d = d # backoff n (min (d * 2) BACKOFF_CAP_MS)"

lemma load_attempts_sleeps:
  "\<exists>m. sleeps (snd (load_attempts env n d s)) = sleeps s @ take m (backoff (n - 1) d)"
proof (induction n arbitrary: d s)
  case (Suc n)
  show ?case
  proof (cases rule: loadPublicKey_cases [of env s])
    case (fail e s1)
    show ?thesis
    proof (cases "destroyed env s \<or> n = 0")
      case True
      with fail(1,3) have "sleeps (snd (load_attempts env (Suc n) d s)) = sleeps s"
        by (elim disjE) (simp_all)
      then show ?thesis by (intro exI [of _ 0]) simp
    next
      case False
      then obtain k where k: "\<not> destroyed env s" "n = Suc k"
        by (cases n) simp_all
      obtain awake s2 where s2: "sleep env d s1 = (awake, s2)"
        by (cases "sleep env d s1")
      then have sl: "sleeps s2 = sleeps s @ [d]"
        using fail(3) by (auto simp: sleep_def Let_def)
      show ?thesis
      proof (cases awake)
        case True
        then have step: "load_attempts env (Suc n) d s = load_attempts env n (min (d * 2) BACKOFF_CAP_MS) s2"
          using fail(1) k s2 by simp
        obtain m where "sleeps (snd (load_attempts env (Suc n) d s))
            = sleeps s2 @ take m (backoff (n - 1) (min (d * 2) BACKOFF_CAP_MS))"
          using Suc.IH unfolding step by blast
        then show ?thesis
          using sl k(2) by (intro exI [of _ "Suc m"]) simp
      next
        case False
        then have "load_attempts env (Suc n) d s = (Suspended, s2)"
          using fail(1) k s2 by simp
        then show ?thesis
          using sl k(2) by (intro exI [of _ 1]) simp
      qed
    qed
  next
    case (ok s1)
    then show ?thesis by (auto intro!: exI [of _ 0])
  qed
qed simp

text \<open>C15. However the fetches and the module's life go, the start-up loader sleeps along a prefix of one
  schedule of nine delays: doubling from one second, capped at thirty, 151 seconds in all.\<close>

theorem loader_backoff:
  "\<exists>m. sleeps (snd (load_attempts env BACKOFF_MAX_ATTEMPTS BACKOFF_INITIAL_MS s))
     = sleeps s @ take m [1000, 2000, 4000, 8000, 16000, 30000, 30000, 30000, 30000]"
proof -
  have "backoff (BACKOFF_MAX_ATTEMPTS - 1) BACKOFF_INITIAL_MS
      = [1000, 2000, 4000, 8000, 16000, 30000, 30000, 30000, 30000]"
    by code_simp
  with load_attempts_sleeps [of env BACKOFF_MAX_ATTEMPTS BACKOFF_INITIAL_MS s] show ?thesis by simp
qed

text \<open>A loader whose first two fetches fail.\<close>

definition es256_jwk :: json where
  "es256_jwk = JObj [(''kty'', JStr ''EC''), (''crv'', JStr ''P-256''), (''alg'', JStr ''ES256''), (''x'', JStr ''AQ''), (''y'', JStr ''Ag'')]"

definition late_jwks_env :: jwks_env where
  "late_jwks_env = \<lparr>JWT_JWKS_URL = Some ''http://auth/jwks'',
     jwks_fetch = (\<lambda>n u. if n < 12 then FetchRejected ''ECONNREFUSED''
        else Fetched \<lparr>status = 200, json_body = Some (JObj [(''keys'', JArr [JObj [], es256_jwk])])\<rparr>),
     importable = (\<lambda>_. True), spki_pem = (\<lambda>_. ''pem''), destroyed_at = (\<lambda>_. False)\<rparr>"

definition jwks_start :: jwks_service where
  "jwks_start = \<lparr>publicKey = None, fetches = 0, sleeps = []\<rparr>"

theorem loader_eventually_ready_witness:
  "\<exists>s'. loadPublicKeyWithRetry late_jwks_env jwks_start = Some (Loaded, s') \<and> isReady s' \<and> fetches s' \<le> 13"
proof -
  have "usable_reply late_jwks_env 12"
    by (simp add: usable_reply_def late_jwks_env_def reply_key_def response_ok_def usable_key_def find_in_document_def
        es256_jwk_def json_prop_def es256_key_def prop_of_def json_truthy_def)
  then show ?thesis
    using loader_eventually_ready [of late_jwks_env jwks_start 12]
    by (simp add: late_jwks_env_def jwks_start_def)
qed

theorem loader_termination_witness:
  "loadPublicKeyWithRetry (late_jwks_env\<lparr>jwks_fetch := \<lambda>_ _. FetchAborted\<rparr>) jwks_start = None
   \<and> (\<exists>r. loadPublicKeyWithRetry (late_jwks_env\<lparr>jwks_fetch := \<lambda>_ _. FetchAborted, destroyed_at := \<lambda>n. 30 \<le> n\<rparr>) jwks_start = Some r)"
  (is "loadPublicKeyWithRetry ?silent _ = None \<and> (\<exists>r. loadPublicKeyWithRetry ?stopped _ = Some r)")
proof
  have "destroyed_for_good ?silent" "publicKey jwks_start = None" "\<And>k. \<not> usable_reply ?silent k"
    by (simp_all add: destroyed_for_good_def late_jwks_env_def jwks_start_def usable_reply_def reply_key_def)
  then have "\<nexists>r. loadPublicKeyWithRetry ?silent jwks_start = Some r"
    using loader_termination [of ?silent jwks_start] by (simp add: late_jwks_env_def)
  then show "loadPublicKeyWithRetry ?silent jwks_start = None"
    by (meson option.exhaust)
  have "destroyed_for_good ?stopped" "destroyed_at ?stopped 30" "publicKey jwks_start = None"
    by (simp_all add: destroyed_for_good_def jwks_start_def)
  then show "\<exists>r. loadPublicKeyWithRetry ?stopped jwks_start = Some r"
    using loader_termination [of ?stopped jwks_start] by blast
qed

end
