(* ===== verification/Auth_Guard.thy ===== *)
theory Auth_Guard
  imports Media_Controller Jwks
begin

text \<open>
  \<open>jwt-auth.guard.ts\<close>: the guard in front of every route that is not public.  The signature
  check of the JWT library is the parameter \<open>verify\<close>: the time, the key and the token to the
  payload, \<open>None\<close> when it throws.
\<close>

record jwt_payload =
  jp_sub :: "string option"
  jp_jti :: "string option"
  jp_deviceId :: "string option"
  jp_fingerprint :: "string option"

record auth_user =
  au_userId :: uuid
  au_jti :: string
  au_deviceId :: string
  au_fingerprint :: "string option"

type_synonym verifier = "millis \<Rightarrow> string \<Rightarrow> string \<Rightarrow> jwt_payload option"

definition extractBearerToken :: "string option \<Rightarrow> string option" where
  "extractBearerToken authHeader =
     (case authHeader of
        None \<Rightarrow> None
      | Some h \<Rightarrow> if js_starts_with h ''Bearer '' then Some (drop 7 h) else None)"

definition revoked_key :: "string \<Rightarrow> string" where
  "revoked_key jti = ''revoked:'' @ jti"

definition revoked_device_key :: "string \<Rightarrow> string" where
  "revoked_device_key deviceId = ''revoked_device:'' @ deviceId"

text \<open>\<open>Promise.all\<close> of two calls: both are made, and one rejection rejects the pair.\<close>

definition promise_all2 :: "'a io \<Rightarrow> 'b io \<Rightarrow> ('a \<times> 'b) io" where
  "promise_all2 m n w =
     (case m w of (r1, w1) \<Rightarrow>
       (case n w1 of (r2, w2) \<Rightarrow>
         (case r1 of
            Inl e \<Rightarrow> (Inl e, w2)
          | Inr x \<Rightarrow> (case r2 of Inl e \<Rightarrow> (Inl e, w2) | Inr y \<Rightarrow> (Inr (x, y), w2)))))"

text \<open>The user that is attached to the request; none on a public route.\<close>

definition canActivate ::
  "env \<Rightarrow> jwks_env \<Rightarrow> jwks_service \<Rightarrow> verifier \<Rightarrow> bool \<Rightarrow> request \<Rightarrow> auth_user option io" where
  "canActivate env jenv jwks verify isPublic req =
     (if isPublic then ret None
      else (let token = extractBearerToken (rq_authorization req) in
        if \<not> truthy token then throw Unauthorized
        else if \<not> truthy (getPublicKeyPem jenv jwks) then throw Unauthorized
        else bindE (gets (\<lambda>w. verify (now env w) (the (getPublicKeyPem jenv jwks)) (the token))) (\<lambda>verified.
          case verified of
            None \<Rightarrow> throw Unauthorized
          | Some payload \<Rightarrow>
              if \<not> truthy (jp_sub payload) \<or> \<not> truthy (jp_jti payload) \<or> \<not> truthy (jp_deviceId payload)
              then throw Unauthorized
              else
                (let sub = the (jp_sub payload); jti = the (jp_jti payload); deviceId = the (jp_deviceId payload) in
                 bindE (promise_all2 (cache_get env (revoked_key jti)) (cache_get env (revoked_device_key deviceId)))
                   (\<lambda>(tokenRevoked, deviceRevoked).
                 if tokenRevoked \<noteq> None then throw Unauthorized
                 else if deviceRevoked \<noteq> None then throw Unauthorized
                 else ret (Some \<lparr>au_userId = sub, au_jti = jti, au_deviceId = deviceId,
                    au_fingerprint = jp_fingerprint payload\<rparr>))))))"

section \<open>What is admitted\<close>

lemma wp_promise_all2:
  "wp (promise_all2 m n) Q R w =
     wp m (\<lambda>x. wp n (\<lambda>y. Q (x, y)) R) (\<lambda>e. wp n (\<lambda>_. R e) (\<lambda>_. R e)) w"
  by (simp add: wp_def promise_all2_def split: prod.splits sum.splits)

text \<open>The header carries a token that verifies to this payload.\<close>

definition presents :: "env \<Rightarrow> jwks_env \<Rightarrow> jwks_service \<Rightarrow> verifier \<Rightarrow> world \<Rightarrow> request \<Rightarrow> jwt_payload \<Rightarrow> bool" where
  "presents env jenv jwks verify w req p \<longleftrightarrow> (\<exists>token pem. rq_authorization req = Some (''Bearer '' @ token)
     \<and> token \<noteq> [] \<and> getPublicKeyPem jenv jwks = Some pem \<and> pem \<noteq> [] \<and> verify (now env w) pem token = Some p)"

definition unrevoked :: "env \<Rightarrow> world \<Rightarrow> auth_user \<Rightarrow> bool" where
  "unrevoked env w au \<longleftrightarrow> cache_find (now env (tick w)) (cache w) (revoked_key (au_jti au)) = None
     \<and> cache_find (now env (tick (tick w))) (cache w) (revoked_device_key (au_deviceId au)) = None"

definition identified :: "jwt_payload \<Rightarrow> auth_user \<Rightarrow> bool" where
  "identified p au \<longleftrightarrow> jp_sub p = Some (au_userId au) \<and> jp_jti p = Some (au_jti au)
     \<and> jp_deviceId p = Some (au_deviceId au) \<and> jp_fingerprint p = au_fingerprint au
     \<and> au_userId au \<noteq> [] \<and> au_jti au \<noteq> [] \<and> au_deviceId au \<noteq> []"

lemma bearer_token: "extractBearerToken h = Some t \<longleftrightarrow> h = Some (''Bearer '' @ t)"
  by (auto simp: extractBearerToken_def js_starts_with_iff split: option.splits if_splits)

lemma bearer_token_of: "the (extractBearerToken (Some (''Bearer '' @ t))) = t"
  by (simp add: extractBearerToken_def)

lemma truthy_iff: "truthy s \<longleftrightarrow> (\<exists>t. s = Some t \<and> t \<noteq> [])"
  by (auto simp: truthy_def split: option.splits)

lemma same_db_cache_get:
  "wp (cache_get env k) (\<lambda>v w'. same_db w w' \<and> v = cache_find (now env (tick w1)) (cache w) k \<and> ticks w' = Suc (ticks w1))
     (\<lambda>e w'. same_db w w' \<and> http_status e = 500 \<and> ticks w' = Suc (ticks w1)) w1" if "same_db w w1"
  using that by (simp add: cache_get_def wp_ext same_dbD split: outcome.split) (simp add: wp_def same_dbD(4))

lemma wp_canActivate:
  "wp (canActivate env jenv jwks verify False req)
     (\<lambda>res w'. same_db w w' \<and> (\<exists>p au. res = Some au \<and> presents env jenv jwks verify w req p \<and> identified p au
         \<and> unrevoked env w au))
     (\<lambda>e w'. same_db w w' \<and> http_status e \<in> {401, 500}) w"
proof -
  have cg: "wp (cache_get env k) Q R w1"
    if "same_db w w1" "\<And>w'. same_db w w' \<Longrightarrow> ticks w' = Suc (ticks w1) \<Longrightarrow> Q (cache_find (now env (tick w1)) (cache w) k) w'"
      "\<And>e w'. same_db w w' \<Longrightarrow> http_status e = 500 \<Longrightarrow> ticks w' = Suc (ticks w1) \<Longrightarrow> R e w'" for k Q R w1
    by (rule wp_mono [OF same_db_cache_get [OF that(1)]]) (use that in auto)
  show ?thesis
    unfolding canActivate_def
    by (auto simp: wp_simps wp_pf Let_def wp_promise_all2 truthy_iff bearer_token presents_def identified_def unrevoked_def
        now_def bearer_token_of [simplified] intro!: cg split: option.split)
qed

section \<open>Properties\<close>

text \<open>On a route that is not public the guard admits only a request whose bearer token verifies under the
  loaded key to a payload with a subject, a token id and a device id, neither of them revoked when the
  cache is read, and attaches that subject; otherwise it answers 401, or 500 when the cache cannot be
  read, and it never changes the tables, the cache or the bucket.\<close>

theorem guard_admits_only_verified:
  "case canActivate env jenv jwks verify False req w of
     (Inr res, w') \<Rightarrow> same_db w w' \<and> (\<exists>p au. res = Some au \<and> presents env jenv jwks verify w req p \<and> identified p au
         \<and> unrevoked env w au)
   | (Inl e, w') \<Rightarrow> same_db w w' \<and> http_status e \<in> {401, 500}"
  using wp_canActivate [of env jenv jwks verify req w] by (auto simp: wp_def split: prod.splits sum.splits)

lemma guard_calm:
  assumes "calm env" and "presents env jenv jwks verify w req p" and "identified p au"
  shows "wp (canActivate env jenv jwks verify False req)
     (\<lambda>res w'. unrevoked env w au \<and> res = Some au) (\<lambda>e w'. \<not> unrevoked env w au \<and> e = Unauthorized) w"
proof -
  obtain token pem where t: "rq_authorization req = Some (''Bearer '' @ token)" "token \<noteq> []"
      "getPublicKeyPem jenv jwks = Some pem" "pem \<noteq> []" "verify (now env w) pem token = Some p"
    using assms(2) by (auto simp: presents_def)
  have "extractBearerToken (rq_authorization req) = Some token"
    using t(1) by (simp only: bearer_token)
  then show ?thesis
    using assms(1,3) t(2-5)
    by (auto simp: canActivate_def wp_simps wp_pf Let_def wp_promise_all2 truthy_def wp_calm identified_def unrevoked_def)
qed

end
