(* ===== verification/Table_Guarantee.thy ===== *)
theory Table_Guarantee
  imports Media_Controller
begin

text \<open>
  What a condition on the media and quota tables needs so that no request of a user breaks it, whatever
  fails.  The interface \<open>table_guarantee\<close> asks for the five statements that write these tables, run in a
  transaction as the user, and for the row that an accepted upload inserts; it gives every operation of the
  services and every handler.  It rests on the smaller interface \<open>read_guarantee\<close>, which asks only for the
  updates that reads and shares make, of a signed URL's expiry and of a list of readers.
\<close>

section \<open>The interface\<close>

definition tables_of :: "world \<Rightarrow> media list \<times> user_quota list" where
  "tables_of w = (media_tbl w, quota_tbl w)"

lemma tables_of_upds [simp]:
  "tables_of (tick w) = tables_of w" "tables_of (w\<lparr>log_tbl := l\<rparr>) = tables_of w"
  "tables_of (w\<lparr>guc := g\<rparr>) = tables_of w" "tables_of (w\<lparr>cache := c\<rparr>) = tables_of w"
  "tables_of (w\<lparr>redis := d\<rparr>) = tables_of w" "tables_of (w\<lparr>s3 := b\<rparr>) = tables_of w"
  "tables_of (w\<lparr>published := e\<rparr>) = tables_of w" "tables_of (w\<lparr>uuids_used := n\<rparr>) = tables_of w"
  "tables_of (w\<lparr>uploadsTotal := n\<rparr>) = tables_of w" "tables_of (w\<lparr>downloadsTotal := n\<rparr>) = tables_of w"
  "tables_of (w\<lparr>deletesTotal := n\<rparr>) = tables_of w" "tables_of (w\<lparr>ticks := n\<rparr>) = tables_of w"
  "tables_of (restore_db w0 w1) = tables_of w0"
  by (simp_all add: tables_of_def)

text \<open>The columns that no update changes.\<close>

definition same_object :: "media \<Rightarrow> media \<Rightarrow> bool" where
  "same_object r r' \<longleftrightarrow> m_id r = m_id r' \<and> m_ownerId r = m_ownerId r' \<and> m_context r = m_context r'
     \<and> m_storagePath r = m_storagePath r' \<and> m_thumbnailPath r = m_thumbnailPath r' \<and> m_contentType r = m_contentType r'
     \<and> m_blobSize r = m_blobSize r'"

definition thumbnail_at :: "uuid \<Rightarrow> uuid \<Rightarrow> string option \<Rightarrow> bool" where
  "thumbnail_at ownerId mid t \<longleftrightarrow> (case t of None \<Rightarrow> True | Some path \<Rightarrow> buildPath ''thumbnails'' ownerId mid = Inr path)"

locale read_guarantee =
  fixes suits :: "env \<Rightarrow> bool"
    and inv :: "uuid \<Rightarrow> media list \<times> user_quota list \<Rightarrow> bool"
  assumes update_column_keeps:
      "suits env \<Longrightarrow> (\<And>r. same_object (f r) r) \<Longrightarrow> (\<And>r. m_isActive (f r) = m_isActive r) \<Longrightarrow>
       keeps (\<lambda>w. inv u (tables_of w) \<and> guc w = Some u) (update_media env mid f)"

locale table_guarantee =
  fixes suits :: "env \<Rightarrow> bool"
    and inv :: "uuid \<Rightarrow> media list \<times> user_quota list \<Rightarrow> bool"
    and admitted :: "media \<Rightarrow> bool"
  assumes update_media_keeps:
      "suits env \<Longrightarrow> (\<And>r. same_object (f r) r) \<Longrightarrow> keeps (\<lambda>w. inv u (tables_of w) \<and> guc w = Some u) (update_media env mid f)"
    and save_keeps: "suits env \<Longrightarrow> admitted m \<Longrightarrow> keeps (\<lambda>w. inv u (tables_of w) \<and> guc w = Some u) (save env m)"
    and update_quota_keeps:
      "suits env \<Longrightarrow> (\<And>q. q_userId (g q) = q_userId q) \<Longrightarrow> keeps (\<lambda>w. inv u (tables_of w) \<and> guc w = Some u) (update_quota env v g)"
    and insert_quota_keeps: "suits env \<Longrightarrow> keeps (\<lambda>w. inv u (tables_of w) \<and> guc w = Some u) (insert_quota_or_ignore env mk)"
    and new_media_admitted:
      "acceptable env v fl ctx \<Longrightarrow> buildPath (contextToStorageContext ctx) v mid = Inr path \<Longrightarrow> thumbnail_at v mid t \<Longrightarrow>
       admitted (new_media env mid v ctx fl path t us at)"
    and suits_intercept: "suits env \<Longrightarrow> suits (rls_intercept x env)"

text \<open>What holds for all updates of a row holds for those of reads and shares.\<close>

sublocale table_guarantee \<subseteq> read_guarantee suits inv
  by unfold_locales (rule update_media_keeps)

lemma keeps_bindE_post:
  assumes "keeps I m" and "\<And>w. wp m (\<lambda>x _. P x) (\<lambda>_ _. True) w" and "\<And>x. P x \<Longrightarrow> keeps I (k x)"
  shows "keeps I (bindE m k)"
proof -
  have "wp (bindE m k) (\<lambda>_. I) (\<lambda>_. I) w" if "I w" for w
  proof -
    have "wp m (\<lambda>_. I) (\<lambda>_. I) w"
      using assms(1) that by (simp add: keeps_wp)
    from wp_conj [OF this assms(2)] show ?thesis
      unfolding wp_bindE by (rule wp_mono) (use assms(3) in \<open>auto simp: keeps_wp\<close>)
  qed
  then show ?thesis by (simp add: keeps_wp)
qed

lemma keeps_bindE_result: "(\<And>x. r = Inr x \<Longrightarrow> keeps I (k x)) \<Longrightarrow> keeps I (bindE (from_result r) k)"
  by (rule keeps_bindE_post [OF keeps_from_result, where P = "\<lambda>x. r = Inr x"]) (simp_all add: wp_from_result split: sum.split)

lemma keeps_cval [keeps_intros]:
  "(\<And>c. keeps I (m c)) \<Longrightarrow> keeps I n \<Longrightarrow> keeps I (case v of CMeta c \<Rightarrow> m c | _ \<Rightarrow> n)"
  by (simp split: cval.split)

lemma frame_find_and_count [frame_intros]:
  "(\<And>w. g (tick w) = g w) \<Longrightarrow> frame g (find_and_count env v skip limit)"
  unfolding find_and_count_def by (intro frame_bindE frame_ext frame_ret) (auto simp: frame_def gets_def)

lemmas keeps_structure = keeps_bindE keeps_prod_case keeps_prod keeps_if keeps_option keeps_let keeps_ret keeps_throw keeps_gets
  keeps_from_result keeps_throw_when keeps_fire_and_forget keeps_catchE keeps_finallyE keeps_for_each keeps_cval

section \<open>The services\<close>

context read_guarantee
begin

abbreviation stays :: "uuid \<Rightarrow> 'a io \<Rightarrow> bool" where
  "stays u m \<equiv> keeps (\<lambda>w. inv u (tables_of w)) m"

abbreviation stays_in_tx :: "uuid \<Rightarrow> 'a io \<Rightarrow> bool" where
  "stays_in_tx u m \<equiv> keeps (\<lambda>w. inv u (tables_of w) \<and> guc w = Some u) m"

lemma stays_frame: "frame tables_of m \<Longrightarrow> stays u m"
  by (simp add: frame_def keeps_def)

lemma stays_in_tx_frame: "frame tables_of m \<Longrightarrow> frame guc m \<Longrightarrow> stays_in_tx u m"
  by (simp add: frame_def keeps_def)

lemma stays_transaction:
  assumes "acts_as env u" and "stays_in_tx u body"
  shows "stays u (transaction env body)"
proof (rule keeps_transaction_as [OF assms(1) _ assms(2)])
  show "tick_free (\<lambda>w. inv u (tables_of w))"
    by (rule tick_freeI) simp
qed simp

lemma stays_column_updates:
  assumes "suits env"
  shows "stays_in_tx u (updateSignedUrlExpiry env mid at)" "stays_in_tx u (updateSharedWith env mid us)"
  unfolding updateSignedUrlExpiry_def updateSharedWith_def
  by (rule update_column_keeps [OF assms]; simp add: same_object_def)+

lemma stays_writeAccessLog: "stays u (writeAccessLog env m a t ip ua)"
  by (rule stays_frame, intro frame_intros) simp_all

lemma stays_find_media: "stays u (find_media env mid)"
  by (rule stays_frame, intro frame_intros) simp_all

lemma stays_getMetadata: "stays u (getMetadata env mid v)"
  unfolding getMetadata_def
  by (intro keeps_structure stays_find_media; (rule stays_frame; intro frame_intros)?; simp)

lemma stays_stream:
  "stays u (streamBlob env mid v ip ua)" "stays u (streamThumbnail env mid v ip ua)" "stays u (getThumbnail env mid v ip ua)"
  unfolding streamBlob_def streamThumbnail_def getThumbnail_def storage_download_def generatePresignedUrl_def inc_downloads_def
  by (intro keeps_structure stays_find_media stays_writeAccessLog; (rule stays_frame; intro frame_intros)?; simp)+

lemma stays_getBlob:
  assumes "acts_as env u" and "suits env"
  shows "stays u (getBlob env mid v ip ua)"
  unfolding getBlob_def getOrGenerateSignedUrl_def regenerateSignedUrl_def generatePresignedUrl_def inc_downloads_def
  by (intro keeps_structure stays_transaction [OF assms(1)] stays_column_updates [OF assms(2)] stays_writeAccessLog;
    (rule stays_frame stays_in_tx_frame; intro frame_intros)?; simp)

lemma stays_share:
  assumes "acts_as env u" and "suits env"
  shows "stays u (share env mid v us)"
  unfolding share_def share_in_transaction_def
  by (intro keeps_structure stays_transaction [OF assms(1)] stays_column_updates [OF assms(2)];
    (rule stays_frame stays_in_tx_frame; intro frame_intros)?; simp)

lemma stays_reports: "stays u (getUserQuota env v)" "stays u (getUserMedia env v page limit)"
  unfolding getUserQuota_def getUserMedia_def by (rule stays_frame, intro frame_intros; simp)+

lemma stays_merge_readers:
  assumes "acts_as env u" and "suits env"
  shows "stays u (merge_readers env m us)"
  unfolding merge_readers_def
  by (intro keeps_structure stays_transaction [OF assms(1)] stays_column_updates [OF assms(2)];
    (rule stays_frame; intro frame_intros)?; simp)

lemma stays_try_dedup:
  assumes "acts_as env u" and "suits env"
  shows "stays u (try_dedup env key us)"
  unfolding try_dedup_def
  by (intro keeps_structure stays_find_media stays_merge_readers [OF assms]; (rule stays_frame; intro frame_intros)?; simp)

end

context table_guarantee
begin

lemma stays_softDelete: "suits env \<Longrightarrow> stays_in_tx u (softDelete env mid)"
  unfolding softDelete_def by (rule update_media_keeps; simp add: same_object_def)

lemma stays_getOrCreateQuota:
  assumes "acts_as env u" and "suits env"
  shows "stays u (getOrCreateQuota env v)"
  unfolding getOrCreateQuota_def fetch_or_insert_quota_def
  by (intro keeps_structure stays_transaction [OF assms(1)] insert_quota_keeps [OF assms(2)];
    (rule stays_frame stays_in_tx_frame; intro frame_intros)?; simp)

lemma stays_update_quota_or_fail:
  assumes "acts_as env u" and "suits env" and "\<And>q. q_userId (f q) = q_userId q"
  shows "stays u (update_quota_or_fail env v f)"
  unfolding update_quota_or_fail_def
  by (intro keeps_structure stays_transaction [OF assms(1)] update_quota_keeps [OF assms(2,3)])

lemma stays_recordUpload:
  assumes "acts_as env u" and "suits env"
  shows "stays u (recordUpload env v n)"
  unfolding recordUpload_def checkAndPublishQuotaAlert_def
  by (intro keeps_structure stays_update_quota_or_fail [OF assms] stays_getOrCreateQuota [OF assms];
    (rule stays_frame; intro frame_intros)?; simp)

lemma stays_recordDelete:
  assumes "acts_as env u" and "suits env"
  shows "stays u (recordDelete env v n)"
  unfolding recordDelete_def
  by (intro keeps_structure stays_update_quota_or_fail [OF assms]; (rule stays_frame; intro frame_intros)?; simp)

lemma stays_delete:
  assumes "acts_as env u" and "suits env"
  shows "stays u (delete_media env mid v ip ua)"
  unfolding delete_media_def delete_in_transaction_def
  by (intro keeps_structure stays_transaction [OF assms(1)] stays_softDelete [OF assms(2)] stays_recordDelete [OF assms]
      stays_writeAccessLog;
    (rule stays_frame stays_in_tx_frame; intro frame_intros)?; simp)

end

section \<open>Uploads\<close>

lemma wp_upload_thumbnail: "wp (upload_thumbnail env v mid thumb) (\<lambda>t _. thumbnail_at v mid t) (\<lambda>_ _. True) w"
  by (cases thumb) (auto simp: upload_thumbnail_def thumbnail_at_def wp_simps wp_pf wp_K split: sum.split)

context table_guarantee
begin

lemma stays_persist:
  assumes "acts_as env u" and "suits env" and "admitted m"
  shows "stays u (persist env m t)"
  unfolding persist_def
  by (intro keeps_structure stays_transaction [OF assms(1)] save_keeps [OF assms(2,3)]; (rule stays_frame; intro frame_intros)?; simp)

lemma stays_store_new:
  assumes "acts_as env u" and "suits env" and "acceptable env v fl ctx"
  shows "stays u (store_new env key v fl ctx thumb us)"
proof -
  have saved: "stays u (bindE (persist env m t) (\<lambda>_. after_saved env key m))" if "admitted m" for m t
    unfolding after_saved_def inc_uploads_def
    by (intro keeps_structure stays_persist [OF assms(1,2) that] stays_recordUpload [OF assms(1,2)];
      (rule stays_frame; intro frame_intros)?; simp)
  have row: "stays u (bindE (gets (\<lambda>w. new_media env mid v ctx fl path t us (now env w))) (\<lambda>m.
      bindE (persist env m t) (\<lambda>_. after_saved env key m)))"
    if "buildPath (contextToStorageContext ctx) v mid = Inr path" "thumbnail_at v mid t" for mid path t
    by (rule keeps_bindE_post [OF keeps_gets, where P = admitted])
      (use new_media_admitted [OF assms(3) that] in \<open>auto simp: wp_gets intro: saved\<close>)
  have thumb: "stays u (upload_thumbnail env v mid thumb)" "stays u (storage_upload env path b ty)" "stays u (randomUUID env)" for mid path b ty
    by (rule stays_frame, intro frame_intros; simp)+
  show ?thesis
    unfolding store_new_def
    by (intro keeps_bindE [OF thumb(3)] keeps_bindE_result keeps_bindE [OF thumb(2)] keeps_bindE_post [OF thumb(1) wp_upload_thumbnail] row)
qed

lemma stays_upload:
  assumes "acts_as env u" and "suits env"
  shows "stays u (upload env n v fl ctx thumb us)"
proof -
  have check: "stays u (check_upload env v fl ctx)"
    unfolding check_upload_def enforceQuota_def checkQuota_def
    by (intro keeps_structure stays_getOrCreateQuota [OF assms]; (rule stays_frame; intro frame_intros)?; simp)
  have work: "stays u (upload_work env v fl ctx thumb us)"
    unfolding upload_work_def
    by (rule keeps_bindE_post [OF check wp_check_upload]) (intro keeps_structure stays_try_dedup [OF assms] stays_store_new [OF assms]; assumption)
  show ?thesis
    unfolding upload_def with_upload_semaphore_def runWithSemaphoreTtlRefresh_def
    by (intro keeps_structure work; (rule stays_frame; intro frame_intros)?; simp)
qed

lemma stays_upload_request:
  assumes "acts_as env u" and "suits env"
  shows "stays u (upload_request env n req files dto)"
proof -
  have "stays u (enforceE2EEContentType env c t)" for c t
    unfolding enforceE2EEContentType_def isConversationE2EE_def fetchE2eeStatus_def fetch_def
    by (rule stays_frame, intro frame_intros) simp_all
  then show ?thesis
    unfolding upload_request_def with_user_def by (intro keeps_structure stays_upload [OF assms])
qed

end

end
