(* ===== verification/Request_Pipeline.thy ===== *)
theory Request_Pipeline
  imports Auth_Guard Table_Guarantee
begin

text \<open>
  A request from the socket to the handler: the guard, the interceptor that binds the user for
  the transactions, the route's handler.  What an authenticated user can do to the data of
  others, over any sequence of requests and under any failures.
\<close>

datatype route =
    RUpload nat upload_files upload_dto
  | RQuota
  | RMyMedia "string option" "string option"
  | RMetadata uuid
  | RBlob uuid "string option"
  | RThumbnail uuid "string option"
  | RShare uuid "uuid list"
  | RDelete uuid

datatype answer =
    AUpload upload_response
  | AQuota quota_report
  | AMyMedia media_page
  | AMetadata media_metadata
  | ABlob blob_reply
  | AThumbnail thumbnail_reply
  | AShared "uuid list"
  | ADeleted

abbreviation returning :: "('a \<Rightarrow> 'b) \<Rightarrow> 'a io \<Rightarrow> 'b io" where
  "returning f m \<equiv> bindE m (\<lambda>x. ret (f x))"

fun route_handler :: "env \<Rightarrow> request \<Rightarrow> route \<Rightarrow> answer io" where
  "route_handler env req (RUpload firings files dto) = returning AUpload (upload_request env firings req files dto)"
| "route_handler env req RQuota = returning AQuota (get_quota_request env req)"
| "route_handler env req (RMyMedia page limit) = returning AMyMedia (get_my_media_request env req page limit)"
| "route_handler env req (RMetadata mid) = returning AMetadata (get_metadata_request env mid req)"
| "route_handler env req (RBlob mid stream) = returning ABlob (get_blob_request env mid stream req)"
| "route_handler env req (RThumbnail mid stream) = returning AThumbnail (get_thumbnail_request env mid stream req)"
| "route_handler env req (RShare mid us) = returning AShared (share_request env mid req us)"
| "route_handler env req (RDelete mid) = returning (\<lambda>_. ADeleted) (delete_request env mid req)"

definition attach_user :: "auth_user option \<Rightarrow> request \<Rightarrow> request" where
  "attach_user au req = req\<lparr>rq_userId := map_option au_userId au\<rparr>"

definition serve :: "env \<Rightarrow> jwks_env \<Rightarrow> jwks_service \<Rightarrow> verifier \<Rightarrow> request \<Rightarrow> route \<Rightarrow> answer io" where
  "serve env jenv jwks verify req route =
     bindE (canActivate env jenv jwks verify False req) (\<lambda>au.
     let req' = attach_user au req in route_handler (rls_intercept (rq_userId req') env) req' route)"

lemma serve_runs:
  assumes "serve env jenv jwks verify req route w = (Inr ans, w')"
  obtains p au w1 where "presents env jenv jwks verify w req p" and "identified p au" and "unrevoked env w au"
    and "same_db w w1"
    and "route_handler (rls_intercept (Some (au_userId au)) env) (attach_user (Some au) req) route w1 = (Inr ans, w')"
proof -
  obtain res w1 where g: "canActivate env jenv jwks verify False req w = (Inr res, w1)"
    and h: "route_handler (rls_intercept (rq_userId (attach_user res req)) env) (attach_user res req) route w1 = (Inr ans, w')"
    using assms unfolding serve_def Let_def by (rule bindE_InrD)
  from wp_canActivate [of env jenv jwks verify req w] g h that show thesis
    by (auto simp: wp_def attach_user_def)
qed

section \<open>Reads\<close>

text \<open>What an answer to a read is allowed to give to a user.\<close>

fun justified :: "env \<Rightarrow> world \<Rightarrow> uuid \<Rightarrow> route \<Rightarrow> answer \<Rightarrow> bool" where
  "justified env w u (RBlob mid stream) (ABlob (BlobUrl u1 until)) \<longleftrightarrow>
     (\<exists>r. granted w mid u r \<and> signed_for env r (u1, until))"
| "justified env w u (RBlob mid stream) (ABlob (BlobBytes f)) \<longleftrightarrow>
     (\<exists>r. granted w mid u r \<and> (\<exists>ob. s3 w (m_storagePath r) = Some ob \<and> o_body ob = sf_body f))"
| "justified env w u (RThumbnail mid stream) (AThumbnail t) \<longleftrightarrow>
     (\<exists>r. granted w mid u r
        \<and> (case t of ThumbnailUrl link \<Rightarrow> thumbnail_link env r link | ThumbnailBytes f \<Rightarrow> thumbnail_bytes w r (Some f)))"
| "justified env w u (RMetadata mid) (AMetadata d) \<longleftrightarrow> described w mid u d"
| "justified env w u (RShare mid us) (AShared readers) \<longleftrightarrow>
     (\<exists>r \<in> set (media_tbl w). m_id r = mid \<and> m_isActive r \<and> m_ownerId r = u
        \<and> set readers = set (current_readers r) \<union> {v \<in> set us. v \<noteq> [] \<and> v \<noteq> u})"
| "justified env w u (RDelete mid) ADeleted \<longleftrightarrow> owns_active w u mid"
| "justified env w u (RUpload n files dto) (AUpload resp) \<longleftrightarrow>
     (\<exists>fl. first_file (uf_file files) = Some fl
        \<and> acceptable env u fl (case d_context dto of None \<Rightarrow> MESSAGE | Some c \<Rightarrow> c))"
| "justified env w u RQuota (AQuota rep) \<longleftrightarrow>
     (\<exists>q. rep = quota_report_of q \<and> (\<forall>row. q = Some row \<longrightarrow> row \<in> set (quota_tbl w) \<and> q_userId row = u))"
| "justified env w u (RMyMedia page limit) (AMyMedia pg) \<longleftrightarrow>
     (\<forall>it \<in> set (pg_items pg). \<exists>r \<in> set (media_tbl w). it = item_of r \<and> m_ownerId r = u \<and> m_isActive r)"
| "justified env w u r a \<longleftrightarrow> False"

lemma granted_same: "same_db w w1 \<Longrightarrow> granted w1 mid u = granted w mid u"
  by (simp add: granted_def same_dbD fun_eq_iff)

lemma described_same: "same_db w w1 \<Longrightarrow> described w1 mid u d = described w mid u d"
  by (simp add: described_def same_dbD)

lemma owns_active_same: "same_db w w1 \<Longrightarrow> owns_active w1 u mid = owns_active w u mid"
  by (simp add: owns_active_def same_dbD)

lemma meta_safe_same: "same_db w w1 \<Longrightarrow> meta_safe w1 = meta_safe w"
  by (simp add: meta_safe_def same_dbD)

lemma rls_intercept_simps [simp]:
  "cfg (rls_intercept u env) = cfg env" "presigned (rls_intercept u env) = presigned env"
  "rls_enforced (rls_intercept u env) = rls_enforced env" "outcome_at (rls_intercept u env) = outcome_at env"
  "http_get (rls_intercept u env) = http_get env" "sharp_metadata (rls_intercept u env) = sharp_metadata env"
  by (simp_all add: rls_intercept_def)

lemma thumbnail_same:
  "thumbnail_link (rls_intercept u env) = thumbnail_link env"
  "same_db w w1 \<Longrightarrow> thumbnail_bytes w1 = thumbnail_bytes w"
  by (simp_all add: thumbnail_link_def thumbnail_bytes_def signedUrlExpirySeconds_def rls_intercept_def same_dbD fun_eq_iff
      split: option.split)

lemma signed_for_intercept [simp]: "signed_for (rls_intercept u env) = signed_for env"
  by (simp add: signed_for_def fun_eq_iff)

lemma getUserQuota_own:
  "wp (getUserQuota env u) (\<lambda>rep _. \<exists>q. rep = quota_report_of q
     \<and> (\<forall>row. q = Some row \<longrightarrow> row \<in> set (quota_tbl w) \<and> q_userId row = u)) (\<lambda>_ _. True) w"
proof -
  have "wp (transaction env (find_quota env u)) (\<lambda>q _. \<forall>row. q = Some row \<longrightarrow> row \<in> set (quota_tbl w) \<and> q_userId row = u)
      (\<lambda>_ _. True) w"
    by (rule wp_transactionI)
      (auto intro!: tick_freeI simp: find_quota_def wp_ext wp_gets same_dbD(2) dest!: find_Some_in split: outcome.split)
  then show ?thesis
    unfolding getUserQuota_def wp_bindE by (rule wp_mono) (auto simp: wp_ret)
qed

lemma getUserMedia_own:
  "wp (getUserMedia env u page limit) (\<lambda>pg _. \<forall>it \<in> set (pg_items pg). \<exists>r \<in> set (media_tbl w).
     it = item_of r \<and> m_ownerId r = u \<and> m_isActive r) (\<lambda>_ _. True) w"
proof -
  have rows: "set (take n (drop k (user_rows env w1 u))) \<subseteq> {r \<in> set (media_tbl w). m_ownerId r = u \<and> m_isActive r}"
    if "media_tbl w1 = media_tbl w" for n k w1
    using that by (auto simp: user_rows_def dest!: in_set_takeD in_set_dropD)
  have "wp (find_and_count env u skip limit) (\<lambda>x _. set (fst x) \<subseteq> {r \<in> set (media_tbl w). m_ownerId r = u \<and> m_isActive r})
      (\<lambda>_ _. True) w1" if "media_tbl w1 = media_tbl w" for skip w1
    unfolding find_and_count_def
    using rows [of "tick w1"] that
    by (simp add: wp_bindE wp_ext wp_pf wp_K_pf split: outcome.split) (simp add: wp_def ext_def gets_def split: outcome.split)
  then have "wp (transaction env (find_and_count env u skip limit))
      (\<lambda>x _. set (fst x) \<subseteq> {r \<in> set (media_tbl w). m_ownerId r = u \<and> m_isActive r}) (\<lambda>_ _. True) w" for skip
    by (intro wp_transactionI) (auto intro!: tick_freeI dest: same_dbD(1))
  then show ?thesis
    unfolding getUserMedia_def wp_bindE by (rule wp_mono) (fastforce simp: wp_ret)
qed


lemma delete_owned:
  assumes "delete_media env mid u ip ua w = (Inr y, w')"
  shows "owns_active w u mid"
  using assms wp_not_owned(2) [of w u mid env ip ua]
  by (cases "owns_active w u mid") (auto simp: wp_def)

text \<open>The readers that a share answers are those of the owner's row and the ones it adds.\<close>

lemma share_answer:
  assumes "share env mid u us w = (Inr readers, w')"
  shows "\<exists>r \<in> set (media_tbl w). m_id r = mid \<and> m_isActive r \<and> m_ownerId r = u
     \<and> set readers = set (current_readers r) \<union> {v \<in> set us. v \<noteq> [] \<and> v \<noteq> u}"
proof -
  define P where "P readers \<longleftrightarrow> (\<exists>r \<in> set (media_tbl w). m_id r = mid \<and> m_isActive r \<and> m_ownerId r = u
     \<and> set readers = set (current_readers r) \<union> {v \<in> set us. v \<noteq> [] \<and> v \<noteq> u})" for readers
  have body: "wp (share_in_transaction env mid u us) (\<lambda>x _. P (fst x)) (\<lambda>_ _. True) w1" if s: "same_db w w1" for w1
  proof -
    have upd: "wp (updateSharedWith env mid x) (\<lambda>_ _. P (share_union r us)) (\<lambda>_ _. True) w2" if "P (share_union r us)" for r x w2
      using that by (simp add: wp_True)
    have k: "P (share_union r us)" if "r \<in> set (media_tbl w1)" "m_id r = mid" "m_isActive r" "m_ownerId r = u" for r
      using that set_share_union [of r us] same_dbD(1) [OF s] by (auto simp: P_def)
    have "wp (let next = share_union r us in
         if length next = length (set_of_list (current_readers r)) then ret (next, False)
         else bindE (updateSharedWith env mid (if length next > 0 then Some next else None)) (\<lambda>_. ret (next, True)))
        (\<lambda>x _. P (fst x)) (\<lambda>_ _. True) w2"
      if "r \<in> set (media_tbl w1)" "m_id r = mid" "m_isActive r" "m_ownerId r = u" for r w2
      using k [OF that] upd [OF k [OF that]] by (simp add: Let_def wp_bindE wp_pf wp_ret del: length_greater_0_conv)
    then show ?thesis
      unfolding share_in_transaction_def wp_bindE [of "findById env mid"] wp_bindE [of "from_result x" for x]
      by (intro wp_findById) (simp_all add: wp_owned)
  qed
  have "wp (transaction env (share_in_transaction env mid u us)) (\<lambda>x _. P (fst x)) (\<lambda>_ _. True) w"
    by (rule wp_transactionI) (use body in \<open>auto intro!: tick_freeI\<close>)
  then have "wp (share env mid u us) (\<lambda>readers _. P readers) (\<lambda>_ _. True) w"
    unfolding share_def wp_bindE by (rule wp_mono) (auto simp: wp_pf wp_K wp_K_pf)
  with assms show ?thesis
    by (simp add: wp_def P_def)
qed

lemma with_user_attached: "au_userId au \<noteq> [] \<Longrightarrow> with_user (attach_user (Some au) req) k = k (au_userId au)"
  by (simp add: with_user_def attach_user_def truthy_def)

lemma returning_Inr: "returning f m w = (Inr a, w') \<Longrightarrow> \<exists>x. m w = (Inr x, w') \<and> a = f x"
  by (auto elim!: bindE_InrD)

lemma answer_justified:
  assumes "route_handler env (attach_user (Some au) req) route w = (Inr ans, w')" and u: "au_userId au \<noteq> []"
    and "meta_safe w"
  shows "justified env w (au_userId au) route ans"
proof (cases route)
  case (RUpload n files dto)
  with assms(1) obtain resp where "upload_request env n (attach_user (Some au) req) files dto w = (Inr resp, w')"
      "ans = AUpload resp"
    by (auto dest!: returning_Inr)
  with upload_request_sound [OF this(1)] RUpload show ?thesis
    by (auto simp: attach_user_def)
next
  case RQuota
  with assms(1) obtain rep where "getUserQuota env (au_userId au) w = (Inr rep, w')" "ans = AQuota rep"
    by (auto simp: get_quota_request_def attach_user_def dest!: returning_Inr)
  with wp_Inr [OF this(1) getUserQuota_own] RQuota show ?thesis by simp
next
  case (RMyMedia page limit)
  with assms(1) obtain pg where "getUserMedia env (au_userId au) (page_of page) (limit_of limit) w = (Inr pg, w')" "ans = AMyMedia pg"
    by (auto simp: get_my_media_request_def attach_user_def dest!: returning_Inr)
  with wp_Inr [OF this(1) getUserMedia_own] RMyMedia show ?thesis by simp
next
  case (RMetadata mid)
  with assms(1) u obtain d where "getMetadata env mid (au_userId au) w = (Inr d, w')" "ans = AMetadata d"
    by (auto simp: get_metadata_request_def with_user_attached dest!: returning_Inr)
  with wp_Inr [OF this(1) wp_getMetadata [OF assms(3)]] RMetadata show ?thesis by simp
next
  case (RBlob mid stream)
  with assms(1) u obtain rep where r: "get_blob_request env mid stream (attach_user (Some au) req) w = (Inr rep, w')" "ans = ABlob rep"
    by (auto dest!: returning_Inr)
  show ?thesis
  proof (cases "wants_stream stream")
    case True
    with r(1) u obtain f w1 where "streamBlob env mid (au_userId au) (extractClientIp (attach_user (Some au) req))
        (rq_user_agent (attach_user (Some au) req)) w = (Inr f, w1)" "rep = BlobBytes f"
      by (auto simp: get_blob_request_def with_user_attached elim!: bindE_InrD)
    with streamBlob_granted [OF this(1)] RBlob r(2) show ?thesis by fastforce
  next
    case False
    with r(1) u show ?thesis
      by (auto simp: get_blob_request_def with_user_attached RBlob r(2) elim!: bindE_InrD dest!: getBlob_granted)
  qed
next
  case (RThumbnail mid stream)
  with assms(1) u show ?thesis
    by (cases "wants_stream stream")
      (auto simp: get_thumbnail_request_def with_user_attached dest!: returning_Inr elim!: bindE_InrD
        dest!: streamThumbnail_granted getThumbnail_granted split: option.splits)
next
  case (RShare mid us)
  with assms(1) u show ?thesis
    by (auto simp: share_request_def with_user_attached dest!: returning_Inr share_answer)
next
  case (RDelete mid)
  with assms(1) u show ?thesis
    by (auto simp: delete_request_def with_user_attached dest!: returning_Inr intro: delete_owned)
qed

lemma justified_same:
  assumes "same_db w w1"
  shows "justified (rls_intercept u env) w1 v route ans = justified env w v route ans"
  by (cases "(env, w, v, route, ans)" rule: justified.cases)
    (simp_all add: granted_same [OF assms] described_same [OF assms] owns_active_same [OF assms] same_dbD [OF assms]
      thumbnail_same(1) thumbnail_same(2) [OF assms]
      acceptable_def confirmed_admin_def group_headers_def checkImageDimensions_def split: thumbnail_reply.split)


text \<open>A request that is answered carries a token that verifies under the loaded key and is not
  revoked, and the answer is one that its subject is entitled to: a blob, a thumbnail or metadata of a row
  it may read, its own quota and listing, a share or delete of its own row, an upload that is acceptable.\<close>

lemma serve_entitled:
  assumes "serve env jenv jwks verify req route w = (Inr ans, w')" and "meta_safe w"
  shows "\<exists>p au. presents env jenv jwks verify w req p \<and> identified p au \<and> unrevoked env w au
     \<and> justified env w (au_userId au) route ans"
proof -
  from assms(1) obtain p au w1 where g: "presents env jenv jwks verify w req p" "identified p au" "unrevoked env w au"
    and s: "same_db w w1"
    and r: "route_handler (rls_intercept (Some (au_userId au)) env) (attach_user (Some au) req) route w1 = (Inr ans, w')"
    by (rule serve_runs)
  have "justified (rls_intercept (Some (au_userId au)) env) w1 (au_userId au) route ans"
    using answer_justified [OF r] g(2) assms(2) by (simp add: meta_safe_same [OF s] identified_def)
  with g justified_same [OF s] show ?thesis by blast
qed

section \<open>Conditions that every request keeps\<close>

context table_guarantee
begin

lemma stays_handler:
  assumes "acts_as env u" and "suits env"
  shows "stays u (route_handler env req route)"
proof (cases route)
  case (RUpload n files dto)
  then show ?thesis
    by (auto intro!: keeps_structure stays_upload_request [OF assms])
qed (auto simp: get_quota_request_def get_my_media_request_def get_metadata_request_def get_blob_request_def
       get_thumbnail_request_def share_request_def delete_request_def with_user_def Let_def
     intro!: keeps_structure stays_reports stays_getMetadata stays_stream stays_share [OF assms] stays_delete [OF assms]
       stays_getBlob [OF assms])

text \<open>A condition on the tables that is kept for the users a request may act as is kept by the request.\<close>

lemma stays_serve:
  assumes "suits env" and "\<And>u. u \<noteq> [] \<Longrightarrow> (\<exists>p. presents env jenv jwks verify w req p \<and> jp_sub p = Some u) \<Longrightarrow> inv u (tables_of w)"
  shows "(\<exists>u. u \<noteq> [] \<and> (\<exists>p. presents env jenv jwks verify w req p \<and> jp_sub p = Some u)
        \<and> inv u (tables_of (snd (serve env jenv jwks verify req route w))))
     \<or> tables_of (snd (serve env jenv jwks verify req route w)) = tables_of w"
proof -
  let ?U = "\<lambda>u. u \<noteq> [] \<and> (\<exists>p. presents env jenv jwks verify w req p \<and> jp_sub p = Some u)"
  let ?P = "\<lambda>w'. (\<exists>u. ?U u \<and> inv u (tables_of w')) \<or> tables_of w' = tables_of w"
  have same: "tables_of w1 = tables_of w" if "same_db w w1" for w1
    using that by (simp add: tables_of_def same_dbD)
  have handler: "wp (route_handler (rls_intercept (rq_userId (attach_user res req)) env) (attach_user res req) route)
      (\<lambda>_. ?P) (\<lambda>_. ?P) w1"
    if "same_db w w1" "res = Some au" "presents env jenv jwks verify w req p" "identified p au" for res au p w1
  proof -
    have u: "?U (au_userId au)"
      using that(3,4) by (auto simp: identified_def)
    then have "acts_as (rls_intercept (Some (au_userId au)) env) (au_userId au)"
      by (simp add: acts_as_def rls_intercept_def truthy_def)
    from stays_handler [OF this suits_intercept [OF assms(1)], of "attach_user res req" route]
    have "stays (au_userId au) (route_handler (rls_intercept (rq_userId (attach_user res req)) env) (attach_user res req) route)"
      by (simp add: attach_user_def that(2))
    then show ?thesis
      by (rule keeps_wp_const) (use u assms(2) same [OF that(1)] in auto)
  qed
  have "wp (serve env jenv jwks verify req route) (\<lambda>_. ?P) (\<lambda>_. ?P) w"
    unfolding serve_def wp_bindE Let_def
    by (rule wp_mono [OF wp_canActivate]) (use handler same in blast)+
  then show ?thesis
    by (simp add: wp_const)
qed

end

section \<open>Data of other users\<close>

lemma filter_update_where:
  "(\<And>r. r \<in> set rows \<Longrightarrow> p r \<Longrightarrow> \<not> q r \<and> \<not> q (f r)) \<Longrightarrow> filter q (update_where p f rows) = filter q rows"
  by (induction rows) auto

definition others_data :: "uuid \<Rightarrow> media list \<times> user_quota list \<Rightarrow> media list \<times> user_quota list" where
  "others_data u t = (others u (fst t), filter (\<lambda>q. q_userId q \<noteq> u) (snd t))"

text \<open>With the policies in force, the statements of a user leave the rows of the others as they are.\<close>

interpretation bystanders: table_guarantee rls_enforced "\<lambda>u t. others_data u t = T" "\<lambda>_. True" for T
proof
  fix env :: env and f :: "media \<Rightarrow> media" and u mid
  assume "rls_enforced env" and "\<And>r. same_object (f r) r"
  then show "keeps (\<lambda>w. others_data u (tables_of w) = T \<and> guc w = Some u) (update_media env mid f)"
    unfolding update_media_def
    by (intro keeps_ext)
      (auto simp: keeps_def modify_def others_data_def tables_of_def same_object_def media_writable_def media_owner_write_policy_def
        intro!: others_update)
next
  fix env :: env and m u
  assume "rls_enforced env"
  then show "keeps (\<lambda>w. others_data u (tables_of w) = T \<and> guc w = Some u) (save env m)"
    unfolding save_def
    by (intro keeps_ext)
      (auto simp: keeps_def others_data_def tables_of_def others_def media_writable_def media_owner_write_policy_def
        intro!: filter_update_where)
next
  fix env :: env and g :: "user_quota \<Rightarrow> user_quota" and u v
  assume "rls_enforced env" and "\<And>q. q_userId (g q) = q_userId q"
  then show "keeps (\<lambda>w. others_data u (tables_of w) = T \<and> guc w = Some u) (update_quota env v g)"
    unfolding update_quota_def
    by (intro keeps_ext)
      (auto simp: keeps_def others_data_def tables_of_def quota_permitted_def user_quotas_owner_policy_def Let_def
        intro!: filter_update_where)
next
  fix env :: env and mk u
  assume "rls_enforced env"
  then show "keeps (\<lambda>w. others_data u (tables_of w) = T \<and> guc w = Some u) (insert_quota_or_ignore env mk)"
    unfolding insert_quota_or_ignore_def
    by (intro keeps_ext)
      (auto simp: keeps_def others_data_def tables_of_def quota_permitted_def user_quotas_owner_policy_def Let_def)
qed simp_all

lemma filter_own:
  assumes "u \<noteq> v" and "filter (\<lambda>x. k x \<noteq> u) xs = filter (\<lambda>x. k x \<noteq> u) ys"
  shows "filter (\<lambda>x. k x = v) xs = filter (\<lambda>x. k x = v) ys"
proof -
  have "filter (\<lambda>x. k x = v) zs = filter (\<lambda>x. k x = v) (filter (\<lambda>x. k x \<noteq> u) zs)" for zs
    using assms(1) by (induction zs) auto
  with assms(2) show ?thesis by metis
qed

lemma absent_from_serve:
  assumes "rls_enforced env" and "\<And>p. presents env jenv jwks verify w req p \<Longrightarrow> jp_sub p \<noteq> Some v"
  shows "filter (\<lambda>r. m_ownerId r = v) (media_tbl (snd (serve env jenv jwks verify req route w)))
      = filter (\<lambda>r. m_ownerId r = v) (media_tbl w)"
    and "filter (\<lambda>q. q_userId q = v) (quota_tbl (snd (serve env jenv jwks verify req route w)))
      = filter (\<lambda>q. q_userId q = v) (quota_tbl w)"
proof -
  let ?w' = "snd (serve env jenv jwks verify req route w)"
  have "\<exists>u. u \<noteq> v \<and> others_data u (tables_of ?w') = others_data u (tables_of w)"
  proof (cases "tables_of ?w' = tables_of w")
    case True
    then show ?thesis by (intro exI [of _ "v @ ''x''"]) simp
  next
    case False
    define T where "T u = others_data u (tables_of w)" for u
    show ?thesis
    proof (cases "\<exists>p u. presents env jenv jwks verify w req p \<and> jp_sub p = Some u")
      case True
      then obtain p u where p: "presents env jenv jwks verify w req p" "jp_sub p = Some u" by blast
      have one: "u' = u" if "presents env jenv jwks verify w req q" "jp_sub q = Some u'" for q u'
        using that p by (auto simp: presents_def)
      from bystanders.stays_serve [OF assms(1), of jenv jwks verify w req "T u" route] one False
      have "others_data u (tables_of ?w') = T u"
        by (auto simp: T_def)
      with assms(2) [OF p(1)] p(2) show ?thesis
        by (auto simp: T_def)
    next
      case none: False
      with bystanders.stays_serve [OF assms(1), of jenv jwks verify w req undefined route] False show ?thesis by blast
    qed
  qed
  then show "filter (\<lambda>r. m_ownerId r = v) (media_tbl ?w') = filter (\<lambda>r. m_ownerId r = v) (media_tbl w)"
    and "filter (\<lambda>q. q_userId q = v) (quota_tbl ?w') = filter (\<lambda>q. q_userId q = v) (quota_tbl w)"
    by (auto simp: others_data_def tables_of_def others_def intro: filter_own)
qed

text \<open>
  What happens to the world while one user sends nothing: requests of others, each with its own
  failures, keys, tokens and route, in environments with a given property.
\<close>

inductive without :: "uuid \<Rightarrow> (env \<Rightarrow> bool) \<Rightarrow> world \<Rightarrow> world \<Rightarrow> bool" for v P where
  idle: "without v P w w"
| request: "without v P w (snd (serve env jenv jwks verify req route w1))"
    if "without v P w w1" and "P env"
      and "\<And>p. presents env jenv jwks verify w1 req p \<Longrightarrow> jp_sub p \<noteq> Some v"

text \<open>C2. As long as every request runs under the row-level policies, on a connection whose role neither owns
  the tables nor bypasses them: while no request presents a token of a user, whatever the others send and
  whatever fails, the media rows that this user owns and the user's quota row stay exactly as they are.
  A role that bypasses the policies lets a reader move the expiry of another's signed URL.\<close>

theorem absent_user_untouched:
  assumes "without v rls_enforced w w'"
  shows "filter (\<lambda>r. m_ownerId r = v) (media_tbl w') = filter (\<lambda>r. m_ownerId r = v) (media_tbl w)
     \<and> filter (\<lambda>q. q_userId q = v) (quota_tbl w') = filter (\<lambda>q. q_userId q = v) (quota_tbl w)"
  using assms
proof (induction rule: without.induct)
  case (request w w1 env jenv jwks verify req route)
  with absent_from_serve [OF request.hyps(2,3)] show ?case by simp
qed simp


section \<open>Witnesses\<close>

definition alice_payload :: jwt_payload where
  "alice_payload = \<lparr>jp_sub = Some alice, jp_jti = Some ''j1'', jp_deviceId = Some ''d1'', jp_fingerprint = None\<rparr>"

definition sample_verifier :: verifier where
  "sample_verifier t pem token = (if pem = ''pem'' \<and> token = ''t'' then Some alice_payload else None)"

definition ready_jwks :: jwks_service where
  "ready_jwks = jwks_start\<lparr>publicKey := Some (KeyObject es256_jwk)\<rparr>"

definition bob_media :: media where
  "bob_media = sample_media\<lparr>m_id := sample_uuid 2, m_ownerId := bob, m_sharedWith := Some [alice]\<rparr>"

definition two_users_world :: world where
  "two_users_world = media_world\<lparr>media_tbl := [sample_media, bob_media]\<rparr>"

theorem absent_user_untouched_witness:
  "\<exists>w'. without bob rls_enforced two_users_world w' \<and> fst (serve sample_env late_jwks_env ready_jwks sample_verifier sample_request
       (RShare (sample_uuid 1) [sample_uuid 7]) two_users_world) = Inr (AShared [bob, sample_uuid 7])
     \<and> w' = snd (serve sample_env late_jwks_env ready_jwks sample_verifier sample_request (RShare (sample_uuid 1) [sample_uuid 7]) two_users_world)
     \<and> filter (\<lambda>r. m_ownerId r = bob) (media_tbl w') = [bob_media]"
proof -
  let ?r = "serve sample_env late_jwks_env ready_jwks sample_verifier sample_request (RShare (sample_uuid 1) [sample_uuid 7]) two_users_world"
  have "fst ?r = Inr (AShared [bob, sample_uuid 7])"
    by code_simp
  moreover have w: "without bob rls_enforced two_users_world (snd ?r)"
    by (rule without.request [OF without.idle])
      (auto simp: sample_env_def presents_def sample_verifier_def alice_payload_def alice_def bob_def split: if_splits)
  moreover have "filter (\<lambda>r. m_ownerId r = bob) (media_tbl (snd ?r)) = [bob_media]"
    using absent_user_untouched [OF w, THEN conjunct1]
    by (simp add: two_users_world_def sample_media_def bob_media_def alice_def bob_def)
  ultimately show ?thesis by blast
qed

text \<open>Without the policies a reader's request for the blob writes the expiry of the owner's row.\<close>

lemma bypassed_reader_writes:
  "let env = sample_env\<lparr>rls_enforced := False\<rparr>;
       r = serve env late_jwks_env ready_jwks sample_verifier sample_request (RBlob (sample_uuid 2) None) two_users_world in
     map m_ownerId (media_tbl (snd r)) = [alice, bob]
     \<and> map (\<lambda>m. m_signedUrlExpiresAt m = None) (media_tbl two_users_world) = [True, True]
     \<and> map (\<lambda>m. m_signedUrlExpiresAt m = None) (media_tbl (snd r)) = [True, False]"
  by code_simp

end
