(* ===== verification/Json_Logger.thy ===== *)
theory Json_Logger
  imports World
begin

text \<open>
  \<open>json-logger.ts\<close>: the structured logger.  Its output is the list of lines written, each with its
  stream; \<open>JSON.stringify\<close> is written out on the values it is given.
\<close>

section \<open>Levels\<close>

datatype log_level = Verbose | Debug | Log | Warn | Error | Fatal

fun level_number :: "log_level \<Rightarrow> nat" where
  "level_number Verbose = 0"
| "level_number Debug = 1"
| "level_number Log = 2"
| "level_number Warn = 3"
| "level_number Error = 4"
| "level_number Fatal = 5"

fun level_name :: "log_level \<Rightarrow> string" where
  "level_name Verbose = ''verbose''"
| "level_name Debug = ''debug''"
| "level_name Log = ''log''"
| "level_name Warn = ''warn''"
| "level_name Error = ''error''"
| "level_name Fatal = ''fatal''"

lemma level_number_inject [simp]: "level_number a = level_number b \<longleftrightarrow> a = b"
  by (cases a; cases b) simp_all

lemma level_name_inject [simp]: "level_name a = level_name b \<longleftrightarrow> a = b"
  by (cases a; cases b) simp_all

text \<open>Levels are ordered by their numbers.\<close>

instantiation log_level :: linorder
begin

definition less_eq_log_level :: "log_level \<Rightarrow> log_level \<Rightarrow> bool" where
  "a \<le> b \<longleftrightarrow> level_number a \<le> level_number b"

definition less_log_level :: "log_level \<Rightarrow> log_level \<Rightarrow> bool" where
  "a < b \<longleftrightarrow> level_number a < level_number b"

instance
  by standard (auto simp: less_eq_log_level_def less_log_level_def)

end

definition all_levels :: "log_level list" where
  "all_levels = [Verbose, Debug, Log, Warn, Error, Fatal]"

text \<open>
  \<open>LEVEL_ORDER\<close> is a plain object: \<open>in\<close> also finds the inherited names, of which only these are
  spelt without capitals, but the numbers are found under its own names only.
\<close>

definition LEVEL_ORDER :: "string \<Rightarrow> nat option" where
  "LEVEL_ORDER name = map_option level_number (List.find (\<lambda>l. level_name l = name) all_levels)"

definition inherited_names :: "string list" where
  "inherited_names = [''constructor'', ''__proto__'']"

definition parseLevel :: "string option \<Rightarrow> string" where
  "parseLevel value =
     (let normalized = js_lower (case value of None \<Rightarrow> ''log'' | Some v \<Rightarrow> v) in
      if LEVEL_ORDER normalized \<noteq> None \<or> normalized \<in> set inherited_names then normalized else ''log'')"

section \<open>Serialisation\<close>

definition hex_lower :: "nat \<Rightarrow> char" where
  "hex_lower d = (if d < 10 then char_of (48 + d) else char_of (87 + d))"

definition escape_char :: "char \<Rightarrow> string" where
  "escape_char c =
     (let n = (of_char c :: nat); bs = CHR 0x5C in
      if n = 34 then [bs, c]
      else if n = 92 then [bs, c]
      else if n = 8 then [bs, CHR ''b'']
      else if n = 12 then [bs, CHR ''f'']
      else if n = 10 then [bs, CHR ''n'']
      else if n = 13 then [bs, CHR ''r'']
      else if n = 9 then [bs, CHR ''t'']
      else if n < 32 then [bs, CHR ''u'', CHR ''0'', CHR ''0'', hex_lower (n div 16), hex_lower (n mod 16)]
      else [c])"

definition dquote :: char where
  "dquote = CHR 0x22"

definition stringify_string :: "string \<Rightarrow> string" where
  "stringify_string s = dquote # concat (map escape_char s) @ [dquote]"

fun intersperse :: "string \<Rightarrow> string list \<Rightarrow> string" where
  "intersperse sep [] = []"
| "intersperse sep [x] = x"
| "intersperse sep (x # y # xs) = x @ sep @ intersperse sep (y # xs)"

fun json_stringify :: "json \<Rightarrow> string" where
  "json_stringify JNull = ''null''"
| "json_stringify (JBool b) = (if b then ''true'' else ''false'')"
| "json_stringify (JNum n) = show_int n"
| "json_stringify (JStr s) = stringify_string s"
| "json_stringify (JArr js) = ''['' @ intersperse '','' (map json_stringify js) @ '']''"
| "json_stringify (JObj ps) =
     ''{'' @ intersperse '','' (map (\<lambda>(k, v). stringify_string k @ '':'' @ json_stringify v) ps) @ ''}''"

section \<open>The logger\<close>

text \<open>
  What a caller may pass: an error, a string, a value that serialises, \<open>undefined\<close>, or an object
  that \<open>JSON.stringify\<close> rejects, with the text \<open>String\<close> gives for it.
\<close>

datatype log_value = LError string | LString string | LJson json | LUndefined | LUnserializable string

record json_logger =
  lg_id :: uuid
  lg_service :: string
  lg_minLevel :: string
  lg_pid :: int

datatype log_stream = Stdout | Stderr

definition new_logger :: "string option \<Rightarrow> string option \<Rightarrow> string option \<Rightarrow> string option \<Rightarrow> uuid \<Rightarrow> int \<Rightarrow> json_logger" where
  "new_logger opt_service opt_level SERVICE_NAME LOG_LEVEL i pid =
     \<lparr>lg_id = i,
      lg_service = (case opt_service of Some s \<Rightarrow> s | None \<Rightarrow> (case SERVICE_NAME of Some s \<Rightarrow> s | None \<Rightarrow> ''media-service'')),
      lg_minLevel = (case opt_level of Some l \<Rightarrow> l | None \<Rightarrow> parseLevel LOG_LEVEL),
      lg_pid = pid\<rparr>"

definition shouldEmit :: "json_logger \<Rightarrow> log_level \<Rightarrow> bool" where
  "shouldEmit lg level = (case LEVEL_ORDER (lg_minLevel lg) of None \<Rightarrow> False | Some k \<Rightarrow> level_number level \<ge> k)"

definition stringifyMessage :: "log_value \<Rightarrow> string option" where
  "stringifyMessage v =
     (case v of
        LError m \<Rightarrow> Some m
      | LString s \<Rightarrow> Some s
      | LJson j \<Rightarrow> Some (json_stringify j)
      | LUndefined \<Rightarrow> None
      | LUnserializable s \<Rightarrow> Some s)"

definition json_prop_of :: "string \<Rightarrow> string option \<Rightarrow> (string \<times> json) list" where
  "json_prop_of k v = (case v of None \<Rightarrow> [] | Some s \<Rightarrow> [(k, JStr s)])"

definition emit :: "json_logger \<Rightarrow> string \<Rightarrow> log_level \<Rightarrow> log_value \<Rightarrow> string option \<Rightarrow> log_value
    \<Rightarrow> (log_stream \<times> string) list \<Rightarrow> (log_stream \<times> string) list" where
  "emit lg timestamp level message context_name trace out =
     (if \<not> shouldEmit lg level then out
      else
        (let payload =
           [(''timestamp'', JStr timestamp), (''level'', JStr (level_name level)), (''service'', JStr (lg_service lg)),
            (''logger_id'', JStr (lg_id lg)), (''pid'', JNum (lg_pid lg)),
            (''context'', JStr (case context_name of None \<Rightarrow> lg_service lg | Some c \<Rightarrow> c))]
           @ json_prop_of ''message'' (stringifyMessage message)
           @ (if trace = LUndefined then [] else json_prop_of ''trace'' (stringifyMessage trace));
           stream = (if level = Error \<or> level = Fatal \<or> level = Warn then Stderr else Stdout) in
         out @ [(stream, json_stringify (JObj payload) @ [CHR 0x0A])]))"

definition log_log where "log_log lg t m c = emit lg t Log m c LUndefined"
definition log_error where "log_error lg t m trace c = emit lg t Error m c trace"
definition log_warn where "log_warn lg t m c = emit lg t Warn m c LUndefined"
definition log_debug where "log_debug lg t m c = emit lg t Debug m c LUndefined"
definition log_verbose where "log_verbose lg t m c = emit lg t Verbose m c LUndefined"
definition log_fatal where "log_fatal lg t m c = emit lg t Fatal m c LUndefined"

section \<open>One line each\<close>

abbreviation newline :: char where
  "newline \<equiv> CHR 0x0A"

lemma hex_lower_code: "d < 16 \<Longrightarrow> (of_char (hex_lower d) :: nat) = (if d < 10 then 48 + d else 87 + d)"
  by (simp add: hex_lower_def)

lemma escape_no_newline: "newline \<notin> set (escape_char c)"
proof -
  have hex: "hex_lower d \<noteq> newline" if "d < 16" for d
  proof
    assume "hex_lower d = newline"
    then have "(of_char (hex_lower d) :: nat) = 10" by simp
    with hex_lower_code [OF that] show False by (simp split: if_splits)
  qed
  have "(of_char c :: nat) < 32 \<Longrightarrow> of_char c div 16 < (16 :: nat)" "of_char c mod 16 < (16 :: nat)"
    by simp_all
  with hex [THEN not_sym] show ?thesis
    by (auto simp: escape_char_def Let_def split: if_splits)
qed


lemma stringify_string_no_newline: "newline \<notin> set (stringify_string s)"
  using escape_no_newline by (auto simp: stringify_string_def dquote_def)

lemma set_intersperse: "set (intersperse sep xs) \<subseteq> set sep \<union> \<Union> (set ` set xs)"
  by (induction sep xs rule: intersperse.induct) auto

lemma show_int_no_newline: "newline \<notin> set (show_int n)"
proof -
  have "newline \<notin> set (show_nat k)" for k
    using show_nat_digits [of k] by (auto simp: is_digit_def)
  then show ?thesis by (simp add: show_int_def)
qed

lemma json_stringify_no_newline: "newline \<notin> set (json_stringify j)"
proof (induction j rule: json_stringify.induct)
  case (5 js)
  then show ?case
    using set_intersperse [of "'',''" "map json_stringify js"] by auto
next
  case (6 ps)
  have "newline \<notin> set (case p of (k, v) \<Rightarrow> stringify_string k @ '':'' @ json_stringify v)" if "p \<in> set ps" for p
    using 6 [OF that] stringify_string_no_newline by (cases p) auto
  then show ?case
    using set_intersperse [of "'',''" "map (\<lambda>(k, v). stringify_string k @ '':'' @ json_stringify v) ps"] by auto
qed (simp_all add: stringify_string_no_newline show_int_no_newline)

section \<open>Reading a literal back\<close>

text \<open>What a JSON parser reads of a string literal after its opening quote: the string and the rest.\<close>

definition hex_value :: "char \<Rightarrow> nat" where
  "hex_value c = (let n = of_char c in if n < 58 then n - 48 else n - 87)"

fun unescape :: "char \<Rightarrow> char" where
  "unescape e =
     (if e = CHR ''b'' then CHR 0x08 else if e = CHR ''f'' then CHR 0x0C
      else if e = CHR ''n'' then CHR 0x0A else if e = CHR ''r'' then CHR 0x0D
      else if e = CHR ''t'' then CHR 0x09 else e)"

fun read_literal :: "nat \<Rightarrow> string \<Rightarrow> (string \<times> string) option" where
  "read_literal 0 s = None"
| "read_literal (Suc n) [] = None"
| "read_literal (Suc n) (c # cs) =
     (if c = dquote then Some ([], cs)
      else if c \<noteq> CHR 0x5C then map_option (\<lambda>(t, r). (c # t, r)) (read_literal n cs)
      else (case cs of
          [] \<Rightarrow> None
        | e # es \<Rightarrow>
            if e = CHR ''u''
            then map_option (\<lambda>(t, r). (char_of (16 * hex_value (es ! 2) + hex_value (es ! 3)) # t, r)) (read_literal n (drop 4 es))
            else map_option (\<lambda>(t, r). (unescape e # t, r)) (read_literal n es)))"

lemma hex_value_lower: "d < 16 \<Longrightarrow> hex_value (hex_lower d) = d"
  by (simp add: hex_value_def hex_lower_code Let_def)

lemma escape_char_cases:
  obtains (short) "c \<in> {CHR 0x22, CHR 0x5C, CHR 0x08, CHR 0x0C, newline, CHR 0x0D, CHR 0x09}"
    | (control) "escape_char c = [CHR 0x5C, CHR ''u'', CHR ''0'', CHR ''0'', hex_lower (of_char c div 16), hex_lower (of_char c mod 16)]"
        "(of_char c :: nat) < 32"
    | (plain) "escape_char c = [c]" "c \<noteq> CHR 0x22" "c \<noteq> CHR 0x5C"
proof -
  have code: "(of_char c :: nat) = of_char d \<longleftrightarrow> c = d" for d
    by simp
  show thesis
  proof (cases "c \<in> {CHR 0x22, CHR 0x5C, CHR 0x08, CHR 0x0C, newline, CHR 0x0D, CHR 0x09}")
    case False
    then have "(of_char c :: nat) \<notin> {34, 92, 8, 12, 10, 13, 9}"
      using code [of "CHR 0x22"] code [of "CHR 0x5C"] code [of "CHR 0x08"] code [of "CHR 0x0C"]
        code [of newline] code [of "CHR 0x0D"] code [of "CHR 0x09"] by simp
    then have "escape_char c = (if (of_char c :: nat) < 32
        then [CHR 0x5C, CHR ''u'', CHR ''0'', CHR ''0'', hex_lower (of_char c div 16), hex_lower (of_char c mod 16)] else [c])"
      by (simp add: escape_char_def Let_def)
    with False show thesis
      by (cases "(of_char c :: nat) < 32") (auto intro: that(2, 3))
  qed (rule that(1))
qed

lemma read_escaped_char:
  "read_literal (Suc n) (escape_char c @ rest) = map_option (\<lambda>(t, r). (c # t, r)) (read_literal n rest)"
proof (cases c rule: escape_char_cases)
  case short
  then show ?thesis by (elim insertE emptyE) (simp_all add: escape_char_def Let_def dquote_def)
next
  case control
  then show ?thesis by (simp add: hex_value_lower dquote_def)
next
  case plain
  then show ?thesis by (simp add: dquote_def)
qed

lemma read_stringify:
  "read_literal (Suc (length s)) (concat (map escape_char s) @ dquote # rest) = Some (s, rest)"
proof (induction s)
  case Nil
  then show ?case by simp
next
  case (Cons c s)
  then show ?case by (simp add: read_escaped_char del: read_literal.simps(3))
qed



section \<open>Properties\<close>

text \<open>A line reads a field back when a JSON parser that stands behind the field's name gets this string.\<close>

definition field_reads :: "string \<Rightarrow> string \<Rightarrow> string \<Rightarrow> bool" where
  "field_reads line name v \<longleftrightarrow> (\<exists>before rest rest'. line = before @ stringify_string name @ '':'' @ dquote # rest
     \<and> read_literal (Suc (length v)) rest = Some (v, rest'))"

lemma intersperse_split:
  "x \<in> set xs \<Longrightarrow> \<exists>a b. intersperse sep xs = a @ x @ b"
proof (induction sep xs rule: intersperse.induct)
  case (3 sep y z xs)
  then consider "x = y" | "x \<in> set (z # xs)" by auto
  then show ?case
  proof cases
    case 1
    then show ?thesis by (intro exI [of _ "[]"] exI [of _ "sep @ intersperse sep (z # xs)"]) simp
  next
    case 2
    then obtain a b where "intersperse sep (z # xs) = a @ x @ b"
      using 3 by blast
    then show ?thesis by (intro exI [of _ "y @ sep @ a"] exI [of _ b]) simp
  qed
next
  case (2 sep y)
  then show ?case by (intro exI [of _ "[]"]) simp
qed simp

lemma field_reads_object:
  assumes "(k, JStr v) \<in> set ps"
  shows "field_reads (json_stringify (JObj ps)) k v"
proof -
  have "stringify_string k @ '':'' @ stringify_string v
      \<in> set (map (\<lambda>(k, v). stringify_string k @ '':'' @ json_stringify v) ps)"
    using assms by force
  then obtain a b where ab: "intersperse '','' (map (\<lambda>(k, v). stringify_string k @ '':'' @ json_stringify v) ps)
      = a @ (stringify_string k @ '':'' @ stringify_string v) @ b"
    using intersperse_split by blast
  have "json_stringify (JObj ps) = (''{'' @ a) @ stringify_string k @ '':'' @ dquote # (concat (map escape_char v) @ dquote # (b @ ''}''))"
    using ab by (simp add: stringify_string_def [of v])
  then show ?thesis
    unfolding field_reads_def using read_stringify by blast
qed

lemma set_mono_map: "(k, v) \<in> set xs \<Longrightarrow> (k, v) \<in> set (xs @ ys)" "(k, v) \<in> set ys \<Longrightarrow> (k, v) \<in> set (xs @ ys)"
  by simp_all

text \<open>
  What one written chunk looks like: on stderr from warnings on, one line only, and a parser gets
  the message, the level and the service back.
\<close>

definition is_log_line :: "json_logger \<Rightarrow> log_level \<Rightarrow> string \<Rightarrow> log_stream \<times> string \<Rightarrow> bool" where
  "is_log_line lg level txt w \<longleftrightarrow> fst w = (if Warn \<le> level then Stderr else Stdout)
     \<and> (\<exists>line. snd w = line @ [newline] \<and> newline \<notin> set line
          \<and> field_reads line ''message'' txt \<and> field_reads line ''level'' (level_name level)
          \<and> field_reads line ''service'' (lg_service lg))"

lemma payload_is_log_line:
  assumes "{(''message'', JStr txt), (''level'', JStr (level_name level)), (''service'', JStr (lg_service lg))} \<subseteq> set ps"
    and "st = (if Warn \<le> level then Stderr else Stdout)"
  shows "is_log_line lg level txt (st, json_stringify (JObj ps) @ [newline])"
  unfolding is_log_line_def fst_conv snd_conv
proof (intro conjI exI)
  show "newline \<notin> set (json_stringify (JObj ps))"
    by (rule json_stringify_no_newline)
  show "field_reads (json_stringify (JObj ps)) ''message'' txt"
    using assms by (intro field_reads_object) simp
  show "field_reads (json_stringify (JObj ps)) ''level'' (level_name level)"
    using assms by (intro field_reads_object) simp
  show "field_reads (json_stringify (JObj ps)) ''service'' (lg_service lg)"
    using assms by (intro field_reads_object) simp
qed (simp_all add: assms(2))

text \<open>C38. A logger with a minimum level writes a message exactly when its level is not below it: one
  line, whatever characters the message has, on stderr from warnings on, from which a parser reads
  the message, the level and the service back.\<close>

theorem logger_lines:
  assumes "lg_minLevel lg = level_name m" and "stringifyMessage message = Some txt"
  shows "if m \<le> level
         then (\<exists>w. emit lg ts level message ctx trace out = out @ [w] \<and> is_log_line lg level txt w)
         else emit lg ts level message ctx trace out = out"
proof -
  have order: "LEVEL_ORDER (level_name m) = Some (level_number m)"
    by (cases m) (simp_all add: LEVEL_ORDER_def all_levels_def)
  have should: "shouldEmit lg level \<longleftrightarrow> m \<le> level"
    by (simp add: shouldEmit_def assms(1) order less_eq_log_level_def)
  have stream: "level = Error \<or> level = Fatal \<or> level = Warn \<longleftrightarrow> Warn \<le> level"
    by (cases level) (simp_all add: less_eq_log_level_def)
  show ?thesis
  proof (cases "m \<le> level")
    case True
    show ?thesis
      unfolding emit_def should stream Let_def
      using True assms(2)
      by (auto simp: json_prop_of_def simp del: json_stringify.simps intro!: payload_is_log_line)
  qed (simp add: emit_def should)
qed

theorem logger_lines_witness:
  "\<exists>w. emit (new_logger None None None (Some ''DEBUG'') ''i'' 7) ''t'' Error (LString [newline]) None LUndefined [] = [w]
     \<and> is_log_line (new_logger None None None (Some ''DEBUG'') ''i'' 7) Error [newline] w"
proof -
  have "lg_minLevel (new_logger None None None (Some ''DEBUG'') ''i'' 7) = level_name Debug" "Debug \<le> Error"
    by code_simp+
  then show ?thesis
    using logger_lines [of "new_logger None None None (Some ''DEBUG'') ''i'' 7" Debug "LString [newline]" "[newline]" Error
        "''t''" None LUndefined "[]"]
    by (simp add: stringifyMessage_def)
qed

end
