(* ===== verification/Http_Edge.thy ===== *)
theory Http_Edge
  imports Request_Pipeline Json_Logger
begin

text \<open>
  The edge of the service: \<open>logging.interceptor.ts\<close>, the metrics guard, and the exception filter
  and the response wrapper under \<open>common/\<close> (which nothing registers).  A served request goes
  through the guard, then the logging interceptor, then the handler.
\<close>

section \<open>Request identifiers\<close>

definition alphanumeric :: "char \<Rightarrow> bool" where
  "alphanumeric c = (let n = (of_char c :: nat) in (48 \<le> n \<and> n \<le> 57) \<or> (65 \<le> n \<and> n \<le> 90) \<or> (97 \<le> n \<and> n \<le> 122))"

definition REQUEST_ID :: "string \<Rightarrow> bool" where
  "REQUEST_ID s \<longleftrightarrow> 1 \<le> length s \<and> length s \<le> 64 \<and> list_all (\<lambda>c. alphanumeric c \<or> c = CHR ''-'') s"

record exchange =
  ex_method :: string
  ex_url :: string
  ex_ip :: string
  ex_user_agent :: "string option"
  ex_request_id :: "string option"

definition request_id :: "exchange \<Rightarrow> uuid \<Rightarrow> string" where
  "request_id ex fresh =
     (let raw = (case ex_request_id ex of None \<Rightarrow> [] | Some s \<Rightarrow> s) in if REQUEST_ID raw then raw else fresh)"

section \<open>The logging interceptor\<close>

text \<open>
  The response it writes its header to, and the entries it logs.  What Node and Express supply is a
  parameter: a fresh UUID, the two readings of the clock, the \<open>content-length\<close> that is set when the
  handler is done, and the message of an error object.
\<close>

record response =
  re_headers :: "(string \<times> string) list"
  re_statusCode :: nat

record edge =
  eg_fresh :: uuid
  eg_started :: millis
  eg_finished :: millis
  eg_content_length :: int
  eg_message :: "exn \<Rightarrow> string"

definition set_header :: "string \<Rightarrow> string \<Rightarrow> response \<Rightarrow> response" where
  "set_header k v re = re\<lparr>re_headers := filter (\<lambda>p. fst p \<noteq> k) (re_headers re) @ [(k, v)]\<rparr>"

definition opt_json :: "string option \<Rightarrow> json" where
  "opt_json v = (case v of None \<Rightarrow> JNull | Some s \<Rightarrow> JStr s)"

definition user_agent_of :: "exchange \<Rightarrow> string" where
  "user_agent_of ex = (case ex_user_agent ex of None \<Rightarrow> [] | Some s \<Rightarrow> s)"

definition response_entry :: "exchange \<Rightarrow> edge \<Rightarrow> string option \<Rightarrow> nat \<Rightarrow> json" where
  "response_entry ex eg userId code =
     JObj [(''event'', JStr ''http_response''), (''request_id'', JStr (request_id ex (eg_fresh eg))),
       (''method'', JStr (ex_method ex)), (''url'', JStr (ex_url ex)), (''status'', JNum (int code)),
       (''duration_ms'', JNum (eg_finished eg - eg_started eg)), (''user_id'', opt_json userId),
       (''content_length'', JNum (eg_content_length eg)), (''ip'', JStr (ex_ip ex)),
       (''user_agent'', JStr (user_agent_of ex))]"

definition error_entry :: "exchange \<Rightarrow> edge \<Rightarrow> string option \<Rightarrow> exn \<Rightarrow> json" where
  "error_entry ex eg userId e =
     JObj [(''event'', JStr ''http_error''), (''request_id'', JStr (request_id ex (eg_fresh eg))),
       (''method'', JStr (ex_method ex)), (''url'', JStr (ex_url ex)), (''status'', JNum (int (http_status e))),
       (''duration_ms'', JNum (eg_finished eg - eg_started eg)), (''user_id'', opt_json userId),
       (''ip'', JStr (ex_ip ex)), (''user_agent'', JStr (user_agent_of ex)), (''error_message'', JStr (eg_message eg e))]"

definition log_intercept :: "exchange \<Rightarrow> edge \<Rightarrow> string option \<Rightarrow> 'a io
    \<Rightarrow> (world \<times> response \<times> (log_level \<times> json) list, 'a) action" where
  "log_intercept ex eg userId handle st =
     (case st of (w, re, logs) \<Rightarrow>
       let re1 = set_header ''X-Request-Id'' (request_id ex (eg_fresh eg)) re in
       case handle w of
         (Inr x, w') \<Rightarrow> (Inr x, (w', re1, logs @ [(Log, response_entry ex eg userId (re_statusCode re1))]))
       | (Inl e, w') \<Rightarrow> (Inl e, (w', re1, logs @ [(Error, error_entry ex eg userId e)])))"

definition serve_logged :: "exchange \<Rightarrow> edge \<Rightarrow> env \<Rightarrow> jwks_env \<Rightarrow> jwks_service \<Rightarrow> verifier \<Rightarrow> request \<Rightarrow> route
    \<Rightarrow> (world \<times> response \<times> (log_level \<times> json) list, answer) action" where
  "serve_logged ex eg env jenv jwks verify req route st =
     (case st of (w, re, logs) \<Rightarrow>
       case canActivate env jenv jwks verify False req w of
         (Inl e, w1) \<Rightarrow> (Inl e, (w1, re, logs))
       | (Inr au, w1) \<Rightarrow>
           let req' = attach_user au req in
           log_intercept ex eg (rq_userId req') (route_handler (rls_intercept (rq_userId req') env) req' route) (w1, re, logs))"

section \<open>The other parts of the edge\<close>

definition metrics_canActivate :: "string option \<Rightarrow> string option \<Rightarrow> string option \<Rightarrow> bool" where
  "metrics_canActivate METRICS_API_KEY NODE_ENV provided =
     (if METRICS_API_KEY = None \<or> METRICS_API_KEY = Some []
      then (let e = (case NODE_ENV of None \<Rightarrow> ''production'' | Some s \<Rightarrow> s) in e = ''development'' \<or> e = ''test'')
      else provided = METRICS_API_KEY)"

definition filter_catch :: "exchange \<Rightarrow> string \<Rightarrow> nat \<Rightarrow> string \<Rightarrow> nat \<times> json \<times> log_level" where
  "filter_catch ex timestamp st msg =
     (st,
      JObj [(''statusCode'', JNum (int st)), (''timestamp'', JStr timestamp), (''path'', JStr (ex_url ex)),
        (''method'', JStr (ex_method ex)), (''message'', JStr (if msg = [] then ''Internal server error'' else msg))],
      if 500 \<le> st then Error else Warn)"

definition transform_response :: "response \<Rightarrow> string \<Rightarrow> json \<Rightarrow> json" where
  "transform_response re timestamp data =
     JObj [(''data'', data), (''statusCode'', JNum (int (re_statusCode re))), (''message'', JStr ''Success''),
       (''timestamp'', JStr timestamp)]"

section \<open>Properties\<close>

fun json_field :: "json \<Rightarrow> string \<Rightarrow> json option" where
  "json_field (JObj ps) k = map_of ps k"
| "json_field j k = None"

lemma request_id_valid: "REQUEST_ID fresh \<Longrightarrow> REQUEST_ID (request_id ex fresh)"
  by (simp add: request_id_def Let_def)

lemma request_id_kept: "ex_request_id ex = Some s \<Longrightarrow> REQUEST_ID s \<Longrightarrow> request_id ex fresh = s"
  by (simp add: request_id_def)

text \<open>A trace of an exchange: the header and one entry with the same identifier and the user, whose
  status is the one the client gets.\<close>

definition traced :: "exchange \<Rightarrow> edge \<Rightarrow> string option \<Rightarrow> exn + 'a \<Rightarrow> response \<Rightarrow> response \<Rightarrow> log_level \<times> json \<Rightarrow> bool" where
  "traced ex eg userId r re re' entry \<longleftrightarrow>
     (\<exists>rid. REQUEST_ID rid \<and> map_of (re_headers re') ''X-Request-Id'' = Some rid
        \<and> (case ex_request_id ex of None \<Rightarrow> rid = eg_fresh eg
           | Some s \<Rightarrow> rid = (if REQUEST_ID s then s else eg_fresh eg))
        \<and> json_field (snd entry) ''request_id'' = Some (JStr rid))
     \<and> json_field (snd entry) ''user_id'' = Some (opt_json userId)
     \<and> (case r of Inl e \<Rightarrow> fst entry = Error \<and> json_field (snd entry) ''status'' = Some (JNum (int (http_status e)))
        | Inr _ \<Rightarrow> fst entry = Log \<and> json_field (snd entry) ''status'' = Some (JNum (int (re_statusCode re))))"

lemma map_of_set_header [simp]: "map_of (re_headers (set_header k v re)) k = Some v"
proof -
  have "map_of (filter (\<lambda>p. fst p \<noteq> k) ps) k = None" for ps :: "(string \<times> string) list"
    by (induction ps) auto
  then show ?thesis by (simp add: set_header_def map_add_def)
qed

lemma not_request_id_Nil [simp]: "\<not> REQUEST_ID []"
  by (simp add: REQUEST_ID_def)

lemma log_intercept_traces:
  assumes "REQUEST_ID (eg_fresh eg)" and "handle w = (r, w')"
  shows "\<exists>re' entry. log_intercept ex eg userId handle (w, re, logs) = (r, (w', re', logs @ [entry]))
     \<and> traced ex eg userId r re re' entry"
proof (cases r)
  case (Inl e)
  show ?thesis
    using assms(2) request_id_valid [OF assms(1), of ex]
    by (auto simp: log_intercept_def Inl traced_def error_entry_def Let_def)
      (simp_all add: request_id_def split: option.split)
next
  case (Inr x)
  show ?thesis
    using assms(2) request_id_valid [OF assms(1), of ex]
    by (auto simp: log_intercept_def Inr traced_def response_entry_def Let_def)
      (simp_all add: request_id_def set_header_def split: option.split)
qed

text \<open>C9. The logging interceptor changes no answer.  A request that the guard refuses leaves no trace;
  every other one gets a well-formed request identifier, the client's own if it is one, and exactly
  one log entry, with this identifier, the authenticated user and the status of the outcome.\<close>

theorem requests_traced:
  assumes "REQUEST_ID (eg_fresh eg)"
    and "serve env jenv jwks verify req route w = (r, w')"
  shows "\<exists>re' logs'. serve_logged ex eg env jenv jwks verify req route (w, re, logs) = (r, (w', re', logs'))
     \<and> (case canActivate env jenv jwks verify False req w of
          (Inl e, w1) \<Rightarrow> re' = re \<and> logs' = logs
        | (Inr au, w1) \<Rightarrow> \<exists>entry. logs' = logs @ [entry] \<and> traced ex eg (map_option au_userId au) r re re' entry)"
proof (cases "canActivate env jenv jwks verify False req w")
  case (Pair g w1)
  show ?thesis
  proof (cases g)
    case (Inl e)
    with Pair assms(2) show ?thesis
      by (auto simp: serve_logged_def serve_def bindE_def)
  next
    case (Inr au)
    let ?u = "rq_userId (attach_user au req)"
    have u: "?u = map_option au_userId au"
      by (simp add: attach_user_def)
    have "route_handler (rls_intercept ?u env) (attach_user au req) route w1 = (r, w')"
      using Pair Inr assms(2) by (simp add: serve_def bindE_def Let_def)
    from log_intercept_traces [where handle = "route_handler (rls_intercept ?u env) (attach_user au req) route", OF assms(1) this, of ex ?u re logs]
    obtain re' entry where "log_intercept ex eg ?u (route_handler (rls_intercept ?u env) (attach_user au req) route) (w1, re, logs)
        = (r, (w', re', logs @ [entry]))" "traced ex eg ?u r re re' entry"
      by blast
    then have "serve_logged ex eg env jenv jwks verify req route (w, re, logs) = (r, (w', re', logs @ [entry]))"
        "traced ex eg (map_option au_userId au) r re re' entry"
      by (simp_all add: serve_logged_def Pair Inr Let_def u)
    then show ?thesis
      unfolding Pair Inr by (cases entry) auto
  qed
qed

definition sample_exchange :: exchange where
  "sample_exchange = \<lparr>ex_method = ''GET'', ex_url = ''/media/v1/1/blob'', ex_ip = ''10.0.0.1'', ex_user_agent = None,
     ex_request_id = Some ''trace 1''\<rparr>"

definition sample_edge :: edge where
  "sample_edge = \<lparr>eg_fresh = ''0f-1'', eg_started = 5, eg_finished = 12, eg_content_length = 0, eg_message = \<lambda>e. ''m''\<rparr>"

theorem requests_traced_witness:
  "\<exists>re' entry.
     serve_logged sample_exchange sample_edge sample_env late_jwks_env ready_jwks sample_verifier sample_request
       (RDelete (sample_uuid 9)) (media_world, \<lparr>re_headers = [], re_statusCode = 204\<rparr>, [])
     = (Inl (media_not_found (sample_uuid 9)),
        (snd (serve sample_env late_jwks_env ready_jwks sample_verifier sample_request (RDelete (sample_uuid 9)) media_world),
         re', [entry]))
   \<and> traced sample_exchange sample_edge (Some alice) (Inl (media_not_found (sample_uuid 9)) :: exn + answer)
       \<lparr>re_headers = [], re_statusCode = 204\<rparr> re' entry"
proof -
  let ?r = "serve sample_env late_jwks_env ready_jwks sample_verifier sample_request (RDelete (sample_uuid 9)) media_world"
  have r: "?r = (Inl (media_not_found (sample_uuid 9)), snd ?r)"
    by (simp add: prod_eq_iff) code_simp
  have "REQUEST_ID (eg_fresh sample_edge)"
    by code_simp
  moreover obtain au w1 where "canActivate sample_env late_jwks_env ready_jwks sample_verifier False sample_request media_world = (Inr au, w1)"
      "map_option au_userId au = Some alice"
  proof -
    have "map_sum (\<lambda>_. ()) (map_option au_userId)
        (fst (canActivate sample_env late_jwks_env ready_jwks sample_verifier False sample_request media_world)) = Inr (Some alice)"
      by code_simp
    then show thesis
      using that by (cases "canActivate sample_env late_jwks_env ready_jwks sample_verifier False sample_request media_world";
          cases "fst (canActivate sample_env late_jwks_env ready_jwks sample_verifier False sample_request media_world)") auto
  qed
  ultimately show ?thesis
    using requests_traced [OF _ r, of sample_edge sample_exchange "\<lparr>re_headers = [], re_statusCode = 204\<rparr>" "[]"]
    by force
qed

end
