(* ===== verification/Health.thy ===== *)
theory Health
  imports Jwks
begin

text \<open>
  \<open>health.controller.ts\<close>: the health report, the readiness and the liveness probe.  The facts about
  the process (clock, uptime, memory, version) are not part of the verdicts; the version is kept.
\<close>

record health_services =
  hs_database :: string
  hs_cache :: string
  hs_minio :: string
  hs_jwks :: string

record health_report =
  hr_status :: string
  hr_version :: string
  hr_services :: health_services

definition version_of :: "string option \<Rightarrow> string" where
  "version_of npm_package_version =
     (case npm_package_version of None \<Rightarrow> ''1.0.0'' | Some v \<Rightarrow> if v = [] then ''1.0.0'' else v)"

definition select_one :: "env \<Rightarrow> unit io" where
  "select_one env = ext env (ret ())"

definition listBuckets :: "env \<Rightarrow> unit io" where
  "listBuckets env = ext env (ret ())"

definition probe :: "unit io \<Rightarrow> string io" where
  "probe m = catchE (bindE m (\<lambda>_. ret ''healthy'')) (\<lambda>e. ret ''unhealthy'')"

text \<open>The status field starts as \<open>ok\<close> and is set to \<open>error\<close> by each failed check.\<close>

definition degrade :: "string \<Rightarrow> string \<Rightarrow> string" where
  "degrade current service = (if service = ''healthy'' then current else ''error'')"

definition health_check :: "env \<Rightarrow> string option \<Rightarrow> jwks_service \<Rightarrow> health_report io" where
  "health_check env version jwks =
     bindE (probe (select_one env)) (\<lambda>database.
     bindE (probe (bindE (cache_set env ''health-check'' (CStr ''ok'') 1000) (\<lambda>_.
              bindE (cache_get env ''health-check'') (\<lambda>_. ret ())))) (\<lambda>cach.
     bindE (probe (listBuckets env)) (\<lambda>minio.
     let keys = (if isReady jwks then ''healthy'' else ''unhealthy'');
         st = degrade (degrade (degrade (degrade ''ok'' database) cach) minio) keys in
     ret \<lparr>hr_status = st, hr_version = version_of version,
          hr_services = \<lparr>hs_database = database, hs_cache = cach, hs_minio = minio, hs_jwks = keys\<rparr>\<rparr>)))"

definition error_message :: "exn \<Rightarrow> string" where
  "error_message e =
     (case e of HttpException st (Msg m) \<Rightarrow> m | HttpException st (Obj ps) \<Rightarrow> ''Http Exception''
      | JsError m \<Rightarrow> m | TypeError m \<Rightarrow> m | IoError m \<Rightarrow> m)"

definition not_ready :: "exn \<Rightarrow> exn" where
  "not_ready e = HttpException 503 (Obj [(''status'', ''not ready''), (''error'', error_message e)])"

definition readiness :: "env \<Rightarrow> jwks_service \<Rightarrow> string io" where
  "readiness env jwks =
     catchE
       (bindE (select_one env) (\<lambda>_.
        bindE (cache_set env ''readiness-check'' (CStr ''ok'') 1000) (\<lambda>_.
        bindE (listBuckets env) (\<lambda>_.
        bindE (throw_when (\<not> isReady jwks) (JsError ''ES256 public key not loaded'')) (\<lambda>_.
        ret ''ready'')))))
       (\<lambda>e. throw (not_ready e))"

definition alive :: "string option \<Rightarrow> string \<times> string" where
  "alive version = (''alive'', version_of version)"

section \<open>Properties\<close>

definition answered :: "env \<Rightarrow> nat \<Rightarrow> bool" where
  "answered env n \<longleftrightarrow> outcome_at env n = Done"

text \<open>Only the probe's own cache key and the call counter change.\<close>

definition probed :: "string \<Rightarrow> world \<Rightarrow> world \<Rightarrow> bool" where
  "probed k w w' \<longleftrightarrow> w'\<lparr>cache := (cache w')(k := None), ticks := 0\<rparr> = w\<lparr>cache := (cache w)(k := None), ticks := 0\<rparr>"

lemma probe_ext: "probe (ext env (ret ())) w = (Inr (if answered env (ticks w) then ''healthy'' else ''unhealthy''), tick w)"
  by (simp add: probe_def ext_def catchE_def bindE_def ret_def answered_def split: outcome.split)

abbreviation cache_round :: "env \<Rightarrow> unit io" where
  "cache_round env \<equiv> bindE (cache_set env ''health-check'' (CStr ''ok'') 1000) (\<lambda>_. bindE (cache_get env ''health-check'') (\<lambda>_. ret ()))"

lemma probe_cache:
  obtains w' where "probe (cache_round env) w
      = (Inr (if answered env (ticks w) \<and> answered env (ticks w + 1) then ''healthy'' else ''unhealthy''), w')"
    "probed ''health-check'' w w'" "ticks w' = ticks w + (if answered env (ticks w) then 2 else 1)"
proof -
  let ?w = "snd (probe (cache_round env) w)"
  have "probe (cache_round env) w
      = (Inr (if answered env (ticks w) \<and> answered env (ticks w + 1) then ''healthy'' else ''unhealthy''), ?w)"
    "ticks ?w = ticks w + (if answered env (ticks w) then 2 else 1)"
    by (simp_all add: probe_def cache_set_def cache_get_def ext_def catchE_def bindE_def ret_def answered_def tick_def
        split: outcome.split)
  moreover have "probed ''health-check'' w ?w"
    by (auto simp: probe_def cache_set_def cache_get_def ext_def catchE_def bindE_def ret_def tick_def probed_def
        split: outcome.split)
  ultimately show thesis using that by blast
qed

lemma probed_tick [simp]: "probed k (tick w) w' = probed k w w'" "probed k w (tick w') = probed k w w'"
  by (simp_all add: probed_def tick_def)

text \<open>The health report says \<open>ok\<close> exactly when every check succeeded and the key is loaded, and it
  names each dependency that failed; a probe never throws and leaves everything but its own cache key
  alone.\<close>

theorem health_reports:
  "\<exists>rep w'. health_check env version jwks w = (Inr rep, w') \<and> probed ''health-check'' w w'
     \<and> hr_services rep =
         \<lparr>hs_database = (if answered env (ticks w) then ''healthy'' else ''unhealthy''),
          hs_cache = (if answered env (ticks w + 1) \<and> answered env (ticks w + 2) then ''healthy'' else ''unhealthy''),
          hs_minio = (if answered env (ticks w + (if answered env (ticks w + 1) then 3 else 2)) then ''healthy'' else ''unhealthy''),
          hs_jwks = (if isReady jwks then ''healthy'' else ''unhealthy'')\<rparr>
     \<and> hr_status rep = (if set [hs_database (hr_services rep), hs_cache (hr_services rep), hs_minio (hr_services rep),
                                hs_jwks (hr_services rep)] = {''healthy''} then ''ok'' else ''error'')"
proof -
  obtain w' where w': "probe (cache_round env) (tick w)
      = (Inr (if answered env (ticks w + 1) \<and> answered env (ticks w + 2) then ''healthy'' else ''unhealthy''), w')"
    "probed ''health-check'' (tick w) w'" "ticks w' = ticks w + (if answered env (ticks w + 1) then 3 else 2)"
    by (rule probe_cache [of env "tick w"]) auto
  have "probed ''health-check'' w (tick w')"
    using w'(2) by simp
  then show ?thesis
    by (simp add: health_check_def select_one_def listBuckets_def bindE_def probe_ext w'(1,3) Let_def ret_def degrade_def)
qed

text \<open>A pod is ready exactly when the database, the cache and the bucket answer and the key is loaded;
  in every other case the probe gets a 503.\<close>

theorem readiness_decides:
  "(if answered env (ticks w) \<and> answered env (ticks w + 1) \<and> answered env (ticks w + 2) \<and> isReady jwks
    then fst (readiness env jwks w) = Inr ''ready''
    else \<exists>e. fst (readiness env jwks w) = Inl (not_ready e))
   \<and> probed ''readiness-check'' w (snd (readiness env jwks w))"
proof
  show "probed ''readiness-check'' w (snd (readiness env jwks w))"
    by (auto simp: readiness_def select_one_def listBuckets_def cache_set_def ext_def catchE_def bindE_def ret_def tick_def
        throw_def throw_when_def probed_def split: outcome.split)
  show "if answered env (ticks w) \<and> answered env (ticks w + 1) \<and> answered env (ticks w + 2) \<and> isReady jwks
    then fst (readiness env jwks w) = Inr ''ready''
    else \<exists>e. fst (readiness env jwks w) = Inl (not_ready e)"
    by (auto simp: readiness_def select_one_def listBuckets_def cache_set_def ext_def catchE_def bindE_def ret_def answered_def
        throw_def throw_when_def split: outcome.splits)
qed

end
