(* ===== verification/Upload_Form.thy ===== *)
theory Upload_Form
  imports Media_Controller Json_Logger
begin

text \<open>
  The bodies of the upload and share requests: \<open>dto/upload-media.dto.ts\<close> with the validation that its
  decorators ask for.  A field of the form is what multer or the JSON body parser hands over.
  \<open>JSON.parse\<close> and the library's test for UUIDs are parameters.
\<close>

section \<open>Fields\<close>

datatype form_value = FUndefined | FNull | FStr string | FArr "json list" | FOther json

text \<open>\<open>String(value)\<close>.\<close>

fun js_String :: "json \<Rightarrow> string" where
  "js_String JNull = ''null''"
| "js_String (JBool b) = (if b then ''true'' else ''false'')"
| "js_String (JNum n) = show_int n"
| "js_String (JStr s) = s"
| "js_String (JArr js) = intersperse '','' (map (\<lambda>j. if j = JNull then [] else js_String j) js)"
| "js_String (JObj ps) = ''[object Object]''"

text \<open>What the transformation returns: \<open>undefined\<close>, an array of strings, or the value it was given.\<close>

datatype parsed_array = PUndefined | PArray "string list" | PRaw form_value

definition csv_fields :: "string \<Rightarrow> string list" where
  "csv_fields s = filter (\<lambda>x. x \<noteq> []) (map js_trim (js_split (CHR '','') s))"

definition parseStringArray :: "(string \<Rightarrow> json option) \<Rightarrow> form_value \<Rightarrow> parsed_array" where
  "parseStringArray json_parse v =
     (case v of
        FUndefined \<Rightarrow> PUndefined
      | FNull \<Rightarrow> PUndefined
      | FArr js \<Rightarrow> PArray (map js_String js)
      | FOther j \<Rightarrow> PRaw v
      | FStr s \<Rightarrow>
          if s = [] then PUndefined
          else
            (let trimmed = js_trim s in
             if js_starts_with trimmed ''[''
             then (case json_parse trimmed of
                 Some (JArr js) \<Rightarrow> PArray (map js_String js)
               | _ \<Rightarrow> PRaw (FStr trimmed))
             else PArray (csv_fields trimmed)))"

section \<open>Validation\<close>

record upload_form =
  f_context :: form_value
  f_ownerId :: form_value
  f_conversationId :: form_value
  f_sharedWith :: form_value

definition contexts :: "media_context list" where
  "contexts = [MESSAGE, AVATAR, GROUP_ICON]"

text \<open>\<open>@IsOptional\<close> passes a missing or null field; else the other decorators decide.\<close>

definition optional_string :: "(string \<Rightarrow> bool) \<Rightarrow> form_value \<Rightarrow> string option option" where
  "optional_string p v =
     (case v of FUndefined \<Rightarrow> Some None | FNull \<Rightarrow> Some None
      | FStr s \<Rightarrow> if p s then Some (Some s) else None
      | _ \<Rightarrow> None)"

definition valid_context :: "form_value \<Rightarrow> media_context option option" where
  "valid_context v =
     map_option (map_option (\<lambda>s. the (List.find (\<lambda>c. context_value c = s) contexts)))
       (optional_string (\<lambda>s. s \<in> set (map context_value contexts)) v)"

definition valid_sharedWith :: "(string \<Rightarrow> bool) \<Rightarrow> parsed_array \<Rightarrow> uuid list option option" where
  "valid_sharedWith is_uuid v =
     (case v of PUndefined \<Rightarrow> Some None
      | PArray xs \<Rightarrow> if list_all is_uuid xs then Some (Some xs) else None
      | PRaw r \<Rightarrow> None)"

text \<open>The names of the fields that are refused, or the body.\<close>

definition validate_upload :: "(string \<Rightarrow> bool) \<Rightarrow> (string \<Rightarrow> json option) \<Rightarrow> upload_form \<Rightarrow> string list + upload_dto" where
  "validate_upload is_uuid json_parse f =
     (let c = valid_context (f_context f);
          ow = optional_string is_uuid (f_ownerId f);
          conv = optional_string (\<lambda>_. True) (f_conversationId f);
          sh = valid_sharedWith is_uuid (parseStringArray json_parse (f_sharedWith f));
          bad = concat (map (\<lambda>(ok, n). if ok then [] else [n])
                  [(c \<noteq> None, ''context''), (ow \<noteq> None, ''ownerId''), (conv \<noteq> None, ''conversationId''),
                   (sh \<noteq> None, ''sharedWith'')]) in
      if bad = []
      then Inr \<lparr>d_context = the c, d_ownerId = the ow, d_conversationId = the conv, d_sharedWith = the sh\<rparr>
      else Inl bad)"

definition json_uuids :: "(string \<Rightarrow> bool) \<Rightarrow> json list \<Rightarrow> bool" where
  "json_uuids is_uuid js = list_all (\<lambda>j. case j of JStr s \<Rightarrow> is_uuid s | _ \<Rightarrow> False) js"

definition validate_share :: "(string \<Rightarrow> bool) \<Rightarrow> form_value \<Rightarrow> string list + uuid list" where
  "validate_share is_uuid v =
     (case v of
        FArr js \<Rightarrow> if json_uuids is_uuid js then Inr (map js_String js) else Inl [''userIds'']
      | _ \<Rightarrow> Inl [''userIds''])"

section \<open>Lists separated by commas\<close>

lemma js_trim_ends:
  assumes "s \<noteq> []" and "\<not> is_js_space (hd s)" and "\<not> is_js_space (last s)"
  shows "js_trim s = s"
proof -
  have drop: "dropWhile is_js_space t = t" if "t \<noteq> []" "\<not> is_js_space (hd t)" for t
    using that by (cases t) auto
  show ?thesis
    using assms by (simp add: js_trim_def drop hd_rev)
qed

lemma js_trim_pad:
  assumes "\<forall>c \<in> set pad. is_js_space c" and "x \<noteq> []" and "\<forall>c \<in> set x. \<not> is_js_space c"
  shows "js_trim (pad @ x) = x"
proof -
  have "dropWhile is_js_space (pad @ x) = x"
    using assms by (cases x) (auto simp: dropWhile_append2)
  then have "js_trim (pad @ x) = js_trim x"
    using assms(2,3) by (cases x) (simp_all add: js_trim_def)
  then show ?thesis
    using js_trim_id [OF assms(3)] by simp
qed

lemma js_split_intersperse:
  assumes "\<forall>x \<in> set (x # xs). d \<notin> set x" and "d \<notin> set pad"
  shows "js_split d (intersperse (d # pad) (x # xs)) = x # map ((@) pad) xs"
  using assms
proof (induction xs arbitrary: x)
  case Nil
  then show ?case by (simp add: js_split_absent)
next
  case (Cons y ys)
  have eq: "js_split d (pad @ s) = (pad @ hd (js_split d s)) # tl (js_split d s)" for s
    using Cons.prems(2) by (induction pad) (auto split: list.splits)
  show ?case
    using Cons by (simp add: js_split_append eq)
qed

lemma csv_fields_intersperse:
  assumes "\<forall>x \<in> set xs. x \<noteq> [] \<and> CHR '','' \<notin> set x \<and> (\<forall>c \<in> set x. \<not> is_js_space c)"
    and "\<forall>c \<in> set pad. is_js_space c" and "xs \<noteq> []"
  shows "csv_fields (intersperse (CHR '','' # pad) xs) = xs"
proof -
  obtain y ys where xs: "xs = y # ys"
    using assms(3) by (cases xs) auto
  have "CHR '','' \<notin> set pad"
    using assms(2) by (auto simp: is_js_space_def)
  then have "js_split (CHR '','') (intersperse (CHR '','' # pad) xs) = y # map ((@) pad) ys"
    using assms(1) unfolding xs by (intro js_split_intersperse) auto
  moreover have "map js_trim (y # map ((@) pad) ys) = y # ys"
    using assms(1,2) unfolding xs by (auto simp: js_trim_id js_trim_pad intro!: map_idI)
  moreover have "filter (\<lambda>x. x \<noteq> []) (y # ys) = y # ys"
    using assms(1) unfolding xs by (auto simp: filter_id_conv)
  ultimately show ?thesis
    by (simp add: csv_fields_def xs)
qed

lemma intersperse_ends:
  assumes "\<forall>x \<in> set xs. x \<noteq> []" and "xs \<noteq> []"
  shows "intersperse sep xs \<noteq> []" and "hd (intersperse sep xs) = hd (hd xs)"
    and "last (intersperse sep xs) = last (last xs)"
proof -
  have "intersperse sep xs \<noteq> [] \<and> hd (intersperse sep xs) = hd (hd xs) \<and> last (intersperse sep xs) = last (last xs)"
    using assms by (induction sep xs rule: intersperse.induct) auto
  then show "intersperse sep xs \<noteq> []" "hd (intersperse sep xs) = hd (hd xs)"
    "last (intersperse sep xs) = last (last xs)" by auto
qed

section \<open>Properties\<close>

lemma UUID_PATTERN_plain:
  assumes "UUID_PATTERN s"
  shows "s \<noteq> [] \<and> CHR '','' \<notin> set s \<and> CHR ''['' \<notin> set s \<and> (\<forall>c \<in> set s. \<not> is_js_space c)"
proof -
  have "\<not> (is_hex_ci c \<or> c = CHR ''-'')" if "c = CHR '','' \<or> c = CHR ''['' \<or> is_js_space c" for c
    using that by (auto simp: is_hex_ci_def is_js_space_def)
  with UUID_PATTERN_chars [OF assms] UUID_PATTERN_length [OF assms] show ?thesis
    by fastforce
qed

text \<open>C36. However a client writes the readers of an upload (separated by commas with any white space
  after them, as a JSON array in a string, as a repeated field), the service receives the same list.\<close>

theorem shared_with_roundtrip:
  assumes ids: "ids \<noteq> []" "\<And>s. s \<in> set ids \<Longrightarrow> UUID_PATTERN s \<and> is_uuid s"
    and pad: "\<And>c. c \<in> set pad \<Longrightarrow> is_js_space c"
    and json: "json_parse (json_stringify (JArr (map JStr ids))) = Some (JArr (map JStr ids))"
    and v: "v = FStr (intersperse (CHR '','' # pad) ids) \<or> v = FStr (json_stringify (JArr (map JStr ids))) \<or> v = FArr (map JStr ids)"
  shows "validate_upload is_uuid json_parse \<lparr>f_context = FStr ''avatar'', f_ownerId = FUndefined, f_conversationId = FUndefined, f_sharedWith = v\<rparr>
     = Inr \<lparr>d_context = Some AVATAR, d_ownerId = None, d_conversationId = None, d_sharedWith = Some ids\<rparr>"
proof -
  have plain: "\<forall>x \<in> set ids. x \<noteq> [] \<and> CHR '','' \<notin> set x \<and> (\<forall>c \<in> set x. \<not> is_js_space c)"
    using UUID_PATTERN_plain ids(2) by blast
  have strings: "map js_String (map JStr ids) = ids"
    by (simp add: map_idI)
  have "parseStringArray json_parse v = PArray ids"
    using v
  proof (elim disjE)
    assume v: "v = FStr (intersperse (CHR '','' # pad) ids)"
    note e = intersperse_ends [OF _ ids(1), of "CHR '','' # pad"]
    have "\<not> is_js_space (hd (hd ids))" "\<not> is_js_space (last (last ids))"
      using plain ids(1) by (metis hd_in_set) (metis plain ids(1) last_in_set)
    then have t: "js_trim (intersperse (CHR '','' # pad) ids) = intersperse (CHR '','' # pad) ids"
      using plain ids(1) e by (intro js_trim_ends) (simp_all add: e)
    have "hd (intersperse (CHR '','' # pad) ids) \<noteq> CHR ''[''"
      using e(2) plain ids UUID_PATTERN_plain by (metis hd_in_set)
    then have "\<not> js_starts_with (intersperse (CHR '','' # pad) ids) ''[''"
      by (cases "intersperse (CHR '','' # pad) ids") auto
    with t e(1) plain pad ids(1) show ?thesis
      by (simp add: v parseStringArray_def Let_def csv_fields_intersperse)
  next
    assume v: "v = FStr (json_stringify (JArr (map JStr ids)))"
    have "js_trim (json_stringify (JArr (map JStr ids))) = json_stringify (JArr (map JStr ids))"
      by (rule js_trim_ends) (simp_all add: is_js_space_def)
    then show ?thesis
      using json strings by (simp add: v parseStringArray_def)
  next
    assume "v = FArr (map JStr ids)"
    then show ?thesis
      using strings by (simp add: parseStringArray_def)
  qed
  then show ?thesis
    using ids(2) by (simp add: validate_upload_def valid_context_def optional_string_def contexts_def valid_sharedWith_def
        list_all_iff Let_def)
qed

text \<open>A body that passes the validation names a known context and only well-formed identifiers.\<close>

theorem validated_bodies:
  "(case validate_upload is_uuid json_parse f of
      Inr dto \<Rightarrow> list_all is_uuid (case d_ownerId dto of None \<Rightarrow> [] | Some s \<Rightarrow> [s])
        \<and> list_all is_uuid (case d_sharedWith dto of None \<Rightarrow> [] | Some xs \<Rightarrow> xs)
        \<and> f_context f \<in> {FUndefined, FNull} \<union> (\<lambda>c. FStr (context_value c)) ` set_option (d_context dto)
    | Inl bad \<Rightarrow> bad \<noteq> [] \<and> set bad \<subseteq> {''context'', ''ownerId'', ''conversationId'', ''sharedWith''})
   \<and> (case validate_share is_uuid v of Inr us \<Rightarrow> list_all is_uuid us | Inl bad \<Rightarrow> bad = [''userIds''])"
proof
  show "case validate_upload is_uuid json_parse f of
      Inr dto \<Rightarrow> list_all is_uuid (case d_ownerId dto of None \<Rightarrow> [] | Some s \<Rightarrow> [s])
        \<and> list_all is_uuid (case d_sharedWith dto of None \<Rightarrow> [] | Some xs \<Rightarrow> xs)
        \<and> f_context f \<in> {FUndefined, FNull} \<union> (\<lambda>c. FStr (context_value c)) ` set_option (d_context dto)
    | Inl bad \<Rightarrow> bad \<noteq> [] \<and> set bad \<subseteq> {''context'', ''ownerId'', ''conversationId'', ''sharedWith''}"
    by (auto simp: validate_upload_def Let_def optional_string_def valid_sharedWith_def valid_context_def contexts_def
        split: if_splits form_value.splits parsed_array.splits)
  have "list_all is_uuid (map js_String js)" if "json_uuids is_uuid js" for js
    using that by (induction js) (auto simp: json_uuids_def split: json.splits)
  then show "case validate_share is_uuid v of Inr us \<Rightarrow> list_all is_uuid us | Inl bad \<Rightarrow> bad = [''userIds'']"
    by (auto simp: validate_share_def split: form_value.split)
qed

definition two_readers :: "uuid list" where
  "two_readers = [sample_uuid 1, sample_uuid 2]"

definition two_readers_parse :: "string \<Rightarrow> json option" where
  "two_readers_parse s = (if s = json_stringify (JArr (map JStr two_readers)) then Some (JArr (map JStr two_readers)) else None)"

definition avatar_form :: "form_value \<Rightarrow> upload_form" where
  "avatar_form v = \<lparr>f_context = FStr ''avatar'', f_ownerId = FUndefined, f_conversationId = FUndefined, f_sharedWith = v\<rparr>"

theorem shared_with_roundtrip_witness:
  "list_all (\<lambda>v. validate_upload UUID_PATTERN two_readers_parse (avatar_form v)
      = Inr \<lparr>d_context = Some AVATAR, d_ownerId = None, d_conversationId = None, d_sharedWith = Some two_readers\<rparr>)
     [FStr (intersperse '', '' two_readers), FStr (json_stringify (JArr (map JStr two_readers))), FArr (map JStr two_readers)]"
proof -
  have "list_all UUID_PATTERN two_readers" and ne: "two_readers \<noteq> []"
    by code_simp+
  then have ids: "UUID_PATTERN x \<and> UUID_PATTERN x" if "x \<in> set two_readers" for x
    using that by (simp add: list_all_iff)
  have pad: "is_js_space c" if "c \<in> set '' ''" for c
    using that by (simp add: is_js_space_def)
  have parse: "two_readers_parse (json_stringify (JArr (map JStr two_readers))) = Some (JArr (map JStr two_readers))"
    by (simp only: two_readers_parse_def if_True refl)
  have *: "validate_upload UUID_PATTERN two_readers_parse (avatar_form v)
      = Inr \<lparr>d_context = Some AVATAR, d_ownerId = None, d_conversationId = None, d_sharedWith = Some two_readers\<rparr>"
    if "v = FStr (intersperse (CHR '','' # '' '') two_readers) \<or> v = FStr (json_stringify (JArr (map JStr two_readers)))
      \<or> v = FArr (map JStr two_readers)" for v
    unfolding avatar_form_def by (rule shared_with_roundtrip [where v = v and json_parse = two_readers_parse and is_uuid = UUID_PATTERN and pad = "'' ''", OF ne ids pad parse that])
  show ?thesis
    by (simp only: list.pred_inject * simp_thms)
qed

end
