(* ===== verification/Startup.thy ===== *)
theory Startup
  imports Upload_Form
begin

text \<open>
  Starting the service and its configuration: the check of the environment and the entry point of the
  container, the schema of the settings, the options built from them for Postgres, Redis, the bucket
  and the presigner, the bootstrap in \<open>main.ts\<close>, the connection of the events client and the two
  health-check scripts.
\<close>

section \<open>Settings\<close>

text \<open>\<open>process.env\<close> holds strings; the configuration service holds what the schema made of them.\<close>

type_synonym process_env = "string \<Rightarrow> string option"

datatype cfg_value = CfgStr string | CfgNum int | CfgBool bool

type_synonym configuration = "string \<Rightarrow> cfg_value option"

definition config_get :: "configuration \<Rightarrow> string \<Rightarrow> cfg_value \<Rightarrow> cfg_value" where
  "config_get c k d = (case c k of None \<Rightarrow> d | Some v \<Rightarrow> v)"

fun cfg_truthy :: "cfg_value \<Rightarrow> bool" where
  "cfg_truthy (CfgStr s) = (s \<noteq> [])"
| "cfg_truthy (CfgNum n) = (n \<noteq> 0)"
| "cfg_truthy (CfgBool b) = b"

fun cfg_show :: "cfg_value \<Rightarrow> string" where
  "cfg_show (CfgStr s) = s"
| "cfg_show (CfgNum n) = show_int n"
| "cfg_show (CfgBool b) = (if b then ''true'' else ''false'')"

definition truthy_setting :: "configuration \<Rightarrow> string \<Rightarrow> bool" where
  "truthy_setting c k = (case c k of None \<Rightarrow> False | Some v \<Rightarrow> cfg_truthy v)"

section \<open>The schema\<close>

datatype setting_type = AnyString | OneOf "string list" | Uri | Port | Positive "int option" | StringOrEmpty

record setting =
  st_name :: string
  st_type :: setting_type
  st_required :: bool
  st_default :: "cfg_value option"

definition required_setting :: "string \<Rightarrow> setting_type \<Rightarrow> setting" where
  "required_setting n t = \<lparr>st_name = n, st_type = t, st_required = True, st_default = None\<rparr>"

definition optional_setting :: "string \<Rightarrow> setting_type \<Rightarrow> cfg_value option \<Rightarrow> setting" where
  "optional_setting n t d = \<lparr>st_name = n, st_type = t, st_required = False, st_default = d\<rparr>"

definition envValidationSchema :: "setting list" where
  "envValidationSchema =
     [required_setting ''NODE_ENV'' (OneOf [''development'', ''production'', ''test'']),
      required_setting ''HTTP_PORT'' Port,
      required_setting ''DB_HOST'' AnyString,
      required_setting ''DB_PORT'' Port,
      required_setting ''DB_USERNAME'' AnyString,
      required_setting ''DB_PASSWORD'' AnyString,
      required_setting ''DB_NAME'' AnyString,
      optional_setting ''DB_URL'' AnyString None,
      optional_setting ''DB_LOGGING'' (OneOf [''true'', ''false'']) (Some (CfgStr ''false'')),
      optional_setting ''DB_MIGRATIONS_RUN'' (OneOf [''true'', ''false'']) (Some (CfgStr ''false'')),
      optional_setting ''DB_SYNCHRONIZE'' (OneOf [''true'', ''false'']) (Some (CfgStr ''false'')),
      required_setting ''REDIS_HOST'' AnyString,
      required_setting ''REDIS_PORT'' Port,
      optional_setting ''REDIS_PASSWORD'' StringOrEmpty None,
      required_setting ''JWT_JWKS_URL'' Uri,
      required_setting ''S3_ACCESS_KEY_ID'' AnyString,
      required_setting ''S3_SECRET_ACCESS_KEY'' AnyString,
      required_setting ''S3_ENDPOINT'' AnyString,
      optional_setting ''S3_PUBLIC_ENDPOINT'' Uri None,
      optional_setting ''S3_REGION'' AnyString (Some (CfgStr ''us-east-1'')),
      optional_setting ''SIGNED_URL_EXPIRY_SECONDS'' (Positive (Some 604800)) (Some (CfgNum 3600)),
      optional_setting ''MESSAGE_BLOB_TTL_DAYS'' (Positive None) (Some (CfgNum 30)),
      optional_setting ''THUMBNAIL_BLOB_TTL_DAYS'' (Positive None) (Some (CfgNum 30)),
      optional_setting ''MESSAGING_SERVICE_URL'' Uri None,
      optional_setting ''MESSAGING_SERVICE_TIMEOUT_MS'' (Positive None) (Some (CfgNum 3000)),
      optional_setting ''INTERNAL_API_TOKEN'' AnyString None]"

section \<open>The check at the start of the container\<close>

datatype check_line = IsSet string | RequiredMissing string | OptionalMissing string string

record checks =
  missingVars :: nat
  optionalVars :: nat
  console :: "check_line list"

definition no_checks :: checks where
  "no_checks = \<lparr>missingVars = 0, optionalVars = 0, console = []\<rparr>"

definition blank :: "process_env \<Rightarrow> string \<Rightarrow> bool" where
  "blank penv k = (case penv k of None \<Rightarrow> True | Some v \<Rightarrow> v = [] \<or> js_trim v = [])"

definition checkRequired :: "process_env \<Rightarrow> string \<Rightarrow> checks \<Rightarrow> checks" where
  "checkRequired penv k ch =
     (if blank penv k then ch\<lparr>missingVars := missingVars ch + 1, console := console ch @ [RequiredMissing k]\<rparr>
      else ch\<lparr>console := console ch @ [IsSet k]\<rparr>)"

definition checkOptional :: "process_env \<Rightarrow> string \<times> string \<Rightarrow> checks \<Rightarrow> checks" where
  "checkOptional penv p ch =
     (if blank penv (fst p) then ch\<lparr>optionalVars := optionalVars ch + 1, console := console ch @ [OptionalMissing (fst p) (snd p)]\<rparr>
      else ch\<lparr>console := console ch @ [IsSet (fst p)]\<rparr>)"

definition REQUIRED_VARS :: "string list" where
  "REQUIRED_VARS =
     [''NODE_ENV'', ''DB_HOST'', ''DB_PORT'', ''DB_USERNAME'', ''DB_PASSWORD'', ''DB_NAME'', ''JWT_JWKS_URL'',
      ''REDIS_HOST'', ''REDIS_PORT'', ''HTTP_PORT'', ''S3_ACCESS_KEY_ID'', ''S3_SECRET_ACCESS_KEY'', ''S3_ENDPOINT'']"

definition OPTIONAL_VARS :: "(string \<times> string) list" where
  "OPTIONAL_VARS =
     [(''DB_URL'', ''(constructed from individual DB vars)''), (''DB_LOGGING'', ''false''),
      (''DB_MIGRATIONS_RUN'', ''false''), (''DB_SYNCHRONIZE'', ''false''), (''REDIS_PASSWORD'', ''(no password)''),
      (''NODE_OPTIONS'', ''(default Node settings)''), (''PORT'', ''(defaults to HTTP_PORT)''), (''LOG_LEVEL'', ''info''),
      (''METRICS_ENABLED'', ''true''), (''HEALTH_CHECK_TIMEOUT'', ''5000''), (''DEMO_MODE'', ''false'')]"

definition runEnvChecks :: "process_env \<Rightarrow> checks \<Rightarrow> (string + unit) \<times> checks" where
  "runEnvChecks penv ch =
     (let ch' = fold (checkOptional penv) OPTIONAL_VARS (fold (checkRequired penv) REQUIRED_VARS ch) in
      (if 0 < missingVars ch' then Inl ''Missing required environment variables'' else Inr (), ch'))"

datatype start_outcome = StartsMain | Exits int

definition runEntrypoint :: "process_env \<Rightarrow> checks \<Rightarrow> start_outcome" where
  "runEntrypoint penv ch = (case fst (runEnvChecks penv ch) of Inl msg \<Rightarrow> Exits 1 | Inr u \<Rightarrow> StartsMain)"

section \<open>Options of the clients\<close>

record cache_options =
  co_url :: string
  co_ttl :: int
  co_max :: int

definition cacheModuleOptionsFactory :: "configuration \<Rightarrow> cache_options" where
  "cacheModuleOptionsFactory c =
     (let redis_host = config_get c ''REDIS_HOST'' (CfgStr ''redis'');
          redis_port = config_get c ''REDIS_PORT'' (CfgNum 6379);
          redis_username = config_get c ''REDIS_USERNAME'' (CfgStr []);
          redis_password = config_get c ''REDIS_PASSWORD'' (CfgStr []);
          redis_auth = (if cfg_truthy redis_password then cfg_show redis_username @ '':'' @ cfg_show redis_password @ ''@'' else []) in
      \<lparr>co_url = ''redis://'' @ redis_auth @ cfg_show redis_host @ '':'' @ cfg_show redis_port, co_ttl = 900, co_max = 1000\<rparr>)"

record s3_options =
  so_accessKeyId :: "cfg_value option"
  so_secretAccessKey :: "cfg_value option"
  so_endpoint :: "cfg_value option"
  so_region :: "cfg_value option"
  so_forcePathStyle :: bool

definition s3ModuleOptionsFactory :: "configuration \<Rightarrow> s3_options" where
  "s3ModuleOptionsFactory c =
     \<lparr>so_accessKeyId = c ''S3_ACCESS_KEY_ID'', so_secretAccessKey = c ''S3_SECRET_ACCESS_KEY'',
      so_endpoint = c ''S3_ENDPOINT'', so_region = c ''S3_REGION'',
      so_forcePathStyle = (config_get c ''S3_FORCE_PATH_STYLE'' (CfgStr ''false'') = CfgStr ''true'')\<rparr>"

definition buildPresignerClient :: "configuration \<Rightarrow> s3_options option" where
  "buildPresignerClient c =
     (if \<not> truthy_setting c ''S3_PUBLIC_ENDPOINT'' \<or> c ''S3_PUBLIC_ENDPOINT'' = c ''S3_ENDPOINT'' then None
      else if \<not> truthy_setting c ''S3_ACCESS_KEY_ID'' \<or> \<not> truthy_setting c ''S3_SECRET_ACCESS_KEY'' then None
      else
        (let raw = config_get c ''S3_FORCE_PATH_STYLE'' (CfgStr ''false'') in
         Some \<lparr>so_accessKeyId = c ''S3_ACCESS_KEY_ID'', so_secretAccessKey = c ''S3_SECRET_ACCESS_KEY'',
           so_endpoint = c ''S3_PUBLIC_ENDPOINT'', so_region = Some (config_get c ''S3_REGION'' (CfgStr ''us-east-1'')),
           so_forcePathStyle = (raw = CfgBool True \<or> raw = CfgStr ''true'')\<rparr>))"

text \<open>The client that signs the URLs.\<close>

definition presignerClient :: "configuration \<Rightarrow> s3_options" where
  "presignerClient c = (case buildPresignerClient c of Some p \<Rightarrow> p | None \<Rightarrow> s3ModuleOptionsFactory c)"

text \<open>\<open>StorageService\<close> keeps its own copies; \<open>new URL\<close> is a parameter that gives protocol and host.\<close>

record storage_options =
  sg_bucket :: string
  sg_forcePathStyle :: cfg_value
  sg_endpoint :: string
  sg_publicEndpoint :: string

definition new_storage_options :: "configuration \<Rightarrow> storage_options" where
  "new_storage_options c =
     (let endpoint = cfg_show (config_get c ''S3_ENDPOINT'' (CfgStr [])) in
      \<lparr>sg_bucket = cfg_show (config_get c ''S3_BUCKET'' (CfgStr ''whispr-media'')),
       sg_forcePathStyle = config_get c ''S3_FORCE_PATH_STYLE'' (CfgBool False),
       sg_endpoint = endpoint,
       sg_publicEndpoint = cfg_show (config_get c ''S3_PUBLIC_ENDPOINT'' (CfgStr endpoint))\<rparr>)"

definition getPublicUrl :: "(string \<Rightarrow> (string \<times> string) option) \<Rightarrow> storage_options \<Rightarrow> string \<Rightarrow> exn + string" where
  "getPublicUrl parse_url sg storagePath =
     (let base = (if sg_publicEndpoint sg \<noteq> [] then sg_publicEndpoint sg else sg_endpoint sg) in
      if cfg_truthy (sg_forcePathStyle sg) then Inr (base @ ''/'' @ sg_bucket sg @ ''/'' @ storagePath)
      else (case parse_url base of
          None \<Rightarrow> Inl (TypeError ''Invalid URL'')
        | Some (protocol, host) \<Rightarrow> Inr (protocol @ ''//'' @ sg_bucket sg @ ''.'' @ host @ ''/'' @ storagePath)))"

record parsed_url =
  pu_hostname :: string
  pu_port :: string
  pu_username :: string
  pu_password :: string
  pu_pathname :: string

record db_config =
  db_host :: cfg_value
  db_port :: cfg_value
  db_username :: cfg_value
  db_password :: cfg_value
  db_database :: cfg_value

definition DEFAULT_POSTGRES_PORT :: int where
  "DEFAULT_POSTGRES_PORT = 5432"

definition parseDatabaseUrl :: "(string \<Rightarrow> parsed_url option) \<Rightarrow> string \<Rightarrow> exn + db_config" where
  "parseDatabaseUrl parse_url s =
     (case parse_url s of
        None \<Rightarrow> Inl (TypeError ''Invalid URL'')
      | Some p \<Rightarrow> Inr \<lparr>db_host = CfgStr (pu_hostname p), db_port = CfgNum (or_default (parse_int (pu_port p)) DEFAULT_POSTGRES_PORT),
           db_username = CfgStr (pu_username p), db_password = CfgStr (pu_password p), db_database = CfgStr (drop 1 (pu_pathname p))\<rparr>)"

definition getEnvDatabaseConfig :: "configuration \<Rightarrow> db_config" where
  "getEnvDatabaseConfig c =
     \<lparr>db_host = config_get c ''DB_HOST'' (CfgStr ''localhost''), db_port = config_get c ''DB_PORT'' (CfgNum DEFAULT_POSTGRES_PORT),
      db_username = config_get c ''DB_USERNAME'' (CfgStr ''postgres''), db_password = config_get c ''DB_PASSWORD'' (CfgStr ''password''),
      db_database = config_get c ''DB_NAME'' (CfgStr ''auth_service'')\<rparr>"

record data_source_options =
  ds_type :: string
  ds_entities :: "string list"
  ds_migrations :: "string list"
  ds_logging :: bool
  ds_migrationsRun :: bool
  ds_synchronize :: bool

text \<open>\<open>__dirname\<close> is the directory of the compiled file.\<close>

definition getDataSourceOptions :: "string \<Rightarrow> configuration \<Rightarrow> data_source_options" where
  "getDataSourceOptions dirname c =
     \<lparr>ds_type = ''postgres'', ds_entities = [dirname @ ''/**/*.entity{.ts,.js}''],
      ds_migrations = [dirname @ ''/migrations/*{.ts,.js}''],
      ds_logging = (config_get c ''DB_LOGGING'' (CfgStr ''false'') = CfgStr ''true''),
      ds_migrationsRun = (config_get c ''DB_MIGRATIONS_RUN'' (CfgStr ''false'') = CfgStr ''true''),
      ds_synchronize = (config_get c ''DB_SYNCHRONIZE'' (CfgStr ''false'') = CfgStr ''true'')\<rparr>"

record type_orm_options =
  to_database :: db_config
  to_options :: data_source_options
  to_autoLoadEntities :: bool

definition typeOrmModuleOptionsFactory :: "string \<Rightarrow> (string \<Rightarrow> parsed_url option) \<Rightarrow> configuration \<Rightarrow> exn + type_orm_options" where
  "typeOrmModuleOptionsFactory dirname parse_url c =
     (let db = (if truthy_setting c ''DB_URL'' then parseDatabaseUrl parse_url (cfg_show (the (c ''DB_URL''))) else Inr (getEnvDatabaseConfig c)) in
      case db of Inl e \<Rightarrow> Inl e
      | Inr d \<Rightarrow> Inr \<lparr>to_database = d, to_options = getDataSourceOptions dirname c, to_autoLoadEntities = True\<rparr>)"

definition env_or :: "process_env \<Rightarrow> string \<Rightarrow> string \<Rightarrow> string" where
  "env_or penv k d = (case penv k of None \<Rightarrow> d | Some v \<Rightarrow> if v = [] then d else v)"

text \<open>The data source of the migration command line.\<close>

definition migration_data_source :: "(string \<Rightarrow> parsed_url option) \<Rightarrow> process_env \<Rightarrow> exn + db_config" where
  "migration_data_source parse_url penv =
     (if env_or penv ''DB_URL'' [] \<noteq> [] then parseDatabaseUrl parse_url (the (penv ''DB_URL''))
      else Inr \<lparr>db_host = CfgStr (env_or penv ''DB_HOST'' ''localhost''),
        db_port = CfgNum (or_default (parse_int (env_or penv ''DB_PORT'' [])) DEFAULT_POSTGRES_PORT),
        db_username = CfgStr (env_or penv ''DB_USERNAME'' ''postgres''), db_password = CfgStr (env_or penv ''DB_PASSWORD'' ''password''),
        db_database = CfgStr (env_or penv ''DB_NAME'' ''media_service'')\<rparr>)"

section \<open>Bootstrap\<close>

record cors_options =
  cors_origin :: "string list"
  cors_methods :: "string list"
  cors_allowedHeaders :: "string list"
  cors_credentials :: bool

definition allowedOrigins :: "configuration \<Rightarrow> string list" where
  "allowedOrigins c =
     filter (\<lambda>origin. origin \<noteq> [])
       (map js_trim (js_split (CHR '','') (cfg_show (config_get c ''CORS_ALLOWED_ORIGINS'' (CfgStr [])))))"

record app_setup =
  ap_json_logger :: bool
  ap_helmet :: bool
  ap_validation_whitelist :: bool
  ap_validation_transform :: bool
  ap_port :: cfg_value
  ap_prefix :: string
  ap_prefix_exclude :: "string list"
  ap_version :: string
  ap_cors :: "cors_options option"
  ap_shutdown_hooks :: bool

definition bootstrap :: "process_env \<Rightarrow> configuration \<Rightarrow> app_setup" where
  "bootstrap penv c =
     (let useJsonLogger = (js_lower (case penv ''LOG_FORMAT'' of None \<Rightarrow> [] | Some v \<Rightarrow> v) = ''json'');
          origins = allowedOrigins c in
      \<lparr>ap_json_logger = useJsonLogger,
       ap_helmet = True,
       ap_validation_whitelist = True,
       ap_validation_transform = True,
       ap_port = config_get c ''HTTP_PORT'' (CfgNum 3002),
       ap_prefix = ''media'',
       ap_prefix_exclude = [''metrics''],
       ap_version = ''v1'',
       ap_cors =
         (if 0 < length origins
          then Some \<lparr>cors_origin = origins,
            cors_methods = [''GET'', ''POST'', ''PUT'', ''PATCH'', ''DELETE'', ''OPTIONS''],
            cors_allowedHeaders = [''Authorization'', ''Content-Type'', ''Accept'', ''Origin'', ''X-Requested-With'', ''X-Device-Type''],
            cors_credentials = True\<rparr>
          else None),
       ap_shutdown_hooks = True\<rparr>)"

text \<open>The path of a route under the global prefix and the version in the URI.\<close>

definition served_path :: "app_setup \<Rightarrow> string \<Rightarrow> string" where
  "served_path ap route = ''/'' @ ap_prefix ap @ ''/'' @ ap_version ap @ ''/'' @ route"

definition health_routes :: "string list" where
  "health_routes = [''health'', ''health/ready'', ''health/live'']"

section \<open>The health-check scripts\<close>

record request_options =
  rp_hostname :: string
  rp_port :: int
  rp_path :: string
  rp_method :: string
  rp_timeout :: int

definition docker_probe :: request_options where
  "docker_probe = \<lparr>rp_hostname = ''localhost'', rp_port = 3001, rp_path = ''/health/ready'', rp_method = ''GET'', rp_timeout = 3000\<rparr>"

definition script_probe :: request_options where
  "script_probe = \<lparr>rp_hostname = ''localhost'', rp_port = 3000, rp_path = ''/health/live'', rp_method = ''GET'', rp_timeout = 2000\<rparr>"

datatype probe_reply = Response nat | RequestError string | TimedOut

definition docker_probe_exit :: "probe_reply \<Rightarrow> int" where
  "docker_probe_exit r = (case r of Response st \<Rightarrow> if st = 200 then 0 else 1 | RequestError e \<Rightarrow> 1 | TimedOut \<Rightarrow> 1)"

definition script_probe_exit :: "probe_reply \<Rightarrow> int" where
  "script_probe_exit r = (case r of Response st \<Rightarrow> if st = 200 then 0 else 1 | RequestError e \<Rightarrow> 1 | TimedOut \<Rightarrow> 1)"

text \<open>What an application that answers its health routes with 200 and everything else with 404 replies.\<close>

definition replies :: "app_setup \<Rightarrow> request_options \<Rightarrow> probe_reply" where
  "replies ap rq =
     (if ap_port ap \<noteq> CfgNum (rp_port rq) then RequestError ''ECONNREFUSED''
      else Response (if rp_path rq \<in> set (map (served_path ap) health_routes) then 200 else 404))"

section \<open>The events client\<close>

definition events_onModuleInit :: "env \<Rightarrow> unit io" where
  "events_onModuleInit env = catchE (ext env (ret ())) (\<lambda>e. ret ())"

definition events_onModuleDestroy :: "env \<Rightarrow> unit io" where
  "events_onModuleDestroy env = ext env (ret ())"

definition events_emit :: "env \<Rightarrow> event \<Rightarrow> unit io" where
  "events_emit env e = fire_and_forget (redis_publish env e)"

section \<open>Properties\<close>

lemma missing_required:
  "missingVars (fold (checkRequired penv) ks ch) = missingVars ch + length (filter (blank penv) ks)"
  by (induction ks arbitrary: ch) (simp_all add: checkRequired_def)

lemma missing_optional: "missingVars (fold (checkOptional penv) ks ch) = missingVars ch"
  by (induction ks arbitrary: ch) (simp_all add: checkOptional_def)

lemma runEntrypoint_iff: "runEntrypoint penv no_checks = StartsMain \<longleftrightarrow> list_all (\<lambda>k. \<not> blank penv k) REQUIRED_VARS"
  by (simp add: runEntrypoint_def runEnvChecks_def missing_required missing_optional no_checks_def Let_def
      filter_empty_conv list_all_iff)

lemma required_in_schema: "set REQUIRED_VARS = st_name ` set (filter st_required envValidationSchema)"
proof -
  have "list_all (\<lambda>k. k \<in> set (map st_name (filter st_required envValidationSchema))) REQUIRED_VARS"
    "list_all (\<lambda>k. k \<in> set REQUIRED_VARS) (map st_name (filter st_required envValidationSchema))"
    by code_simp+
  then show ?thesis
    unfolding list_all_iff set_map by blast
qed

text \<open>The container starts the application exactly when every setting that the schema requires is
  present and not blank: the check at the entry point and the schema name the same variables.\<close>

theorem startup_matches_schema:
  "runEntrypoint penv no_checks = (if list_all (\<lambda>s. \<not> (st_required s \<and> blank penv (st_name s))) envValidationSchema
     then StartsMain else Exits 1)"
proof -
  have "list_all (\<lambda>k. \<not> blank penv k) REQUIRED_VARS \<longleftrightarrow> (\<forall>k \<in> st_name ` set (filter st_required envValidationSchema). \<not> blank penv k)"
    by (simp only: list_all_iff required_in_schema)
  also have "\<dots> \<longleftrightarrow> list_all (\<lambda>s. \<not> (st_required s \<and> blank penv (st_name s))) envValidationSchema"
    unfolding list_all_iff by auto
  finally have "runEntrypoint penv no_checks = StartsMain \<longleftrightarrow> list_all (\<lambda>s. \<not> (st_required s \<and> blank penv (st_name s))) envValidationSchema"
    unfolding runEntrypoint_iff .
  then show ?thesis
    by (auto simp: runEntrypoint_def split: sum.splits)
qed

text \<open>Browsers are let in by the configured origins only: without any, no header is sent, and a list of
  origins written with commas and any white space after them is the list that is allowed.\<close>

theorem cors_allowlist:
  "(ap_cors (bootstrap penv c) = None) = (allowedOrigins c = [])
   \<and> (case ap_cors (bootstrap penv c) of None \<Rightarrow> True | Some co \<Rightarrow> cors_origin co = allowedOrigins c \<and> [] \<notin> set (cors_origin co))"
  by (auto simp: bootstrap_def Let_def allowedOrigins_def)

lemma allowedOrigins_roundtrip:
  assumes "\<forall>x \<in> set xs. x \<noteq> [] \<and> CHR '','' \<notin> set x \<and> (\<forall>c \<in> set x. \<not> is_js_space c)"
    and "\<forall>c \<in> set pad. is_js_space c" and "xs \<noteq> []"
    and "c ''CORS_ALLOWED_ORIGINS'' = Some (CfgStr (intersperse (CHR '','' # pad) xs))"
  shows "allowedOrigins c = xs"
  using csv_fields_intersperse [OF assms(1-3)] assms(4)
  by (simp add: allowedOrigins_def config_get_def csv_fields_def)

text \<open>Neither script asks for a path that the application serves, whatever port it listens on.\<close>

lemma probes_miss_the_service:
  "docker_probe_exit (replies (bootstrap penv c) docker_probe) = 1"
  "script_probe_exit (replies (bootstrap penv c) script_probe) = 1"
  by (simp_all add: docker_probe_exit_def script_probe_exit_def replies_def docker_probe_def script_probe_def
      served_path_def bootstrap_def Let_def health_routes_def)

text \<open>\<open>S3_FORCE_PATH_STYLE=false\<close> is a non-empty string: the storage service takes it for true, the
  clients do not.\<close>

lemma path_style_disagrees:
  assumes "c ''S3_FORCE_PATH_STYLE'' = Some (CfgStr ''false'')"
  shows "\<not> so_forcePathStyle (presignerClient c)"
    and "\<exists>base. getPublicUrl parse_url (new_storage_options c) p = Inr (base @ ''/'' @ sg_bucket (new_storage_options c) @ ''/'' @ p)"
  using assms
  by (auto simp: presignerClient_def buildPresignerClient_def s3ModuleOptionsFactory_def config_get_def Let_def
      getPublicUrl_def new_storage_options_def)

text \<open>With complete settings the application and the migration command connect to the same database
  with the same credentials; the defaults for the database's name differ.\<close>

theorem migrations_same_database:
  assumes "c ''DB_URL'' = None" and "penv ''DB_URL'' = None"
    and "\<And>k. k \<in> {''DB_HOST'', ''DB_USERNAME'', ''DB_PASSWORD'', ''DB_NAME''} \<Longrightarrow> \<exists>v. v \<noteq> [] \<and> penv k = Some v \<and> c k = Some (CfgStr v)"
    and "penv ''DB_PORT'' = Some (show_int n)" and "c ''DB_PORT'' = Some (CfgNum n)" and "n \<noteq> 0"
  shows "migration_data_source parse_url penv = map_sum id to_database (typeOrmModuleOptionsFactory dirname parse_url c)
     \<and> db_database (getEnvDatabaseConfig (\<lambda>k. None)) \<noteq> CfgStr (env_or (\<lambda>k. None) ''DB_NAME'' ''media_service'')"
proof -
  obtain h u pw d where v: "penv ''DB_HOST'' = Some h" "c ''DB_HOST'' = Some (CfgStr h)" "h \<noteq> []"
      "penv ''DB_USERNAME'' = Some u" "c ''DB_USERNAME'' = Some (CfgStr u)" "u \<noteq> []"
      "penv ''DB_PASSWORD'' = Some pw" "c ''DB_PASSWORD'' = Some (CfgStr pw)" "pw \<noteq> []"
      "penv ''DB_NAME'' = Some d" "c ''DB_NAME'' = Some (CfgStr d)" "d \<noteq> []"
    using assms(3) [of "''DB_HOST''"] assms(3) [of "''DB_USERNAME''"] assms(3) [of "''DB_PASSWORD''"] assms(3) [of "''DB_NAME''"]
    by auto
  have "show_int n \<noteq> []"
    using parse_int_show [of n] by (auto simp: parse_int_def)
  with v assms show ?thesis
    by (simp add: migration_data_source_def typeOrmModuleOptionsFactory_def env_or_def truthy_setting_def
        getEnvDatabaseConfig_def config_get_def parse_int_show or_default_def)
qed

definition sample_penv :: process_env where
  "sample_penv = map_of [(''DB_HOST'', ''db''), (''DB_USERNAME'', ''media''), (''DB_PASSWORD'', ''secret''), (''DB_NAME'', ''media''),
     (''DB_PORT'', ''5433'')]"

definition sample_settings :: configuration where
  "sample_settings = map_of [(''DB_HOST'', CfgStr ''db''), (''DB_USERNAME'', CfgStr ''media''), (''DB_PASSWORD'', CfgStr ''secret''),
     (''DB_NAME'', CfgStr ''media''), (''DB_PORT'', CfgNum 5433)]"

theorem migrations_same_database_witness:
  "migration_data_source (\<lambda>s. None) sample_penv = map_sum id to_database (typeOrmModuleOptionsFactory ''/app'' (\<lambda>s. None) sample_settings)"
proof (rule migrations_same_database [where n = 5433, THEN conjunct1])
  show "\<exists>v. v \<noteq> [] \<and> sample_penv k = Some v \<and> sample_settings k = Some (CfgStr v)"
    if "k \<in> {''DB_HOST'', ''DB_USERNAME'', ''DB_PASSWORD'', ''DB_NAME''}" for k
    using that by (elim insertE emptyE) (simp_all add: sample_penv_def sample_settings_def)
  show "sample_penv ''DB_PORT'' = Some (show_int 5433)"
    by (simp add: sample_penv_def show_int_def show_nat.simps [of 5433] show_nat.simps [of 543] show_nat.simps [of 54]
        show_nat.simps [of 5] digit_char_def) code_simp
qed (simp_all add: sample_penv_def sample_settings_def)

end
