(* ===== verification/Routes.thy ===== *)
theory Routes
  imports Startup
begin

text \<open>
  What the decorators of the three controllers say: verbs and paths, success codes, rate limits, documented
  responses, file fields; how \<open>main.ts\<close> and \<open>app.module.ts\<close> mount them; which declared route an URL
  reaches.  The router itself is a parameter, of which it is assumed that the first declared route that
  matches is taken.
\<close>

section \<open>Decorators\<close>

datatype verb = GET | HEAD | POST | PUT | PATCH | DELETE | OPTIONS | OtherVerb string

datatype segment = Lit string | Param

datatype endpoint =
    HealthCheck | HealthReady | HealthLive
  | MediaUpload | MediaQuota | MyMedia | MediaMetadata | MediaBlob | MediaThumbnail | MediaShare | MediaDelete
  | MetricsScrape

text \<open>A throttler has a name, a window in milliseconds and a number of requests.\<close>

type_synonym throttler = "string \<times> int \<times> int"

record decorators =
  de_verb :: verb
  de_path :: "segment list"
  de_code :: nat
  de_throttle :: "throttler list"
  de_responses :: "nat list"
  de_files :: "(string \<times> nat) list"
  de_body :: "string list"
  de_required :: "string list"

text \<open>Without \<open>@HttpCode\<close> a \<open>POST\<close> answers 201 and everything else 200.\<close>

definition handles :: "verb \<Rightarrow> segment list \<Rightarrow> nat list \<Rightarrow> decorators" where
  "handles v path responses =
     \<lparr>de_verb = v, de_path = path, de_code = (if v = POST then 201 else 200), de_throttle = [], de_responses = responses,
      de_files = [], de_body = [], de_required = []\<rparr>"

record controller =
  ct_path :: "segment list"
  ct_public :: bool
  ct_skip :: "string list"
  ct_responses :: "nat list"
  ct_routes :: "(decorators \<times> endpoint) list"

definition check_decorators :: decorators where
  "check_decorators = handles GET [] [200, 500]"

definition ready_decorators :: decorators where
  "ready_decorators = handles GET [Lit ''ready''] [200, 503]"

definition live_decorators :: decorators where
  "live_decorators = handles GET [Lit ''live''] [200]"

definition HealthController :: controller where
  "HealthController =
     \<lparr>ct_path = [Lit ''health''], ct_public = True, ct_skip = [''short'', ''medium'', ''long''], ct_responses = [],
      ct_routes = [(check_decorators, HealthCheck), (ready_decorators, HealthReady), (live_decorators, HealthLive)]\<rparr>"

definition upload_decorators :: decorators where
  "upload_decorators = (handles POST [Lit ''upload''] [201, 400, 413, 415, 422, 429])
     \<lparr>de_throttle := [(''default'', 60000, 20)],
      de_files := [(''file'', 1), (''thumbnail'', 1)],
      de_body := [''file'', ''thumbnail'', ''context'', ''ownerId'', ''conversationId'', ''sharedWith''],
      de_required := [''file'']\<rparr>"

definition quota_decorators :: decorators where
  "quota_decorators = handles GET [Lit ''quota''] [200]"

definition my_media_decorators :: decorators where
  "my_media_decorators = handles GET [Lit ''my-media''] [200]"

definition metadata_decorators :: decorators where
  "metadata_decorators = handles GET [Param] [200, 403, 404]"

definition blob_decorators :: decorators where
  "blob_decorators = (handles GET [Param, Lit ''blob''] [200, 403, 404])\<lparr>de_throttle := [(''short'', 1000, 30)]\<rparr>"

definition thumbnail_decorators :: decorators where
  "thumbnail_decorators = (handles GET [Param, Lit ''thumbnail''] [200, 403, 404])\<lparr>de_throttle := [(''short'', 1000, 30)]\<rparr>"

definition share_decorators :: decorators where
  "share_decorators = handles PATCH [Param, Lit ''share''] [200, 403, 404]"

definition delete_decorators :: decorators where
  "delete_decorators = (handles DELETE [Param] [204, 403, 404])\<lparr>de_code := 204\<rparr>"

definition MediaController :: controller where
  "MediaController =
     \<lparr>ct_path = [], ct_public = False, ct_skip = [], ct_responses = [401],
      ct_routes =
        [(upload_decorators, MediaUpload), (quota_decorators, MediaQuota), (my_media_decorators, MyMedia),
         (metadata_decorators, MediaMetadata), (blob_decorators, MediaBlob), (thumbnail_decorators, MediaThumbnail),
         (share_decorators, MediaShare), (delete_decorators, MediaDelete)]\<rparr>"

definition metrics_decorators :: decorators where
  "metrics_decorators = handles GET [Lit ''metrics''] [200, 403]"

text \<open>\<open>@SkipThrottle()\<close> without names skips a throttler with the name \<open>default\<close>.\<close>

definition MetricsController :: controller where
  "MetricsController =
     \<lparr>ct_path = [], ct_public = True, ct_skip = [''default''], ct_responses = [], ct_routes = [(metrics_decorators, MetricsScrape)]\<rparr>"

section \<open>Rate limits\<close>

definition SHORT_THROTTLER :: throttler where
  "SHORT_THROTTLER = (''short'', 1000, 3)"

definition MEDIUM_THROTTLER :: throttler where
  "MEDIUM_THROTTLER = (''medium'', 10000, 20)"

definition LONG_THROTTLER :: throttler where
  "LONG_THROTTLER = (''long'', 60000, 100)"

text \<open>The throttlers that count a request: those that the controller does not skip, each with the
  override that names it.\<close>

definition effective_throttlers :: "controller \<Rightarrow> decorators \<Rightarrow> throttler list" where
  "effective_throttlers ct de =
     map (\<lambda>(n, ttl, limit). case map_of (de_throttle de) n of None \<Rightarrow> (n, ttl, limit) | Some (ttl', limit') \<Rightarrow> (n, ttl', limit'))
       (filter (\<lambda>t. fst t \<notin> set (ct_skip ct)) [SHORT_THROTTLER, MEDIUM_THROTTLER, LONG_THROTTLER])"

section \<open>Mounting\<close>

type_synonym declared = "verb \<times> segment list \<times> endpoint"

text \<open>The modules with controllers, in the order in which \<open>AppModule\<close> imports them; the metrics are
  excluded from the prefix, and where the framework puts them is a parameter.\<close>

definition controllers :: "controller list" where
  "controllers = [HealthController, MediaController, MetricsController]"

definition declared_routes :: "(segment list \<Rightarrow> segment list) \<Rightarrow> controller \<Rightarrow> declared list" where
  "declared_routes mount ct = map (\<lambda>(de, ep). (de_verb de, mount (ct_path ct @ de_path de), ep)) (ct_routes ct)"

definition application_routes :: "app_setup \<Rightarrow> segment list \<Rightarrow> declared list" where
  "application_routes ap metrics_mount =
     concat (map (declared_routes (\<lambda>path.
       if path \<in> set (map (\<lambda>s. [Lit s]) (ap_prefix_exclude ap)) then metrics_mount
       else Lit (ap_prefix ap) # Lit (ap_version ap) # path)) controllers)"

definition declaration_of :: "endpoint \<Rightarrow> controller \<times> decorators" where
  "declaration_of ep =
     (if ep \<in> {HealthCheck, HealthReady, HealthLive}
      then (HealthController, if ep = HealthCheck then check_decorators else if ep = HealthReady then ready_decorators else live_decorators)
      else if ep = MetricsScrape then (MetricsController, metrics_decorators)
      else (MediaController, fst (hd (filter (\<lambda>r. snd r = ep) (ct_routes MediaController)))))"

definition is_public :: "endpoint \<Rightarrow> bool" where
  "is_public ep = ct_public (fst (declaration_of ep))"

definition success_status :: "endpoint \<Rightarrow> nat" where
  "success_status ep = de_code (snd (declaration_of ep))"

text \<open>The statuses that the decorators of an endpoint and of its class document.\<close>

definition documented :: "endpoint \<Rightarrow> nat list" where
  "documented ep = (case declaration_of ep of (ct, de) \<Rightarrow> de_responses de @ ct_responses ct)"

text \<open>Literals are compared without case, a parameter is one non-empty segment.\<close>

fun match_path :: "segment list \<Rightarrow> string list \<Rightarrow> string list option" where
  "match_path [] [] = Some []"
| "match_path (Lit l # ps) (s # ss) = (if js_lower s = js_lower l then match_path ps ss else None)"
| "match_path (Param # ps) (s # ss) = (if s = [] then None else map_option ((#) s) (match_path ps ss))"
| "match_path ps ss = None"

text \<open>A route for \<open>GET\<close> also serves \<open>HEAD\<close>, and a slash at the end makes no difference: Express is not
  strict about it.\<close>

definition serves :: "verb \<Rightarrow> verb \<Rightarrow> bool" where
  "serves declared asked \<longleftrightarrow> asked = declared \<or> (declared = GET \<and> asked = HEAD)"

definition strip_slash :: "string list \<Rightarrow> string list" where
  "strip_slash path = (if path \<noteq> [] \<and> last path = [] then butlast path else path)"

type_synonym router = "declared list \<Rightarrow> verb \<Rightarrow> string list \<Rightarrow> (endpoint \<times> string list) option"

fun first_match :: "declared list \<Rightarrow> verb \<Rightarrow> string list \<Rightarrow> (endpoint \<times> string list) option" where
  "first_match [] v path = None"
| "first_match ((v', pattern, ep) # rs) v path =
     (case (if serves v' v then match_path pattern path else None) of
        Some params \<Rightarrow> Some (ep, params)
      | None \<Rightarrow> first_match rs v path)"

definition first_declared :: router where
  "first_declared rs v path = first_match rs v (strip_slash path)"

text \<open>
  What the model relies on: for the verbs that routes are declared for, literals of letters, digits and
  hyphens, and a path without escapes, the first declared route that matches is taken.
\<close>

definition plain_segment :: "segment \<Rightarrow> bool" where
  "plain_segment seg \<longleftrightarrow>
     (case seg of
        Param \<Rightarrow> True
      | Lit l \<Rightarrow> l \<noteq> [] \<and> list_all (\<lambda>c. is_digit c \<or> c \<in> set ''-abcdefghijklmnopqrstuvwxyz'') (js_lower l))"

definition plain_path :: "string list \<Rightarrow> bool" where
  "plain_path path \<longleftrightarrow> list_all (\<lambda>s. CHR ''%'' \<notin> set s \<and> CHR ''/'' \<notin> set s) path"

definition takes_first_match :: "router \<Rightarrow> bool" where
  "takes_first_match router \<longleftrightarrow>
     (\<forall>rs v path. list_all (\<lambda>(v', pattern, ep). list_all plain_segment pattern) rs
        \<and> v \<in> {GET, HEAD, POST, PUT, PATCH, DELETE} \<and> plain_path path
        \<longrightarrow> router rs v path = first_declared rs v path)"

section \<open>Every declared route is reached\<close>

text \<open>The URL of a route: its literals, and an id in the place of the parameter.\<close>

definition url_for :: "segment list \<Rightarrow> uuid \<Rightarrow> string list" where
  "url_for pattern mid = map (\<lambda>seg. case seg of Lit l \<Rightarrow> l | Param \<Rightarrow> mid) pattern"

definition params_for :: "segment list \<Rightarrow> uuid \<Rightarrow> string list" where
  "params_for pattern mid = map (\<lambda>_. mid) (filter (\<lambda>seg. seg = Param) pattern)"

text \<open>An id that is no reserved word.\<close>

definition plain_id :: "uuid \<Rightarrow> bool" where
  "plain_id mid \<longleftrightarrow> mid \<noteq> [] \<and> CHR ''%'' \<notin> set mid \<and> CHR ''/'' \<notin> set mid
     \<and> js_lower mid \<notin> {''health'', ''quota'', ''my-media''}"

text \<open>Where the framework puts the scrape of the metrics, which is excluded from the prefix: with the version
  or without.\<close>

definition metrics_mounts :: "segment list set" where
  "metrics_mounts = {[Lit ''metrics''], [Lit ''v1'', Lit ''metrics'']}"

lemma match_path_lits: "match_path (map Lit xs) xs = Some []"
  by (induction xs) auto

lemma reserved_words:
  "js_lower ''health'' = ''health''" "js_lower ''quota'' = ''quota''" "js_lower ''my-media'' = ''my-media''"
  "js_lower ''upload'' = ''upload''" "js_lower ''media'' = ''media''" "js_lower ''v1'' = ''v1''" "js_lower ''ready'' = ''ready''"
  "js_lower ''live'' = ''live''" "js_lower ''blob'' = ''blob''" "js_lower ''thumbnail'' = ''thumbnail''" "js_lower ''share'' = ''share''"
  "js_lower ''metrics'' = ''metrics''"
  by code_simp+

lemmas decorators_defs = check_decorators_def ready_decorators_def live_decorators_def upload_decorators_def quota_decorators_def
  my_media_decorators_def metadata_decorators_def blob_decorators_def thumbnail_decorators_def share_decorators_def
  delete_decorators_def metrics_decorators_def handles_def

lemma mounted_routes:
  "application_routes (bootstrap penv c) mount =
     map (\<lambda>(v, path, ep). (v, Lit ''media'' # Lit ''v1'' # path, ep))
      [(GET, [Lit ''health''], HealthCheck), (GET, [Lit ''health'', Lit ''ready''], HealthReady),
       (GET, [Lit ''health'', Lit ''live''], HealthLive), (POST, [Lit ''upload''], MediaUpload), (GET, [Lit ''quota''], MediaQuota),
       (GET, [Lit ''my-media''], MyMedia), (GET, [Param], MediaMetadata), (GET, [Param, Lit ''blob''], MediaBlob),
       (GET, [Param, Lit ''thumbnail''], MediaThumbnail), (PATCH, [Param, Lit ''share''], MediaShare), (DELETE, [Param], MediaDelete)]
     @ [(GET, mount, MetricsScrape)]"
  by (simp add: application_routes_def controllers_def declared_routes_def HealthController_def MediaController_def
      MetricsController_def decorators_defs bootstrap_def Let_def)

lemma routes_plain: "mount \<in> metrics_mounts \<Longrightarrow>
    list_all (\<lambda>(v', pattern, ep). list_all plain_segment pattern) (application_routes (bootstrap penv c) mount)"
proof -
  have "list_all plain_segment (map Lit [''media'', ''v1'', ''health'', ''ready'', ''live'', ''upload'', ''quota'', ''my-media'',
      ''blob'', ''thumbnail'', ''share'', ''metrics''])"
    by code_simp
  then show "mount \<in> metrics_mounts \<Longrightarrow> ?thesis"
    by (auto simp: mounted_routes metrics_mounts_def plain_segment_def [of Param])
qed

lemma strip_slash_ends: "last path \<noteq> [] \<Longrightarrow> strip_slash path = path" "strip_slash (path @ [[]]) = path"
  by (simp_all add: strip_slash_def)

lemma first_match_routes:
  assumes "mount \<in> metrics_mounts" and "plain_id mid"
    and "(v, pattern, ep) \<in> set (application_routes (bootstrap penv c) mount)" and "serves v v'"
  shows "first_match (application_routes (bootstrap penv c) mount) v' (url_for pattern mid) = Some (ep, params_for pattern mid)"
    and "last (url_for pattern mid) \<noteq> [] \<and> plain_path (url_for pattern mid) \<and> v' \<in> {GET, HEAD, POST, PUT, PATCH, DELETE}"
  using assms
  by (auto simp: mounted_routes reserved_words serves_def url_for_def params_for_def plain_id_def metrics_mounts_def plain_path_def)

lemma unprefixed_unrouted:
  assumes "mount \<in> metrics_mounts" and "v \<in> {GET, HEAD}"
  shows "first_match (application_routes (bootstrap penv c) mount) v (''health'' # rest) = None"
  using assms by (auto simp: mounted_routes reserved_words metrics_mounts_def)

text \<open>C7. For every route that the controllers declare, the URL that is made of its pattern and an id reaches
  the handler that is declared for it, with this id, also with a slash at its end and, for \<open>GET\<close>, with
  \<open>HEAD\<close>: no earlier route shadows it unless the id reads \<open>health\<close>, \<open>quota\<close> or \<open>my-media\<close>.  The
  probes' URLs without the prefix, which some documents and scripts name, reach no handler.\<close>

theorem routes_unshadowed:
  assumes "takes_first_match router" and "mount \<in> metrics_mounts" and "plain_id mid"
  shows "(\<forall>(v, pattern, ep) \<in> set (application_routes (bootstrap penv c) mount). \<forall>v'. serves v v' \<longrightarrow>
        router (application_routes (bootstrap penv c) mount) v' (url_for pattern mid) = Some (ep, params_for pattern mid)
      \<and> router (application_routes (bootstrap penv c) mount) v' (url_for pattern mid @ [[]]) = Some (ep, params_for pattern mid))
    \<and> (\<forall>rest \<in> {[], [''ready''], [''live'']}.
        router (application_routes (bootstrap penv c) mount) GET (''health'' # rest) = None)"
proof -
  let ?rs = "application_routes (bootstrap penv c) mount"
  have take: "router ?rs v path = first_match ?rs v (strip_slash path)"
    if "v \<in> {GET, HEAD, POST, PUT, PATCH, DELETE}" "plain_path path" for v path
    using assms(1) routes_plain [OF assms(2), of penv c] that by (simp add: takes_first_match_def first_declared_def)
  have "router ?rs v' (url_for pattern mid) = Some (ep, params_for pattern mid)
      \<and> router ?rs v' (url_for pattern mid @ [[]]) = Some (ep, params_for pattern mid)"
    if "(v, pattern, ep) \<in> set ?rs" "serves v v'" for v v' pattern ep
    using first_match_routes [OF assms(2,3) that] by (simp add: take strip_slash_ends plain_path_def)
  moreover have "router ?rs GET (''health'' # rest) = None" if "rest \<in> {[], [''ready''], [''live'']}" for rest
  proof -
    have "plain_path (''health'' # rest)" "strip_slash (''health'' # rest) = ''health'' # rest"
      using that by (auto simp: plain_path_def strip_slash_def)
    then show ?thesis
      using unprefixed_unrouted [OF assms(2), of GET penv c] by (simp add: take)
  qed
  ultimately show ?thesis
    by fast
qed

text \<open>The probes are never rate limited, an upload has only the three general tiers, and blobs and
  thumbnails a wider first one; the scrape of the metrics is limited like everything else.\<close>

theorem rate_limits:
  "case_prod effective_throttlers (declaration_of ep) =
     (if ep \<in> {HealthCheck, HealthReady, HealthLive} then []
      else if ep \<in> {MediaBlob, MediaThumbnail} then [(''short'', 1000, 30), (''medium'', 10000, 20), (''long'', 60000, 100)]
      else [(''short'', 1000, 3), (''medium'', 10000, 20), (''long'', 60000, 100)])"
  by (cases ep) (simp_all add: declaration_of_def effective_throttlers_def HealthController_def MediaController_def MetricsController_def
      decorators_defs SHORT_THROTTLER_def MEDIUM_THROTTLER_def LONG_THROTTLER_def)

lemma public_endpoints: "is_public ep \<longleftrightarrow> ep \<in> {HealthCheck, HealthReady, HealthLive, MetricsScrape}"
  by (cases ep) (simp_all add: is_public_def declaration_of_def HealthController_def MediaController_def MetricsController_def)

definition first_id :: uuid where
  "first_id = ''00000000-0000-0000-0000-000000000001''"

theorem routes_unshadowed_witness:
  "first_declared (application_routes (bootstrap (\<lambda>_. None) (\<lambda>_. None)) [Lit ''v1'', Lit ''metrics'']) HEAD
     [''media'', ''v1'', first_id, ''blob''] = Some (MediaBlob, [first_id])"
proof -
  have a: "takes_first_match first_declared"
    by (simp add: takes_first_match_def)
  have b: "[Lit ''v1'', Lit ''metrics''] \<in> metrics_mounts"
    by (simp add: metrics_mounts_def)
  have c: "plain_id first_id"
    unfolding plain_id_def by code_simp
  have "(GET, [Lit ''media'', Lit ''v1'', Param, Lit ''blob''], MediaBlob)
      \<in> set (application_routes (bootstrap (\<lambda>_. None) (\<lambda>_. None)) [Lit ''v1'', Lit ''metrics''])"
    by (simp add: mounted_routes)
  with routes_unshadowed [OF a b c, of "\<lambda>_. None" "\<lambda>_. None", THEN conjunct1, THEN bspec] show ?thesis
    by (fastforce simp: serves_def url_for_def params_for_def)
qed

end
