(* ===== verification/Outcomes.thy ===== *)
theory Outcomes
  imports Request_Pipeline
begin

text \<open>
  Which HTTP statuses a request can end with.  \<open>answers_with S m\<close> says that every exception of an
  action has a status in \<open>S\<close>; it follows by the structure of the action, from the statuses that its
  guards throw.  A failed external call and every error that is no HTTP exception is a 500.
\<close>

named_theorems status_intros \<open>statuses of the exceptions of an action, by its structure\<close>

definition answers_with :: "nat set \<Rightarrow> ('w, 'a) action \<Rightarrow> bool" where
  "answers_with S m \<longleftrightarrow> (\<forall>w e w'. m w = (Inl e, w') \<longrightarrow> http_status e \<in> S)"

definition fails_in :: "nat set \<Rightarrow> exn + 'a \<Rightarrow> bool" where
  "fails_in S r \<longleftrightarrow> (case r of Inl e \<Rightarrow> http_status e \<in> S | Inr _ \<Rightarrow> True)"

section \<open>Structure\<close>

lemma answers_withD: "answers_with S m \<Longrightarrow> m w = (Inl e, w') \<Longrightarrow> http_status e \<in> S"
  unfolding answers_with_def by blast

lemma answers_withI: "(\<And>w e w'. m w = (Inl e, w') \<Longrightarrow> http_status e \<in> S) \<Longrightarrow> answers_with S m"
  by (simp add: answers_with_def)

lemma answers_with_mono: "answers_with S m \<Longrightarrow> S \<subseteq> T \<Longrightarrow> answers_with T m"
  by (auto intro!: answers_withI dest: answers_withD)

lemma status_ret [status_intros]: "answers_with S (ret x)"
  and status_gets [status_intros]: "answers_with S (gets f)"
  and status_modify [status_intros]: "answers_with S (modify h)"
  and status_fire_and_forget [status_intros]: "answers_with S (fire_and_forget m)"
  and status_throw [status_intros]: "http_status e \<in> S \<Longrightarrow> answers_with S (throw e)"
  and status_throw_when [status_intros]: "http_status e \<in> S \<Longrightarrow> answers_with S (throw_when b e)"
  by (auto simp: answers_with_def modify_def throw_when_def)

lemma status_from_result [status_intros]: "fails_in S r \<Longrightarrow> answers_with S (from_result r)"
  by (auto simp: answers_with_def fails_in_def)

lemma status_bindE [status_intros]:
  "answers_with S m \<Longrightarrow> (\<And>x. answers_with S (k x)) \<Longrightarrow> answers_with S (bindE m k)"
  by (fastforce simp: answers_with_def bindE_def split: prod.splits sum.splits)

lemma status_catchE:
  "(\<And>e. answers_with S (h e)) \<Longrightarrow> answers_with S (catchE m h)"
  by (fastforce simp: answers_with_def catchE_def split: prod.splits sum.splits)

lemma status_rethrow:
  assumes "answers_with S m" and "\<And>e. http_status e \<in> S \<Longrightarrow> answers_with S (h e)"
  shows "answers_with S (catchE m h)"
proof (rule answers_withI)
  fix w e w'
  assume "catchE m h w = (Inl e, w')"
  then obtain e1 w1 where "m w = (Inl e1, w1)" "h e1 w1 = (Inl e, w')"
    by (auto simp: catchE_def split: prod.splits sum.splits)
  show "http_status e \<in> S"
    by (rule answers_withD [OF assms(2) \<open>h e1 w1 = (Inl e, w')\<close>]) (rule answers_withD [OF assms(1) \<open>m w = (Inl e1, w1)\<close>])
qed

lemma status_finallyE [status_intros]:
  "answers_with S m \<Longrightarrow> answers_with S f \<Longrightarrow> answers_with S (finallyE m f)"
  by (fastforce simp: answers_with_def finallyE_def split: prod.splits sum.splits)

lemma status_if [status_intros]:
  "(b \<Longrightarrow> answers_with S m) \<Longrightarrow> (\<not> b \<Longrightarrow> answers_with S n) \<Longrightarrow> answers_with S (if b then m else n)"
  by simp

lemma status_option [status_intros]:
  "(x = None \<Longrightarrow> answers_with S m) \<Longrightarrow> (\<And>y. x = Some y \<Longrightarrow> answers_with S (n y)) \<Longrightarrow>
   answers_with S (case x of None \<Rightarrow> m | Some y \<Rightarrow> n y)"
  by (simp split: option.split)

lemma status_let [status_intros]: "answers_with S (m x) \<Longrightarrow> answers_with S (Let x m)"
  by (simp add: Let_def)

lemma status_prod [status_intros]:
  "(\<And>a b. x = (a, b) \<Longrightarrow> answers_with S (n a b)) \<Longrightarrow> answers_with S (case x of (a, b) \<Rightarrow> n a b)"
  by (simp split: prod.split)

lemma status_cval [status_intros]:
  "(\<And>c. answers_with S (m c)) \<Longrightarrow> answers_with S n \<Longrightarrow> answers_with S (case v of CMeta c \<Rightarrow> m c | _ \<Rightarrow> n)"
  by (simp split: cval.split)

lemma status_for_each [status_intros]: "(\<And>x. answers_with S (f x)) \<Longrightarrow> answers_with S (for_each xs f)"
  by (induction xs) (auto intro: status_intros)

lemma status_ext [status_intros]: "answers_with S f \<Longrightarrow> 500 \<in> S \<Longrightarrow> answers_with S (ext env f)"
  by (auto simp: answers_with_def ext_def split: outcome.splits)

lemma status_transaction [status_intros]:
  assumes "answers_with S body" and "500 \<in> S"
  shows "answers_with S (transaction env body)"
proof (rule answers_withI)
  fix w e w'
  assume *: "transaction env body w = (Inl e, w')"
  have after: "answers_with S (bindE (afterTransactionStart env) (\<lambda>_. body))"
    unfolding afterTransactionStart_def using assms by (intro status_intros)
  have start: "answers_with S (ext env (modify begin_tx))"
    using assms(2) by (intro status_intros)
  show "http_status e \<in> S"
    using * answers_withD [OF start] answers_withD [OF after] assms(2)
    by (auto simp: transaction_def commit_def split: prod.splits sum.splits outcome.splits)
qed

section \<open>Stores, the database and the other services\<close>

lemma status_redis_publish [status_intros]: "500 \<in> S \<Longrightarrow> answers_with S (redis_publish env e)"
  and status_randomUUID [status_intros]: "answers_with S (randomUUID env)"
  and status_cache_get [status_intros]: "500 \<in> S \<Longrightarrow> answers_with S (cache_get env k)"
  and status_cache_set [status_intros]: "500 \<in> S \<Longrightarrow> answers_with S (cache_set env k v t)"
  and status_cache_del [status_intros]: "500 \<in> S \<Longrightarrow> answers_with S (cache_del env k)"
  and status_redis_add: "500 \<in> S \<Longrightarrow> answers_with S (redis_add env k d)"
  and status_redis_expire [status_intros]: "500 \<in> S \<Longrightarrow> answers_with S (redis_expire env k s)"
  and status_redis_del [status_intros]: "500 \<in> S \<Longrightarrow> answers_with S (redis_del env k)"
  and status_s3_put [status_intros]: "500 \<in> S \<Longrightarrow> answers_with S (s3_put env k ob)"
  and status_s3_get [status_intros]: "500 \<in> S \<Longrightarrow> answers_with S (s3_get env k)"
  and status_s3_delete [status_intros]: "500 \<in> S \<Longrightarrow> answers_with S (s3_delete env k)"
  by (auto simp: answers_with_def redis_publish_def randomUUID_def cache_get_def cache_set_def cache_del_def redis_add_def
      redis_expire_def redis_del_def s3_put_def s3_get_def s3_delete_def ext_def split: outcome.splits option.splits)

lemma status_redis_count [status_intros]:
  "500 \<in> S \<Longrightarrow> answers_with S (redis_incr env k)" "500 \<in> S \<Longrightarrow> answers_with S (redis_decr env k)"
  by (simp_all add: redis_incr_def redis_decr_def status_redis_add)

lemma status_queries [status_intros]:
  assumes "500 \<in> S"
  shows "answers_with S (findById env mid)" "answers_with S (update_media env mid h)" "answers_with S (save env m)"
    "answers_with S (find_quota env u)" "answers_with S (insert_quota_or_ignore env mk)" "answers_with S (update_quota env u g)"
    "answers_with S (insert_access_log env l)" "answers_with S (find_and_count env u i j)"
  using assms
  by (auto simp: answers_with_def findById_def update_media_def save_def find_quota_def insert_quota_or_ignore_def update_quota_def
      insert_access_log_def find_and_count_def ext_def modify_def gets_def bindE_def ret_def Let_def
      split: outcome.splits prod.splits sum.splits if_splits)

lemma status_storage [status_intros]:
  assumes "500 \<in> S"
  shows "answers_with S (storage_upload env p b t)" "answers_with S (storage_download env p)" "answers_with S (storage_delete env p)"
  unfolding storage_upload_def storage_download_def storage_delete_def using assms by (intro status_intros; simp)+

lemma status_find_media [status_intros]: "500 \<in> S \<Longrightarrow> answers_with S (find_media env mid)"
  unfolding find_media_def by (intro status_intros)

lemma status_presign [status_intros]: "answers_with S (generatePresignedUrl env p t)"
  unfolding generatePresignedUrl_def by (intro status_intros)

lemma fails_readable: "{403, 404} \<subseteq> S \<Longrightarrow> fails_in S (readable mid u found)"
  and fails_owned: "{403, 404} \<subseteq> S \<Longrightarrow> fails_in S (owned mid u found)"
  and fails_enforceReadAccess: "403 \<in> S \<Longrightarrow> fails_in S (enforceReadAccess c ow us u)"
  by (simp_all add: fails_in_def readable_def owned_def enforceReadAccess_def media_not_found_def split: option.split)

lemma fails_checks:
  assumes "{413, 415, 422, 500} \<subseteq> S"
  shows "fails_in S (validateMagicBytes b m)" "fails_in S (enforceContextSizeLimit n ctx)" "fails_in S (check_allowlist fl ctx)"
    "fails_in S (checkImageDimensions env b m)" "fails_in S (checkPdfJavaScript b m)" "fails_in S (clamav_verdict r)"
    "fails_in S (buildPath c ow ob)"
  using assms scan_tokens_cases [of "latin1 (take PDF_JS_SCAN_BYTES b)" PDF_JS_TOKENS]
  by (auto simp: fails_in_def validateMagicBytes_def enforceContextSizeLimit_def check_allowlist_def checkImageDimensions_def
      checkPdfJavaScript_def clamav_verdict_def buildPath_def Let_def split: option.split magic_lookup.split prod.split)

lemma fails_validateBlobSize: "400 \<in> S \<Longrightarrow> fails_in S (validateBlobSize n)"
  by (simp add: fails_in_def validateBlobSize_def)

lemma fails_rehydrate: "500 \<in> S \<Longrightarrow> fails_in S (rehydrate c)"
  by (auto simp: fails_in_def rehydrate_def rehydrate_quota_def split: cval.split option.split)

lemma fails_check_thumbnail: "{413, 415, 422, 500} \<subseteq> S \<Longrightarrow> fails_in S (check_thumbnail fl)"
  using fails_checks(1) [of S "blob_buffer fl" "f_mimetype fl"]
  by (auto simp: check_thumbnail_def fails_in_def split: sum.splits)

lemmas fails_intros = fails_readable fails_owned fails_enforceReadAccess fails_checks fails_validateBlobSize fails_rehydrate
  fails_check_thumbnail

section \<open>The services\<close>

lemma status_getOrCreateQuota: "500 \<in> S \<Longrightarrow> answers_with S (getOrCreateQuota env u)"
  unfolding getOrCreateQuota_def fetch_or_insert_quota_def
  by (intro status_intros status_catchE fails_intros; simp)

lemma status_enforceQuota: "{400, 413, 500} \<subseteq> S \<Longrightarrow> answers_with S (enforceQuota env u n)"
  unfolding enforceQuota_def checkQuota_def
  by (intro status_intros status_getOrCreateQuota fails_intros; simp add: quota_error_def)

lemma status_invalidateCache: "500 \<in> S \<Longrightarrow> answers_with S (invalidateCache env u)"
  unfolding invalidateCache_def by (intro status_intros status_catchE; simp)

lemma status_record:
  assumes "{400, 500} \<subseteq> S"
  shows "answers_with S (recordUpload env u n)" "answers_with S (recordDelete env u n)"
  unfolding recordUpload_def recordDelete_def update_quota_or_fail_def using assms
  by (intro status_intros status_invalidateCache fails_intros; simp)+

lemma status_getMetadata: "{403, 404, 500} \<subseteq> S \<Longrightarrow> answers_with S (getMetadata env mid u)"
  unfolding getMetadata_def by (intro status_intros fails_intros; simp)

lemma status_getBlob: "{403, 404, 500} \<subseteq> S \<Longrightarrow> answers_with S (getBlob env mid u ip ua)"
  unfolding getBlob_def getOrGenerateSignedUrl_def regenerateSignedUrl_def updateSignedUrlExpiry_def inc_downloads_def
  by (intro status_intros fails_intros; simp)

lemma status_streams:
  assumes "{403, 404, 500} \<subseteq> S"
  shows "answers_with S (getThumbnail env mid u ip ua)" "answers_with S (streamBlob env mid u ip ua)"
    "answers_with S (streamThumbnail env mid u ip ua)"
  unfolding getThumbnail_def streamBlob_def streamThumbnail_def inc_downloads_def
  using assms by (intro status_intros fails_intros; simp)+

lemma status_share: "{403, 404, 500} \<subseteq> S \<Longrightarrow> answers_with S (share env mid u us)"
  unfolding share_def share_in_transaction_def updateSharedWith_def
  by (intro status_intros fails_intros; simp)

lemma status_delete: "{400, 403, 404, 500} \<subseteq> S \<Longrightarrow> answers_with S (delete_media env mid u ip ua)"
  unfolding delete_media_def delete_in_transaction_def softDelete_def
  by (intro status_intros status_record fails_intros; simp)

lemma status_reports:
  assumes "500 \<in> S"
  shows "answers_with S (getUserQuota env u)" "answers_with S (getUserMedia env u page limit)"
  unfolding getUserQuota_def getUserMedia_def using assms by (intro status_intros; simp)+

lemma status_isConversationE2EE: "500 \<in> S \<Longrightarrow> answers_with S (isConversationE2EE env c)"
  unfolding isConversationE2EE_def fetchE2eeStatus_def
  by (intro status_intros status_catchE; simp)

lemma status_enforceE2EE: "{422, 500} \<subseteq> S \<Longrightarrow> answers_with S (enforceE2EEContentType env c t)"
  unfolding enforceE2EEContentType_def by (intro status_intros status_isConversationE2EE; simp)

lemma status_authorizeGroupIcon:
  "(ctx = GROUP_ICON \<Longrightarrow> {403, 503} \<subseteq> S) \<Longrightarrow> answers_with S (authorizeGroupIconUpload env ctx u)"
  unfolding authorizeGroupIconUpload_def by (intro status_intros status_catchE; simp)

lemma status_checkClamAv: "{422, 500} \<subseteq> S \<Longrightarrow> answers_with S (checkClamAv env b)"
  unfolding checkClamAv_def
  by (intro status_intros status_catchE) (auto split: exn.split intro!: status_intros)

lemma status_check_upload:
  assumes "{400, 413, 415, 422, 500} \<subseteq> S" and "ctx = GROUP_ICON \<Longrightarrow> {403, 503} \<subseteq> S"
  shows "answers_with S (check_upload env u fl ctx)"
  unfolding check_upload_def using assms
  by (intro status_intros status_authorizeGroupIcon status_enforceQuota status_checkClamAv fails_intros; simp)

lemma status_buildUploadResponse: "answers_with S (buildUploadResponse env m)"
  unfolding buildUploadResponse_def presign_opt_def by (intro status_intros)

lemma status_try_dedup: "500 \<in> S \<Longrightarrow> answers_with S (try_dedup env key us)"
  unfolding try_dedup_def merge_readers_def updateSharedWith_def
  by (intro status_intros status_buildUploadResponse; simp)

lemma status_persist: "500 \<in> S \<Longrightarrow> answers_with S (persist env m t)"
  unfolding persist_def
  by (rule status_rethrow) (intro status_intros; simp)+

lemma status_store_new:
  assumes "{400, 413, 415, 422, 500} \<subseteq> S"
  shows "answers_with S (store_new env key u fl ctx t us)"
  unfolding store_new_def upload_thumbnail_def after_saved_def inc_uploads_def using assms
  by (intro status_intros status_persist status_record status_buildUploadResponse fails_intros; simp)

lemma status_upload:
  assumes "{400, 413, 415, 422, 429, 500} \<subseteq> S" and "ctx = GROUP_ICON \<Longrightarrow> {403, 503} \<subseteq> S"
  shows "answers_with S (upload env n u fl ctx t us)"
  unfolding upload_def with_upload_semaphore_def acquireSemaphore_def releaseSemaphore_def runWithSemaphoreTtlRefresh_def
    refresh_def upload_work_def using assms
  by (intro status_intros status_catchE status_check_upload status_try_dedup status_store_new; simp)

section \<open>The requests\<close>

lemma status_with_user:
  "truthy (rq_userId req) \<Longrightarrow> answers_with S (k (the (rq_userId req))) \<Longrightarrow> answers_with S (with_user req k)"
  by (simp add: with_user_def)

lemma status_upload_request:
  assumes "{400, 413, 415, 422, 429, 500} \<subseteq> S" and "truthy (rq_userId req)"
    and "d_context dto = Some GROUP_ICON \<Longrightarrow> {403, 503} \<subseteq> S"
  shows "answers_with S (upload_request env n req fls dto)"
  unfolding upload_request_def using assms
  by (intro status_intros status_with_user status_enforceE2EE status_upload)
    (auto simp: conversation_required_def split: option.splits)

text \<open>The statuses with which a route's handler can fail, besides 500.\<close>

fun handler_statuses :: "route \<Rightarrow> nat list" where
  "handler_statuses (RUpload firings files dto) =
     [400, 413, 415, 422, 429] @ (if d_context dto = Some GROUP_ICON then [403, 503] else [])"
| "handler_statuses RQuota = []"
| "handler_statuses (RMyMedia page limit) = []"
| "handler_statuses (RMetadata mid) = [403, 404]"
| "handler_statuses (RBlob mid stream) = [403, 404]"
| "handler_statuses (RThumbnail mid stream) = [403, 404]"
| "handler_statuses (RShare mid us) = [403, 404]"
| "handler_statuses (RDelete mid) = [403, 404, 400]"

lemma status_handler:
  assumes "truthy (rq_userId req)"
  shows "answers_with (insert 500 (set (handler_statuses route))) (route_handler env req route)"
proof (cases route)
  case (RUpload n files dto)
  then show ?thesis using assms
    by (auto intro!: status_intros status_upload_request)
qed (auto simp: get_quota_request_def get_my_media_request_def get_metadata_request_def get_blob_request_def
       get_thumbnail_request_def share_request_def delete_request_def Let_def
     intro!: status_intros status_with_user assms status_reports status_getMetadata status_getBlob status_streams status_share status_delete)

end
