(* ===== verification/Wiring.thy ===== *)
theory Wiring
  imports Startup
begin

text \<open>
  The wiring of the modules: the four Redis clients that \<open>app.module.ts\<close>, \<open>media.module.ts\<close>,
  \<open>events.module.ts\<close> and \<open>cache.config.ts\<close> build from the same settings, the shutdown of the media
  module, the async-local storage of \<open>rls-context.service.ts\<close>, and the switch of the API documentation.
\<close>

section \<open>Redis clients\<close>

text \<open>\<open>None\<close> is \<open>undefined\<close>; a port that is no number is \<open>None\<close> too.\<close>

record redis_options =
  ro_host :: cfg_value
  ro_port :: "cfg_value option"
  ro_username :: "cfg_value option"
  ro_password :: "cfg_value option"

text \<open>\<open>Number(x)\<close> of a setting, for a port in decimal digits.\<close>

definition js_Number :: "cfg_value \<Rightarrow> int option" where
  "js_Number v =
     (case v of
        CfgNum n \<Rightarrow> Some n
      | CfgBool b \<Rightarrow> Some (if b then 1 else 0)
      | CfgStr s \<Rightarrow>
          (let t = js_trim s in
           if t = [] then Some 0 else if list_all is_digit t then Some (int (read_digits t)) else None))"

text \<open>\<open>x || undefined\<close>.\<close>

definition or_undefined :: "cfg_value option \<Rightarrow> cfg_value option" where
  "or_undefined v = (case v of None \<Rightarrow> None | Some x \<Rightarrow> if cfg_truthy x then Some x else None)"

definition throttler_redis :: "configuration \<Rightarrow> redis_options" where
  "throttler_redis c =
     \<lparr>ro_host = config_get c ''REDIS_HOST'' (CfgStr ''redis''),
      ro_port = map_option CfgNum (js_Number (config_get c ''REDIS_PORT'' (CfgStr ''6379''))),
      ro_username = or_undefined (c ''REDIS_USERNAME''),
      ro_password = or_undefined (c ''REDIS_PASSWORD'')\<rparr>"

definition media_redis :: "configuration \<Rightarrow> redis_options" where
  "media_redis c =
     \<lparr>ro_host = config_get c ''REDIS_HOST'' (CfgStr ''redis''),
      ro_port = Some (config_get c ''REDIS_PORT'' (CfgNum 6379)),
      ro_username = c ''REDIS_USERNAME'',
      ro_password = c ''REDIS_PASSWORD''\<rparr>"

definition events_redis :: "configuration \<Rightarrow> redis_options" where
  "events_redis c =
     \<lparr>ro_host = config_get c ''REDIS_HOST'' (CfgStr ''localhost''),
      ro_port = Some (config_get c ''REDIS_PORT'' (CfgNum 6379)),
      ro_username = c ''REDIS_USERNAME'',
      ro_password = c ''REDIS_PASSWORD''\<rparr>"

text \<open>The URL that addresses the same server with the same login.\<close>

definition url_of :: "redis_options \<Rightarrow> string" where
  "url_of ro =
     (let part = (\<lambda>v. case v of None \<Rightarrow> [] | Some x \<Rightarrow> cfg_show x) in
      ''redis://'' @ (if part (ro_password ro) = [] then [] else part (ro_username ro) @ '':'' @ part (ro_password ro) @ ''@'')
        @ cfg_show (ro_host ro) @ '':'' @ part (ro_port ro))"

text \<open>\<open>MediaModule.onModuleDestroy\<close>: the client is looked up and closed if there is one.\<close>

definition media_onModuleDestroy :: "env \<Rightarrow> redis_options option \<Rightarrow> unit io" where
  "media_onModuleDestroy env client = (case client of None \<Rightarrow> ret () | Some cl \<Rightarrow> ext env (ret ()))"

section \<open>The user of the current call chain\<close>

record rls_context =
  rls_userId :: uuid

definition rls_run :: "uuid \<Rightarrow> (rls_context option \<Rightarrow> 'a) \<Rightarrow> rls_context option \<Rightarrow> 'a" where
  "rls_run userId fn store = fn (Some \<lparr>rls_userId = userId\<rparr>)"

definition getCurrentUserId :: "rls_context option \<Rightarrow> uuid option" where
  "getCurrentUserId store = (case store of None \<Rightarrow> None | Some ctx \<Rightarrow> Some (rls_userId ctx))"

section \<open>API documentation\<close>

record swagger_document =
  sd_title :: string
  sd_description :: string
  sd_version :: string
  sd_server :: string
  sd_security :: "(string \<times> string) list"
  sd_useGlobalPrefix :: bool
  sd_route :: string

definition buildSwaggerDocument :: "string \<Rightarrow> swagger_document" where
  "buildSwaggerDocument route =
     \<lparr>sd_title = ''Media Service'', sd_description = ''API documentation for the Media Service'', sd_version = ''1.0'',
      sd_server = ''/'', sd_security = [(''bearer'', ''http''), (''metrics-key'', ''apiKey'')], sd_useGlobalPrefix = True,
      sd_route = route\<rparr>"

definition createSwaggerDocumentation :: "configuration \<Rightarrow> string option \<Rightarrow> swagger_document option" where
  "createSwaggerDocumentation c globalPrefix =
     (if \<not> cfg_truthy (config_get c ''SWAGGER_ENABLED'' (CfgBool True)) then None
      else
        (let parts = filter (\<lambda>s. s \<noteq> []) [case globalPrefix of None \<Rightarrow> [] | Some p \<Rightarrow> p, ''swagger''];
             swaggerRoute = concat (case parts of [] \<Rightarrow> [] | p # ps \<Rightarrow> p # map (\<lambda>q. ''/'' @ q) ps) in
         Some (buildSwaggerDocument swaggerRoute)))"

section \<open>Properties\<close>

text \<open>The settings that the schema lets through: host and port are set and the port is a number,
  user and password are texts.\<close>

definition redis_settings :: "configuration \<Rightarrow> bool" where
  "redis_settings c \<longleftrightarrow>
     (case c ''REDIS_HOST'' of Some (CfgStr h) \<Rightarrow> True | _ \<Rightarrow> False)
     \<and> (case c ''REDIS_PORT'' of Some (CfgNum n) \<Rightarrow> True | _ \<Rightarrow> False)
     \<and> (case c ''REDIS_USERNAME'' of None \<Rightarrow> True | Some (CfgStr s) \<Rightarrow> True | _ \<Rightarrow> False)
     \<and> (case c ''REDIS_PASSWORD'' of None \<Rightarrow> True | Some (CfgStr s) \<Rightarrow> True | _ \<Rightarrow> False)"

text \<open>With validated settings all four clients address the same server with the same login, so the
  semaphore, the cache, the rate limits and the events share one Redis.\<close>

theorem redis_clients_agree:
  assumes "redis_settings c"
  shows "url_of (throttler_redis c) = co_url (cacheModuleOptionsFactory c) \<and> url_of (media_redis c) = co_url (cacheModuleOptionsFactory c)
    \<and> url_of (events_redis c) = co_url (cacheModuleOptionsFactory c)"
proof -
  obtain h n where hn: "c ''REDIS_HOST'' = Some (CfgStr h)" "c ''REDIS_PORT'' = Some (CfgNum n)"
    using assms by (auto simp: redis_settings_def split: option.splits cfg_value.splits)
  have n: "js_Number (CfgNum n) = Some n"
    by (simp add: js_Number_def)
  have txt_or_none: "c k = None \<or> (\<exists>s. c k = Some (CfgStr s))" if "k \<in> {''REDIS_USERNAME'', ''REDIS_PASSWORD''}" for k
    using assms that unfolding redis_settings_def by (cases "c k") (auto split: option.splits cfg_value.splits)
  obtain u where u: "c ''REDIS_USERNAME'' = u" "u = None \<or> (\<exists>s. u = Some (CfgStr s))"
    using txt_or_none by simp
  obtain q where q: "c ''REDIS_PASSWORD'' = q" "q = None \<or> (\<exists>s. q = Some (CfgStr s))"
    using txt_or_none by simp
  show ?thesis
    using u(2) q(2)
    by (elim disjE exE)
      (simp_all add: url_of_def throttler_redis_def media_redis_def events_redis_def cacheModuleOptionsFactory_def config_get_def
        or_undefined_def Let_def hn u(1) q(1) n)
qed

text \<open>Without settings the events client looks for another host than the others.\<close>

lemma events_default_host: "ro_host (events_redis (\<lambda>_. None)) = CfgStr ''localhost'' \<and> ro_host (media_redis (\<lambda>_. None)) = CfgStr ''redis''"
  by (simp add: events_redis_def media_redis_def config_get_def)

text \<open>No text in the environment switches the documentation off, also not \<open>false\<close>: the schema does not
  list the switch, so that it stays a text.\<close>

lemma swagger_stays_on:
  "c ''SWAGGER_ENABLED'' = Some (CfgStr s) \<Longrightarrow> s \<noteq> [] \<Longrightarrow> createSwaggerDocumentation c (Some ''media'') = Some (buildSwaggerDocument ''media/swagger'')"
  "''SWAGGER_ENABLED'' \<notin> st_name ` set envValidationSchema"
  by (simp_all add: createSwaggerDocumentation_def config_get_def envValidationSchema_def optional_setting_def required_setting_def)

text \<open>The innermost binding counts, and outside of one there is no user.\<close>

lemma rls_run_innermost: "rls_run u (rls_run v getCurrentUserId) store = Some v" "getCurrentUserId None = None"
  by (simp_all add: rls_run_def getCurrentUserId_def)

lemma rls_intercept_runs:
  "rls_intercept (Some u) env = env\<lparr>als_user := if u = [] then None else rls_run u getCurrentUserId None\<rparr>"
  by (simp add: rls_intercept_def truthy_def rls_run_def getCurrentUserId_def)

end
