(* ===== verification/Application.thy ===== *)
theory Application
  imports Http_Edge Health Routes Outcomes Wiring
begin

text \<open>
  A request through the whole application, in the order of \<open>main.ts\<close>: the pages of the API
  documentation, the preflight of CORS, the body parser, routing, rate limit, guard, validation, handler.
  The router, the rate limiter with its counters, what Express and multer make of a body, the pages of the
  documentation and the text of the metrics registry are parameters.
\<close>

section \<open>A request through the application\<close>

text \<open>\<open>h_parsed\<close> is what Express makes of URL and body before a handler is called: an error, for a body
  that is malformed, too large or of an unknown encoding and for an escape that cannot be decoded, or the
  field \<open>userIds\<close> of the body.\<close>

record http_request =
  h_verb :: verb
  h_path :: "string list"
  h_request :: request
  h_stream :: "string option"
  h_page :: "string option"
  h_limit :: "string option"
  h_multipart :: "exn + upload_form \<times> upload_files"
  h_parsed :: "exn + form_value"
  h_metrics_key :: "string option"

text \<open>The counters that \<open>MetricsService\<close> registers: name, help and value.  Their text is prom-client's.\<close>

definition metrics_counters :: "world \<Rightarrow> (string \<times> string \<times> nat) list" where
  "metrics_counters w =
     [(''media_uploads_total'', ''Total number of media uploads'', uploadsTotal w),
      (''media_downloads_total'', ''Total number of media downloads'', downloadsTotal w),
      (''media_deletes_total'', ''Total number of media deletes'', deletesTotal w)]"

record platform =
  pf_router :: router
  pf_metrics_mount :: "segment list"
  pf_throttle :: "throttler list \<Rightarrow> http_request \<Rightarrow> endpoint \<Rightarrow> unit io"
  pf_is_uuid :: "string \<Rightarrow> bool"
  pf_json_parse :: "string \<Rightarrow> json option"
  pf_firings :: nat
  pf_metrics_text :: "(string \<times> string \<times> nat) list \<Rightarrow> string"
  pf_penv :: process_env
  pf_setup :: app_setup
  pf_config :: configuration
  pf_docs_page :: "swagger_document \<Rightarrow> string list \<Rightarrow> string option"

definition validation_error :: "string list \<Rightarrow> exn" where
  "validation_error bad = HttpException 400 (Obj [(''message'', concat bad), (''error'', ''Bad Request'')])"

datatype http_answer =
    HealthAnswer health_report
  | ReadyAnswer string
  | LiveAnswer "string \<times> string"
  | MetricsAnswer string
  | MediaAnswer answer
  | DocsAnswer string
  | PreflightAnswer cors_options

text \<open>Body parsing and validation: what the handler of a media route is called with.\<close>

definition route_of :: "platform \<Rightarrow> http_request \<Rightarrow> endpoint \<Rightarrow> uuid \<Rightarrow> exn + route" where
  "route_of pf hr ep mid =
     (case ep of
        MediaUpload \<Rightarrow>
          (case h_multipart hr of
             Inl e \<Rightarrow> Inl e
           | Inr (form, files) \<Rightarrow>
               (case validate_upload (pf_is_uuid pf) (pf_json_parse pf) form of
                  Inl bad \<Rightarrow> Inl (validation_error bad)
                | Inr dto \<Rightarrow> Inr (RUpload (pf_firings pf) files dto)))
      | MediaQuota \<Rightarrow> Inr RQuota
      | MyMedia \<Rightarrow> Inr (RMyMedia (h_page hr) (h_limit hr))
      | MediaMetadata \<Rightarrow> Inr (RMetadata mid)
      | MediaBlob \<Rightarrow> Inr (RBlob mid (h_stream hr))
      | MediaThumbnail \<Rightarrow> Inr (RThumbnail mid (h_stream hr))
      | MediaShare \<Rightarrow>
          (case h_parsed hr of
             Inl e \<Rightarrow> Inl e
           | Inr v \<Rightarrow>
               (case validate_share (pf_is_uuid pf) v of
                  Inl bad \<Rightarrow> Inl (validation_error bad)
                | Inr us \<Rightarrow> Inr (RShare mid us)))
      | MediaDelete \<Rightarrow> Inr (RDelete mid)
      | _ \<Rightarrow> Inl (NotFound ''Cannot be routed''))"

definition handle_endpoint :: "platform \<Rightarrow> env \<Rightarrow> jwks_service \<Rightarrow> http_request \<Rightarrow> auth_user option \<Rightarrow> endpoint \<Rightarrow> string list
    \<Rightarrow> http_answer io" where
  "handle_endpoint pf env jwks hr au ep params =
     (let version = pf_penv pf ''npm_package_version'' in
      case ep of
        HealthCheck \<Rightarrow> returning HealthAnswer (health_check env version jwks)
      | HealthReady \<Rightarrow> returning ReadyAnswer (readiness env jwks)
      | HealthLive \<Rightarrow> ret (LiveAnswer (alive version))
      | MetricsScrape \<Rightarrow>
          if metrics_canActivate (pf_penv pf ''METRICS_API_KEY'') (pf_penv pf ''NODE_ENV'') (h_metrics_key hr)
          then bindE (gets metrics_counters) (\<lambda>cs. ret (MetricsAnswer (pf_metrics_text pf cs)))
          else throw (Forbidden ''Forbidden resource'')
      | _ \<Rightarrow>
          (let req' = attach_user au (h_request hr) in
           bindE (from_result (route_of pf hr ep (if params = [] then [] else hd params))) (\<lambda>route.
           returning MediaAnswer (route_handler (rls_intercept (rq_userId req') env) req' route))))"

text \<open>The documentation is set up before the routes and behind no guard.  With CORS configured, its middleware
  answers every \<open>OPTIONS\<close> itself.\<close>

definition docs_page :: "platform \<Rightarrow> http_request \<Rightarrow> string option" where
  "docs_page pf hr =
     (if h_verb hr \<in> {GET, HEAD}
      then (case createSwaggerDocumentation (pf_config pf) (Some (ap_prefix (pf_setup pf))) of
              None \<Rightarrow> None
            | Some doc \<Rightarrow> pf_docs_page pf doc (h_path hr))
      else None)"

definition preflight :: "platform \<Rightarrow> http_request \<Rightarrow> cors_options option" where
  "preflight pf hr = (if h_verb hr = OPTIONS then ap_cors (pf_setup pf) else None)"

text \<open>The guard of the rate limiter counts with the throttlers of the endpoint, if there are any.\<close>

definition limit_rate :: "platform \<Rightarrow> http_request \<Rightarrow> endpoint \<Rightarrow> unit io" where
  "limit_rate pf hr ep =
     (let ts = case_prod effective_throttlers (declaration_of ep) in if ts = [] then ret () else pf_throttle pf ts hr ep)"

definition respond :: "platform \<Rightarrow> env \<Rightarrow> jwks_env \<Rightarrow> jwks_service \<Rightarrow> verifier \<Rightarrow> http_request \<Rightarrow> (nat \<times> http_answer) io" where
  "respond pf env jenv jwks verify hr =
     (case docs_page pf hr of
        Some page \<Rightarrow> ret (200, DocsAnswer page)
      | None \<Rightarrow>
     (case preflight pf hr of
        Some cors \<Rightarrow> ret (204, PreflightAnswer cors)
      | None \<Rightarrow>
     bindE (from_result (h_parsed hr)) (\<lambda>_.
     case pf_router pf (application_routes (pf_setup pf) (pf_metrics_mount pf)) (h_verb hr) (h_path hr) of
        None \<Rightarrow> throw (NotFound ''Cannot be routed'')
      | Some (ep, params) \<Rightarrow>
          bindE (limit_rate pf hr ep) (\<lambda>_.
          bindE (canActivate env jenv jwks verify (is_public ep) (h_request hr)) (\<lambda>au.
          bindE (handle_endpoint pf env jwks hr au ep params) (\<lambda>ans.
          ret (success_status ep, ans)))))))"

section \<open>The rate limiter\<close>

text \<open>
  What the model relies on: the limiter keeps its counters in Redis, under keys that its storage puts in
  braces, changes nothing else, and refuses with a 429, or with a 500 when Redis does not answer.
\<close>

definition limiter_key :: "string \<Rightarrow> bool" where
  "limiter_key k \<longleftrightarrow> js_starts_with k ''{''"

definition only_counted :: "world \<Rightarrow> world \<Rightarrow> bool" where
  "only_counted w w' \<longleftrightarrow> (\<forall>k. \<not> limiter_key k \<longrightarrow> redis w' k = redis w k) \<and> same_db w (w'\<lparr>redis := redis w\<rparr>)"

definition limiter_counts :: "platform \<Rightarrow> bool" where
  "limiter_counts pf \<longleftrightarrow>
     (\<forall>ts hr ep w. only_counted w (snd (pf_throttle pf ts hr ep w))
        \<and> (case fst (pf_throttle pf ts hr ep w) of Inl e \<Rightarrow> http_status e \<in> {429, 500} | Inr _ \<Rightarrow> True))"

lemma counted_refl [simp]: "only_counted w w"
  by (simp add: only_counted_def)

lemma counted_same:
  assumes "only_counted w w1"
  shows "media_tbl w1 = media_tbl w" and "quota_tbl w1 = quota_tbl w" and "cache w1 = cache w" and "s3 w1 = s3 w"
  using assms by (auto simp: only_counted_def dest: same_dbD)

lemma wp_limit_rate:
  assumes "limiter_counts pf"
  shows "wp (limit_rate pf hr ep) (\<lambda>_ w'. only_counted w w')
     (\<lambda>e w'. only_counted w w' \<and> http_status e \<in> {429, 500} \<and> case_prod effective_throttlers (declaration_of ep) \<noteq> []) w"
proof (cases "case_prod effective_throttlers (declaration_of ep) = []")
  case True
  then show ?thesis by (simp add: limit_rate_def wp_ret)
next
  case False
  then show ?thesis
    using spec [OF spec [OF spec [OF spec [OF assms [unfolded limiter_counts_def], of "case_prod effective_throttlers (declaration_of ep)"],
        of hr], of ep], of w]
    by (auto simp: limit_rate_def Let_def wp_def split: prod.splits sum.splits)
qed

lemma granted_counted:
  "only_counted w w1 \<Longrightarrow> granted w1 mid u r = granted w mid u r"
  "only_counted w w1 \<Longrightarrow> thumbnail_bytes w1 = thumbnail_bytes w"
  by (simp_all add: granted_def thumbnail_bytes_def counted_same fun_eq_iff split: option.split)

lemma justified_counted:
  assumes "only_counted w w1"
  shows "justified env w1 v route ans = justified env w v route ans"
  by (cases "(env, w, v, route, ans)" rule: justified.cases)
    (simp_all add: granted_counted [OF assms] described_def owns_active_def counted_same [OF assms]
      split: thumbnail_reply.split)

lemma meta_safe_counted: "only_counted w w1 \<Longrightarrow> meta_safe w1 = meta_safe w"
  by (simp add: meta_safe_def counted_same)

section \<open>What a client without a token can reach\<close>

lemma respond_media:
  assumes "respond pf env jenv jwks verify hr w = (Inr (st, MediaAnswer a), w')" and "limiter_counts pf"
  obtains ep params route w1
  where "pf_router pf (application_routes (pf_setup pf) (pf_metrics_mount pf)) (h_verb hr) (h_path hr) = Some (ep, params)"
    and "route_of pf hr ep (if params = [] then [] else hd params) = Inr route" and "st = success_status ep" and "only_counted w w1"
    and "serve env jenv jwks verify (h_request hr) route w1 = (Inr a, w')"
proof -
  obtain ep params au w1 w2 where
      router: "pf_router pf (application_routes (pf_setup pf) (pf_metrics_mount pf)) (h_verb hr) (h_path hr) = Some (ep, params)"
    and st: "st = success_status ep" and lim: "limit_rate pf hr ep w = (Inr (), w1)"
    and au: "canActivate env jenv jwks verify (is_public ep) (h_request hr) w1 = (Inr au, w2)"
    and h: "handle_endpoint pf env jwks hr au ep params w2 = (Inr (MediaAnswer a), w')"
    using assms(1) unfolding respond_def by (auto elim!: bindE_InrD split: option.splits if_splits)
  let ?req = "attach_user au (h_request hr)"
  have np: "\<not> is_public ep"
    using h unfolding handle_endpoint_def Let_def public_endpoints by (cases ep) (auto elim!: bindE_InrD split: if_splits)
  then have "bindE (from_result (route_of pf hr ep (if params = [] then [] else hd params))) (\<lambda>route.
      returning MediaAnswer (route_handler (rls_intercept (rq_userId ?req) env) ?req route)) w2 = (Inr (MediaAnswer a), w')"
    using h unfolding handle_endpoint_def Let_def by (cases ep) (simp_all add: public_endpoints)
  then obtain route where route: "route_of pf hr ep (if params = [] then [] else hd params) = Inr route"
    and r: "route_handler (rls_intercept (rq_userId ?req) env) ?req route w2 = (Inr a, w')"
    by (auto elim!: bindE_InrD dest!: sym [of "Inr _"])
  have "serve env jenv jwks verify (h_request hr) route w1 = (Inr a, w')"
    using au np r by (simp add: serve_def bindE_def Let_def)
  moreover have "only_counted w w1"
    using wp_limit_rate [OF assms(2), of hr ep w] lim by (simp add: wp_def)
  ultimately show thesis
    using that router route st by blast
qed

text \<open>C1. Whatever the request, its URL, headers and body, and whatever fails: an answer of a media route
  is given only for a token that, when the rate limiter has let the request pass, verifies under the loaded
  key and is not revoked, with the success status of the endpoint the URL reaches, and it is one that the
  token's subject is entitled to: the URL or the bytes of the blob or the thumbnail of a row it may read,
  the metadata of such a row, its own quota and listing, a share or delete of its own row, an upload that is
  acceptable.\<close>

theorem answers_entitled:
  assumes "respond pf env jenv jwks verify hr w = (Inr (st, MediaAnswer a), w')" and "meta_safe w" and "limiter_counts pf"
  shows "\<exists>ep params route p au w1.
       pf_router pf (application_routes (pf_setup pf) (pf_metrics_mount pf)) (h_verb hr) (h_path hr) = Some (ep, params)
     \<and> route_of pf hr ep (if params = [] then [] else hd params) = Inr route \<and> st = success_status ep \<and> only_counted w w1
     \<and> presents env jenv jwks verify w1 (h_request hr) p \<and> identified p au \<and> unrevoked env w1 au
     \<and> justified env w (au_userId au) route a"
proof -
  obtain ep params route w1 where
      "pf_router pf (application_routes (pf_setup pf) (pf_metrics_mount pf)) (h_verb hr) (h_path hr) = Some (ep, params)"
      "route_of pf hr ep (if params = [] then [] else hd params) = Inr route" "st = success_status ep" and c: "only_counted w w1"
    and s: "serve env jenv jwks verify (h_request hr) route w1 = (Inr a, w')"
    using assms(1,3) by (rule respond_media)
  moreover have "meta_safe w1"
    using assms(2) by (simp add: meta_safe_counted [OF c])
  ultimately show ?thesis
    using serve_entitled [OF s] justified_counted [OF c] by blast
qed

text \<open>Everything but the cache keys of the two probes, the counters of the rate limiter, the setting of the
  connection and the count of calls.\<close>

definition only_probed :: "world \<Rightarrow> world \<Rightarrow> bool" where
  "only_probed w w' \<longleftrightarrow> (\<forall>k. k \<notin> {''health-check'', ''readiness-check''} \<longrightarrow> cache w' k = cache w k)
     \<and> (\<forall>k. \<not> limiter_key k \<longrightarrow> redis w' k = redis w k)
     \<and> same_db w (w'\<lparr>cache := cache w, redis := redis w\<rparr>)"

lemma only_probed_same_db: "same_db w w' \<Longrightarrow> only_probed w w'"
  by (cases w'; cases w) (simp add: only_probed_def same_db_def outside_db_def)

lemma only_probed_counted: "only_counted w w1 \<Longrightarrow> only_probed w1 w' \<Longrightarrow> only_probed w w'"
  by (cases w'; cases w1; cases w) (simp add: only_probed_def only_counted_def same_db_def outside_db_def)

lemma counted_only_probed: "only_counted w w' \<Longrightarrow> only_probed w w'"
  by (rule only_probed_counted) (auto intro: only_probed_same_db)

lemma only_probed_probed:
  assumes "probed k w0 w'" and "k \<in> {''health-check'', ''readiness-check''}" and "same_db w w0"
  shows "only_probed w w'"
proof -
  have e: "(cache w')(k := None) = (cache w0)(k := None)"
    using arg_cong [OF assms(1) [unfolded probed_def], of cache] by simp
  have "cache w' j = cache w j" if "j \<noteq> k" for j
    using fun_cong [OF e, of j] that same_dbD(4) [OF assms(3)] by simp
  moreover have "same_db w0 (w'\<lparr>cache := cache w0\<rparr>)"
    using assms(1) by (cases w'; cases w0) (simp add: same_db_def outside_db_def probed_def)
  ultimately show ?thesis
    using assms(2,3) by (auto simp: only_probed_def same_db_def outside_db_def)
qed

lemma anonymous_refused:
  assumes "\<And>p. \<not> presents env jenv jwks verify w req p"
  shows "wp (canActivate env jenv jwks verify False req) (\<lambda>_ _. False) (\<lambda>e w'. same_db w w' \<and> http_status e \<in> {401, 500}) w"
  by (rule wp_mono [OF wp_canActivate]) (use assms in auto)

lemma wp_public_endpoint:
  assumes "is_public ep"
  shows "wp (handle_endpoint pf env jwks hr au ep params)
     (\<lambda>ans w'. only_probed w w' \<and> (\<forall>a. ans \<noteq> MediaAnswer a))
     (\<lambda>e w'. only_probed w w' \<and> http_status e \<in> {403, 503}) w"
proof -
  obtain rep w1 where health: "health_check env (pf_penv pf ''npm_package_version'') jwks w = (Inr rep, w1)" "probed ''health-check'' w w1"
    using health_reports by blast
  have ready: "only_probed w (snd (readiness env jwks w))"
    using readiness_decides [THEN conjunct2] by (rule only_probed_probed) simp_all
  have "http_status e = 503" if "fst (readiness env jwks w) = Inl e" for e
    using that readiness_decides [THEN conjunct1, of env w jwks] by (auto simp: not_ready_def split: if_splits)
  with ready have R: "wp (readiness env jwks) (\<lambda>_ w'. only_probed w w') (\<lambda>e w'. only_probed w w' \<and> http_status e \<in> {403, 503}) w"
    by (auto simp: wp_def split: prod.splits sum.splits)
  have H: "wp (health_check env (pf_penv pf ''npm_package_version'') jwks) (\<lambda>_ w'. only_probed w w') (\<lambda>_ _. False) w"
    using health only_probed_probed [OF health(2)] by (simp add: wp_def)
  from assms consider "ep = HealthCheck" | "ep = HealthReady" | "ep = HealthLive" | "ep = MetricsScrape"
    by (auto simp: public_endpoints)
  then show ?thesis
  proof cases
    case 1
    then show ?thesis
      by (simp add: handle_endpoint_def Let_def wp_bindE wp_ret_pf) (rule wp_mono [OF H]; simp)
  next
    case 2
    then show ?thesis
      by (simp add: handle_endpoint_def Let_def wp_bindE wp_ret_pf) (rule wp_mono [OF R]; simp)
  qed (simp_all add: handle_endpoint_def Let_def wp_simps only_probed_same_db)
qed

text \<open>C3. A request without a token that verifies never gets a media, quota or listing answer: it reaches the
  health probes, the metrics, the pages of the API documentation and the preflight of CORS only.  Whatever it
  is and whatever fails, the tables, the bucket, the events and the counters stay as they are, and so do the
  cache and Redis but for the cache keys of the two probes and the counters of the rate limiter.\<close>

theorem anonymous_surface:
  assumes "limiter_counts pf" and "\<And>w1 p. only_counted w w1 \<Longrightarrow> \<not> presents env jenv jwks verify w1 (h_request hr) p"
  shows "only_probed w (snd (respond pf env jenv jwks verify hr w))
     \<and> (\<forall>st a. fst (respond pf env jenv jwks verify hr w) \<noteq> Inr (st, MediaAnswer a))"
proof -
  let ?Q = "\<lambda>(st :: nat, ans) w'. only_probed w w' \<and> (\<forall>a. ans \<noteq> MediaAnswer a)"
  have endpoint: "wp (bindE (canActivate env jenv jwks verify (is_public ep) (h_request hr)) (\<lambda>au.
          bindE (handle_endpoint pf env jwks hr au ep params) (\<lambda>ans. ret (success_status ep, ans)))) ?Q (\<lambda>_ w'. only_probed w w') w1"
    if c: "only_counted w w1" for ep params w1
  proof (cases "is_public ep")
    case True
    have "wp (handle_endpoint pf env jwks hr au ep params) (\<lambda>ans w'. only_probed w w' \<and> (\<forall>a. ans \<noteq> MediaAnswer a))
        (\<lambda>_ w'. only_probed w w') w1" for au
      by (rule wp_mono [OF wp_public_endpoint [OF True]]) (auto intro: only_probed_counted [OF c])
    then show ?thesis
      by (auto simp: True canActivate_def wp_simps wp_pf)
  next
    case False
    have "wp (canActivate env jenv jwks verify False (h_request hr)) Q (\<lambda>_ w'. only_probed w w') w1" for Q
      by (rule wp_mono [OF anonymous_refused [OF assms(2) [OF c]]]) (auto intro: only_probed_counted [OF c] only_probed_same_db)
    with False show ?thesis
      by (simp add: wp_bindE)
  qed
  have "wp (bindE (limit_rate pf hr ep) (\<lambda>_. bindE (canActivate env jenv jwks verify (is_public ep) (h_request hr)) (\<lambda>au.
          bindE (handle_endpoint pf env jwks hr au ep params) (\<lambda>ans. ret (success_status ep, ans))))) ?Q (\<lambda>_ w'. only_probed w w') w"
    for ep params
    unfolding wp_bindE [of "limit_rate pf hr ep"]
    by (rule wp_mono [OF wp_limit_rate [OF assms(1)]])
      (auto intro: endpoint counted_only_probed)
  then have "wp (respond pf env jenv jwks verify hr) ?Q (\<lambda>_ w'. only_probed w w') w"
    unfolding respond_def
    by (auto simp: wp_ret wp_bindE [of "from_result x" for x] wp_from_result wp_throw only_probed_same_db
        split: option.split sum.split)
  then show ?thesis
    by (auto simp: wp_def split: prod.splits sum.splits)
qed

definition sample_platform :: platform where
  "sample_platform = \<lparr>pf_router = first_declared, pf_metrics_mount = [Lit ''v1'', Lit ''metrics''], pf_throttle = \<lambda>_ _ _. ret (),
     pf_is_uuid = \<lambda>s. length s = 36, pf_json_parse = \<lambda>_. None, pf_firings = 0, pf_metrics_text = \<lambda>cs. [], pf_penv = \<lambda>_. None,
     pf_setup = bootstrap (\<lambda>_. None) (\<lambda>_. None), pf_config = \<lambda>_. None,
     pf_docs_page = \<lambda>doc path. if path = [''media'', ''swagger''] then Some (sd_title doc) else None\<rparr>"

definition anonymous_request :: http_request where
  "anonymous_request = \<lparr>h_verb = GET, h_path = [''media'', ''v1'', ''health'', ''ready''],
     h_request = sample_request\<lparr>rq_authorization := None\<rparr>, h_stream = None, h_page = None, h_limit = None,
     h_multipart = Inl (BadRequest ''Multipart: Boundary not found''), h_parsed = Inr FUndefined, h_metrics_key = None\<rparr>"

lemma sample_limiter: "limiter_counts sample_platform"
  by (simp add: limiter_counts_def sample_platform_def ret_def)

theorem anonymous_surface_witness:
  "only_probed media_world (snd (respond sample_platform sample_env late_jwks_env ready_jwks sample_verifier anonymous_request media_world))
   \<and> fst (respond sample_platform sample_env late_jwks_env ready_jwks sample_verifier anonymous_request media_world)
       = Inr (200, ReadyAnswer ''ready'')"
proof
  show "only_probed media_world (snd (respond sample_platform sample_env late_jwks_env ready_jwks sample_verifier anonymous_request media_world))"
    using anonymous_surface [of sample_platform media_world sample_env late_jwks_env ready_jwks sample_verifier anonymous_request]
    by (simp add: presents_def anonymous_request_def sample_limiter)
  show "fst (respond sample_platform sample_env late_jwks_env ready_jwks sample_verifier anonymous_request media_world)
       = Inr (200, ReadyAnswer ''ready'')"
    by code_simp
qed

text \<open>The documentation needs no token.\<close>

lemma documentation_is_open:
  "fst (respond sample_platform sample_env late_jwks_env ready_jwks sample_verifier
     (anonymous_request\<lparr>h_path := [''media'', ''swagger'']\<rparr>) media_world) = Inr (200, DocsAnswer ''Media Service'')"
  by code_simp

section \<open>Statuses\<close>

text \<open>What the body parsers answer when they refuse: Express for JSON, multer for forms.\<close>

definition parser_answers :: "http_request \<Rightarrow> bool" where
  "parser_answers hr \<longleftrightarrow> (case h_multipart hr of Inl e \<Rightarrow> http_status e \<in> {400, 413} | Inr _ \<Rightarrow> True)
     \<and> (case h_parsed hr of Inl e \<Rightarrow> http_status e \<in> {400, 413, 415} | Inr _ \<Rightarrow> True)"

definition wants_group_icon :: "http_request \<Rightarrow> bool" where
  "wants_group_icon hr \<longleftrightarrow>
     (case h_multipart hr of Inl e \<Rightarrow> False | Inr (form, files) \<Rightarrow> valid_context (f_context form) = Some (Some GROUP_ICON))"

text \<open>The statuses that the decorators leave out: what the body parser answers at every endpoint, the rate
  limiter at every endpoint but the probes, and group icons.\<close>

definition undocumented :: "http_request \<Rightarrow> endpoint \<Rightarrow> nat list" where
  "undocumented hr ep = [400, 413, 415] @
     (case ep of
        HealthCheck \<Rightarrow> [] | HealthReady \<Rightarrow> [] | HealthLive \<Rightarrow> []
      | MediaUpload \<Rightarrow> if wants_group_icon hr then [403, 503] else []
      | _ \<Rightarrow> [429])"

definition reaches :: "platform \<Rightarrow> http_request \<Rightarrow> endpoint \<Rightarrow> string list \<Rightarrow> bool" where
  "reaches pf hr ep params \<longleftrightarrow> docs_page pf hr = None \<and> preflight pf hr = None
     \<and> pf_router pf (application_routes (pf_setup pf) (pf_metrics_mount pf)) (h_verb hr) (h_path hr) = Some (ep, params)"

lemma documented_simps:
  "documented ep = (case ep of
       HealthCheck \<Rightarrow> [200, 500] | HealthReady \<Rightarrow> [200, 503] | HealthLive \<Rightarrow> [200] | MetricsScrape \<Rightarrow> [200, 403]
     | MediaUpload \<Rightarrow> [201, 400, 413, 415, 422, 429, 401] | MediaQuota \<Rightarrow> [200, 401] | MyMedia \<Rightarrow> [200, 401]
     | MediaDelete \<Rightarrow> [204, 403, 404, 401] | _ \<Rightarrow> [200, 403, 404, 401])"
  "success_status ep = (case ep of MediaUpload \<Rightarrow> 201 | MediaDelete \<Rightarrow> 204 | _ \<Rightarrow> 200)"
  by (cases ep; simp add: documented_def success_status_def declaration_of_def HealthController_def MediaController_def MetricsController_def
      decorators_defs)+

lemma status_endpoint:
  assumes "\<not> is_public ep" and "parser_answers hr" and "truthy (rq_userId (attach_user au (h_request hr)))"
    and "S = insert 500 (set (documented ep) \<union> set (undocumented hr ep))"
  shows "answers_with S (handle_endpoint pf env jwks hr au ep params)"
proof -
  let ?req = "attach_user au (h_request hr)"
  let ?mid = "if params = [] then [] else hd params"
  have r: "fails_in S (route_of pf hr ep ?mid)"
    using assms(1,2,4) by (cases ep) (auto simp: public_endpoints fails_in_def route_of_def parser_answers_def validation_error_def
        documented_simps undocumented_def split: sum.splits prod.splits)
  have h: "insert 500 (set (handler_statuses route)) \<subseteq> S" if "route_of pf hr ep ?mid = Inr route" for route
    using that assms(1,4) by (cases ep) (auto simp: public_endpoints route_of_def documented_simps undocumented_def wants_group_icon_def
        validate_upload_def Let_def split: sum.splits prod.splits if_splits)
  have "answers_with S (bindE (from_result (route_of pf hr ep ?mid)) (\<lambda>route.
      returning MediaAnswer (route_handler (rls_intercept (rq_userId ?req) env) ?req route)))"
  proof (cases "route_of pf hr ep ?mid")
    case (Inl e)
    with r show ?thesis by (simp add: fails_in_def answers_with_def bindE_def from_result_def)
  next
    case (Inr route)
    have "answers_with S (returning MediaAnswer (route_handler (rls_intercept (rq_userId ?req) env) ?req route))"
      by (intro status_intros answers_with_mono [OF status_handler [OF assms(3)] h [OF Inr]])
    then show ?thesis
      by (simp add: Inr answers_with_def bindE_def from_result_def)
  qed
  then show ?thesis
    using assms(1) unfolding handle_endpoint_def Let_def by (cases ep) (simp_all add: public_endpoints)
qed

lemma status_public_endpoint:
  assumes "is_public ep"
  shows "answers_with (insert 500 (set (documented ep))) (handle_endpoint pf env jwks hr au ep params)"
proof (rule answers_withI)
  fix w e w'
  assume "handle_endpoint pf env jwks hr au ep params w = (Inl e, w')"
  moreover have "wp (readiness env jwks) (\<lambda>_ _. True) (\<lambda>e _. http_status e = 503) w"
    using readiness_decides [THEN conjunct1, of env w jwks] by (auto simp: wp_def not_ready_def split: if_splits prod.split sum.split)
  moreover have "wp (health_check env (pf_penv pf ''npm_package_version'') jwks) (\<lambda>_ _. True) (\<lambda>_ _. False) w"
    using health_reports [of env "pf_penv pf ''npm_package_version''" jwks w] by (auto simp: wp_def)
  ultimately show "http_status e \<in> insert 500 (set (documented ep))"
    using assms unfolding public_endpoints
    by (auto simp: handle_endpoint_def documented_simps wp_def bindE_def throw_def ret_def split: prod.splits sum.splits if_splits)
qed


definition delete_absent :: http_request where
  "delete_absent = anonymous_request\<lparr>h_verb := DELETE, h_path := [''Media'', ''v1'', sample_uuid 9], h_request := sample_request\<rparr>"


definition blob_request :: http_request where
  "blob_request = anonymous_request\<lparr>h_path := [''media'', ''v1'', sample_uuid 1, ''blob''], h_request := sample_request,
     h_stream := Some ''1''\<rparr>"

definition blob_bytes :: answer where
  "blob_bytes = ABlob (BlobBytes \<lparr>sf_body = [1, 2, 3], sf_type = ''image/png'', sf_length = Some 700\<rparr>)"

theorem answers_entitled_witness:
  "\<exists>route p au w1. fst (respond sample_platform sample_env late_jwks_env ready_jwks sample_verifier blob_request media_world)
       = Inr (200, MediaAnswer blob_bytes)
     \<and> presents sample_env late_jwks_env ready_jwks sample_verifier w1 sample_request p \<and> identified p au
     \<and> justified sample_env media_world (au_userId au) route blob_bytes"
proof -
  let ?r = "respond sample_platform sample_env late_jwks_env ready_jwks sample_verifier blob_request media_world"
  have f: "fst ?r = Inr (200, MediaAnswer blob_bytes)"
    by code_simp
  then have "?r = (Inr (200, MediaAnswer blob_bytes), snd ?r)"
    by (rule run_Inr)
  moreover have "meta_safe media_world"
    by (simp add: meta_safe_def media_world_def quota_world_def empty_world_def cache_kv.agrees_def)
  moreover have "h_request blob_request = sample_request"
    by (simp add: blob_request_def)
  ultimately show ?thesis
    using answers_entitled [of sample_platform sample_env late_jwks_env ready_jwks sample_verifier blob_request media_world] f
      sample_limiter by metis
qed

end
