(* ===== verification/Table_Types.thy ===== *)
theory Table_Types
  imports Schema_Migrations Request_Pipeline
begin

text \<open>
  The columns that the TypeORM entities declare agree with the schema that the migrations leave, and every
  media row that the service stores fits it: the row an accepted upload inserts is well formed, and no
  later request, under any failures, changes that.
\<close>

section \<open>The entities\<close>

text \<open>How a column gets its value when the code gives none: from its \<open>default\<close>, if it has one, or from the
  database, as the decorators of generated ids and of the dates of creation and change ask.\<close>

datatype filling = Plain | GeneratedUuid | CreateDate | UpdateDate

record entity_column =
  ec_name :: string
  ec_type :: string
  ec_length :: "nat option"
  ec_array :: bool
  ec_nullable :: bool
  ec_primary :: bool
  ec_default :: "string option"
  ec_filled :: filling

definition column_of :: "string \<Rightarrow> string \<Rightarrow> entity_column" where
  "column_of n ty = \<lparr>ec_name = n, ec_type = ty, ec_length = None, ec_array = False, ec_nullable = False, ec_primary = False,
     ec_default = None, ec_filled = Plain\<rparr>"

definition varchar :: "string \<Rightarrow> nat \<Rightarrow> entity_column" where
  "varchar n k = (column_of n ''varchar'')\<lparr>ec_length := Some k\<rparr>"

definition Media_entity :: "entity_column list" where
  "Media_entity =
     [(column_of ''id'' ''uuid'')\<lparr>ec_primary := True, ec_filled := GeneratedUuid\<rparr>, column_of ''owner_id'' ''uuid'', varchar ''context'' 64,
      varchar ''storage_path'' 1024, (varchar ''thumbnail_path'' 1024)\<lparr>ec_nullable := True\<rparr>, varchar ''content_type'' 128,
      column_of ''blob_size'' ''bigint'', (column_of ''expires_at'' ''timestamptz'')\<lparr>ec_nullable := True\<rparr>,
      (column_of ''signed_url_expires_at'' ''timestamptz'')\<lparr>ec_nullable := True\<rparr>,
      (column_of ''is_active'' ''boolean'')\<lparr>ec_default := Some ''true''\<rparr>,
      (column_of ''shared_with'' ''uuid'')\<lparr>ec_array := True, ec_nullable := True\<rparr>,
      (column_of ''created_at'' ''timestamptz'')\<lparr>ec_filled := CreateDate\<rparr>,
      (column_of ''updated_at'' ''timestamptz'')\<lparr>ec_filled := UpdateDate\<rparr>]"

definition UserQuota_entity :: "entity_column list" where
  "UserQuota_entity =
     [(column_of ''id'' ''uuid'')\<lparr>ec_primary := True, ec_filled := GeneratedUuid\<rparr>, column_of ''user_id'' ''uuid'',
      (column_of ''storage_used'' ''bigint'')\<lparr>ec_default := Some ''0''\<rparr>,
      (column_of ''storage_limit'' ''bigint'')\<lparr>ec_default := Some (show_int DEFAULT_STORAGE_LIMIT_BYTES)\<rparr>,
      (column_of ''files_count'' ''integer'')\<lparr>ec_default := Some ''0''\<rparr>,
      (column_of ''files_limit'' ''integer'')\<lparr>ec_default := Some (show_int DEFAULT_FILES_LIMIT)\<rparr>,
      (column_of ''daily_uploads'' ''integer'')\<lparr>ec_default := Some ''0''\<rparr>,
      (column_of ''daily_upload_limit'' ''integer'')\<lparr>ec_default := Some (show_int DEFAULT_DAILY_UPLOAD_LIMIT)\<rparr>,
      column_of ''quota_date'' ''date'', (column_of ''updated_at'' ''timestamptz'')\<lparr>ec_filled := UpdateDate\<rparr>]"

definition MediaAccessLog_entity :: "entity_column list" where
  "MediaAccessLog_entity =
     [(column_of ''accessed_at'' ''timestamptz'')\<lparr>ec_primary := True\<rparr>, (column_of ''id'' ''uuid'')\<lparr>ec_primary := True, ec_filled := GeneratedUuid\<rparr>,
      column_of ''media_id'' ''uuid'', (column_of ''accessor_id'' ''uuid'')\<lparr>ec_nullable := True\<rparr>, varchar ''access_type'' 64,
      (varchar ''ip_address'' 45)\<lparr>ec_nullable := True\<rparr>, (varchar ''user_agent'' 512)\<lparr>ec_nullable := True\<rparr>]"

text \<open>The SQL type of a declared column, in capitals as the migrations write it.\<close>

definition upper :: "string \<Rightarrow> string" where
  "upper s = map (\<lambda>c. let n = (of_char c :: nat) in if 97 \<le> n \<and> n \<le> 122 then char_of (n - 32) else c) s"

definition sql_type :: "entity_column \<Rightarrow> string" where
  "sql_type ec = upper (ec_type ec) @ (case ec_length ec of None \<Rightarrow> [] | Some k \<Rightarrow> ''('' @ show_nat k @ '')'')
     @ (if ec_array ec then ''[]'' else [])"

text \<open>
  Name, type, nullability and default of a column, the default without regard to case.  An entity does
  not name the function that generates its ids, so a random UUID of either function that Postgres offers is
  the same default.
\<close>

type_synonym column_type = "string \<times> string \<times> bool \<times> string option"

definition RANDOM_UUID :: string where
  "RANDOM_UUID = ''random uuid''"

definition default_of :: "string option \<Rightarrow> string option" where
  "default_of d =
     map_option (\<lambda>x. if x = ''gen_random_uuid()'' \<or> x = ''uuid_generate_v4()'' then RANDOM_UUID else js_lower x) d"

definition declared_default :: "entity_column \<Rightarrow> string option" where
  "declared_default ec =
     (case ec_filled ec of
        Plain \<Rightarrow> map_option js_lower (ec_default ec)
      | GeneratedUuid \<Rightarrow> Some RANDOM_UUID
      | CreateDate \<Rightarrow> Some ''now()''
      | UpdateDate \<Rightarrow> Some ''now()'')"

definition declared_column :: "entity_column \<Rightarrow> column_type" where
  "declared_column ec = (ec_name ec, sql_type ec, ec_nullable ec, declared_default ec)"

definition stored_column :: "column \<Rightarrow> column_type" where
  "stored_column c = (c_name c, c_type c, c_nullable c, default_of (c_default c))"

text \<open>Every declared column is stored with this type, nullability and default, nothing else is stored, and
  the keys are the same.\<close>

definition columns_match :: "column_type list \<Rightarrow> string list \<Rightarrow> pg_table \<Rightarrow> bool" where
  "columns_match declared key tb \<longleftrightarrow>
     list_all (\<lambda>c. c \<in> set (map stored_column (t_columns tb))) declared
     \<and> list_all (\<lambda>c. stored_column c \<in> set declared) (t_columns tb)
     \<and> length (t_columns tb) = length declared
     \<and> t_key tb = key"

definition entity_matches :: "entity_column list \<Rightarrow> pg_table \<Rightarrow> bool" where
  "entity_matches ecs = columns_match (map declared_column ecs) (map ec_name (filter ec_primary ecs))"

definition entities :: "(string \<times> entity_column list) list" where
  "entities = [(''media'', Media_entity), (''user_quotas'', UserQuota_entity), (''media_access_logs'', MediaAccessLog_entity)]"

definition tables_match :: "(string \<times> column_type list \<times> string list) list \<Rightarrow> catalogue \<Rightarrow> bool" where
  "tables_match ts c \<longleftrightarrow>
     list_all (\<lambda>(t, cols, key). case map_of (tables c) t of None \<Rightarrow> False | Some tb \<Rightarrow> columns_match cols key tb) ts"

definition media_types :: "column_type list" where
  "media_types =
     [(''id'', ''UUID'', False, Some RANDOM_UUID), (''owner_id'', ''UUID'', False, None), (''context'', ''VARCHAR(64)'', False, None),
      (''storage_path'', ''VARCHAR(1024)'', False, None), (''thumbnail_path'', ''VARCHAR(1024)'', True, None),
      (''content_type'', ''VARCHAR(128)'', False, None), (''blob_size'', ''BIGINT'', False, None), (''expires_at'', ''TIMESTAMPTZ'', True, None),
      (''signed_url_expires_at'', ''TIMESTAMPTZ'', True, None), (''is_active'', ''BOOLEAN'', False, Some ''true''),
      (''shared_with'', ''UUID[]'', True, None), (''created_at'', ''TIMESTAMPTZ'', False, Some ''now()''),
      (''updated_at'', ''TIMESTAMPTZ'', False, Some ''now()'')]"

definition quota_types :: "column_type list" where
  "quota_types =
     [(''id'', ''UUID'', False, Some RANDOM_UUID), (''user_id'', ''UUID'', False, None), (''storage_used'', ''BIGINT'', False, Some ''0''),
      (''storage_limit'', ''BIGINT'', False, Some ''1073741824''), (''files_count'', ''INTEGER'', False, Some ''0''),
      (''files_limit'', ''INTEGER'', False, Some ''1000''), (''daily_uploads'', ''INTEGER'', False, Some ''0''),
      (''daily_upload_limit'', ''INTEGER'', False, Some ''100''), (''quota_date'', ''DATE'', False, None),
      (''updated_at'', ''TIMESTAMPTZ'', False, Some ''now()'')]"

definition log_types :: "column_type list" where
  "log_types =
     [(''accessed_at'', ''TIMESTAMPTZ'', False, None), (''id'', ''UUID'', False, Some RANDOM_UUID), (''media_id'', ''UUID'', False, None),
      (''accessor_id'', ''UUID'', True, None), (''access_type'', ''VARCHAR(64)'', False, None), (''ip_address'', ''VARCHAR(45)'', True, None),
      (''user_agent'', ''VARCHAR(512)'', True, None)]"

lemma upper_types:
  "upper ''uuid'' = ''UUID''" "upper ''varchar'' = ''VARCHAR''" "upper ''bigint'' = ''BIGINT''" "upper ''timestamptz'' = ''TIMESTAMPTZ''"
  "upper ''boolean'' = ''BOOLEAN''" "upper ''integer'' = ''INTEGER''" "upper ''date'' = ''DATE''"
  by code_simp+

lemma shown_digits:
  "digit_char 0 = CHR ''0''" "digit_char (Suc 0) = CHR ''1''" "digit_char 2 = CHR ''2''" "digit_char 3 = CHR ''3''"
  "digit_char 4 = CHR ''4''" "digit_char 5 = CHR ''5''" "digit_char 6 = CHR ''6''" "digit_char 7 = CHR ''7''" "digit_char 8 = CHR ''8''"
  by code_simp+

lemma shown_lengths:
  "show_nat 64 = ''64''" "show_nat 1024 = ''1024''" "show_nat 128 = ''128''" "show_nat 45 = ''45''" "show_nat 512 = ''512''"
  "show_nat 1073741824 = ''1073741824''" "show_nat 1000 = ''1000''" "show_nat 100 = ''100''"
  by (simp_all add: show_nat.simps shown_digits)

lemma lower_defaults:
  "js_lower ''true'' = ''true''" "js_lower ''0'' = ''0''" "js_lower ''1073741824'' = ''1073741824''" "js_lower ''1000'' = ''1000''"
  "js_lower ''100'' = ''100''"
  by code_simp+

lemma declared_types:
  "map declared_column Media_entity = media_types" "map declared_column UserQuota_entity = quota_types"
  "map declared_column MediaAccessLog_entity = log_types"
  by (simp_all add: Media_entity_def UserQuota_entity_def MediaAccessLog_entity_def declared_column_def declared_default_def sql_type_def column_of_def varchar_def
      media_types_def quota_types_def log_types_def upper_types shown_lengths lower_defaults quota_defaults show_int_def)

definition expected_tables :: "(string \<times> column_type list \<times> string list) list" where
  "expected_tables = [(''media'', media_types, [''id'']), (''user_quotas'', quota_types, [''id'']),
     (''media_access_logs'', log_types, [''accessed_at'', ''id''])]"

lemma expected_with:
  "case migrate \<lparr>r_name = u, r_superuser = x, r_bypassrls = y\<rparr> [''media_user''] 7 fresh_database of
     Inl _ \<Rightarrow> False | Inr c \<Rightarrow> tables_match expected_tables c"
  by code_simp

lemma expected_without:
  "case migrate \<lparr>r_name = u, r_superuser = x, r_bypassrls = y\<rparr> [] 7 fresh_database of
     Inl _ \<Rightarrow> False | Inr c \<Rightarrow> tables_match expected_tables c"
  by code_simp

lemma migrated_tables: "\<exists>c. migrate owner roles 7 fresh_database = Inr c \<and> tables_match expected_tables c"
proof (cases owner)
  case (fields u x y)
  show ?thesis
    using relevant_roles_cases [of roles]
  proof
    assume "relevant_roles roles = [''media_user'']"
    then show ?thesis
      using expected_with [of u x y] migrate_relevant [of owner roles 7]
      by (simp only: fields) (auto split: sum.splits)
  next
    assume "relevant_roles roles = []"
    then show ?thesis
      using expected_without [of u x y] migrate_relevant [of owner roles 7]
      by (simp only: fields) (auto split: sum.splits)
  qed
qed

text \<open>C27. The three entities declare exactly the columns, types, nullability, keys and defaults of the tables that
  the migrations leave, whoever runs them: a column has the declared default and no default when none is
  declared; a generated id has a generator of random UUIDs, whichever function it is, and the dates of
  creation and change have the present time.\<close>

theorem entities_match_schema:
  "\<exists>c. migrate owner roles 7 fresh_database = Inr c
     \<and> (list_all (\<lambda>(t, ecs). case map_of (tables c) t of None \<Rightarrow> False | Some tb \<Rightarrow> entity_matches ecs tb) entities)"
proof -
  have keys: "map ec_name (filter ec_primary Media_entity) = [''id'']" "map ec_name (filter ec_primary UserQuota_entity) = [''id'']"
      "map ec_name (filter ec_primary MediaAccessLog_entity) = [''accessed_at'', ''id'']"
    by (simp_all add: Media_entity_def UserQuota_entity_def MediaAccessLog_entity_def column_of_def varchar_def)
  have matches: "entity_matches Media_entity = columns_match media_types [''id'']"
      "entity_matches UserQuota_entity = columns_match quota_types [''id'']"
      "entity_matches MediaAccessLog_entity = columns_match log_types [''accessed_at'', ''id'']"
    by (simp_all add: entity_matches_def declared_types keys)
  obtain c where "migrate owner roles 7 fresh_database = Inr c" "tables_match expected_tables c"
    using migrated_tables by blast
  then show ?thesis
    by (intro exI [of _ c]) (simp add: entities_def matches tables_match_def expected_tables_def split: option.splits)
qed

section \<open>Well-formed rows\<close>

text \<open>What an accepted upload inserts: an allowed type and size for its context, and the paths of its own
  id and owner.\<close>

definition row_ok :: "media \<Rightarrow> bool" where
  "row_ok r \<longleftrightarrow>
     list_ex (\<lambda>ctx. m_context r = context_value ctx
         \<and> buildPath (contextToStorageContext ctx) (m_ownerId r) (m_id r) = Inr (m_storagePath r)
         \<and> m_contentType r \<in> set (CONTEXT_MIME_ALLOWLIST ctx)
         \<and> 0 \<le> m_blobSize r \<and> m_blobSize r \<le> CONTEXT_SIZE_LIMITS ctx) [MESSAGE, AVATAR, GROUP_ICON]
     \<and> thumbnail_at (m_ownerId r) (m_id r) (m_thumbnailPath r)"

definition rows_ok :: "media list \<Rightarrow> bool" where
  "rows_ok rows \<longleftrightarrow> list_all row_ok rows \<and> distinct (map m_id rows)"

lemma some_context: "list_ex P [MESSAGE, AVATAR, GROUP_ICON] \<longleftrightarrow> (\<exists>ctx. P ctx)"
  by (simp, metis media_context.exhaust)

lemmas row_ok_iff = row_ok_def [unfolded some_context]

lemma row_ok_same_object: "same_object r r' \<Longrightarrow> row_ok r = row_ok r'"
  by (simp add: row_ok_def same_object_def)

lemma rows_ok_update:
  assumes "rows_ok rows" and "\<And>r. r \<in> set rows \<Longrightarrow> p r \<Longrightarrow> row_ok (f r) \<and> m_id (f r) = m_id r"
  shows "rows_ok (update_where p f rows)"
proof -
  have "map m_id (update_where p f rows) = map m_id rows"
    using assms(2) by (auto simp: update_where_def)
  moreover have "list_all row_ok (update_where p f rows)"
    using assms by (auto simp: update_where_def rows_ok_def list_all_iff)
  ultimately show ?thesis
    using assms(1) by (simp add: rows_ok_def)
qed

interpretation well_formed: table_guarantee "\<lambda>_. True" "\<lambda>u t. rows_ok (fst t)" row_ok
proof
  fix env :: env and f :: "media \<Rightarrow> media" and u mid
  assume f: "\<And>r. same_object (f r) r"
  have "row_ok ((f r)\<lparr>m_updatedAt := n\<rparr>) = row_ok r \<and> m_id ((f r)\<lparr>m_updatedAt := n\<rparr>) = m_id r" for r n
    using row_ok_same_object [of "(f r)\<lparr>m_updatedAt := n\<rparr>" r] f [of r] by (simp add: same_object_def)
  then show "keeps (\<lambda>w. rows_ok (fst (tables_of w)) \<and> guc w = Some u) (update_media env mid f)"
    unfolding update_media_def
    by (intro keeps_ext) (auto simp: keeps_def modify_def tables_of_def rows_ok_def list_all_iff intro!: rows_ok_update [unfolded rows_ok_def list_all_iff])
next
  fix env :: env and m u
  assume m: "row_ok m"
  have s: "row_ok (m\<lparr>m_createdAt := a, m_updatedAt := b\<rparr>)" for a b
    using m row_ok_same_object [of "m\<lparr>m_createdAt := a, m_updatedAt := b\<rparr>" m] by (simp add: same_object_def)
  have ins: "rows_ok (rows @ [m\<lparr>m_createdAt := a, m_updatedAt := b\<rparr>])" if "rows_ok rows" "\<forall>r \<in> set rows. m_id r \<noteq> m_id m" for rows a b
    using that s by (auto simp: rows_ok_def)
  have upd: "rows_ok (update_where (\<lambda>r. m_id r = m_id m \<and> q r) (\<lambda>r. m\<lparr>m_createdAt := m_createdAt r, m_updatedAt := b\<rparr>) rows)"
    if "rows_ok rows" for rows q b
    using that s by (auto intro!: rows_ok_update)
  show "keeps (\<lambda>w. rows_ok (fst (tables_of w)) \<and> guc w = Some u) (save env m)"
    unfolding save_def
    by (intro keeps_ext) (auto simp: keeps_def tables_of_def intro!: ins upd)
next
  fix env :: env and g :: "user_quota \<Rightarrow> user_quota" and u v
  show "keeps (\<lambda>w. rows_ok (fst (tables_of w)) \<and> guc w = Some u) (update_quota env v g)"
    unfolding update_quota_def by (intro keeps_ext) (auto simp: keeps_def tables_of_def Let_def)
next
  fix env :: env and mk u
  show "keeps (\<lambda>w. rows_ok (fst (tables_of w)) \<and> guc w = Some u) (insert_quota_or_ignore env mk)"
    unfolding insert_quota_or_ignore_def by (intro keeps_ext) (auto simp: keeps_def tables_of_def Let_def)
next
  fix env v fl ctx mid path t us at
  assume "acceptable env v fl ctx" "buildPath (contextToStorageContext ctx) v mid = Inr path" "thumbnail_at v mid t"
  then show "row_ok (new_media env mid v ctx fl path t us at)"
    by (cases ctx) (simp_all add: row_ok_def new_media_def acceptable_def)
qed simp

lemma rows_ok_serve: "rows_ok (media_tbl w) \<Longrightarrow> rows_ok (media_tbl (snd (serve env jenv jwks verify req route w)))"
  using well_formed.stays_serve [of env jenv jwks verify w req route] by (auto simp: tables_of_def)

section \<open>Rows and columns\<close>

datatype pg_value = PgUuid uuid | PgText string | PgInt int | PgBool bool | PgTime millis | PgUuids "uuid list"

definition varchar_limit :: "string \<Rightarrow> nat option" where
  "varchar_limit ty = (if take 8 ty = ''VARCHAR('' then Some (read_digits (takeWhile is_digit (drop 8 ty))) else None)"

text \<open>The elements of an array are not looked at.\<close>

fun fits_type :: "string \<Rightarrow> pg_value \<Rightarrow> bool" where
  "fits_type ty (PgUuid s) \<longleftrightarrow> ty = ''UUID'' \<and> UUID_PATTERN s"
| "fits_type ty (PgText s) \<longleftrightarrow> (case varchar_limit ty of None \<Rightarrow> False | Some k \<Rightarrow> length s \<le> k)"
| "fits_type ty (PgInt n) \<longleftrightarrow> ty = ''BIGINT'' \<and> - INT8_MAX - 1 \<le> n \<and> n \<le> INT8_MAX"
| "fits_type ty (PgBool b) \<longleftrightarrow> ty = ''BOOLEAN''"
| "fits_type ty (PgTime t) \<longleftrightarrow> ty = ''TIMESTAMPTZ''"
| "fits_type ty (PgUuids us) \<longleftrightarrow> ty = ''UUID[]''"

definition media_values :: "media \<Rightarrow> (string \<times> pg_value option) list" where
  "media_values r =
     [(''id'', Some (PgUuid (m_id r))), (''owner_id'', Some (PgUuid (m_ownerId r))), (''context'', Some (PgText (m_context r))),
      (''storage_path'', Some (PgText (m_storagePath r))), (''thumbnail_path'', map_option PgText (m_thumbnailPath r)),
      (''content_type'', Some (PgText (m_contentType r))), (''blob_size'', Some (PgInt (m_blobSize r))),
      (''expires_at'', map_option PgTime (m_expiresAt r)), (''signed_url_expires_at'', map_option PgTime (m_signedUrlExpiresAt r)),
      (''is_active'', Some (PgBool (m_isActive r))), (''shared_with'', map_option PgUuids (m_sharedWith r)),
      (''created_at'', Some (PgTime (m_createdAt r))), (''updated_at'', Some (PgTime (m_updatedAt r)))]"

definition fits_column :: "media \<Rightarrow> string \<Rightarrow> string \<Rightarrow> bool \<Rightarrow> bool" where
  "fits_column r n ty nullable \<longleftrightarrow>
     (case map_of (media_values r) n of
        None \<Rightarrow> False
      | Some None \<Rightarrow> nullable
      | Some (Some v) \<Rightarrow> fits_type ty v)"

definition row_fits :: "pg_table \<Rightarrow> media \<Rightarrow> bool" where
  "row_fits tb r \<longleftrightarrow> list_all (\<lambda>c. fits_column r (c_name c) (c_type c) (c_nullable c)) (t_columns tb)"

definition objects_of :: "media \<Rightarrow> string list" where
  "objects_of r = m_storagePath r # (case m_thumbnailPath r of None \<Rightarrow> [] | Some path \<Rightarrow> [path])"

lemma varchar_limits:
  "varchar_limit ''VARCHAR(64)'' = Some 64" "varchar_limit ''VARCHAR(1024)'' = Some 1024" "varchar_limit ''VARCHAR(128)'' = Some 128"
  by code_simp+

lemma allowlists_short: "list_all (\<lambda>ty. length ty \<le> 128) (CONTEXT_MIME_ALLOWLIST ctx)"
proof (cases ctx)
  case MESSAGE show ?thesis unfolding MESSAGE by code_simp
next
  case AVATAR show ?thesis unfolding AVATAR by code_simp
next
  case GROUP_ICON show ?thesis unfolding GROUP_ICON by code_simp
qed

lemma allowlist_short: "ty \<in> set (CONTEXT_MIME_ALLOWLIST ctx) \<Longrightarrow> length ty \<le> 128"
  using allowlists_short [of ctx] unfolding list_all_iff by blast

lemma buildPath_short: "buildPath ctx v mid = Inr path \<Longrightarrow> length path \<le> 1024"
proof -
  assume *: "buildPath ctx v mid = Inr path"
  have "length v = 36" "length mid = 36"
    using buildPath_Inr_context [OF *] UUID_PATTERN_length by blast+
  moreover have "length path \<le> 11 + length v + 1 + length mid + 4"
    using * by (auto simp: buildPath_def split: if_splits)
  ultimately show ?thesis by simp
qed

lemma row_ok_fits:
  assumes "row_ok r" and "columns_match media_types key tb"
  shows "row_fits tb r"
proof -
  obtain ctx where c: "m_context r = context_value ctx"
      "buildPath (contextToStorageContext ctx) (m_ownerId r) (m_id r) = Inr (m_storagePath r)"
      "m_contentType r \<in> set (CONTEXT_MIME_ALLOWLIST ctx)" "0 \<le> m_blobSize r" "m_blobSize r \<le> CONTEXT_SIZE_LIMITS ctx"
    and t: "thumbnail_at (m_ownerId r) (m_id r) (m_thumbnailPath r)"
    using assms(1) by (auto simp: row_ok_iff)
  have "length (m_context r) \<le> 64" "m_blobSize r \<le> INT8_MAX" "- INT8_MAX - 1 \<le> m_blobSize r"
    using c(1,4,5) by (cases ctx; simp add: INT8_MAX_def)+
  moreover have "UUID_PATTERN (m_id r)" "UUID_PATTERN (m_ownerId r)" "length (m_storagePath r) \<le> 1024"
    using buildPath_Inr_context [OF c(2)] buildPath_short [OF c(2)] by simp_all
  moreover have "length path \<le> 1024" if "m_thumbnailPath r = Some path" for path
    using t that buildPath_short by (auto simp: thumbnail_at_def)
  ultimately have "list_all (\<lambda>(n, ty, nullable, d). fits_column r n ty nullable) media_types"
    using allowlist_short [OF c(3)]
    by (simp add: media_types_def fits_column_def media_values_def varchar_limits split: option.split)
  moreover have "stored_column c \<in> set media_types" if "c \<in> set (t_columns tb)" for c
    using assms(2) that by (simp only: columns_match_def list_all_iff)
  ultimately have "fits_column r (c_name c) (c_type c) (c_nullable c)" if "c \<in> set (t_columns tb)" for c
    using that by (fastforce simp only: list_all_iff stored_column_def split: prod.splits)
  then show ?thesis
    by (simp add: row_fits_def list_all_iff)
qed

lemma same_path_same_object:
  assumes "buildPath c v i = Inr path" and "buildPath c' v' i' = Inr path"
  shows "c = c' \<and> i = i'"
  using buildPath_split [OF assms(1)] buildPath_split [OF assms(2)] by (auto split: if_splits)

lemma row_ok_objects:
  assumes "row_ok r" and "path \<in> set (objects_of r)"
  shows "\<exists>c. buildPath c (m_ownerId r) (m_id r) = Inr path"
  using assms by (auto simp: row_ok_iff objects_of_def thumbnail_at_def split: option.splits)

lemma rows_ok_objects: "rows_ok rows \<Longrightarrow> distinct (concat (map objects_of rows))"
proof (induction rows)
  case (Cons r rows)
  then have r: "row_ok r" and rs: "rows_ok rows" "\<forall>x \<in> set rows. row_ok x \<and> m_id x \<noteq> m_id r"
    by (auto simp: rows_ok_def list_all_iff image_iff)
  have "distinct (objects_of r)"
  proof (cases "m_thumbnailPath r")
    case (Some path)
    with r have "buildPath ''thumbnails'' (m_ownerId r) (m_id r) = Inr path"
        "\<exists>ctx. buildPath (contextToStorageContext ctx) (m_ownerId r) (m_id r) = Inr (m_storagePath r)"
      by (auto simp: row_ok_iff thumbnail_at_def)
    moreover have "contextToStorageContext ctx \<noteq> ''thumbnails''" for ctx
      by (cases ctx) simp_all
    ultimately have "path \<noteq> m_storagePath r"
      using same_path_same_object by metis
    with Some show ?thesis by (simp add: objects_of_def)
  qed (simp add: objects_of_def)
  moreover have "set (objects_of r) \<inter> set (objects_of x) = {}" if "x \<in> set rows" for x
    using rs(2) that row_ok_objects [OF r] row_ok_objects [of x] same_path_same_object by (metis disjoint_iff)
  ultimately show ?case
    using Cons.IH [OF rs(1)] by auto
qed simp

text \<open>Any sequence of requests, each with its own failures, keys, tokens and route.\<close>

inductive served :: "world \<Rightarrow> world \<Rightarrow> bool" where
  none: "served w w"
| next_request: "served w (snd (serve env jenv jwks verify req route w1))" if "served w w1"

lemma served_rows_ok: "served w w' \<Longrightarrow> rows_ok (media_tbl w) \<Longrightarrow> rows_ok (media_tbl w')"
  by (induction rule: served.induct) (simp_all add: rows_ok_serve)

text \<open>C5. From an empty table, or any with well-formed rows, whatever requests come and whatever fails, every
  stored media row fits the columns of the migrated schema (identifiers, lengths, ranges, nullability), the
  primary key is unique, and no object in the bucket belongs to two rows or twice to one.\<close>

theorem stored_rows_typed:
  assumes "served w w'" and "media_tbl w = [] \<or> rows_ok (media_tbl w)"
  shows "\<exists>c tb. migrate owner roles 7 fresh_database = Inr c \<and> map_of (tables c) ''media'' = Some tb
     \<and> list_all (row_fits tb) (media_tbl w') \<and> distinct (map m_id (media_tbl w'))
     \<and> distinct (concat (map objects_of (media_tbl w')))"
proof -
  have ok: "rows_ok (media_tbl w')"
    using served_rows_ok [OF assms(1)] assms(2) by (auto simp: rows_ok_def)
  obtain c where c: "migrate owner roles 7 fresh_database = Inr c" "tables_match expected_tables c"
    using migrated_tables by blast
  then obtain tb where "map_of (tables c) ''media'' = Some tb" "columns_match media_types [''id''] tb"
    by (auto simp: tables_match_def expected_tables_def split: option.splits)
  with ok c(1) rows_ok_objects [OF ok] show ?thesis
    by (auto simp: rows_ok_def list_all_iff intro: row_ok_fits)
qed

definition stored_avatar :: "uuid \<Rightarrow> uuid \<Rightarrow> media" where
  "stored_avatar owner mid = sample_media\<lparr>m_id := mid, m_ownerId := owner, m_context := ''avatar'',
     m_storagePath := ''avatars/'' @ owner @ ''/'' @ mid, m_thumbnailPath := Some (''thumbnails/'' @ mid @ ''.bin''),
     m_contentType := ''image/png'', m_blobSize := 700\<rparr>"

definition avatars_world :: world where
  "avatars_world = media_world\<lparr>media_tbl := [stored_avatar alice (sample_uuid 1), stored_avatar bob (sample_uuid 2)]\<rparr>"

lemma avatars_rows_ok: "rows_ok (media_tbl avatars_world)"
  by code_simp

definition migration_role :: pg_role where
  "migration_role = \<lparr>r_name = ''whispr'', r_superuser = False, r_bypassrls = False\<rparr>"

theorem stored_rows_typed_witness:
  "\<exists>w' r s. served avatars_world w' \<and> media_tbl w' = [r, s] \<and> m_sharedWith r = Some [bob, sample_uuid 7]
     \<and> (\<exists>c tb. migrate migration_role [''media_user''] 7 fresh_database = Inr c \<and> map_of (tables c) ''media'' = Some tb \<and> row_fits tb r \<and> row_fits tb s)"
proof -
  let ?w = "snd (serve sample_env late_jwks_env ready_jwks sample_verifier sample_request (RShare (sample_uuid 1) [sample_uuid 7]) avatars_world)"
  have s: "served avatars_world ?w"
    by (rule served.next_request [OF served.none])
  have "map m_sharedWith (media_tbl ?w) = [Some [bob, sample_uuid 7], Some [bob]]"
    by code_simp
  then obtain r r' where r: "media_tbl ?w = [r, r']" "m_sharedWith r = Some [bob, sample_uuid 7]" by auto
  have "media_tbl avatars_world = [] \<or> rows_ok (media_tbl avatars_world)"
    using avatars_rows_ok ..
  from stored_rows_typed [OF s this, of migration_role "[''media_user'']"] obtain c tb where
      "migrate migration_role [''media_user''] 7 fresh_database = Inr c" "map_of (tables c) ''media'' = Some tb" "list_all (row_fits tb) (media_tbl ?w)"
    by blast
  with r s show ?thesis
    by (intro exI [of _ ?w] exI [of _ r] exI [of _ r']) simp
qed

end
