(* ===== verification/Bookkeeping.thy ===== *)
theory Bookkeeping
  imports Table_Types Histories
begin

text \<open>
  The quota and the media against each other.  A user's quota row counts what the user's active rows
  occupy, and every active row has its objects in the bucket: the books are right.  Reads, shares and
  listings move nothing that the books look at (\<open>inert\<close>); an upload enters both sides or neither, a
  delete leaves both, the midnight reset touches the daily count only.  So the books stay right over
  every history of undisturbed requests, whole requests from the guard to the answer.  With failures
  they do not: a delete whose bucket call is rejected keeps the row inactive and the quota charged.
\<close>

section \<open>The books\<close>

text \<open>What a row says about an object; reads and shares leave it alone.\<close>

definition entry :: "media \<Rightarrow> uuid \<times> uuid \<times> bool \<times> int \<times> string list" where
  "entry r = (m_id r, m_ownerId r, m_isActive r, m_blobSize r, objects_of r)"

definition active_of :: "uuid \<Rightarrow> media list \<Rightarrow> media list" where
  "active_of u rows = filter (\<lambda>r. m_ownerId r = u \<and> m_isActive r) rows"

definition balanced :: "world \<Rightarrow> bool" where
  "balanced w \<longleftrightarrow> (\<forall>u. u_storage (usage_of w u) = (\<Sum>r\<leftarrow>active_of u (media_tbl w). m_blobSize r)
     \<and> u_files (usage_of w u) = int (length (active_of u (media_tbl w))))"

definition backed :: "world \<Rightarrow> bool" where
  "backed w \<longleftrightarrow> (\<forall>r \<in> set (media_tbl w). m_isActive r \<longrightarrow> (\<forall>path \<in> set (objects_of r). s3 w path \<noteq> None))"

definition storable_limits :: "world \<Rightarrow> bool" where
  "storable_limits w \<longleftrightarrow> (\<forall>u. lim_storage (limits_of w u) \<le> INT8_MAX \<and> lim_files (limits_of w u) \<le> INT4_MAX
     \<and> lim_daily (limits_of w u) \<le> INT4_MAX)"

definition books :: "world \<Rightarrow> bool" where
  "books w \<longleftrightarrow> rows_ok (media_tbl w) \<and> distinct (map q_userId (quota_tbl w)) \<and> storable_limits w \<and> quota_ok w
     \<and> balanced w \<and> backed w"

text \<open>The part that is not a condition on single rows.\<close>

definition in_balance :: "world \<Rightarrow> bool" where
  "in_balance w \<longleftrightarrow> storable_limits w \<and> quota_ok w \<and> balanced w \<and> backed w"

lemma books_iff: "books w \<longleftrightarrow> rows_ok (media_tbl w) \<and> distinct (map q_userId (quota_tbl w)) \<and> in_balance w"
  by (auto simp: books_def in_balance_def)

lemma entry_simps [simp]:
  "entry (r\<lparr>m_sharedWith := us\<rparr>) = entry r" "entry (r\<lparr>m_updatedAt := t\<rparr>) = entry r"
  "entry (r\<lparr>m_createdAt := t\<rparr>) = entry r" "entry (r\<lparr>m_signedUrlExpiresAt := a\<rparr>) = entry r"
  by (simp_all add: entry_def objects_of_def)

lemma measures_of_entries:
  "map m_blobSize (active_of u rows) = map (fst \<circ> snd \<circ> snd \<circ> snd)
     (filter (\<lambda>e. fst (snd e) = u \<and> fst (snd (snd e))) (map entry rows))"
  by (induction rows) (simp_all add: active_of_def entry_def)

lemma entries_measures:
  "map entry rows' = map entry rows \<Longrightarrow> map m_blobSize (active_of u rows') = map m_blobSize (active_of u rows)"
  by (simp only: measures_of_entries)

lemma balanced_entries:
  assumes "map entry (media_tbl w') = map entry (media_tbl w)" and "usage_of w' = usage_of w"
  shows "balanced w' = balanced w"
proof -
  have "length (active_of u (media_tbl w')) = length (active_of u (media_tbl w))" for u
    using entries_measures [OF assms(1), of u] by (metis length_map)
  then show ?thesis
    using entries_measures [OF assms(1)] assms(2) by (simp add: balanced_def)
qed

lemma entries_mem:
  assumes "map entry rows' = map entry rows" and "r' \<in> set rows'"
  shows "\<exists>r \<in> set rows. entry r = entry r'"
proof -
  have "entry r' \<in> set (map entry rows)"
    using assms(2) unfolding assms(1) [symmetric] by simp
  then show ?thesis by auto
qed

lemma backed_entries:
  assumes "map entry (media_tbl w') = map entry (media_tbl w)" and "backed w"
    and "\<And>path. s3 w path \<noteq> None \<Longrightarrow> s3 w' path \<noteq> None"
  shows "backed w'"
  unfolding backed_def
proof (intro ballI impI)
  fix r' path
  assume "r' \<in> set (media_tbl w')" "m_isActive r'" "path \<in> set (objects_of r')"
  moreover from entries_mem [OF assms(1) this(1)] obtain r where "r \<in> set (media_tbl w)" "entry r = entry r'" by blast
  ultimately show "s3 w' path \<noteq> None"
    using assms(2,3) by (simp add: backed_def entry_def)
qed

lemma quota_ok_cong: "usage_of w' = usage_of w \<Longrightarrow> limits_of w' = limits_of w \<Longrightarrow> quota_coherent w' \<Longrightarrow> quota_ok w \<Longrightarrow> quota_ok w'"
  by (simp add: quota_ok_def)

lemma in_balance_unmoved:
  assumes "in_balance w" and "map entry (media_tbl w') = map entry (media_tbl w)" and "usage_of w' = usage_of w"
    and "limits_of w' = limits_of w" and "quota_coherent w'" and "\<And>path. s3 w path \<noteq> None \<Longrightarrow> s3 w' path \<noteq> None"
  shows "in_balance w'"
  using assms balanced_entries [OF assms(2,3)] backed_entries [OF assms(2) _ assms(6)] quota_ok_cong [OF assms(3-5)]
  by (simp add: in_balance_def storable_limits_def)

section \<open>Requests that move nothing\<close>

interpretation unmoved: read_guarantee "\<lambda>_. True" "\<lambda>u t. map entry (fst t) = E \<and> snd t = Q" for E Q
proof
  fix env :: env and f :: "media \<Rightarrow> media" and u mid
  assume "\<And>r. same_object (f r) r" "\<And>r. m_isActive (f r) = m_isActive r"
  then have "entry ((f r)\<lparr>m_updatedAt := t\<rparr>) = entry r" for r t
    by (simp add: entry_def same_object_def objects_of_def)
  then have "map entry (update_where p (\<lambda>r. (f r)\<lparr>m_updatedAt := t\<rparr>) rows) = map entry rows" for p rows t
    by (simp add: update_where_def)
  then show "keeps (\<lambda>w. (map entry (fst (tables_of w)) = E \<and> snd (tables_of w) = Q) \<and> guc w = Some u) (update_media env mid f)"
    unfolding update_media_def by (intro keeps_ext) (auto simp: keeps_def modify_def tables_of_def)
qed

abbreviation cached_rows :: "user_quota list \<Rightarrow> world \<Rightarrow> bool" where
  "cached_rows Q w \<equiv> cache_kv.agrees (quota_truth Q) (cache w)"

lemma cached_rows_frame: "frame cache m \<Longrightarrow> keeps (cached_rows Q) m"
  by (simp add: frame_def keeps_def)

lemma cached_rows_set: "(\<And>u. k \<noteq> quota_cacheKey u) \<Longrightarrow> keeps (cached_rows Q) (cache_set env k v ttl)"
  unfolding cache_set_def
  by (rule keeps_ext) (auto simp: keeps_def modify_def map_put_def [symmetric] quota_truth_def intro!: cache_kv.agrees_put)

lemma cached_rows_del: "keeps (cached_rows Q) (cache_del env k)"
  unfolding cache_del_def
  by (rule keeps_ext) (auto simp: keeps_def modify_def cache_kv.agrees_def)


text \<open>What an operation must leave alone, so that the books stay right without a look at what it does.\<close>

definition inert :: "'a io \<Rightarrow> bool" where
  "inert m \<longleftrightarrow> (\<forall>E Q. keeps (\<lambda>w. map entry (fst (tables_of w)) = E \<and> snd (tables_of w) = Q) m)
     \<and> (\<forall>Q. keeps (cached_rows Q) m) \<and> frame s3 m"

lemma inertI:
  assumes "\<And>E Q. keeps (\<lambda>w. map entry (fst (tables_of w)) = E \<and> snd (tables_of w) = Q) m"
    and "\<And>Q. keeps (cached_rows Q) m" and "frame s3 m"
  shows "inert m"
  using assms by (simp add: inert_def)

lemma inert_result:
  assumes "inert m" and "quota_coherent w"
  shows "map entry (media_tbl (snd (m w))) = map entry (media_tbl w)" and "quota_tbl (snd (m w)) = quota_tbl w"
    and "quota_coherent (snd (m w))" and "s3 (snd (m w)) = s3 w"
  using assms by (auto simp: inert_def keeps_def frame_def tables_of_def quota_coherent_def)

lemma inert_in_balance:
  assumes "inert m" and "in_balance w"
  shows "in_balance (snd (m w))"
proof -
  have "quota_coherent w"
    using assms(2) by (simp add: in_balance_def quota_ok_def)
  note r = inert_result [OF assms(1) this]
  show ?thesis
    by (rule in_balance_unmoved [OF assms(2) r(1) usage_of_cong limits_of_cong r(3)]) (simp_all add: r(2,4))
qed

lemma inert_getMetadata: "inert (getMetadata env mid v)"
proof (rule inertI)
  show "keeps (cached_rows Q) (getMetadata env mid v)" for Q
    unfolding getMetadata_def
    by (intro keeps_structure cached_rows_set; (rule cached_rows_frame; intro frame_intros)?; simp)
  show "frame s3 (getMetadata env mid v)"
    unfolding getMetadata_def frame_keeps
    by (intro allI keeps_structure; (rule frame_keeps_eq; intro frame_intros)?; simp)
qed (rule unmoved.stays_getMetadata)

lemma inert_reads:
  "inert (streamBlob env mid v ip ua)" "inert (streamThumbnail env mid v ip ua)" "inert (getThumbnail env mid v ip ua)"
  "inert (getUserQuota env v)" "inert (getUserMedia env v page limit)"
  unfolding streamBlob_def streamThumbnail_def getThumbnail_def storage_download_def generatePresignedUrl_def inc_downloads_def
    getUserQuota_def getUserMedia_def
  by (intro inertI unmoved.stays_frame cached_rows_frame frame_intros; simp)+

lemma inert_getBlob:
  assumes "acts_as env u"
  shows "inert (getBlob env mid v ip ua)"
proof (rule inertI)
  show "keeps (cached_rows Q) (getBlob env mid v ip ua)" for Q
    unfolding getBlob_def getOrGenerateSignedUrl_def regenerateSignedUrl_def generatePresignedUrl_def inc_downloads_def
    by (intro cached_rows_frame frame_intros; simp)
  show "frame s3 (getBlob env mid v ip ua)"
    unfolding getBlob_def getOrGenerateSignedUrl_def regenerateSignedUrl_def generatePresignedUrl_def inc_downloads_def
    by (intro frame_intros; simp)
qed (rule unmoved.stays_getBlob [OF assms TrueI])

lemma inert_share:
  assumes "acts_as env u"
  shows "inert (share env mid v us)"
proof (rule inertI)
  show "keeps (cached_rows Q) (share env mid v us)" for Q
    unfolding share_def
    by (intro keeps_structure cached_rows_del; (rule cached_rows_frame; intro frame_intros)?; simp)
  show "frame s3 (share env mid v us)"
    unfolding share_def by (intro frame_intros; simp)
qed (rule unmoved.stays_share [OF assms TrueI])

lemma inert_try_dedup:
  assumes "acts_as env u"
  shows "inert (try_dedup env key us)"
proof (rule inertI)
  show "keeps (cached_rows Q) (try_dedup env key us)" for Q
    unfolding try_dedup_def merge_readers_def
    by (intro keeps_structure cached_rows_del; (rule cached_rows_frame; intro frame_intros)?; simp)
  show "frame s3 (try_dedup env key us)"
    by (intro frame_intros; simp)
qed (rule unmoved.stays_try_dedup [OF assms TrueI])

section \<open>Deletes\<close>

lemma active_of_update:
  assumes "distinct (map m_id rows)" and "r \<in> set rows" and "m_isActive r"
  shows "(\<Sum>x\<leftarrow>active_of v (with_row (m_id r) (deactivated t) rows). m_blobSize x)
      = (\<Sum>x\<leftarrow>active_of v rows. m_blobSize x) - (if v = m_ownerId r then m_blobSize r else 0)"
    and "int (length (active_of v (with_row (m_id r) (deactivated t) rows)))
      = int (length (active_of v rows)) - (if v = m_ownerId r then 1 else 0)"
proof -
  obtain xs ys where rows: "rows = xs @ r # ys"
    using assms(2) by (meson split_list)
  have "with_row (m_id r) (deactivated t) zs = zs" if "m_id r \<notin> m_id ` set zs" for zs
    using that by (simp add: with_row_def) (rule update_where_none, metis imageI)
  moreover have "m_id r \<notin> m_id ` set xs" "m_id r \<notin> m_id ` set ys"
    using assms(1) by (auto simp: rows)
  ultimately have "with_row (m_id r) (deactivated t) rows = xs @ deactivated t r # ys"
    by (simp add: rows with_row_def update_where_def)
  then show "(\<Sum>x\<leftarrow>active_of v (with_row (m_id r) (deactivated t) rows). m_blobSize x)
      = (\<Sum>x\<leftarrow>active_of v rows. m_blobSize x) - (if v = m_ownerId r then m_blobSize r else 0)"
    and "int (length (active_of v (with_row (m_id r) (deactivated t) rows)))
      = int (length (active_of v rows)) - (if v = m_ownerId r then 1 else 0)"
    using assms(3) by (simp_all add: rows active_of_def deactivated_def)
qed

lemma quota_row_distinct:
  assumes "distinct (map q_userId rows)" and "q \<in> set rows"
  shows "quota_row rows (q_userId q) = Some q"
  using find_key_unique [OF assms, of "q_userId q" "\<lambda>_. True"] by (simp add: quota_row_def)

lemma books_rows_in_range:
  assumes "books w" and "q \<in> set (quota_tbl w)"
  shows "quota_in_range q"
proof -
  have "quota_row (quota_tbl w) (q_userId q) = Some q"
    using assms by (intro quota_row_distinct) (simp_all add: books_def)
  then have "usage_of w (q_userId q) = row_usage q" "limits_of w (q_userId q) = row_limits q"
    by (simp_all add: usage_of_def limits_of_def)
  moreover have "within (limits_of w (q_userId q)) (usage_of w (q_userId q))"
    "lim_storage (limits_of w (q_userId q)) \<le> INT8_MAX" "lim_files (limits_of w (q_userId q)) \<le> INT4_MAX"
    "lim_daily (limits_of w (q_userId q)) \<le> INT4_MAX"
    using assms(1) by (simp_all add: books_def quota_ok_def storable_limits_def)
  ultimately show ?thesis
    by (simp add: within_def row_usage_def row_limits_def quota_in_range_def INT8_MAX_def INT4_MAX_def)
qed

lemma row_ok_size: "row_ok r \<Longrightarrow> 0 \<le> m_blobSize r \<and> m_blobSize r \<le> MAX_SAFE_INTEGER"
  using order_trans [OF _ CONTEXT_SIZE_LIMITS_safe] by (auto simp: row_ok_iff)

lemma active_has_row:
  assumes "balanced w" and "r \<in> set (media_tbl w)" and "m_isActive r"
  shows "has_row (m_ownerId r) (quota_tbl w)"
proof (rule ccontr)
  assume "\<not> has_row (m_ownerId r) (quota_tbl w)"
  then have "u_files (usage_of w (m_ownerId r)) = 0"
    by (simp add: quota_row_None [symmetric] usage_of_def)
  moreover have "r \<in> set (active_of (m_ownerId r) (media_tbl w))"
    using assms(2,3) by (simp add: active_of_def)
  ultimately show False
    using assms(1) by (auto simp: balanced_def)
qed

lemma without_other_objects:
  assumes "rows_ok rows" and "r \<in> set rows" and "x \<in> set rows" and "m_id x \<noteq> m_id r" and "path \<in> set (objects_of x)"
  shows "without_objects r b path = b path"
proof -
  have "path \<notin> set (objects_of r)"
  proof
    assume "path \<in> set (objects_of r)"
    moreover have "row_ok r" "row_ok x"
      using assms(1-3) by (auto simp: rows_ok_def list_all_iff)
    ultimately show False
      using row_ok_objects same_path_same_object assms(4,5) by metis
  qed
  then show ?thesis
    by (auto simp: without_objects_def objects_of_def thumbnail_path_def split: option.splits if_splits)
qed

lemma deleted_in_balance:
  assumes "books w" and r: "r \<in> set (media_tbl w)" "m_isActive r" "m_ownerId r = u" and d: "deleted_state u r w w'"
  shows "in_balance w'"
proof -
  let ?n = "m_blobSize r"
  have b: "rows_ok (media_tbl w)" "storable_limits w" "quota_ok w" "balanced w" "backed w"
    using assms(1) by (simp_all add: books_def)
  have ids: "distinct (map m_id (media_tbl w))" "row_ok r"
    using b(1) r(1) by (auto simp: rows_ok_def list_all_iff)
  note n = row_ok_size [OF ids(2)]
  obtain t where t: "media_tbl w' = with_row (m_id r) (deactivated t) (media_tbl w)"
    and q: "quota_tbl w' = update_row u (release_row ?n) (quota_tbl w)" and s: "s3 w' = without_objects r (s3 w)"
    and c: "cache w' = (cache w)(meta_key (m_id r) := None, quota_cacheKey u := None)"
    using d by (auto simp: deleted_state_def)
  have row: "has_row u (quota_tbl w)"
    using active_has_row [OF b(4) r(1,2)] r(3) by simp
  note usage = accounts_update [OF q row, of "release ?n", simplified]
  have lim: "limits_of w' = limits_of w" and use: "usage_of w' = (usage_of w)(u := release ?n (usage_of w u))"
    using usage by simp_all
  have coh: "quota_coherent w'"
  proof -
    have "cache_kv.agrees (quota_truth (quota_tbl w)) ((cache w)(meta_key (m_id r) := None))"
      using b(3) by (auto simp: quota_ok_def quota_coherent_def cache_kv.agrees_def)
    then show ?thesis
      unfolding quota_coherent_def q c by (rule quota_coherent_update) simp
  qed
  have within: "within (limits_of w' v) (usage_of w' v)" for v
    using b(3) n unfolding lim use by (auto simp: quota_ok_def intro: within_release)
  have part: "?n \<le> (\<Sum>x\<leftarrow>active_of u (media_tbl w). m_blobSize x)" "1 \<le> length (active_of u (media_tbl w))"
  proof -
    have m: "r \<in> set (active_of u (media_tbl w))"
      using r by (simp add: active_of_def)
    moreover have "\<forall>x \<in> set (active_of u (media_tbl w)). 0 \<le> m_blobSize x"
      using b(1) row_ok_size by (auto simp: active_of_def rows_ok_def list_all_iff)
    ultimately show "?n \<le> (\<Sum>x\<leftarrow>active_of u (media_tbl w). m_blobSize x)"
      by (intro member_le_sum_list) auto
    show "1 \<le> length (active_of u (media_tbl w))"
      using m by (cases "active_of u (media_tbl w)") auto
  qed
  have bal: "balanced w'"
    unfolding balanced_def t use active_of_update [OF ids(1) r(1,2)]
    using b(4) part r(3) by (auto simp: balanced_def release_def)
  have "backed w'"
    unfolding backed_def t s
  proof (intro ballI impI)
    fix x path
    assume x: "x \<in> set (with_row (m_id r) (deactivated t) (media_tbl w))" "m_isActive x" "path \<in> set (objects_of x)"
    then have "x \<in> set (media_tbl w)" "m_id x \<noteq> m_id r"
      by (auto simp: with_row_def set_update_where deactivated_def)
    with x(2,3) without_other_objects [OF b(1) r(1)] b(5) show "without_objects r (s3 w) path \<noteq> None"
      by (simp add: backed_def)
  qed
  with coh within bal lim b(2) show ?thesis
    by (simp add: in_balance_def quota_ok_def storable_limits_def)
qed

lemma delete_in_balance:
  assumes "calm env" and "acts_as env u" and "books w"
  shows "in_balance (snd (delete_media env mid u ip ua w))"
proof (cases "owns_active w u mid")
  case True
  then obtain r where r: "r \<in> set (media_tbl w)" "m_id r = mid" "m_isActive r" "m_ownerId r = u"
    by (auto simp: owns_active_def)
  have "rows_ok (media_tbl w)" "balanced w"
    using assms(3) by (simp_all add: books_def)
  then have "distinct (map m_id (media_tbl w))" "row_ok r" "has_row u (quota_tbl w)"
    using r active_has_row [of w r] by (auto simp: rows_ok_def list_all_iff)
  with delete_calm [OF assms(1,2) _ r, of ip ua] row_ok_size [of r] books_rows_in_range [OF assms(3)]
  have "wp (delete_media env mid u ip ua) (\<lambda>_ w'. deleted_state u r w w') (\<lambda>_ _. False) w"
    by simp
  then have "wp (delete_media env mid u ip ua) (\<lambda>_. in_balance) (\<lambda>_. in_balance) w"
    by (rule wp_mono) (auto intro: deleted_in_balance [OF assms(3) r(1,3,4)])
  then show ?thesis
    by (simp add: wp_const)
next
  case False
  have "wp (delete_media env mid u ip ua) (\<lambda>_ w'. stores w' = stores w) (\<lambda>_ w'. stores w' = stores w) w"
    by (rule wp_mono [OF wp_not_owned(2) [OF False]]) auto
  then have same: "stores (snd (delete_media env mid u ip ua w)) = stores w"
    by (simp add: wp_const)
  then have "media_tbl (snd (delete_media env mid u ip ua w)) = media_tbl w"
      "quota_tbl (snd (delete_media env mid u ip ua w)) = quota_tbl w"
      "cache (snd (delete_media env mid u ip ua w)) = cache w" "s3 (snd (delete_media env mid u ip ua w)) = s3 w"
    by (simp_all add: stores_def)
  note same = this
  have "in_balance w" "quota_coherent w"
    using assms(3) by (simp_all add: books_iff in_balance_def quota_ok_def)
  moreover from this have "quota_coherent (snd (delete_media env mid u ip ua w))"
    using quota_coherent_cong [OF same(2,3)] by simp
  ultimately show ?thesis
    using same(1,4) by (intro in_balance_unmoved [OF _ _ usage_of_cong [OF same(2)] limits_of_cong [OF same(2)]]) auto
qed

section \<open>Uploads\<close>

lemma with_semaphore_any:
  assumes c: "\<And>w1 w2. core w1 = core w2 \<Longrightarrow> P w1 = P w2" and "P w"
    and m: "\<And>w1. core w1 = core w \<Longrightarrow> wp m (\<lambda>_. P) (\<lambda>_. P) w1"
  shows "wp (with_upload_semaphore env u k m) (\<lambda>_. P) (\<lambda>_. P) w"
proof -
  have fr: "frame core (acquireSemaphore env u)" "frame core (releaseSemaphore env u)" "frame core (refresh env u)"
    by (intro frame_intros; simp)+
  have kc: "keeps (\<lambda>w'. core w' = core v) a" if "frame core a" for a :: "'b io" and v
    using that by (simp add: frame_def keeps_def)
  have same: "P w1 \<Longrightarrow> core w2 = core w1 \<Longrightarrow> P w2" for w1 w2
    using c by metis
  have rel: "wp (releaseSemaphore env u) (\<lambda>_. P) (\<lambda>_. P) w1" if "P w1" for w1
    by (rule keeps_wp_const [OF kc [OF fr(2), of w1] refl]) (rule same [OF that], assumption)+
  have body: "wp (finallyE m (ret ())) (\<lambda>_. P) (\<lambda>_. P) w1" if "core w1 = core w" for w1
    unfolding wp_finallyE wp_ret by (rule m [OF that])
  have runs: "wp (runWithSemaphoreTtlRefresh env u k m) (\<lambda>_. P) (\<lambda>_. P) w1" if w1: "core w1 = core w" for w1
  proof -
    have loop: "keeps (\<lambda>w'. core w' = core w) (for_each [0..<k] (\<lambda>_. refresh env u))"
      by (intro keeps_for_each kc fr)
    show ?thesis
      unfolding runWithSemaphoreTtlRefresh_def wp_bindE
      by (rule keeps_wp_const [OF loop w1]) (rule body same [OF assms(2)], assumption)+
  qed
  have whole: "wp (finallyE (runWithSemaphoreTtlRefresh env u k m) (releaseSemaphore env u)) (\<lambda>_. P) (\<lambda>_. P) w1"
    if "core w1 = core w" for w1
    unfolding wp_finallyE by (rule wp_mono [OF runs [OF that]]) (rule rel, assumption)+
  show ?thesis
    unfolding with_upload_semaphore_def wp_bindE
    by (rule keeps_wp_const [OF kc [OF fr(1), of w] refl]) (rule whole same [OF assms(2)], assumption)+
qed

text \<open>The pre-upload check, whatever it answers.\<close>

lemma wp_enforceQuota_admitted:
  assumes "calm env" and "acts_as env u" and "quota_coherent w"
  shows "wp (enforceQuota env u n)
     (\<lambda>_ w'. 0 \<le> n \<and> n \<le> MAX_SAFE_INTEGER \<and> admits (limits_of w u) (usage_of w u) n \<and> has_row u (quota_tbl w')
        \<and> usage_of w' = usage_of w \<and> limits_of w' = limits_of w \<and> quota_coherent w')
     (\<lambda>_ w'. usage_of w' = usage_of w \<and> limits_of w' = limits_of w \<and> quota_coherent w') w"
proof (cases "0 \<le> n \<and> n \<le> MAX_SAFE_INTEGER")
  case True
  have row: "has_row u (quota_tbl w')" if "quota_read u q (quota_tbl w) (quota_tbl w')" for q w'
    using quota_read_row [OF that] quota_row_None [of "quota_tbl w'" u] by simp
  show ?thesis
    using True
    by (simp add: enforceQuota_def checkQuota_def wp_bindE wp_validateBlobSize wp_pf)
      (rule wp_mono [OF getOrCreateQuota_calm [OF assms]],
        auto simp: wp_pf quota_decision_admits quota_read_accounts row)
next
  case False
  then show ?thesis
    using assms(3) by (auto simp: enforceQuota_def checkQuota_def wp_bindE wp_validateBlobSize)
qed

interpretation one_quota: table_guarantee "\<lambda>_. True" "\<lambda>u t. distinct (map q_userId (snd t))" "\<lambda>_. True"
proof
  fix env :: env and f :: "media \<Rightarrow> media" and u mid
  show "keeps (\<lambda>w. distinct (map q_userId (snd (tables_of w))) \<and> guc w = Some u) (update_media env mid f)"
    unfolding update_media_def by (intro keeps_ext) (auto simp: keeps_def modify_def tables_of_def)
next
  fix env :: env and m u
  show "keeps (\<lambda>w. distinct (map q_userId (snd (tables_of w))) \<and> guc w = Some u) (save env m)"
    unfolding save_def by (intro keeps_ext) (auto simp: keeps_def tables_of_def)
next
  fix env :: env and g :: "user_quota \<Rightarrow> user_quota" and u v
  assume "\<And>q. q_userId (g q) = q_userId q"
  then have "map q_userId (update_where p g rows) = map q_userId rows" for p rows
    by (simp add: update_where_def)
  then show "keeps (\<lambda>w. distinct (map q_userId (snd (tables_of w))) \<and> guc w = Some u) (update_quota env v g)"
    unfolding update_quota_def by (intro keeps_ext) (auto simp: keeps_def tables_of_def Let_def)
next
  fix env :: env and mk u
  show "keeps (\<lambda>w. distinct (map q_userId (snd (tables_of w))) \<and> guc w = Some u) (insert_quota_or_ignore env mk)"
    unfolding insert_quota_or_ignore_def by (intro keeps_ext) (auto simp: keeps_def tables_of_def Let_def)
qed simp_all

text \<open>Where an upload stands when its checks are passed.\<close>

definition checked :: "world \<Rightarrow> uuid \<Rightarrow> int \<Rightarrow> world \<Rightarrow> bool" where
  "checked w u n w' \<longleftrightarrow> 0 \<le> n \<and> n \<le> MAX_SAFE_INTEGER \<and> admits (limits_of w u) (usage_of w u) n \<and> has_row u (quota_tbl w')"

definition unmoved_since :: "world \<Rightarrow> world \<Rightarrow> bool" where
  "unmoved_since w w' \<longleftrightarrow> map entry (media_tbl w') = map entry (media_tbl w) \<and> usage_of w' = usage_of w
     \<and> limits_of w' = limits_of w \<and> quota_coherent w' \<and> (\<forall>path. s3 w path \<noteq> None \<longrightarrow> s3 w' path \<noteq> None)"

lemma unmoved_in_balance: "in_balance w \<Longrightarrow> unmoved_since w w' \<Longrightarrow> in_balance w'"
  unfolding unmoved_since_def by (elim conjE, rule in_balance_unmoved [of w]) blast+

lemma wp_check_upload_books:
  assumes "calm env" and "acts_as env u" and "quota_coherent w"
  shows "wp (check_upload env u fl ctx)
     (\<lambda>_ w'. checked w u (f_size fl) w' \<and> unmoved_since w w') (\<lambda>_ w'. unmoved_since w w') w"
proof -
  have fst: "frame stores (authorizeGroupIconUpload env ctx u)"
    by (rule frame_authorizeGroupIconUpload) simp
  have rest: "keeps (\<lambda>w'. stores w' = S) (bindE (from_result (enforceContextSizeLimit (f_size fl) ctx)) (\<lambda>_.
     bindE (from_result (validateMagicBytes (blob_buffer fl) (f_mimetype fl))) (\<lambda>_.
     bindE (from_result (check_allowlist fl ctx)) (\<lambda>_.
     bindE (from_result (checkImageDimensions env (blob_buffer fl) (f_mimetype fl))) (\<lambda>_.
     bindE (from_result (checkPdfJavaScript (blob_buffer fl) (f_mimetype fl))) (\<lambda>_.
     checkClamAv env (blob_buffer fl)))))))" for S
    by (intro keeps_structure; (rule frame_keeps_eq; intro frame_intros)?; simp)
  have same: "usage_of w2 = usage_of w1" "limits_of w2 = limits_of w1" "quota_coherent w2 = quota_coherent w1"
    "has_row u (quota_tbl w2) = has_row u (quota_tbl w1)" "media_tbl w2 = media_tbl w1" "s3 w2 = s3 w1"
    if "stores w2 = stores w1" for w1 w2
    using that usage_of_cong [of w2 w1] limits_of_cong [of w2 w1] quota_coherent_cong [of w2 w1] by (simp_all add: stores_def)
  have fr: "frame (\<lambda>w. (media_tbl w, s3 w)) (enforceQuota env u n)" for n
  proof -
    have "frame media_tbl (enforceQuota env u n)" "frame s3 (enforceQuota env u n)"
      by (intro frame_intros; simp)+
    then show ?thesis by (simp add: frame_def)
  qed
  have enforce: "wp (enforceQuota env u n)
     (\<lambda>_ w'. checked w u n w' \<and> unmoved_since w w') (\<lambda>_ w'. unmoved_since w w') w1" if "stores w1 = stores w" for w1 n
  proof -
    have "wp (enforceQuota env u n) (\<lambda>_ w'. (media_tbl w', s3 w') = (media_tbl w1, s3 w1))
        (\<lambda>_ w'. (media_tbl w', s3 w') = (media_tbl w1, s3 w1)) w1"
      using fr by (simp add: wp_const frame_def)
    from wp_conj [OF wp_enforceQuota_admitted [OF assms(1,2)] this] assms(3) same [OF that] show ?thesis
      by (auto simp: checked_def unmoved_since_def elim!: wp_mono)
  qed
  have after: "checked w u n w2 \<and> unmoved_since w w2" if "checked w u n w1 \<and> unmoved_since w w1" "stores w2 = stores w1" for w1 w2 n
    using that same [OF that(2)] by (auto simp: checked_def unmoved_since_def)
  have kst: "keeps (\<lambda>w'. stores w' = stores w) (authorizeGroupIconUpload env ctx u)"
    by (rule frame_keeps_eq [OF fst])
  have un: "unmoved_since w w1" if "stores w1 = stores w" for w1
    using same [OF that] assms(3) by (simp add: unmoved_since_def)
  let ?rest = "wp (bindE (from_result (enforceContextSizeLimit (f_size fl) ctx)) (\<lambda>_.
     bindE (from_result (validateMagicBytes (blob_buffer fl) (f_mimetype fl))) (\<lambda>_.
     bindE (from_result (check_allowlist fl ctx)) (\<lambda>_.
     bindE (from_result (checkImageDimensions env (blob_buffer fl) (f_mimetype fl))) (\<lambda>_.
     bindE (from_result (checkPdfJavaScript (blob_buffer fl) (f_mimetype fl))) (\<lambda>_.
     checkClamAv env (blob_buffer fl)))))))
     (\<lambda>_ w'. checked w u (f_size fl) w' \<and> unmoved_since w w') (\<lambda>_ w'. unmoved_since w w')"
  show ?thesis
    unfolding check_upload_def wp_bindE [of "authorizeGroupIconUpload env ctx u"] wp_bindE [of "enforceQuota env u (f_size fl)"]
  proof (rule keeps_wp_const [OF kst refl])
    fix x :: unit and w1
    assume w1: "stores w1 = stores w"
    show "wp (enforceQuota env u (f_size fl)) (\<lambda>_. ?rest) (\<lambda>_ w'. unmoved_since w w') w1"
    proof (rule wp_mono [OF enforce [OF w1]])
      fix y :: unit and w2
      assume w2: "checked w u (f_size fl) w2 \<and> unmoved_since w w2"
      show "?rest w2"
        by (rule keeps_wp_const [OF rest refl]) (drule after [OF w2], blast)+
    qed
  qed (rule un)
qed

lemma unmoved_inert:
  assumes "inert m" and "unmoved_since w w1"
  shows "unmoved_since w (snd (m w1))" and "quota_tbl (snd (m w1)) = quota_tbl w1"
proof -
  have "quota_coherent w1"
    using assms(2) by (simp add: unmoved_since_def)
  note r = inert_result [OF assms(1) this]
  from r(2) show "quota_tbl (snd (m w1)) = quota_tbl w1" .
  show "unmoved_since w (snd (m w1))"
    using assms(2) r(1,3,4) usage_of_cong [OF r(2)] limits_of_cong [OF r(2)] by (simp add: unmoved_since_def)
qed

lemma unmoved_views:
  "unmoved_since w w1 \<Longrightarrow> usage_of w2 = usage_of w1 \<Longrightarrow> limits_of w2 = limits_of w1 \<Longrightarrow> quota_coherent w2 = quota_coherent w1 \<Longrightarrow>
   media_tbl w2 = media_tbl w1 \<Longrightarrow> (\<And>path. s3 w1 path \<noteq> None \<Longrightarrow> s3 w2 path \<noteq> None) \<Longrightarrow> unmoved_since w w2"
  unfolding unmoved_since_def by metis

text \<open>A stored upload enters the books on both sides.\<close>

lemma with_objects_grows: "b path \<noteq> None \<Longrightarrow> with_objects row fl tf b path \<noteq> None"
  by (auto simp: with_objects_def Let_def split: option.splits)

lemma stored_in_balance:
  assumes "in_balance w" and a: "admits (limits_of w u) (usage_of w u) (f_size fl)" "0 \<le> f_size fl"
    and "stored_new env u fl ctx tf us key w resp w'"
  shows "in_balance w'"
proof -
  obtain row where row: "row_for env u fl ctx tf us row" and t: "media_tbl w' = media_tbl w @ [row]"
    and s: "s3 w' = with_objects row fl tf (s3 w)" and c: "quota_coherent w'" and l: "limits_of w' = limits_of w"
    and x: "usage_of w' = (usage_of w)(u := charge (f_size fl) (usage_of w u))"
    using assms(4) by (auto simp: stored_new_def)
  have r: "m_ownerId row = u" "m_isActive row" "m_blobSize row = f_size fl"
    "m_thumbnailPath row = None \<longleftrightarrow> tf = None"
    using row by (auto simp: row_for_def new_media_def thumb_path_def)
  have objs: "with_objects row fl tf (s3 w) path \<noteq> None" if "path \<in> set (objects_of row)" for path
    using that r(4) by (auto simp: objects_of_def with_objects_def Let_def split: option.splits)
  have "backed w'"
    using assms(1) objs with_objects_grows unfolding in_balance_def backed_def t s by (auto simp del: not_None_eq)
  moreover have "balanced w'"
    using assms(1) r unfolding in_balance_def balanced_def t x by (auto simp: active_of_def charge_def)
  moreover have "within (limits_of w' v) (usage_of w' v)" for v
    using assms(1) a unfolding l x by (auto simp: in_balance_def quota_ok_def intro: within_charge)
  ultimately show ?thesis
    using assms(1) c l by (simp add: in_balance_def quota_ok_def storable_limits_def)
qed

lemma charge_in_range_admitted:
  assumes "in_balance w" and "distinct (map q_userId (quota_tbl w'))" and "has_row u (quota_tbl w')"
    and "usage_of w' = usage_of w" and "limits_of w' = limits_of w"
    and "admits (limits_of w u) (usage_of w u) n" and "0 \<le> n"
  shows "\<forall>q \<in> set (quota_tbl w'). q_userId q = u \<longrightarrow> quota_in_range (charge_row n q)"
proof -
  obtain q where q: "quota_row (quota_tbl w') u = Some q"
    using assms(3) quota_row_None [of "quota_tbl w'" u] by (cases "quota_row (quota_tbl w') u") auto
  then have "row_usage q = usage_of w u" "row_limits q = limits_of w u"
    using assms(4,5) by (simp_all add: usage_of_def limits_of_def fun_eq_iff) (metis option.simps(5))+
  with q show ?thesis
    using assms(1,2,6,7)
    by (intro roomy_row_in_range [of _ u q "usage_of w u" "limits_of w u"])
      (simp_all add: in_balance_def quota_ok_def storable_limits_def)
qed

lemma wp_store_new_books:
  assumes "calm env" and "acts_as env u" and "in_balance w" and un: "unmoved_since w w1"
    and n: "checked w u (f_size fl) w1" and d: "distinct (map q_userId (quota_tbl w1))" and f: "fresh_ids env w"
    and k: "\<And>v. key \<noteq> quota_cacheKey v"
  shows "wp (store_new env key u fl ctx tf us) (\<lambda>_. in_balance) (\<lambda>_. in_balance) w1"
proof -
  have bal: "in_balance w1"
    using unmoved_in_balance [OF assms(3) un] .
  have same: "usage_of w1 = usage_of w" "limits_of w1 = limits_of w" "quota_coherent w1"
    using un by (simp_all add: unmoved_since_def)
  have "m_id ` set (media_tbl w1) = m_id ` set (media_tbl w)"
  proof -
    have "map (fst \<circ> entry) (media_tbl w1) = map (fst \<circ> entry) (media_tbl w)"
      using un by (simp add: unmoved_since_def flip: map_map)
    then show ?thesis
      by (metis (no_types, lifting) comp_apply entry_def fst_conv image_cong list.set_map)
  qed
  then have f1: "fresh_ids env w1"
    using f by (simp add: fresh_ids_def)
  have mid: "UUID_PATTERN (uuid_at env (uuids_used w1))"
    using f by (simp add: fresh_ids_def)
  have grown: "in_balance (w2\<lparr>s3 := b\<rparr>)" if "in_balance w2" "\<And>path. s3 w2 path \<noteq> None \<Longrightarrow> b path \<noteq> None" for w2 b
    using that by (intro in_balance_unmoved [OF that(1)]) (auto simp: in_balance_def quota_ok_def)
  show ?thesis
  proof (cases "UUID_PATTERN u")
    case False
    then obtain e where e: "buildPath (contextToStorageContext ctx) u (uuid_at env (uuids_used w1)) = Inl e"
      using buildPath_Inr_context by (cases "buildPath (contextToStorageContext ctx) u (uuid_at env (uuids_used w1))") auto
    have "in_balance (w1\<lparr>uuids_used := m\<rparr>)" for m
      by (rule in_balance_unmoved [OF bal]) (use bal in \<open>auto simp: in_balance_def quota_ok_def\<close>)
    then show ?thesis
      by (simp add: store_new_def wp_bindE wp_randomUUID wp_from_result e)
  next
    case u: True
    show ?thesis
    proof (cases "thumb_ok tf")
      case True
      have r: "\<forall>q \<in> set (quota_tbl w1). q_userId q = u \<longrightarrow> quota_in_range (charge_row (f_size fl) q)"
        by (rule charge_in_range_admitted [OF assms(3) d _ same(1,2)]) (use n in \<open>simp_all add: checked_def\<close>)
      have "wp (store_new env key u fl ctx tf us) (stored_new env u fl ctx tf us key w1) (\<lambda>_ _. False) w1"
        using n by (intro store_new_calm [OF assms(1,2) same(3) _ _ _ r k u f1 True]) (simp_all add: checked_def)
      then show ?thesis
        by (rule wp_mono) (use stored_in_balance [OF bal] n same in \<open>auto simp: checked_def\<close>)
    next
      case False
      then obtain th e where th: "tf = Some th" "check_thumbnail th = Inl e"
        by (cases tf; cases "check_thumbnail (the tf)") (auto simp: thumb_ok_def)
      have "in_balance (w2\<lparr>s3 := (s3 w1)(p := Some ob)\<rparr>)" if "w2 = tick (w1\<lparr>uuids_used := m\<rparr>)" for w2 m p ob
        by (rule in_balance_unmoved [OF bal]) (use bal that in \<open>auto simp: in_balance_def quota_ok_def\<close>)
      then show ?thesis
        by (simp add: store_new_def wp_bindE wp_randomUUID wp_from_result wp_pf buildPath_object [OF u mid]
            storage_upload_def wp_calm assms(1) upload_thumbnail_def th)
    qed
  qed
qed

lemma wp_upload_work_books:
  assumes "calm env" and "acts_as env u" and "in_balance w" and "distinct (map q_userId (quota_tbl w))" and f: "fresh_ids env w"
  shows "wp (upload_work env u fl ctx tf us) (\<lambda>_. in_balance) (\<lambda>_. in_balance) w"
proof -
  let ?key = "dedup_key u ctx (sha256_hex env (blob_buffer fl))"
  have coh: "quota_coherent w"
    using assms(3) by (simp add: in_balance_def quota_ok_def)
  have stays: "one_quota.stays u (check_upload env u fl ctx)"
    unfolding check_upload_def enforceQuota_def checkQuota_def
    by (intro keeps_structure one_quota.stays_getOrCreateQuota [OF assms(2) TrueI];
      (rule one_quota.stays_frame; intro frame_intros)?; simp)
  have "wp (check_upload env u fl ctx) (\<lambda>_ w'. distinct (map q_userId (quota_tbl w')))
      (\<lambda>_ w'. distinct (map q_userId (quota_tbl w'))) w"
    by (rule keeps_wp_const [OF stays]) (simp_all add: tables_of_def assms(4))
  note check = wp_conj [OF wp_check_upload_books [OF assms(1,2) coh] this]
  have dedup: "wp (try_dedup env ?key us) (\<lambda>_ w2. unmoved_since w w2 \<and> quota_tbl w2 = quota_tbl w1)
      (\<lambda>_ w2. unmoved_since w w2 \<and> quota_tbl w2 = quota_tbl w1) w1" if "unmoved_since w w1" for w1
    using unmoved_inert [OF inert_try_dedup [OF assms(2)] that] by (simp add: wp_const)
  have store: "wp (store_new env ?key u fl ctx tf us) (\<lambda>_. in_balance) (\<lambda>_. in_balance) w2"
    if "checked w u (f_size fl) w1" "distinct (map q_userId (quota_tbl w1))" "unmoved_since w w2" "quota_tbl w2 = quota_tbl w1" for w1 w2
    by (rule wp_store_new_books [OF assms(1-3) that(3) _ _ f]) (use that in \<open>simp_all add: checked_def\<close>)
  have tail: "wp (bindE (try_dedup env ?key us) (\<lambda>hit. case hit of Some resp \<Rightarrow> ret resp | None \<Rightarrow> store_new env ?key u fl ctx tf us))
      (\<lambda>_. in_balance) (\<lambda>_. in_balance) w1"
    if "checked w u (f_size fl) w1" "distinct (map q_userId (quota_tbl w1))" "unmoved_since w w1" for w1
    unfolding wp_bindE
    by (rule wp_mono [OF dedup [OF that(3)]])
      (use store [OF that(1,2)] unmoved_in_balance [OF assms(3)] in \<open>auto simp: wp_ret split: option.split\<close>)
  show ?thesis
    unfolding upload_work_def Let_def wp_bindE [of "check_upload env u fl ctx"]
    by (rule wp_mono [OF check]) (use tail unmoved_in_balance [OF assms(3)] in auto)
qed

lemma upload_in_balance:
  assumes "calm env" and "acts_as env u" and b: "in_balance w" "distinct (map q_userId (quota_tbl w))" and "fresh_ids env w"
  shows "in_balance (snd (upload env firings u fl ctx tf us w))"
proof -
  have core: "in_balance w1 = in_balance w2" if "core w1 = core w2" for w1 w2
  proof -
    have "in_balance w2'" if "in_balance w1'" "core w1' = core w2'" for w1' w2'
      using core_eqD [OF that(2)] that(1)
      by (intro in_balance_unmoved [OF that(1)]) (auto simp: in_balance_def quota_ok_def intro: usage_of_cong limits_of_cong
          intro!: iffD1 [OF quota_coherent_cong [of w1' w2']])
    then show ?thesis
      using that by metis
  qed
  have "wp (upload_work env u fl ctx tf us) (\<lambda>_. in_balance) (\<lambda>_. in_balance) w1" if c: "core w1 = core w" for w1
    by (rule wp_upload_work_books [OF assms(1,2)])
      (use b core [OF c] core_eqD [OF c] assms(5) in \<open>simp_all add: fresh_ids_def\<close>)
  from with_semaphore_any [of in_balance w, OF core b(1) this] show ?thesis
    by (simp add: upload_def wp_const)
qed

section \<open>Every request\<close>

lemma inert_bindE: "inert m \<Longrightarrow> (\<And>x. inert (k x)) \<Longrightarrow> inert (bindE m k)"
  unfolding inert_def by (intro conjI allI keeps_bindE frame_bindE) blast+

lemma inert_simple: "inert (ret x)" "inert (throw e)"
  unfolding inert_def by (intro conjI allI keeps_ret keeps_throw; simp add: frame_def ret_def throw_def)+

lemma inert_if: "(c \<Longrightarrow> inert m) \<Longrightarrow> (\<not> c \<Longrightarrow> inert n) \<Longrightarrow> inert (if c then m else n)"
  by simp

lemmas inert_intros = inert_bindE inert_if inert_simple inert_reads inert_getMetadata

lemma inert_enforceE2EE: "inert (enforceE2EEContentType env conv ty)"
proof (rule inertI)
  show "keeps (cached_rows Q) (enforceE2EEContentType env conv ty)" for Q
    unfolding enforceE2EEContentType_def isConversationE2EE_def
    by (intro keeps_structure cached_rows_set; (rule cached_rows_frame; intro frame_intros)?; simp)
  show "frame s3 (enforceE2EEContentType env conv ty)"
    unfolding enforceE2EEContentType_def isConversationE2EE_def by (intro frame_intros; simp)
next
  fix E Q
  show "keeps (\<lambda>w. map entry (fst (tables_of w)) = E \<and> snd (tables_of w) = Q) (enforceE2EEContentType env conv ty)"
    unfolding enforceE2EEContentType_def isConversationE2EE_def
    by (rule unmoved.stays_frame, intro frame_intros; simp)
qed

lemma in_balance_returning: "in_balance (snd (m w)) \<Longrightarrow> in_balance (snd (bindE m (\<lambda>x. ret (f x)) w))"
  by (cases "m w"; cases "fst (m w)") (auto simp: bindE_def ret_def)

lemma frame_media_e2ee: "frame media_tbl (enforceE2EEContentType env conv ty)"
  unfolding enforceE2EEContentType_def isConversationE2EE_def by (intro frame_intros; simp)

lemma upload_request_in_balance:
  assumes "calm env" and "acts_as env u" and b: "in_balance w" "distinct (map q_userId (quota_tbl w))" and f: "fresh_ids env w"
    and u: "rq_userId req = Some u"
  shows "in_balance (snd (upload_request env firings req files dto w))"
proof -
  have coh: "quota_coherent w"
    using b(1) by (simp add: in_balance_def quota_ok_def)
  have up: "wp (upload env firings u fl ctx tf us) (\<lambda>_. in_balance) (\<lambda>_. in_balance) w1"
    if "in_balance w1" "quota_tbl w1 = quota_tbl w" "media_tbl w1 = media_tbl w" for w1 fl ctx tf us
    using upload_in_balance [OF assms(1,2) that(1), of firings fl ctx tf us] b(2) f that(2,3)
    by (simp add: wp_const fresh_ids_def)
  have e2ee: "wp (enforceE2EEContentType env c ty) (\<lambda>_ w1. in_balance w1 \<and> quota_tbl w1 = quota_tbl w \<and> media_tbl w1 = media_tbl w)
      (\<lambda>_ w1. in_balance w1 \<and> quota_tbl w1 = quota_tbl w \<and> media_tbl w1 = media_tbl w) w" for c ty
    using inert_in_balance [OF inert_enforceE2EE b(1)] inert_result(2) [OF inert_enforceE2EE coh] frame_media_e2ee
    by (simp add: wp_const frame_def)
  have "wp (upload_request env firings req files dto) (\<lambda>_. in_balance) (\<lambda>_. in_balance) w"
    using u b(1)
    by (auto simp: upload_request_def with_user_def Let_def wp_bindE wp_throw wp_ret split: option.split
        intro!: up wp_mono [OF e2ee])
  then show ?thesis
    by (simp add: wp_const)
qed

lemma handler_in_balance:
  assumes "calm env" and "acts_as env u" and "books w" and f: "fresh_ids env w" and u: "rq_userId req = Some u"
  shows "in_balance (snd (route_handler env req route w))"
proof -
  have b: "in_balance w" "distinct (map q_userId (quota_tbl w))"
    using assms(3) by (simp_all add: books_iff)
  show ?thesis
  proof (cases route)
    case (RUpload n files dto)
    then show ?thesis
      using upload_request_in_balance [OF assms(1,2) b f u] by (auto intro: in_balance_returning)
  next
    case (RDelete mid)
    then show ?thesis
      using delete_in_balance [OF assms(1-3)] u b(1)
      by (auto simp: delete_request_def with_user_def throw_def intro!: in_balance_returning)
  next
    case (RShare mid us)
    have "inert (share_request env mid req us)"
      unfolding share_request_def with_user_def by (intro inert_intros inert_share [OF assms(2)])
    then show ?thesis
      unfolding RShare route_handler.simps by (intro in_balance_returning inert_in_balance b)
  next
    case (RBlob mid stream)
    have "inert (get_blob_request env mid stream req)"
      unfolding get_blob_request_def with_user_def Let_def
      by (intro inert_intros inert_getBlob [OF assms(2)]) (simp add: inert_simple split: prod.split)
    then show ?thesis
      unfolding RBlob route_handler.simps by (intro in_balance_returning inert_in_balance b)
  next
    case (RThumbnail mid stream)
    have "inert (get_thumbnail_request env mid stream req)"
      unfolding get_thumbnail_request_def with_user_def Let_def
      by (intro inert_intros) (simp add: inert_simple split: option.split)
    then show ?thesis
      unfolding RThumbnail route_handler.simps by (intro in_balance_returning inert_in_balance b)
  next
    case (RMetadata mid)
    have "inert (get_metadata_request env mid req)"
      unfolding get_metadata_request_def with_user_def by (intro inert_intros)
    then show ?thesis
      unfolding RMetadata route_handler.simps by (intro in_balance_returning inert_in_balance b)
  qed (auto simp: get_quota_request_def get_my_media_request_def intro!: in_balance_returning inert_in_balance inert_reads b)
qed

lemma serve_books:
  assumes "calm env" and "books w" and "fresh_ids env w"
  shows "books (snd (serve env jenv jwks verify req route w))"
proof -
  have rows: "rows_ok (media_tbl w)" "distinct (map q_userId (quota_tbl w))" "in_balance w"
    using assms(2) by (simp_all add: books_iff)
  have books1: "books w1" "fresh_ids env w1" if "same_db w w1" for w1
    using that assms(2,3) usage_of_cong [OF same_dbD(2)] limits_of_cong [OF same_dbD(2)]
      quota_coherent_cong [OF same_dbD(2,4)]
    by (simp_all add: books_def storable_limits_def quota_ok_def balanced_def backed_def fresh_ids_def same_dbD)
  have "wp (serve env jenv jwks verify req route) (\<lambda>_. in_balance) (\<lambda>_. in_balance) w"
    unfolding serve_def wp_bindE
  proof (rule wp_mono [OF wp_canActivate])
    fix e w1
    assume "same_db w w1 \<and> http_status e \<in> {401, 500}"
    then show "in_balance w1"
      using books1 by (simp add: books_iff)
  next
    fix res w1
    assume *: "same_db w w1 \<and> (\<exists>p au. res = Some au \<and> presents env jenv jwks verify w req p \<and> identified p au
         \<and> unrevoked env w au)"
    then obtain p au where au: "res = Some au" "identified p au" by blast
    then have "au_userId au \<noteq> []"
      by (auto simp: identified_def)
    then have "acts_as (rls_intercept (Some (au_userId au)) env) (au_userId au)"
      by (simp add: acts_as_def rls_intercept_def truthy_def)
    moreover have "calm (rls_intercept (Some (au_userId au)) env)" "fresh_ids (rls_intercept (Some (au_userId au)) env) w1"
      using assms(1) books1(2) [OF conjunct1 [OF *]] by (simp_all add: calm_def fresh_ids_def rls_intercept_def)
    ultimately show "wp (let req' = attach_user res req in route_handler (rls_intercept (rq_userId req') env) req' route)
        (\<lambda>_. in_balance) (\<lambda>_. in_balance) w1"
      using handler_in_balance [of _ "au_userId au" w1 "attach_user res req" route] books1(1) * au(1)
      by (simp add: Let_def wp_const attach_user_def)
  qed
  then have "in_balance (snd (serve env jenv jwks verify req route w))"
    by (simp add: wp_const)
  moreover have "distinct (map q_userId (quota_tbl (snd (serve env jenv jwks verify req route w))))"
    using one_quota.stays_serve [of env jenv jwks verify w req route] rows(2) by (auto simp: tables_of_def)
  ultimately show ?thesis
    using rows_ok_serve [OF rows(1)] by (simp add: books_iff)
qed

lemma midnight_books:
  assumes "calm env" and "books w"
  shows "books (snd (resetDailyUploads env w))"
proof -
  obtain r w' where run: "resetDailyUploads env w = (r, w')"
    by (cases "resetDailyUploads env w")
  have fr: "frame media_tbl (resetDailyUploads env)" "frame s3 (resetDailyUploads env)"
    unfolding resetDailyUploads_def by (intro frame_intros; simp)+
  have same: "media_tbl w' = media_tbl w" "s3 w' = s3 w"
    using frameD [OF fr(1) run] frameD [OF fr(2) run] .
  have t: "quota_tbl w' = map (reset_row (current_date env (tick w))) (quota_tbl w)"
    using resetDailyUploads_calm [OF assms(1), of w] run by (cases r; simp add: wp_def)
  note rows = resetDailyUploads_rows [OF assms(1) run]
  have "u_files (usage_of w' u) = u_files (usage_of w u)" for u
    using rows [of u] by (auto simp: usage_of_def row_usage_def reset_row_def split: option.split)
  moreover have "limits_of w' = limits_of w" "quota_coherent w'" "u_storage (usage_of w' u) = u_storage (usage_of w u)" for u
    using rows assms(2) by (auto simp: books_def quota_ok_def)
  moreover have "within (limits_of w' u) (usage_of w' u)" for u
    using reset_within [OF assms(1) run] assms(2) by (simp add: books_def quota_ok_def)
  moreover have "distinct (map q_userId (quota_tbl w'))"
    using assms(2) by (simp add: t books_def comp_def)
  ultimately show ?thesis
    using assms(2) unfolding run by (simp add: books_def quota_ok_def storable_limits_def balanced_def backed_def same)
qed

section \<open>Histories\<close>

text \<open>Requests of anybody, of any kind, and midnight resets, none of them disturbed by a failure of the
  database, the cache, the bucket or Redis; each has its own clock, replies, tokens and identifiers, and
  the identifiers it draws are not yet in use.\<close>

inductive undisturbed :: "world \<Rightarrow> world \<Rightarrow> bool" where
  request: "undisturbed w (snd (serve env jenv jwks verify req route w))" if "calm env" and "fresh_ids env w"
| midnight: "undisturbed w (snd (resetDailyUploads env w))" if "calm env"

interpretation bookkeeping: kept_by_steps undisturbed books
  by unfold_locales (auto elim!: undisturbed.cases intro: serve_books midnight_books)

text \<open>C4. Over any undisturbed history, requests of all kinds and users mixed, the storage and the number
  of files that a user is charged for are exactly the sizes and the number of the user's active rows,
  within the user's limits, and every active row has its blob, and its thumbnail if it names one, in the bucket.\<close>

theorem usage_is_what_is_stored:
  assumes "undisturbed\<^sup>*\<^sup>* w w'" and "books w"
  shows "u_storage (usage_of w' u) = (\<Sum>r\<leftarrow>active_of u (media_tbl w'). m_blobSize r)
     \<and> u_files (usage_of w' u) = int (length (active_of u (media_tbl w')))
     \<and> within (limits_of w' u) (usage_of w' u)
     \<and> (\<forall>r \<in> set (active_of u (media_tbl w')). \<forall>path \<in> set (objects_of r). \<exists>ob. s3 w' path = Some ob)"
  using bookkeeping.history_ok [OF assms]
  by (auto simp: books_def balanced_def backed_def quota_ok_def active_of_def)

section \<open>A history\<close>

definition booking_env :: env where
  "booking_env = sample_env\<lparr>uuid_at := (\<lambda>_. sample_uuid 5)\<rparr>"

definition booked_world :: world where
  "booked_world = empty_world\<lparr>media_tbl := [stored_avatar alice (sample_uuid 1), stored_avatar alice (sample_uuid 2)],
     quota_tbl := [(sample_quota alice)\<lparr>q_storageUsed := 1400, q_storageLimit := 2000, q_filesCount := 2\<rparr>],
     s3 := (\<lambda>_. Some \<lparr>o_body = [1, 2, 3], o_contentType = ''image/png''\<rparr>)\<rparr>"

lemma booked_world_books: "books booked_world"
proof -
  have "rows_ok (media_tbl booked_world)"
    by code_simp
  then show ?thesis
    by (simp add: books_def storable_limits_def quota_ok_def quota_coherent_def cache_kv.agrees_def balanced_def backed_def within_def
        limits_of_def usage_of_def quota_row_def active_of_def booked_world_def empty_world_def stored_avatar_def sample_media_def
        sample_quota_def row_usage_def row_limits_def quota_defaults INT8_MAX_def INT4_MAX_def)
qed

lemma booking_env_fresh: "fresh_ids booking_env booked_world"
proof -
  have "sample_uuid 5 \<noteq> sample_uuid 1" "sample_uuid 5 \<noteq> sample_uuid 2"
    by code_simp+
  then show ?thesis
    using UUID_PATTERN_samples by (simp add: fresh_ids_def booking_env_def booked_world_def stored_avatar_def)
qed

theorem usage_is_what_is_stored_witness:
  "\<exists>w'. undisturbed\<^sup>*\<^sup>* booked_world w' \<and> map m_isActive (media_tbl w') = [False, True]
     \<and> u_storage (usage_of w' alice) = 700 \<and> u_files (usage_of w' alice) = 1"
proof -
  let ?w = "snd (serve booking_env late_jwks_env ready_jwks sample_verifier sample_request (RDelete (sample_uuid 1)) booked_world)"
  have "calm booking_env"
    by (simp add: booking_env_def calm_def sample_env_def)
  then have h: "undisturbed\<^sup>*\<^sup>* booked_world ?w"
    by (intro r_into_rtranclp undisturbed.request booking_env_fresh)
  have rows: "map (\<lambda>r. (m_ownerId r, m_isActive r, m_blobSize r)) (media_tbl ?w) = [(alice, False, 700), (alice, True, 700)]"
    by code_simp
  then obtain r s where "media_tbl ?w = [r, s]" "m_ownerId r = alice" "m_ownerId s = alice" "\<not> m_isActive r" "m_isActive s"
      "m_blobSize s = 700"
    by auto
  then show ?thesis
    using usage_is_what_is_stored [OF h booked_world_books, of alice] h by (intro exI [of _ ?w]) (simp add: active_of_def)
qed

end
