(* ===== verification/Failure_Modes.thy ===== *)
theory Failure_Modes
  imports Bookkeeping
begin

text \<open>
  What the code leaves behind when a call fails in the middle of an operation, or when its input is one
  it does not expect: a delete whose bucket call is rejected, a thumbnail that is refused after the
  object was stored, a commit whose reply is lost, an expiry that a reader may not write, and a
  duplicate in a list of readers.
\<close>

section \<open>A delete that is cut short\<close>

text \<open>The bucket is the first call after the commit.\<close>

definition bucket_down :: env where
  "bucket_down = booking_env\<lparr>outcome_at := (\<lambda>n. if n = 5 then Rejected ''bucket'' else Done)\<rparr>"

lemma delete_half_done:
  "let (r, w) = delete_media bucket_down (sample_uuid 1) alice None None booked_world in
     r = Inl (IoError ''bucket'') \<and> map m_isActive (media_tbl w) = [False, True]
     \<and> quota_tbl w = quota_tbl booked_world
     \<and> s3 w (m_storagePath (stored_avatar alice (sample_uuid 1))) \<noteq> None
     \<and> fst (delete_media booking_env (sample_uuid 1) alice None None w) = Inl (media_not_found (sample_uuid 1))"
  by code_simp

section \<open>A rejected thumbnail\<close>

lemma thumbnail_leaves_object:
  assumes "calm env" and "UUID_PATTERN u" and "fresh_ids env w" and "check_thumbnail th = Inl e"
  shows "\<exists>w'. store_new env key u fl ctx (Some th) us w = (Inl e, w') \<and> media_tbl w' = media_tbl w
     \<and> s3 w' = (s3 w)(object_path ctx u (uuid_at env (uuids_used w)) :=
          Some \<lparr>o_body = blob_stream fl, o_contentType = f_mimetype fl\<rparr>)"
proof -
  have "UUID_PATTERN (uuid_at env (uuids_used w))"
    using assms(3) by (simp add: fresh_ids_def)
  then have "wp (store_new env key u fl ctx (Some th) us) (\<lambda>_ _. False) (\<lambda>e' w'. e' = e \<and> media_tbl w' = media_tbl w
     \<and> s3 w' = (s3 w)(object_path ctx u (uuid_at env (uuids_used w)) :=
          Some \<lparr>o_body = blob_stream fl, o_contentType = f_mimetype fl\<rparr>)) w"
    by (simp add: store_new_def wp_bindE wp_randomUUID wp_from_result wp_pf buildPath_object [OF assms(2)]
        storage_upload_def wp_calm assms(1,4) upload_thumbnail_def)
  then show ?thesis
    by (auto simp: wp_def split: prod.splits sum.splits)
qed

section \<open>A commit whose reply is lost\<close>

definition reply_lost :: env where
  "reply_lost = booking_env\<lparr>outcome_at := (\<lambda>n. if n = 3 then Lost ''timeout'' else Done)\<rparr>"

lemma lost_commit_loses_objects:
  "let m = stored_avatar alice (sample_uuid 3);
       (r, w) = persist reply_lost m (m_thumbnailPath m) booked_world in
     r = Inl (IoError ''timeout'') \<and> map m_id (media_tbl w) = map sample_uuid [1, 2, 3]
     \<and> s3 w (m_storagePath m) = None \<and> s3 w (the (m_thumbnailPath m)) = None"
  by code_simp

section \<open>An expiry that is not stored\<close>

lemma reader_stores_no_expiry:
  assumes "rls_enforced env" and "guc w = Some u" and "\<And>r. r \<in> set (media_tbl w) \<Longrightarrow> m_id r = mid \<Longrightarrow> m_ownerId r \<noteq> u"
  shows "media_tbl (snd (updateSignedUrlExpiry env mid t w)) = media_tbl w"
  using assms
  by (auto simp: updateSignedUrlExpiry_def update_media_def ext_def media_writable_def media_owner_write_policy_def modify_def
      intro!: update_where_none split: outcome.split)

section \<open>A reader that is not added\<close>

text \<open>The stored list has a duplicate, which the union drops while it adds the new reader.\<close>

lemma duplicate_hides_reader:
  "let m = (stored_avatar alice (sample_uuid 1))\<lparr>m_sharedWith := Some [bob, bob]\<rparr>;
       (r, w) = merge_readers booking_env m (Some [sample_uuid 7]) (booked_world\<lparr>media_tbl := [m]\<rparr>) in
     r = Inr m \<and> media_tbl w = [m] \<and> sample_uuid 7 \<notin> set (current_readers m)"
  by code_simp

end
