(* ===== verification/Spec2Isabelle.thy ===== *)
theory Spec2Isabelle
  imports Log_Partition Lifecycle Application Wiring Failure_Modes
begin

text \<open>
  A model of the media service (the NestJS application under \<open>src/\<close>) with its correctness theorems.

  \<^bold>\<open>The program.\<close>  Clients upload encrypted or plain media, read them back through presigned URLs or as
  streams, share them and delete them.  A request passes the JWT guard (\<open>modules/auth\<close>, with the key
  that \<open>modules/jwks\<close> fetched), the logging interceptor, the interceptor that binds the user for row-level
  security (\<open>modules/media/rls.*\<close>), the controller and the media service (\<open>modules/media/media.*\<close>).  The
  service keeps rows in Postgres, objects in a bucket, cached metadata, dedup entries, quotas and a
  semaphore in Redis, publishes events, and asks the group and messaging services and clamd.

  \<^bold>\<open>Effects\<close> (theories \<open>Prelude\<close>, \<open>Effects\<close>, \<open>World\<close>, \<open>Stores\<close>).  An async method is a function from
  the world to a result (a value or an exception) and the world after it: \<open>bindE\<close> is \<open>await\<close>, and
  \<open>catchE\<close>, \<open>finallyE\<close>, \<open>fire_and_forget\<close> are the other forms the code uses.  \<open>world\<close> is the state outside
  the process.  \<open>env\<close> is all that the code does not determine; in particular it decides for each external
  call, numbered in order, whether it is done, rejected, or done with its reply lost.  A theorem for
  every \<open>env\<close> holds for every pattern of failures; \<open>calm env\<close> says that none occurs.  Three calculi serve
  the proofs: \<open>wp\<close> (weakest preconditions), \<open>keeps\<close> (a predicate of the state that every outcome preserves)
  and \<open>frame\<close> (a projection that no outcome changes).  The locale \<open>Stores.kv_store\<close> states the contract of
  a key-value store with coherent cached copies and is interpreted on the cache and the bucket.  The
  locales of \<open>Histories\<close> carry an invariant, and a quantity that no step moves, along the histories of a
  step relation; they are interpreted on the quota requests, on the semaphore commands and on whole requests.  The locale
  \<open>Media_Access.read_policy\<close> is the contract of a read rule; the service's check and the select policies are
  its instances, and two rules that keep it agree.  The locale
  \<open>Table_Guarantee.table_guarantee\<close> states what a condition on the tables needs of the statements that write
  them and gives that no request breaks it; it is interpreted for the rows of bystanders
  (\<open>Request_Pipeline\<close>), for the well-formedness of stored rows (\<open>Table_Types\<close>) and for the one quota row
  of a user (\<open>Bookkeeping\<close>).  Its sublocale \<open>read_guarantee\<close> is the part that reads and shares need, and
  gives that these move no object and no account.

  \<^bold>\<open>The parts.\<close>
    \<^item> \<open>Entities\<close>, \<open>Database\<close>: the rows of \<open>entities/*.ts\<close>, the row-level policies, \<open>media.repository.ts\<close>,
      \<open>rls.interceptor.ts\<close>, \<open>rls.subscriber.ts\<close>, transactions, and the SQL function of the daily reset.
    \<^item> \<open>Schema_Migrations\<close>: every up and down migration of \<open>config/migrations\<close> as statements on a catalogue.
      Rolling back restores the catalogue; the policies that result from all migrations decide exactly as
      those of \<open>Database\<close>; what a role that passes the start-up check can and cannot do.
    \<^item> \<open>Log_Partition\<close>: \<open>media-access-log-partition.service.ts\<close>.  The partitions stay disjoint; the lock.
    \<^item> \<open>Magic_Bytes\<close>, \<open>Content_Safety\<close>: the validators of contents.  The signature check is equivalent to its
      table; the scan of PDFs; the framing of the request to clamd reads back.
    \<^item> \<open>Storage_Service\<close>, \<open>Lifecycle\<close>: object keys (injective) and bucket calls; the expiry rules.
    \<^item> \<open>Quota\<close>: \<open>quota.service.ts\<close>.  The operations refine an abstract account; while no call fails no
      sequence of checked operations exceeds a limit, and a lemma shows how a lost invalidation lets one; alerts are truthful, the reset clears the stale rows only.
    \<^item> \<open>Remote_Services\<close>: the clients of the group and messaging services, with their failure modes.
    \<^item> \<open>Media_Access\<close>, \<open>Media_Service\<close>: \<open>media.service.ts\<close> but for uploads.  Reads give only what the
      requester may read, sharing and deleting are the owner's, the metadata cache never widens access and is
      exact while nothing fails, and without failures each operation has its full effect.  The read check is
      compared with the select policies on every setting of the user, the cast to \<open>UUID\<close> included.
    \<^item> \<open>Upload_Semaphore\<close>, \<open>Media_Upload\<close>: the upload.  The semaphore alone and with its calls interleaved
      (an inductive step relation, with invariants by rule induction); nothing is stored that is not
      acceptable; new, repeated and failing uploads.
    \<^item> \<open>Media_Controller\<close>, \<open>Upload_Form\<close>: the handlers with their inputs, the parsing and validation of the
      bodies; the ways of writing a list of readers agree.
    \<^item> \<open>Jwks\<close>, \<open>Auth_Guard\<close>, \<open>Request_Pipeline\<close>: the key loader (the background loop is a partial function;
      it ends exactly when the module is destroyed or a reply offers a key), the guard, and the pipeline of
      guard, interceptor and handler: under the row-level policies requests of others leave a user's rows
      alone, and a lemma shows what a role that bypasses them changes.
    \<^item> \<open>Outcomes\<close>: the statuses with which each operation can fail, by the structure of the operations.
    \<^item> \<open>Table_Types\<close>: the columns that the entities declare are those of the migrated schema, and every
      stored row fits them.
    \<^item> \<open>Bookkeeping\<close>: over undisturbed histories of whole requests and midnight resets the usage that a user
      is charged for is what the user's active rows occupy, and these rows have their objects.
    \<^item> \<open>Failure_Modes\<close>: what some failures leave behind, each as a lemma.
    \<^item> \<open>Routes\<close>: the decorators of the three controllers (verbs, paths, limits, documented responses), their
      mounting in \<open>main.ts\<close> and \<open>app.module.ts\<close>; every declared route is reached by its URL, and the
      unprefixed URLs of the probes that the documents name are not.
    \<^item> \<open>Application\<close>: a request from its URL to its answer: the pages of the API documentation, the preflight
      of CORS, the body parser, the router, the rate limiter with its counters in Redis, guard and handler.
      Here stand the theorems about the whole service: an answer is one that the token's subject is entitled
      to, a client without a token reaches the probes, the metrics, the documentation and the preflight only,
      and the statuses are those the decorators document but for a stated list.
    \<^item> \<open>Json_Logger\<close>, \<open>Http_Edge\<close>, \<open>Health\<close>: the logger (one line per message, which a parser reads back), the
      logging interceptor around the pipeline, the metrics guard, the probes.
    \<^item> \<open>Startup\<close>, \<open>Wiring\<close>: the start of the process with the options it builds from its settings; the Redis
      clients of the modules (which address one server), the documentation switch, the async-local storage.
    \<^item> \<open>Samples\<close>: concrete environments and worlds for the witnesses.

  \<^bold>\<open>Bounds and fuel.\<close>  The list recursions are structural.  \<open>load_attempts\<close> counts down the attempts of
  the code (10).  \<open>read_literal\<close>, the reader of the logger's output, takes as fuel the number of characters
  it is to read plus one, which the lemma \<open>read_stringify\<close> shows to be enough.  The time-to-live refresh of
  the semaphore runs as often as an argument of \<open>upload\<close> says, for every such number.  Sizes and counters
  are integers; where the code converts to a JavaScript number it is checked or clamped as in the code.

  \<^bold>\<open>Parameters.\<close>  Signature verification, the crypto import of a key, SHA-256, sharp, clamd, the URL signer,
  the HTTP replies, \<open>new URL\<close>, \<open>JSON.parse\<close> of form fields, class-validator's UUID test, the settings after
  Joi's conversion, clock and UUIDs are arguments of the definitions; so are the order in which
  a query returns rows that its \<open>ORDER BY\<close> leaves equal, the router (assumed, for plain literals, paths
  without escapes and the usual verbs, to take the first declared route that matches), the rate limiter
  (assumed to write only its own keys, which begin with a brace, and to refuse with a 429 or, when Redis does
  not answer, a 500), what Express and multer make of a body, the pages of the documentation, and the text of
  the metrics registry.

  \<^bold>\<open>Boundary of identifiers.\<close>  The statements of \<open>Database\<close> compare identifiers as strings, as they are
  when they are spelled as the database spells them.  A malformed media id, for which Postgres reports an
  error on the \<open>uuid\<close> column, is found nowhere in the model, so its answer is a 404 instead of a 500; what
  other spellings of a subject mean for the policies is stated in \<open>Media_Access\<close>.  A setting that was never
  made is \<open>NULL\<close>, as on a fresh connection.

  \<^bold>\<open>Not modelled.\<close>  What is refused before Express (headers that Node's parser does not accept); Nest's dependency injection, the algorithm of the rate limiter and the rendering of the
  metrics and of the API documentation, which are libraries; Joi's conversion of values; the indexes and
  triggers have their entry in the catalogue and no effect on queries; the elements of \<open>shared_with\<close> are not
  checked against the type of the column.  Strings are lists of 8-bit characters, so lower-casing and
  trimming are those of Latin-1.  Log lines inside the services are left out of their models.
\<close>

end
